(* ===== verification/Go_Prelude.thy ===== *)
theory Go_Prelude
  imports Main "HOL-Library.State_Monad"
begin

text \<open>
  Prelude of the development: the result type of fallible Go functions, the collections
  of lemmas the component proofs share, and generic facts on lists, options and the state
  monad. Go functions that return \<open>(T, error)\<close> are modelled by a sum whose left side is the
  error; functions that return \<open>(T, bool)\<close> by an option; code that reads the clock, draws
  randomness, calls the network or updates a cache by a computation of the state monad.
\<close>

named_theorems str_simps \<open>equations that evaluate the string routines\<close>
named_theorems io_simps \<open>running one effect of the state monad\<close>
named_theorems inv_intros \<open>operations keep the invariant of their component\<close>

type_synonym ('e, 'a) result = "'e + 'a"

abbreviation return :: "'a \<Rightarrow> ('s, 'a) state" where
  "return \<equiv> State_Monad.return"

subsection \<open>Results\<close>

fun is_ok :: "('e, 'a) result \<Rightarrow> bool" where
  "is_ok (Inl e) = False"
| "is_ok (Inr a) = True"

lemma is_ok_iff: "is_ok r \<longleftrightarrow> (\<exists>a. r = Inr a)"
  by (cases r) auto

subsection \<open>Lists\<close>

lemma dropWhile_rev_last:
  "rev (dropWhile P (rev xs)) \<noteq> [] \<Longrightarrow> \<not> P (last (rev (dropWhile P (rev xs))))"
  by (metis hd_dropWhile last_rev rev_is_Nil_conv)

lemma dropWhile_id: "xs = [] \<or> \<not> P (hd xs) \<Longrightarrow> dropWhile P xs = xs"
  by (cases xs) auto

lemma set_remove1_distinct: "distinct xs \<Longrightarrow> set (remove1 x xs) = set xs - {x}"
  by simp

lemma card_le_length_if_subset: "A \<subseteq> set xs \<Longrightarrow> card A \<le> length xs"
  by (meson card_length card_mono finite_set le_trans)

end
