(* ===== verification/Go_Strings.thy ===== *)
theory Go_Strings
  imports Go_Prelude "HOL-Library.Code_Target_Numeral"
begin

text \<open>
  Go strings as the code uses them. A Go string is a sequence of bytes, here a list of
  \<^typ>\<open>char\<close> (8 bits each); runes are natural numbers. The routines are those of the
  packages \<open>strings\<close>, \<open>unicode/utf8\<close> and \<open>strconv\<close> that the sources call, on the whole
  byte range. The case tables of package \<open>unicode\<close> above ASCII are data, not code: they are
  the record \<open>unicode\<close>, an argument of the functions that consult them.
\<close>

abbreviation byte :: "char \<Rightarrow> nat" where
  "byte c \<equiv> of_char c"

abbreviation chr :: "nat \<Rightarrow> char" where
  "chr n \<equiv> char_of n"

subsection \<open>UTF-8 (package utf8)\<close>

definition rune_error :: nat where
  "rune_error = 0xFFFD"

definition cont :: "nat \<Rightarrow> nat \<Rightarrow> char \<Rightarrow> bool" where
  "cont lo hi c \<longleftrightarrow> lo \<le> byte c \<and> byte c \<le> hi"

text \<open>\<open>utf8.DecodeRuneInString\<close>: the first rune and the number of bytes it takes; an
  ill-formed prefix is U+FFFD of width 1.\<close>

fun decode_rune :: "string \<Rightarrow> nat \<times> nat" where
  "decode_rune [] = (rune_error, 0)"
| "decode_rune (a # s) =
    (let x = byte a in
     if x < 0x80 then (x, 1)
     else if 0xC2 \<le> x \<and> x \<le> 0xDF then
       (case s of b # _ \<Rightarrow>
          if cont 0x80 0xBF b then ((x - 0xC0) * 64 + (byte b - 0x80), 2) else (rune_error, 1)
        | _ \<Rightarrow> (rune_error, 1))
     else if 0xE0 \<le> x \<and> x \<le> 0xEF then
       (case s of b # c # _ \<Rightarrow>
          if cont (if x = 0xE0 then 0xA0 else 0x80) (if x = 0xED then 0x9F else 0xBF) b
             \<and> cont 0x80 0xBF c
          then ((x - 0xE0) * 4096 + (byte b - 0x80) * 64 + (byte c - 0x80), 3)
          else (rune_error, 1)
        | _ \<Rightarrow> (rune_error, 1))
     else if 0xF0 \<le> x \<and> x \<le> 0xF4 then
       (case s of b # c # d # _ \<Rightarrow>
          if cont (if x = 0xF0 then 0x90 else 0x80) (if x = 0xF4 then 0x8F else 0xBF) b
             \<and> cont 0x80 0xBF c \<and> cont 0x80 0xBF d
          then ((x - 0xF0) * 262144 + (byte b - 0x80) * 4096 + (byte c - 0x80) * 64
                + (byte d - 0x80), 4)
          else (rune_error, 1)
        | _ \<Rightarrow> (rune_error, 1))
     else (rune_error, 1))"

lemma decode_rune_width: "s \<noteq> [] \<Longrightarrow> 0 < snd (decode_rune s)"
  by (cases s) (auto simp: Let_def split: list.splits)

text \<open>\<open>utf8.AppendRune\<close>: surrogates and values past U+10FFFF become U+FFFD.\<close>

definition encode_rune :: "nat \<Rightarrow> string" where
  "encode_rune r0 =
    (let r = (if 0x10FFFF < r0 \<or> (0xD800 \<le> r0 \<and> r0 \<le> 0xDFFF) then rune_error else r0) in
     if r < 0x80 then [chr r]
     else if r < 0x800 then [chr (0xC0 + r div 64), chr (0x80 + r mod 64)]
     else if r < 0x10000 then
       [chr (0xE0 + r div 4096), chr (0x80 + (r div 64) mod 64), chr (0x80 + r mod 64)]
     else
       [chr (0xF0 + r div 262144), chr (0x80 + (r div 4096) mod 64),
        chr (0x80 + (r div 64) mod 64), chr (0x80 + r mod 64)])"

text \<open>The runes of a string, as \<open>range\<close> visits them.\<close>

function runes :: "string \<Rightarrow> nat list" where
  "runes s = (if s = [] then [] else fst (decode_rune s) # runes (drop (snd (decode_rune s)) s))"
  by pat_completeness auto
termination
  by (relation "measure length") (auto simp: decode_rune_width)

declare runes.simps [simp del]

definition of_runes :: "nat list \<Rightarrow> string" where
  "of_runes rs = concat (map encode_rune rs)"

subsection \<open>Character classes (package unicode)\<close>

record unicode =
  uni_lower :: "nat \<Rightarrow> nat"
  uni_upper :: "nat \<Rightarrow> nat"
  uni_fold :: "nat \<Rightarrow> nat"
  uni_print :: "nat \<Rightarrow> bool"

definition is_space :: "nat \<Rightarrow> bool" where
  "is_space r \<longleftrightarrow> (9 \<le> r \<and> r \<le> 13) \<or> r = 32 \<or> r = 0x85 \<or> r = 0xA0 \<or> r = 0x1680
     \<or> (0x2000 \<le> r \<and> r \<le> 0x200A) \<or> r = 0x2028 \<or> r = 0x2029 \<or> r = 0x202F
     \<or> r = 0x205F \<or> r = 0x3000"

definition is_digit :: "char \<Rightarrow> bool" where
  "is_digit c \<longleftrightarrow> 48 \<le> byte c \<and> byte c \<le> 57"

definition is_letter :: "char \<Rightarrow> bool" where
  "is_letter c \<longleftrightarrow> (65 \<le> byte c \<and> byte c \<le> 90) \<or> (97 \<le> byte c \<and> byte c \<le> 122)"

definition ascii :: "string \<Rightarrow> bool" where
  "ascii s \<longleftrightarrow> list_all (\<lambda>c. byte c < 0x80) s"

definition lower_rune :: "unicode \<Rightarrow> nat \<Rightarrow> nat" where
  "lower_rune U r = (if r < 0x80 then (if 65 \<le> r \<and> r \<le> 90 then r + 32 else r) else uni_lower U r)"

definition upper_rune :: "unicode \<Rightarrow> nat \<Rightarrow> nat" where
  "upper_rune U r = (if r < 0x80 then (if 97 \<le> r \<and> r \<le> 122 then r - 32 else r) else uni_upper U r)"

text \<open>The representative of the simple-folding orbit of a rune; on ASCII letters it is the
  lower-case letter.\<close>

definition fold_rune :: "unicode \<Rightarrow> nat \<Rightarrow> nat" where
  "fold_rune U r = (if r < 0x80 then (if 65 \<le> r \<and> r \<le> 90 then r + 32 else r) else uni_fold U r)"

subsection \<open>Package strings\<close>

fun HasPrefix :: "string \<Rightarrow> string \<Rightarrow> bool" where
  "HasPrefix s [] = True"
| "HasPrefix [] (p # ps) = False"
| "HasPrefix (c # s) (p # ps) = (c = p \<and> HasPrefix s ps)"

definition HasSuffix :: "string \<Rightarrow> string \<Rightarrow> bool" where
  "HasSuffix s p = HasPrefix (rev s) (rev p)"

definition TrimPrefix :: "string \<Rightarrow> string \<Rightarrow> string" where
  "TrimPrefix s p = (if HasPrefix s p then drop (length p) s else s)"

fun Contains :: "string \<Rightarrow> string \<Rightarrow> bool" where
  "Contains [] p = (p = [])"
| "Contains (c # s) p = (HasPrefix (c # s) p \<or> Contains s p)"

definition ContainsAny :: "string \<Rightarrow> string \<Rightarrow> bool" where
  "ContainsAny s cs = list_ex (\<lambda>c. c \<in> set cs) s"

definition Count :: "string \<Rightarrow> char \<Rightarrow> nat" where
  "Count s c = length (filter (\<lambda>x. x = c) s)"

text \<open>\<open>strings.Cut\<close> at the first occurrence of a byte.\<close>

fun Cut :: "string \<Rightarrow> char \<Rightarrow> string \<times> string \<times> bool" where
  "Cut [] sep = ([], [], False)"
| "Cut (c # s) sep =
    (if c = sep then ([], s, True)
     else (case Cut s sep of (b, a, f) \<Rightarrow> (c # b, a, f)))"

text \<open>\<open>strings.Split\<close> on a one-byte separator.\<close>

fun Split :: "string \<Rightarrow> char \<Rightarrow> string list" where
  "Split [] sep = [[]]"
| "Split (c # s) sep =
    (if c = sep then [] # Split s sep
     else (case Split s sep of [] \<Rightarrow> [[c]] | x # xs \<Rightarrow> (c # x) # xs))"

fun Join :: "string list \<Rightarrow> string \<Rightarrow> string" where
  "Join [] sep = []"
| "Join [x] sep = x"
| "Join (x # y # ys) sep = x @ sep @ Join (y # ys) sep"

text \<open>\<open>strings.TrimRight\<close> with a cutset of one byte.\<close>

definition TrimRight :: "string \<Rightarrow> char \<Rightarrow> string" where
  "TrimRight s c = rev (dropWhile (\<lambda>x. x = c) (rev s))"

function TrimLeftSpace :: "string \<Rightarrow> string" where
  "TrimLeftSpace s =
    (if s \<noteq> [] \<and> is_space (fst (decode_rune s))
     then TrimLeftSpace (drop (snd (decode_rune s)) s) else s)"
  by pat_completeness auto
termination
  by (relation "measure length") (auto simp: decode_rune_width)

declare TrimLeftSpace.simps [simp del]

text \<open>The width of the white-space rune that ends \<open>s\<close>, 0 when it ends in another rune.
  White space takes at most three bytes.\<close>

definition last_space :: "string \<Rightarrow> nat" where
  "last_space s =
    (case filter (\<lambda>w. w \<le> length s \<and> snd (decode_rune (drop (length s - w) s)) = w
                      \<and> is_space (fst (decode_rune (drop (length s - w) s)))) [1, 2, 3]
     of [] \<Rightarrow> 0 | w # _ \<Rightarrow> w)"

lemma last_space_le: "last_space s \<le> length s"
  by (auto simp: last_space_def split: list.splits dest!: filter_eq_ConsD)

lemma last_space_shrinks:
  "0 < last_space s \<Longrightarrow> length (take (length s - last_space s) s) < length s"
  using last_space_le [of s] by simp

function TrimRightSpace :: "string \<Rightarrow> string" where
  "TrimRightSpace s =
    (if 0 < last_space s then TrimRightSpace (take (length s - last_space s) s) else s)"
  by pat_completeness auto
termination
  by (relation "measure length") (simp_all only: wf_measure in_measure last_space_shrinks)

declare TrimRightSpace.simps [simp del]

definition TrimSpace :: "string \<Rightarrow> string" where
  "TrimSpace s = TrimRightSpace (TrimLeftSpace s)"

text \<open>\<open>strings.Fields\<close>: maximal runs of non-space runes. The accumulator is the field being
  read, in reverse.\<close>

function fields_from :: "string \<Rightarrow> string \<Rightarrow> string list" where
  "fields_from acc s =
    (if s = [] then (if acc = [] then [] else [rev acc])
     else if is_space (fst (decode_rune s))
       then (if acc = [] then [] else [rev acc]) @ fields_from [] (drop (snd (decode_rune s)) s)
     else fields_from (rev (take (snd (decode_rune s)) s) @ acc) (drop (snd (decode_rune s)) s))"
  by pat_completeness auto
termination
  by (relation "measure (\<lambda>(acc, s). length s)") (auto simp: decode_rune_width)

declare fields_from.simps [simp del]

definition Fields :: "string \<Rightarrow> string list" where
  "Fields s = fields_from [] s"

definition ToLower :: "unicode \<Rightarrow> string \<Rightarrow> string" where
  "ToLower U s = of_runes (map (lower_rune U) (runes s))"

definition ToUpper :: "unicode \<Rightarrow> string \<Rightarrow> string" where
  "ToUpper U s = of_runes (map (upper_rune U) (runes s))"

definition EqualFold :: "unicode \<Rightarrow> string \<Rightarrow> string \<Rightarrow> bool" where
  "EqualFold U s t \<longleftrightarrow> map (fold_rune U) (runes s) = map (fold_rune U) (runes t)"

subsection \<open>Package strconv\<close>

definition digit_val :: "char \<Rightarrow> int" where
  "digit_val c = int (byte c) - 48"

definition digits_val :: "string \<Rightarrow> int" where
  "digits_val s = foldl (\<lambda>n c. 10 * n + digit_val c) 0 s"

definition min_int64 :: int where
  "min_int64 = - (2 ^ 63)"

definition max_int64 :: int where
  "max_int64 = 2 ^ 63 - 1"

text \<open>\<open>strconv.ParseInt(s, 10, 64)\<close> and \<open>Atoi\<close> on a 64-bit platform; \<open>None\<close> is the error
  (syntax or range).\<close>

definition Atoi :: "string \<Rightarrow> int option" where
  "Atoi s =
    (let neg = (s \<noteq> [] \<and> hd s = CHR ''-'');
         ds = (if s \<noteq> [] \<and> (hd s = CHR ''-'' \<or> hd s = CHR ''+'') then tl s else s);
         n = (if neg then - digits_val ds else digits_val ds)
     in if ds \<noteq> [] \<and> list_all is_digit ds \<and> min_int64 \<le> n \<and> n \<le> max_int64
        then Some n else None)"

fun nat_digits :: "nat \<Rightarrow> string" where
  "nat_digits n = (if n < 10 then [chr (48 + n)] else nat_digits (n div 10) @ [chr (48 + n mod 10)])"

declare nat_digits.simps [simp del]

definition Itoa :: "int \<Rightarrow> string" where
  "Itoa i = (if i < 0 then CHR ''-'' # nat_digits (nat (- i)) else nat_digits (nat i))"

text \<open>Two's complement wrap-around of an \<open>int64\<close> result.\<close>

definition wrap64 :: "int \<Rightarrow> int" where
  "wrap64 i = (i + 2 ^ 63) mod 2 ^ 64 - 2 ^ 63"

subsection \<open>Splitting and joining\<close>

lemma Split_ne: "Split s c \<noteq> []"
  by (cases s) (auto split: list.splits)

lemma Split_no_sep: "x \<in> set (Split s c) \<Longrightarrow> c \<notin> set x"
  by (induction s arbitrary: x) (auto split: if_splits list.splits)

lemma Split_Join: "Join (Split s c) [c] = s"
proof (induction s)
  case (Cons a s)
  obtain x xs where sp: "Split s c = x # xs" using Split_ne [of s c] by (cases "Split s c") auto
  then show ?case using Cons by (cases xs) auto
qed simp

lemma Split_single: "c \<notin> set s \<Longrightarrow> Split s c = [s]"
  by (induction s) auto

lemma Split_append_sep: "Split (a @ c # b) c = Split a c @ Split b c"
proof (induction a)
  case (Cons x a)
  then show ?case using Split_ne [of a c] by (auto split: list.splits)
qed simp

lemma Split_Join_segs:
  "segs \<noteq> [] \<Longrightarrow> \<forall>x \<in> set segs. c \<notin> set x \<Longrightarrow> Split (Join segs [c]) c = segs"
proof (induction segs)
  case (Cons x segs)
  then show ?case by (cases segs) (auto simp: Split_single Split_append_sep)
qed simp

end
