(* ===== verification/Go_Json.thy ===== *)
theory Go_Json
  imports Go_Strings "HOL-Library.AList" "HOL-Library.Char_ord" "HOL-Library.List_Lexorder"
begin

text \<open>
  Package \<open>encoding/json\<close> as the code uses it: \<open>json.Unmarshal\<close> into \<open>map[string]any\<close> and into
  structs of string and integer fields, \<open>json.Marshal\<close> of a \<open>map[string]any\<close> whose values are
  strings and integers. Values of Go's \<open>any\<close> are the datatype \<open>any\<close>; JSON numbers become
  \<open>float64\<close> by correct rounding.
\<close>

subsection \<open>float64\<close>

text \<open>A finite double, as the integer \<open>mantissa\<close> times a power of two.\<close>

datatype float64 = F64 (f64_mant: int) (f64_exp: int)

fun bitlen :: "nat \<Rightarrow> nat" where
  "bitlen n = (if n = 0 then 0 else Suc (bitlen (n div 2)))"

declare bitlen.simps [simp del]

definition round_half_even :: "nat \<Rightarrow> nat \<Rightarrow> nat" where
  "round_half_even n d =
    (let q = n div d; r = n mod d in
     if d < 2 * r \<or> (2 * r = d \<and> odd q) then q + 1 else q)"

text \<open>The binary exponent of \<open>N / D\<close> for a 53-bit mantissa, not below that of the subnormals.\<close>

definition float_exp :: "nat \<Rightarrow> nat \<Rightarrow> int" where
  "float_exp N D =
    (let e0 = int (bitlen N) - int (bitlen D) - 53;
         e1 = (if D * 2 ^ nat e0 * 2 ^ 53 \<le> N * 2 ^ nat (- e0) then e0 + 1 else e0)
     in max e1 (- 1074))"

text \<open>\<open>strconv.ParseFloat(s, 64)\<close> on \<open>n * 10 ^ k\<close>: the nearest double, ties to even;
  \<open>None\<close> is the range error.\<close>

definition parse_float :: "bool \<Rightarrow> nat \<Rightarrow> int \<Rightarrow> float64 option" where
  "parse_float neg n k =
    (let N = n * 10 ^ nat k; D = 10 ^ nat (- k) in
     if N = 0 then Some (F64 0 0)
     else
      (let e = float_exp N D;
           m = round_half_even (N * 2 ^ nat (- e)) (D * 2 ^ nat e)
       in if 971 < e \<or> (e = 971 \<and> 2 ^ 53 \<le> m) then None
          else Some (F64 (if neg then - int m else int m) e)))"

definition f64_trunc :: "float64 \<Rightarrow> int" where
  "f64_trunc f =
    (if 0 \<le> f64_exp f then f64_mant f * 2 ^ nat (f64_exp f)
     else sgn (f64_mant f) * (\<bar>f64_mant f\<bar> div 2 ^ nat (- f64_exp f)))"

text \<open>The conversion \<open>int64(v)\<close>. Outside the range of \<open>int64\<close> Go leaves the result to the
  platform, which is the argument \<open>oor\<close>.\<close>

definition int64_of_f64 :: "(float64 \<Rightarrow> int) \<Rightarrow> float64 \<Rightarrow> int" where
  "int64_of_f64 oor f =
    (let t = f64_trunc f in if min_int64 \<le> t \<and> t \<le> max_int64 then t else oor f)"

subsection \<open>Values\<close>

datatype any =
    ANil
  | ABool bool
  | AFloat float64
  | AInt int
  | ANumber string
  | AString string
  | ASlice "any list"
  | AMap "(string \<times> any) list"

type_synonym jmap = "(string \<times> any) list"

text \<open>A parsed document; numbers keep their literal (sign, integer part, fraction, exponent).\<close>

datatype json =
    JNull
  | JBool bool
  | JNumber bool string string string
  | JString string
  | JArray "json list"
  | JObject "(string \<times> json) list"

subsection \<open>Scanner and parser\<close>

definition QUOTE :: char where "QUOTE = CHR 0x22"
definition BACKSLASH :: char where "BACKSLASH = CHR 0x5C"

definition json_space :: "char \<Rightarrow> bool" where
  "json_space c \<longleftrightarrow> byte c = 32 \<or> byte c = 9 \<or> byte c = 10 \<or> byte c = 13"

definition skip_ws :: "string \<Rightarrow> string" where
  "skip_ws s = dropWhile json_space s"

definition unhex :: "char \<Rightarrow> nat option" where
  "unhex c = (let x = byte c in
     if 48 \<le> x \<and> x \<le> 57 then Some (x - 48)
     else if 97 \<le> x \<and> x \<le> 102 then Some (x - 87)
     else if 65 \<le> x \<and> x \<le> 70 then Some (x - 55)
     else None)"

fun getu4 :: "string \<Rightarrow> (nat \<times> string) option" where
  "getu4 (a # b # c # d # s) =
    (case (unhex a, unhex b, unhex c, unhex d) of
       (Some w, Some x, Some y, Some z) \<Rightarrow> Some (w * 4096 + x * 256 + y * 16 + z, s)
     | _ \<Rightarrow> None)"
| "getu4 _ = None"

lemma getu4_length: "getu4 s = Some (r, t) \<Longrightarrow> length t < length s"
  by (cases s rule: getu4.cases) (auto split: option.splits)

definition simple_escape :: "char \<Rightarrow> char option" where
  "simple_escape c =
    (if c = QUOTE \<or> c = BACKSLASH \<or> c = CHR ''/'' then Some c
     else if c = CHR ''b'' then Some (CHR 0x08)
     else if c = CHR ''f'' then Some (CHR 0x0C)
     else if c = CHR ''n'' then Some (CHR 0x0A)
     else if c = CHR ''r'' then Some (CHR 0x0D)
     else if c = CHR ''t'' then Some (CHR 0x09)
     else None)"

text \<open>A four-digit escape that has been read as \<open>r\<close>: a surrogate pair is one rune, a lone
  surrogate is U+FFFD.\<close>

definition surrogate :: "nat \<Rightarrow> string \<Rightarrow> nat \<times> string" where
  "surrogate r s =
    (if r < 0xD800 \<or> 0xDFFF < r then (r, s)
     else if r < 0xDC00 \<and> HasPrefix s [BACKSLASH, CHR ''u''] then
       (case getu4 (drop 2 s) of
          Some (r1, t) \<Rightarrow>
            if 0xDC00 \<le> r1 \<and> r1 \<le> 0xDFFF
            then ((r - 0xD800) * 1024 + (r1 - 0xDC00) + 0x10000, t) else (rune_error, s)
        | None \<Rightarrow> (rune_error, s))
     else (rune_error, s))"

lemma surrogate_length: "length (snd (surrogate r s)) \<le> length s"
  using getu4_length [of "drop 2 s"]
  by (fastforce simp: surrogate_def split: option.splits)

text \<open>The rest of a string literal after its opening quote: the decoded value and what
  follows the closing quote.\<close>

function parse_str :: "string \<Rightarrow> (string \<times> string) option" where
  "parse_str [] = None"
| "parse_str (c # s) =
    (if c = QUOTE then Some ([], s)
     else if c = BACKSLASH then
       (case s of [] \<Rightarrow> None
        | e # s' \<Rightarrow>
          if e = CHR ''u'' then
            (case getu4 s' of None \<Rightarrow> None
             | Some (r, t) \<Rightarrow>
                map_option (apfst (append (encode_rune (fst (surrogate r t)))))
                  (parse_str (snd (surrogate r t))))
          else
            (case simple_escape e of None \<Rightarrow> None
             | Some x \<Rightarrow> map_option (apfst (Cons x)) (parse_str s')))
     else if byte c < 0x20 then None
     else map_option (apfst (append (encode_rune (fst (decode_rune (c # s))))))
            (parse_str (drop (snd (decode_rune (c # s))) (c # s))))"
  by pat_completeness auto
termination
proof (relation "measure length", goal_cases)
  case 1 show ?case by simp
next
  case (2 c s e s' rt r t)
  then have "length t < length s'" by (auto intro: getu4_length)
  with 2 surrogate_length [of r t] show ?case by simp
next
  case 3 then show ?case by simp
next
  case (4 c s)
  then show ?case
    using decode_rune_width [of "c # s"] by (simp del: decode_rune.simps)
qed

declare parse_str.simps [simp del]

fun span_digits :: "string \<Rightarrow> string \<times> string" where
  "span_digits [] = ([], [])"
| "span_digits (c # s) =
    (if is_digit c then apfst (Cons c) (span_digits s) else ([], c # s))"

definition parse_frac :: "string \<Rightarrow> (string \<times> string) option" where
  "parse_frac s = (case s of
      c # t \<Rightarrow> if c = CHR ''.'' then
                (case span_digits t of (ds, u) \<Rightarrow> if ds = [] then None else Some (ds, u))
              else Some ([], s)
    | [] \<Rightarrow> Some ([], s))"

definition parse_exp :: "string \<Rightarrow> (string \<times> string) option" where
  "parse_exp s = (case s of
      c # t \<Rightarrow> if c = CHR ''e'' \<or> c = CHR ''E'' then
                (let sg = (if t \<noteq> [] \<and> (hd t = CHR ''+'' \<or> hd t = CHR ''-'') then [hd t] else []) in
                 case span_digits (drop (length sg) t) of
                   (ds, u) \<Rightarrow> if ds = [] then None else Some (sg @ ds, u))
              else Some ([], s)
    | [] \<Rightarrow> Some ([], s))"

text \<open>A number literal: \<open>-? (0 | [1-9][0-9]*) (. [0-9]+)? ([eE] [+-]? [0-9]+)?\<close>.\<close>

definition parse_ip :: "string \<Rightarrow> string \<times> string" where
  "parse_ip t = (if HasPrefix t ''0'' then (''0'', tl t) else span_digits t)"

definition parse_num :: "string \<Rightarrow> (json \<times> string) option" where
  "parse_num s =
    (let neg = HasPrefix s ''-''; t = (if neg then tl s else s);
         ip = parse_ip t
     in if fst ip = [] then None
        else Option.bind (parse_frac (snd ip)) (\<lambda>(fp, u).
             Option.bind (parse_exp u) (\<lambda>(ex, v). Some (JNumber neg (fst ip) fp ex, v))))"

definition max_nesting :: nat where
  "max_nesting = 10000"

text \<open>One value, with what follows it. \<open>n\<close> bounds the recursion by the input length, \<open>d\<close> is
  the nesting depth, which the scanner limits.\<close>

fun parse_value :: "nat \<Rightarrow> nat \<Rightarrow> string \<Rightarrow> (json \<times> string) option"
  and parse_elems :: "nat \<Rightarrow> nat \<Rightarrow> string \<Rightarrow> (json list \<times> string) option"
  and parse_members :: "nat \<Rightarrow> nat \<Rightarrow> string \<Rightarrow> ((string \<times> json) list \<times> string) option"
where
  "parse_value 0 d s = None"
| "parse_value (Suc n) d s =
    (case skip_ws s of [] \<Rightarrow> None
     | c # t \<Rightarrow>
       if c = QUOTE then map_option (apfst JString) (parse_str t)
       else if c = CHR ''['' then
         (if max_nesting \<le> d then None
          else if HasPrefix (skip_ws t) '']'' then Some (JArray [], tl (skip_ws t))
          else map_option (apfst JArray) (parse_elems n (Suc d) t))
       else if c = CHR ''{'' then
         (if max_nesting \<le> d then None
          else if HasPrefix (skip_ws t) ''}'' then Some (JObject [], tl (skip_ws t))
          else map_option (apfst JObject) (parse_members n (Suc d) t))
       else if HasPrefix (c # t) ''null'' then Some (JNull, drop 3 t)
       else if HasPrefix (c # t) ''true'' then Some (JBool True, drop 3 t)
       else if HasPrefix (c # t) ''false'' then Some (JBool False, drop 4 t)
       else parse_num (c # t))"
| "parse_elems 0 d s = None"
| "parse_elems (Suc n) d s =
    Option.bind (parse_value n d s) (\<lambda>(v, t).
      case skip_ws t of [] \<Rightarrow> None
      | c # u \<Rightarrow> if c = CHR '']'' then Some ([v], u)
               else if c = CHR '','' then map_option (apfst (Cons v)) (parse_elems n d u)
               else None)"
| "parse_members 0 d s = None"
| "parse_members (Suc n) d s =
    (case skip_ws s of [] \<Rightarrow> None
     | q # s1 \<Rightarrow> if q \<noteq> QUOTE then None else
       Option.bind (parse_str s1) (\<lambda>(k, s2).
         case skip_ws s2 of [] \<Rightarrow> None
         | c \<comment> \<open>colon\<close> # s3 \<Rightarrow> if c \<noteq> CHR '':'' then None else
           Option.bind (parse_value n d s3) (\<lambda>(v, t).
             case skip_ws t of [] \<Rightarrow> None
             | e # u \<Rightarrow> if e = CHR ''}'' then Some ([(k, v)], u)
                      else if e = CHR '','' then map_option (apfst (Cons (k, v))) (parse_members n d u)
                      else None)))"

declare parse_value.simps [simp del] parse_elems.simps [simp del] parse_members.simps [simp del]

definition parse_json :: "string \<Rightarrow> json option" where
  "parse_json s =
    Option.bind (parse_value (Suc (2 * length s)) 0 s) (\<lambda>(v, t). if skip_ws t = [] then Some v else None)"

subsection \<open>Unmarshal into any\<close>

definition number_float :: "bool \<Rightarrow> string \<Rightarrow> string \<Rightarrow> string \<Rightarrow> float64 option" where
  "number_float neg ip fp ex =
    (let x = (if ex = [] then 0
              else if hd ex = CHR ''-'' then - digits_val (tl ex)
              else if hd ex = CHR ''+'' then digits_val (tl ex) else digits_val ex)
     in parse_float neg (nat (digits_val (ip @ fp))) (x - int (length fp)))"

text \<open>A duplicate key overwrites the earlier value. An out-of-range number is an error of the
  whole Unmarshal.\<close>

fun to_any :: "json \<Rightarrow> any option"
  and to_any_list :: "json list \<Rightarrow> any list option"
  and to_any_map :: "(string \<times> json) list \<Rightarrow> jmap \<Rightarrow> jmap option"
where
  "to_any JNull = Some ANil"
| "to_any (JBool b) = Some (ABool b)"
| "to_any (JNumber neg ip fp ex) = map_option AFloat (number_float neg ip fp ex)"
| "to_any (JString s) = Some (AString s)"
| "to_any (JArray xs) = map_option ASlice (to_any_list xs)"
| "to_any (JObject ms) = map_option AMap (to_any_map ms [])"
| "to_any_list [] = Some []"
| "to_any_list (x # xs) =
    Option.bind (to_any x) (\<lambda>v. map_option (Cons v) (to_any_list xs))"
| "to_any_map [] m = Some m"
| "to_any_map ((k, x) # ms) m =
    Option.bind (to_any x) (\<lambda>v. to_any_map ms (AList.update k v m))"

text \<open>\<open>json.Unmarshal(b, &m)\<close> with \<open>m\<close> of type \<open>map[string]any\<close>: \<open>null\<close> leaves the nil map,
  any other non-object is a type error.\<close>

definition unmarshal_map :: "string \<Rightarrow> jmap option" where
  "unmarshal_map s =
    (case parse_json s of
       None \<Rightarrow> None
     | Some JNull \<Rightarrow> Some []
     | Some (JObject ms) \<Rightarrow> to_any_map ms []
     | Some _ \<Rightarrow> None)"

subsection \<open>Unmarshal into a struct of strings and integers\<close>

text \<open>The field a key names: its exact match, else its match under case folding. The struct is
  given by its field names, the values collected so far by an association list.\<close>

definition field_for :: "unicode \<Rightarrow> string list \<Rightarrow> string \<Rightarrow> string option" where
  "field_for U fs k = (if k \<in> set fs then Some k else find (\<lambda>f. EqualFold U f k) fs)"

text \<open>\<open>string\<close> fields take strings, \<open>int64\<close> fields integer literals in range; \<open>null\<close> leaves a
  field as it is; anything else is an UnmarshalTypeError.\<close>

fun unmarshal_fields ::
  "unicode \<Rightarrow> string list \<Rightarrow> string list \<Rightarrow> (string \<times> json) list \<Rightarrow> jmap \<Rightarrow> jmap option" where
  "unmarshal_fields U strs ints [] m = Some m"
| "unmarshal_fields U strs ints ((k, v) # ms) m =
    (case field_for U (strs @ ints) k of
       None \<Rightarrow> unmarshal_fields U strs ints ms m
     | Some f \<Rightarrow>
       (case v of
          JNull \<Rightarrow> unmarshal_fields U strs ints ms m
        | JString s \<Rightarrow>
            if f \<in> set strs then unmarshal_fields U strs ints ms (AList.update f (AString s) m) else None
        | JNumber neg ip fp ex \<Rightarrow>
            if f \<in> set ints \<and> fp = [] \<and> ex = [] then
              (case Atoi ((if neg then ''-'' else []) @ ip) of
                 None \<Rightarrow> None
               | Some i \<Rightarrow> unmarshal_fields U strs ints ms (AList.update f (AInt i) m))
            else None
        | _ \<Rightarrow> None))"

definition unmarshal_struct :: "unicode \<Rightarrow> string list \<Rightarrow> string list \<Rightarrow> string \<Rightarrow> jmap option" where
  "unmarshal_struct U strs ints s =
    (case parse_json s of
       None \<Rightarrow> None
     | Some JNull \<Rightarrow> Some []
     | Some (JObject ms) \<Rightarrow> unmarshal_fields U strs ints ms []
     | Some _ \<Rightarrow> None)"

definition str_field :: "jmap \<Rightarrow> string \<Rightarrow> string" where
  "str_field m k = (case map_of m k of Some (AString s) \<Rightarrow> s | _ \<Rightarrow> [])"

definition int_field :: "jmap \<Rightarrow> string \<Rightarrow> int" where
  "int_field m k = (case map_of m k of Some (AInt i) \<Rightarrow> i | _ \<Rightarrow> 0)"

subsection \<open>Marshal\<close>

definition hex_digit :: "nat \<Rightarrow> char" where
  "hex_digit n = (if n < 10 then chr (48 + n) else chr (87 + n))"

definition u_escape :: "nat \<Rightarrow> string" where
  "u_escape r = [BACKSLASH, CHR ''u'', hex_digit (r div 4096 mod 16), hex_digit (r div 256 mod 16),
                 hex_digit (r div 16 mod 16), hex_digit (r mod 16)]"

text \<open>The escape of an ASCII byte, HTML escaping on as in \<open>json.Marshal\<close>.\<close>

definition marshal_ascii :: "char \<Rightarrow> string" where
  "marshal_ascii c =
    (if c = QUOTE \<or> c = BACKSLASH then [BACKSLASH, c]
     else if c = CHR 0x08 then [BACKSLASH, CHR ''b'']
     else if c = CHR 0x0C then [BACKSLASH, CHR ''f'']
     else if c = CHR 0x0A then [BACKSLASH, CHR ''n'']
     else if c = CHR 0x0D then [BACKSLASH, CHR ''r'']
     else if c = CHR 0x09 then [BACKSLASH, CHR ''t'']
     else if byte c < 0x20 \<or> c = CHR ''<'' \<or> c = CHR ''>'' \<or> c = CHR ''&'' then u_escape (byte c)
     else [c])"

function marshal_body :: "string \<Rightarrow> string" where
  "marshal_body [] = []"
| "marshal_body (c # s) =
    (if byte c < 0x80 then marshal_ascii c @ marshal_body s
     else let r = fst (decode_rune (c # s)); w = snd (decode_rune (c # s)) in
       (if (r = rune_error \<and> w = 1) \<or> r = 0x2028 \<or> r = 0x2029 then u_escape r
        else take w (c # s)) @ marshal_body (drop w (c # s)))"
  by pat_completeness auto
termination
proof (relation "measure length", goal_cases)
  case (3 c s r w)
  then show ?case using decode_rune_width [of "c # s"] by (simp del: decode_rune.simps)
qed auto

declare marshal_body.simps [simp del]

definition marshal_string :: "string \<Rightarrow> string" where
  "marshal_string s = QUOTE # marshal_body s @ [QUOTE]"

text \<open>\<open>json.Marshal\<close> of the values the broker puts into its claim maps; \<open>None\<close> for other values.\<close>

fun marshal_value :: "any \<Rightarrow> string option" where
  "marshal_value (AString s) = Some (marshal_string s)"
| "marshal_value (AInt i) = Some (Itoa i)"
| "marshal_value _ = None"

fun marshal_members :: "jmap \<Rightarrow> string option" where
  "marshal_members [] = Some []"
| "marshal_members [(k, v)] = map_option (\<lambda>t. marshal_string k @ '':'' @ t) (marshal_value v)"
| "marshal_members ((k, v) # m # ms) =
    Option.bind (marshal_value v) (\<lambda>t.
      map_option (\<lambda>u. marshal_string k @ '':'' @ t @ '','' @ u) (marshal_members (m # ms)))"

text \<open>Map keys are written in sorted order.\<close>

definition marshal_map :: "jmap \<Rightarrow> string option" where
  "marshal_map m = map_option (\<lambda>t. ''{'' @ t @ ''}'') (marshal_members (sort_key fst m))"

end
