(* ===== verification/Go_Json_Laws.thy ===== *)
theory Go_Json_Laws
  imports Go_Json
begin

text \<open>
  Laws of the JSON codec: decimal printing and parsing of integers are inverse, an integer of
  at most 53 bits survives the passage through \<open>float64\<close>, and \<open>json.Unmarshal\<close> reads back from
  the output of \<open>json.Marshal\<close> the same map up to the replacement of ill-formed UTF-8.
\<close>

subsection \<open>Decimal digits\<close>

lemma byte_chr [simp]: "n < 256 \<Longrightarrow> byte (chr n) = n"
  by simp

lemma chr_eq_iff: "n < 256 \<Longrightarrow> chr n = c \<longleftrightarrow> n = byte c"
  by auto

lemma is_digit_chr: "n < 10 \<Longrightarrow> is_digit (chr (48 + n))"
  by (simp add: is_digit_def)

lemma digit_val_chr: "n < 10 \<Longrightarrow> digit_val (chr (48 + n)) = int n"
  by (simp add: digit_val_def)

lemma nat_digits_ne: "nat_digits n \<noteq> []"
  by (subst nat_digits.simps) simp

lemma nat_digits_digits: "list_all is_digit (nat_digits n)"
proof (induction n rule: nat_digits.induct)
  case (1 n)
  then show ?case
    by (cases "n < 10") (simp_all add: nat_digits.simps [of n] is_digit_chr)
qed

lemma digits_val_nat_digits: "digits_val (nat_digits n) = int n"
proof (induction n rule: nat_digits.induct)
  case (1 n)
  show ?case
  proof (cases "n < 10")
    case True
    then show ?thesis
      by (simp add: nat_digits.simps [of n] digits_val_def digit_val_chr)
  next
    case False
    with 1 have "digits_val (nat_digits (n div 10)) = int (n div 10)" by simp
    moreover have "10 * int (n div 10) + int (n mod 10) = int n" by presburger
    ultimately show ?thesis using False
      by (simp add: nat_digits.simps [of n] digits_val_def digit_val_chr)
  qed
qed

lemma nat_digits_hd: "hd (nat_digits n) = CHR ''0'' \<longleftrightarrow> n = 0"
proof (induction n rule: nat_digits.induct)
  case (1 n)
  show ?case
  proof (cases "n < 10")
    case True
    then show ?thesis by (simp add: nat_digits.simps [of n] chr_eq_iff)
  next
    case False
    with 1 have "hd (nat_digits (n div 10)) = CHR ''0'' \<longleftrightarrow> n div 10 = 0" by simp
    with False show ?thesis
      by (simp add: nat_digits.simps [of n] nat_digits_ne)
  qed
qed

lemma span_digits_append:
  "list_all is_digit ds \<Longrightarrow> rest = [] \<or> \<not> is_digit (hd rest) \<Longrightarrow>
   span_digits (ds @ rest) = (ds, rest)"
proof (induction ds)
  case Nil
  then show ?case by (cases rest) auto
qed auto

text \<open>What follows a number inside an object.\<close>

definition num_end :: "string \<Rightarrow> bool" where
  "num_end t \<longleftrightarrow> t \<noteq> [] \<and> (hd t = CHR '','' \<or> hd t = CHR ''}'')"

lemma num_end_frac: "num_end t \<Longrightarrow> parse_frac t = Some ([], t)"
  by (auto simp: num_end_def parse_frac_def split: list.splits)

lemma num_end_exp: "num_end t \<Longrightarrow> parse_exp t = Some ([], t)"
  by (auto simp: num_end_def parse_exp_def split: list.splits)

lemma num_end_digit: "num_end t \<Longrightarrow> \<not> is_digit (hd t)"
  by (auto simp: num_end_def is_digit_def)

lemma HasPrefix_single: "HasPrefix s [c] \<longleftrightarrow> s \<noteq> [] \<and> hd s = c"
  by (cases s) auto

lemma HasPrefix_append [simp]: "HasPrefix (p @ s) p"
  by (induction p) auto

lemma nat_digits_0: "nat_digits 0 = ''0''"
  by (simp add: nat_digits.simps [of 0] chr_eq_iff)

lemma nat_digits_no_minus: "hd (nat_digits n @ t) \<noteq> CHR ''-''"
  using nat_digits_digits [of n] nat_digits_ne [of n]
  by (cases "nat_digits n") (auto simp: is_digit_def)

lemma parse_ip_nat_digits:
  assumes "num_end t"
  shows "parse_ip (nat_digits n @ t) = (nat_digits n, t)"
proof (cases "n = 0")
  case True
  then show ?thesis by (simp add: nat_digits_0 parse_ip_def)
next
  case False
  then have "hd (nat_digits n @ t) \<noteq> CHR ''0''"
    using nat_digits_hd [of n] by (simp add: nat_digits_ne)
  with assms show ?thesis
    by (simp add: parse_ip_def HasPrefix_single span_digits_append nat_digits_digits num_end_digit)
qed

lemma parse_num_nat:
  assumes "num_end t"
  shows "parse_num (nat_digits n @ t) = Some (JNumber False (nat_digits n) [] [], t)"
    and "parse_num (CHR ''-'' # nat_digits n @ t) = Some (JNumber True (nat_digits n) [] [], t)"
  unfolding parse_num_def Let_def
  using assms nat_digits_no_minus [of n t]
  by (simp_all add: HasPrefix_single nat_digits_ne num_end_frac num_end_exp
      parse_ip_nat_digits del: hd_append2)

lemma parse_num_Itoa:
  assumes "num_end t"
  shows "parse_num (Itoa i @ t) = Some (JNumber (i < 0) (nat_digits (nat \<bar>i\<bar>)) [] [], t)"
  using parse_num_nat [OF assms] by (simp add: Itoa_def)

subsection \<open>Integers through float64\<close>

lemma bitlen_0: "bitlen 0 = 0"
  by (simp add: bitlen.simps)

lemma bitlen_half: "0 < n \<Longrightarrow> bitlen n = Suc (bitlen (n div 2))"
  by (simp add: bitlen.simps [of n])

lemma bitlen_1: "bitlen (Suc 0) = 1"
  by (simp add: bitlen_half bitlen_0)

lemma bitlen_upper: "n < 2 ^ bitlen n"
proof (induction n rule: bitlen.induct)
  case (1 n)
  show ?case
  proof (cases "n = 0")
    case False
    with 1 have "n div 2 < 2 ^ bitlen (n div 2)" by simp
    with False show ?thesis by (simp add: bitlen_half)
  qed (simp add: bitlen_0)
qed

lemma bitlen_lower: "0 < n \<Longrightarrow> 2 ^ (bitlen n - 1) \<le> n"
proof (induction n rule: bitlen.induct)
  case (1 n)
  show ?case
  proof (cases "n div 2 = 0")
    case True
    with 1(2) have "n = 1" by simp
    then show ?thesis by (simp add: bitlen_1)
  next
    case False
    with 1 have "2 ^ (bitlen (n div 2) - 1) \<le> n div 2" by simp
    moreover obtain m where m: "bitlen (n div 2) = Suc m"
      using False bitlen_half [of "n div 2"] by simp
    ultimately have "2 ^ m \<le> n div 2" by simp
    then have "2 ^ Suc m \<le> n" by simp
    with m 1(2) show ?thesis by (simp only: bitlen_half diff_Suc_1)
  qed
qed

lemma bitlen_le: "n < 2 ^ k \<Longrightarrow> bitlen n \<le> k"
proof (cases "n = 0")
  case False
  assume "n < 2 ^ k"
  with False have "(2::nat) ^ (bitlen n - 1) < 2 ^ k"
    using bitlen_lower [of n] by (meson le_less_trans neq0_conv)
  then have "bitlen n - 1 < k" by (rule power_less_imp_less_exp [rotated]) simp
  then show ?thesis by linarith
qed (simp add: bitlen_0)

lemma round_exact: "0 < d \<Longrightarrow> round_half_even (q * d) d = q"
  by (simp add: round_half_even_def Let_def)

lemma float_exp_int: "0 < n \<Longrightarrow> n < 2 ^ 53 \<Longrightarrow> float_exp n 1 \<le> 0 \<and> - 1074 \<le> float_exp n 1"
  using bitlen_le [of n 53] by (auto simp: float_exp_def bitlen_1 Let_def max_def)

lemma f64_trunc_scaled:
  "f64_trunc (F64 (int n * 2 ^ j) (- int j)) = int n"
  "f64_trunc (F64 (- (int n * 2 ^ j)) (- int j)) = - int n"
  by (auto simp: f64_trunc_def sgn_mult abs_mult)

lemma parse_float_int:
  assumes "n < 2 ^ 53"
  obtains f where "parse_float neg n 0 = Some f"
    and "f64_trunc f = (if neg then - int n else int n)"
proof (cases "n = 0")
  case True
  show ?thesis
    by (rule that [of "F64 0 0"]) (simp_all add: True parse_float_def f64_trunc_def)
next
  case False
  define j where "j = nat (- float_exp n 1)"
  have e: "float_exp n (Suc 0) = - int j"
    using False assms float_exp_int [of n] by (simp add: j_def)
  then have "parse_float neg n 0 =
      Some (F64 (if neg then - (int n * 2 ^ j) else int n * 2 ^ j) (- int j))"
    using False round_exact [of 1 "n * 2 ^ j"] by (simp add: parse_float_def)
  then show ?thesis by (rule that) (simp add: f64_trunc_scaled)
qed

lemma number_float_int:
  assumes "\<bar>i\<bar> < 2 ^ 53"
  obtains f where "number_float (i < 0) (nat_digits (nat \<bar>i\<bar>)) [] [] = Some f"
    and "f64_trunc f = i"
proof -
  have "nat \<bar>i\<bar> < 2 ^ 53" using assms by simp
  then obtain f where "parse_float (i < 0) (nat \<bar>i\<bar>) 0 = Some f"
    and "f64_trunc f = (if i < 0 then - int (nat \<bar>i\<bar>) else int (nat \<bar>i\<bar>))"
    by (rule parse_float_int)
  then show ?thesis
    by (intro that [of f]) (auto simp: number_float_def digits_val_nat_digits)
qed

subsection \<open>Strings\<close>

lemma encode_rune_ascii: "r < 0x80 \<Longrightarrow> encode_rune r = [chr r]"
  by (simp add: encode_rune_def)

lemma decode_rune_ascii: "byte c < 0x80 \<Longrightarrow> decode_rune (c # s) = (byte c, 1)"
  by simp

text \<open>A well-formed multi-byte rune is decoded from its own bytes, whatever follows.\<close>

lemma decode_rune_take:
  assumes "decode_rune s = (r, w)" and "1 < w"
  shows "decode_rune (take w s @ t) = (r, w)" and "w \<le> length s"
  using assms
  by (cases s; auto simp: Let_def split: if_splits list.splits)+

lemma decode_rune_lead: "decode_rune (c # s) = (r, w) \<Longrightarrow> 1 < w \<Longrightarrow> 0x80 \<le> byte c"
  by (auto simp: Let_def split: if_splits)

lemma unhex_hex_digit: "n < 16 \<Longrightarrow> unhex (hex_digit n) = Some n"
  by (auto simp: hex_digit_def unhex_def Let_def)

lemma base16_sum:
  "r = q1 * 16 + m0 \<Longrightarrow> q1 = q2 * 16 + m1 \<Longrightarrow> q2 = q3 * 16 + m2 \<Longrightarrow>
   q3 * 4096 + m2 * 256 + m1 * 16 + m0 = (r::nat)"
  by simp

lemma hex_digits_sum:
  assumes "(r::nat) < 65536"
  shows "r div 4096 mod 16 * 4096 + r div 256 mod 16 * 256 + r div 16 mod 16 * 16 + r mod 16 = r"
proof -
  have "r div 4096 mod 16 = r div 4096" using assms by simp
  moreover have "r div 256 = (r div 16) div 16" and "r div 4096 = (r div 256) div 16"
    by (simp_all add: div_mult2_eq [of r 16 16, simplified] div_mult2_eq [of r 256 16, simplified])
  ultimately show ?thesis
    by (metis base16_sum [of r "r div 16" "r mod 16" "r div 256" _ "r div 4096"] div_mult_mod_eq)
qed

lemma getu4_u_escape: "r < 65536 \<Longrightarrow> getu4 (drop 2 (u_escape r @ t)) = Some (r, t)"
  using hex_digits_sum [of r] by (simp add: u_escape_def unhex_hex_digit)

lemma escapes_distinct: "QUOTE \<noteq> BACKSLASH" "BACKSLASH \<noteq> QUOTE"
  by (simp_all add: QUOTE_def BACKSLASH_def)

lemma parse_str_u_escape:
  assumes "r < 0xD800 \<or> 0xDFFF < r" and "r < 65536"
  shows "parse_str (u_escape r @ t) = map_option (apfst (append (encode_rune r))) (parse_str t)"
  using getu4_u_escape [OF assms(2), of t] assms(1)
  by (auto simp: u_escape_def parse_str.simps escapes_distinct surrogate_def)

lemma parse_str_raw:
  assumes "c \<noteq> QUOTE" "c \<noteq> BACKSLASH" "0x20 \<le> byte c"
  shows "parse_str (c # s) =
    map_option (apfst (append (encode_rune (fst (decode_rune (c # s))))))
      (parse_str (drop (snd (decode_rune (c # s))) (c # s)))"
  using assms by (subst parse_str.simps) (simp del: decode_rune.simps)

lemma append_single: "(@) [c] = Cons c"
  by auto

lemma marshal_ascii_parse:
  assumes "byte c < 0x80"
  shows "parse_str (marshal_ascii c @ t) = map_option (apfst (Cons c)) (parse_str t)"
proof -
  have u: "parse_str (u_escape (byte c) @ t) = map_option (apfst (Cons c)) (parse_str t)"
    using assms by (subst parse_str_u_escape) (simp_all add: encode_rune_ascii append_single)
  have raw: "parse_str (c # t) = map_option (apfst (Cons c)) (parse_str t)"
    if "c \<noteq> QUOTE" "c \<noteq> BACKSLASH" "\<not> byte c < 0x20"
    using that assms
    by (subst parse_str_raw) (simp_all add: decode_rune_ascii encode_rune_ascii append_single del: decode_rune.simps)
  show ?thesis
    using u raw
    by (simp add: marshal_ascii_def parse_str.simps escapes_distinct simple_escape_def
        QUOTE_def BACKSLASH_def del: decode_rune.simps)
qed

definition clean :: "string \<Rightarrow> string" where
  "clean s = of_runes (runes s)"

lemma clean_Nil [simp]: "clean [] = []"
  by (simp add: clean_def runes.simps of_runes_def)

lemma clean_Cons:
  "clean (c # s) = encode_rune (fst (decode_rune (c # s))) @ clean (drop (snd (decode_rune (c # s))) (c # s))"
  by (simp add: clean_def runes.simps [of "c # s"] of_runes_def del: decode_rune.simps)

lemma clean_ascii_Cons: "byte c < 0x80 \<Longrightarrow> clean (c # s) = c # clean s"
  by (simp add: clean_Cons decode_rune_ascii encode_rune_ascii del: decode_rune.simps)

lemma clean_ascii: "ascii s \<Longrightarrow> clean s = s"
  by (induction s) (auto simp: ascii_def clean_ascii_Cons)

lemma decode_rune_single:
  "decode_rune (c # s) = (r, w) \<Longrightarrow> 0x80 \<le> byte c \<Longrightarrow> (r = rune_error \<and> w = 1) \<or> 1 < w"
  by (auto simp: Let_def split: if_splits list.splits)

lemma high_byte: "0x80 \<le> byte c \<Longrightarrow> c \<noteq> QUOTE \<and> c \<noteq> BACKSLASH"
  by (auto simp: QUOTE_def BACKSLASH_def)

lemma marshal_rune_parse:
  assumes c: "0x80 \<le> byte c" and d: "decode_rune (c # s) = (r, w)"
  shows "parse_str ((if (r = rune_error \<and> w = 1) \<or> r = 0x2028 \<or> r = 0x2029 then u_escape r
                     else take w (c # s)) @ t)
         = map_option (apfst (append (encode_rune r))) (parse_str t)"
proof (cases "(r = rune_error \<and> w = 1) \<or> r = 0x2028 \<or> r = 0x2029")
  case True
  then show ?thesis
    by (simp only: if_True) (rule parse_str_u_escape; auto simp: rune_error_def)
next
  case False
  have w: "1 < w" using False decode_rune_single [OF d c] by blast
  note tk = decode_rune_take [OF d w]
  obtain u where u: "take w (c # s) = c # u" using w by (cases w) auto
  have "parse_str (c # (u @ t)) =
      map_option (apfst (append (encode_rune r))) (parse_str (drop w (c # (u @ t))))"
    using parse_str_raw [of c "u @ t"] c tk(1) [of t] u high_byte [OF c]
    by (simp del: decode_rune.simps)
  moreover have "drop w (c # (u @ t)) = t"
    using tk(2) u by (metis append_Cons append_eq_conv_conj length_take min.absorb2)
  ultimately show ?thesis using u by (simp only: False if_False append_Cons)
qed

lemma parse_marshal_body:
  "parse_str (marshal_body s @ QUOTE # t) = Some (clean s, t)"
proof (induction s rule: marshal_body.induct)
  case 1
  show ?case by (simp add: marshal_body.simps parse_str.simps)
next
  case (2 c s)
  obtain r w where d: "decode_rune (c # s) = (r, w)" by (cases "decode_rune (c # s)")
  show ?case
  proof (cases "byte c < 0x80")
    case True
    with 2 show ?thesis
      by (simp add: marshal_body.simps marshal_ascii_parse clean_ascii_Cons)
  next
    case False
    with 2 d have "parse_str (marshal_body (drop w (c # s)) @ QUOTE # t) = Some (clean (drop w (c # s)), t)"
      by simp
    with False marshal_rune_parse [OF _ d, of "marshal_body (drop w (c # s)) @ QUOTE # t"]
    show ?thesis
      by (simp add: marshal_body.simps clean_Cons d Let_def del: decode_rune.simps)
  qed
qed

subsection \<open>Objects\<close>

lemma skip_ws_hd: "\<not> json_space c \<Longrightarrow> skip_ws (c # s) = c # s"
  by (simp add: skip_ws_def)

lemma skip_ws_QUOTE [simp]: "skip_ws (QUOTE # s) = QUOTE # s"
  by (simp add: skip_ws_hd json_space_def QUOTE_def)

lemma skip_ws_num_end: "num_end t \<Longrightarrow> skip_ws t = t"
  by (cases t) (auto simp: num_end_def skip_ws_hd json_space_def)

text \<open>The document a marshalled value parses to, and what Unmarshal makes of it.\<close>

fun reparse :: "any \<Rightarrow> json" where
  "reparse (AString s) = JString (clean s)"
| "reparse (AInt i) = JNumber (i < 0) (nat_digits (nat \<bar>i\<bar>)) [] []"
| "reparse _ = JNull"

fun reread :: "any \<Rightarrow> any" where
  "reread (AString s) = AString (clean s)"
| "reread (AInt i) = AFloat (the (number_float (i < 0) (nat_digits (nat \<bar>i\<bar>)) [] []))"
| "reread v = v"

fun claim_value :: "any \<Rightarrow> bool" where
  "claim_value (AString s) = True"
| "claim_value (AInt i) = (\<bar>i\<bar> < 2 ^ 53)"
| "claim_value _ = False"

lemma reread_AInt:
  assumes "\<bar>i\<bar> < 2 ^ 53"
  obtains f where "reread (AInt i) = AFloat f" and "f64_trunc f = i"
proof -
  obtain f where f: "number_float (i < 0) (nat_digits (nat \<bar>i\<bar>)) [] [] = Some f" "f64_trunc f = i"
    using assms by (rule number_float_int)
  then show ?thesis by (intro that [of f]) simp_all
qed

lemma to_any_reparse: "claim_value v \<Longrightarrow> to_any (reparse v) = Some (reread v)"
proof (cases v)
  case (AInt i)
  assume "claim_value v"
  with AInt have "\<bar>i\<bar> < 2 ^ 53" by simp
  then obtain f where "number_float (i < 0) (nat_digits (nat \<bar>i\<bar>)) [] [] = Some f"
    by (rule number_float_int)
  with AInt show ?thesis by simp
qed auto

lemma Itoa_first:
  obtains c u where "Itoa i = c # u" and "c = CHR ''-'' \<or> is_digit c"
proof (cases "i < 0")
  case True
  then show ?thesis by (intro that) (auto simp: Itoa_def)
next
  case False
  then show ?thesis
    using nat_digits_ne [of "nat i"] nat_digits_digits [of "nat i"]
    by (cases "nat_digits (nat i)") (auto simp: Itoa_def intro: that)
qed

lemma parse_value_number:
  assumes "num_end t"
  shows "parse_value (Suc n) d (Itoa i @ t) = Some (reparse (AInt i), t)"
proof -
  obtain c u where cu: "Itoa i = c # u" and c: "c = CHR ''-'' \<or> is_digit c"
    by (rule Itoa_first)
  from c have "\<not> json_space c" "c \<noteq> QUOTE" "c \<noteq> CHR ''[''" "c \<noteq> CHR ''{''"
    "c \<noteq> CHR ''n''" "c \<noteq> CHR ''t''" "c \<noteq> CHR ''f''"
    by (auto simp: json_space_def QUOTE_def is_digit_def)
  then show ?thesis
    using parse_num_Itoa [OF assms, of i] by (simp add: parse_value.simps cu skip_ws_hd)
qed

lemma parse_value_marshal:
  assumes "claim_value v" "marshal_value v = Some s" "num_end t"
  shows "parse_value (Suc n) d (s @ t) = Some (reparse v, t)"
  using assms
proof (cases v)
  case (AString x)
  then show ?thesis
    using assms parse_marshal_body [of x t] by (auto simp: marshal_string_def parse_value.simps)
next
  case (AInt i)
  with assms have "s = Itoa i" by simp
  then show ?thesis
    using assms(3) by (simp only: AInt parse_value_number)
qed auto

lemma parse_member_step:
  assumes "claim_value v" "marshal_value v = Some s" "num_end t"
  shows "parse_members (Suc (Suc n)) d (marshal_string k @ '':'' @ s @ t) =
    (if hd t = CHR ''}'' then Some ([(clean k, reparse v)], tl t)
     else map_option (apfst (Cons (clean k, reparse v))) (parse_members (Suc n) d (tl t)))"
proof -
  obtain e u where t: "t = e # u" using assms(3) by (cases t) (auto simp: num_end_def)
  with assms(3) have e: "e = CHR '','' \<or> e = CHR ''}''" by (simp add: num_end_def)
  have ws: "skip_ws (CHR '':'' # s @ t) = CHR '':'' # s @ t" "skip_ws (e # u) = e # u"
    using assms(3) t by (auto simp: skip_ws_hd json_space_def skip_ws_num_end)
  have "parse_value (Suc n) d (s @ t) = Some (reparse v, t)"
    using assms by (rule parse_value_marshal)
  then show ?thesis
    using e ws parse_marshal_body [of k "'':'' @ s @ t"] t
    by (auto simp: marshal_string_def parse_members.simps)
qed

lemma parse_members_marshal:
  assumes "marshal_members ms = Some t" "ms \<noteq> []" "list_all (claim_value \<circ> snd) ms"
    and "length t \<le> n"
  shows "parse_members n d (t @ ''}'' @ u) = Some (map (\<lambda>(k, v). (clean k, reparse v)) ms, u)"
  using assms
proof (induction ms arbitrary: t n rule: marshal_members.induct)
  case (2 k v)
  then obtain s where s: "marshal_value v = Some s" and t: "t = marshal_string k @ '':'' @ s"
    by auto
  then obtain m where "n = Suc (Suc m)"
    using 2 by (cases n; cases "n - 1") (auto simp: marshal_string_def)
  with 2 s t show ?case
    using parse_member_step [of v s "''}'' @ u" m d k] by (simp add: num_end_def)
next
  case (3 k v m ms)
  then obtain s r where s: "marshal_value v = Some s" and r: "marshal_members (m # ms) = Some r"
    and t: "t = marshal_string k @ '':'' @ s @ '','' @ r"
    by (auto simp: bind_eq_Some_conv)
  then obtain j where n: "n = Suc (Suc j)"
    using 3 by (cases n; cases "n - 1") (auto simp: marshal_string_def)
  with t 3 have "length r \<le> Suc j" by (simp add: marshal_string_def)
  with 3(3-5) s r have "parse_members (Suc j) d (r @ ''}'' @ u)
      = Some (map (\<lambda>(k, v). (clean k, reparse v)) (m # ms), u)"
    by (intro 3(1)) simp_all
  then show ?case
    using parse_member_step [of v s "'','' @ r @ ''}'' @ u" j d k] 3 s t n
    by (simp add: num_end_def)
qed simp


lemma to_any_map_fresh:
  assumes "list_all (claim_value \<circ> snd) ms" "distinct (map fst ms)"
    and "set (map fst acc) \<inter> set (map fst ms) = {}"
  shows "to_any_map (map (\<lambda>(k, v). (k, reparse v)) ms) acc
         = Some (acc @ map (\<lambda>(k, v). (k, reread v)) ms)"
  using assms
proof (induction ms arbitrary: acc)
  case (Cons m ms)
  obtain k v where m: "m = (k, v)" by (cases m)
  with Cons.prems have "k \<notin> fst ` set acc" by auto
  then have "AList.update k (reread v) acc = acc @ [(k, reread v)]"
    by (induction acc) auto
  with Cons m show ?case by (auto simp: to_any_reparse)
qed simp

lemma sort_key_fst_distinct:
  "distinct (map fst m) \<Longrightarrow> distinct (map fst (sort_key fst m))"
  by (simp add: distinct_map)

lemma map_of_sort_key_fst:
  "distinct (map fst m) \<Longrightarrow> map_of (sort_key fst m) = map_of m"
  by (simp add: map_of_inject_set sort_key_fst_distinct)

lemma marshal_members_total:
  "list_all (claim_value \<circ> snd) m \<Longrightarrow> \<exists>t. marshal_members m = Some t"
proof (induction m rule: marshal_members.induct)
  case (2 k v)
  then show ?case by (cases v) auto
next
  case (3 k v m ms)
  then show ?case by (cases v) auto
qed simp

text \<open>A marshalled map, with white space after it (\<open>json.Encoder\<close> ends a value with a newline), parses to
  its members in the order of their keys.\<close>

lemma parse_json_marshal:
  assumes vals: "list_all (claim_value \<circ> snd) m"
  obtains t where "marshal_map m = Some t"
    and "\<And>u. skip_ws u = [] \<Longrightarrow>
      parse_json (t @ u) = Some (JObject (map (\<lambda>(k, v). (clean k, reparse v)) (sort_key fst m)))"
proof -
  let ?s = "sort_key fst m"
  have vs: "list_all (claim_value \<circ> snd) ?s" using vals by (auto simp: list_all_iff)
  obtain t where t: "marshal_members ?s = Some t" using marshal_members_total [OF vs] by blast
  have "parse_json ((''{'' @ t @ ''}'') @ u) = Some (JObject (map (\<lambda>(k, v). (clean k, reparse v)) ?s))"
    if u: "skip_ws u = []" for u
  proof (cases "?s = []")
    case True
    with t u show ?thesis
      by (simp add: parse_json_def skip_ws_hd json_space_def QUOTE_def max_nesting_def
          parse_value.simps numeral_eq_Suc)
  next
    case False
    have nb: "\<not> HasPrefix (skip_ws (t @ ''}'' @ u)) ''}''"
      using t False by (cases ?s rule: marshal_members.cases)
        (auto simp: marshal_string_def bind_eq_Some_conv QUOTE_def skip_ws_def json_space_def)
    have "parse_members (2 * length ((''{'' @ t @ ''}'') @ u)) 1 (t @ ''}'' @ u) =
        Some (map (\<lambda>(k, v). (clean k, reparse v)) ?s, u)"
      using parse_members_marshal [OF t False vs] by simp
    with nb u show ?thesis
      by (simp add: parse_json_def skip_ws_hd json_space_def QUOTE_def max_nesting_def parse_value.simps)
  qed
  with t show ?thesis by (intro that [of "''{'' @ t @ ''}''"]) (simp_all add: marshal_map_def)
qed

text \<open>Unmarshal inverts Marshal: the map read back has the same keys, strings with ill-formed
  UTF-8 replaced, and integers as the doubles of the same value.\<close>

lemma unmarshal_marshal:
  assumes vals: "list_all (claim_value \<circ> snd) m" and keys: "distinct (map fst m)"
    and ascii: "list_all (ascii \<circ> fst) m"
  obtains t m' where "marshal_map m = Some t" and "unmarshal_map t = Some m'"
    and "map_of m' = map_option reread \<circ> map_of m" and "set (map fst m') = set (map fst m)"
proof -
  let ?s = "sort_key fst m"
  let ?m' = "map (\<lambda>(k, v). (k, reread v)) ?s"
  have vs: "list_all (claim_value \<circ> snd) ?s" using vals by (auto simp: list_all_iff)
  have ks: "map (\<lambda>(k, v). (clean k, reparse v)) ?s = map (\<lambda>(k, v). (k, reparse v)) ?s"
    using ascii by (auto simp: clean_ascii list_all_iff split_beta intro!: map_cong)
  have any: "to_any_map (map (\<lambda>(k, v). (clean k, reparse v)) ?s) [] = Some ?m'"
    unfolding ks using to_any_map_fresh [OF vs sort_key_fst_distinct [OF keys], of "[]"] by simp
  obtain t where t: "marshal_map m = Some t" "\<And>u. skip_ws u = [] \<Longrightarrow>
      parse_json (t @ u) = Some (JObject (map (\<lambda>(k, v). (clean k, reparse v)) ?s))"
    by (rule parse_json_marshal [OF vals]) (rule that)
  from t(2) [of "[]"] any have "unmarshal_map t = Some ?m'"
    by (simp add: unmarshal_map_def skip_ws_def)
  moreover have "map_of ?m' = map_option reread \<circ> map_of m"
    using map_of_sort_key_fst [OF keys] by (auto simp: map_of_map fun_eq_iff)
  moreover have "set (map fst ?m') = set (map fst m)" by force
  ultimately show ?thesis using t(1) that by blast
qed

text \<open>A map of strings, under keys that are fields of a struct, read back into the struct.\<close>

lemma unmarshal_fields_strings:
  assumes "set (map fst ms) \<subseteq> set strs" "distinct (map fst ms)" "set (map fst acc) \<inter> set (map fst ms) = {}"
  shows "unmarshal_fields U strs ints (map (\<lambda>(k, s). (k, JString s)) ms) acc = Some (acc @ map (\<lambda>(k, s). (k, AString s)) ms)"
  using assms
proof (induction ms arbitrary: acc)
  case (Cons m ms)
  obtain k s where m: "m = (k, s)" by (cases m)
  with Cons.prems have "k \<notin> fst ` set acc" by auto
  then have "AList.update k (AString s) acc = acc @ [(k, AString s)]"
    by (induction acc) auto
  with Cons m show ?case by (auto simp: field_for_def)
qed simp

lemma sort_key_fst_map:
  assumes "\<And>x. fst (g x) = fst x"
  shows "sort_key fst (map g xs) = map g (sort_key fst xs)"
proof -
  have "insort_key fst (g x) (map g ys) = map g (insort_key fst x ys)" for x ys
    using assms by (induction ys) auto
  then show ?thesis by (induction xs) simp_all
qed

lemma unmarshal_struct_marshal:
  assumes "set (map fst m) \<subseteq> set strs" "distinct (map fst m)" "\<forall>(k, s) \<in> set m. ascii k \<and> ascii s"
  obtains t m' where "marshal_map (map (\<lambda>(k, s). (k, AString s)) m) = Some t"
    and "\<And>u. skip_ws u = [] \<Longrightarrow> unmarshal_struct U strs ints (t @ u) = Some m'"
    and "\<And>k. str_field m' k = (case map_of m k of None \<Rightarrow> [] | Some s \<Rightarrow> s)"
proof -
  let ?m = "map (\<lambda>(k, s). (k, AString s)) m" and ?s = "sort_key fst m"
  have srt: "sort_key fst ?m = map (\<lambda>(k, s). (k, AString s)) ?s"
    by (rule sort_key_fst_map) auto
  obtain t where t: "marshal_map ?m = Some t" "\<And>u. skip_ws u = [] \<Longrightarrow>
      parse_json (t @ u) = Some (JObject (map (\<lambda>(k, v). (clean k, reparse v)) (sort_key fst ?m)))"
    by (rule parse_json_marshal [of ?m]) (auto simp: list_all_iff)
  have "map (\<lambda>(k, v). (clean k, reparse v)) (sort_key fst ?m) = map (\<lambda>(k, s). (k, JString s)) ?s"
    unfolding srt using assms(3) by (auto simp: clean_ascii)
  with t(2) unmarshal_fields_strings [of ?s strs "[]" U ints] assms(1,2) sort_key_fst_distinct [OF assms(2)]
  have "unmarshal_struct U strs ints (t @ u) = Some (map (\<lambda>(k, s). (k, AString s)) ?s)" if "skip_ws u = []" for u
    using that by (simp add: unmarshal_struct_def)
  moreover have "str_field (map (\<lambda>(k, s). (k, AString s)) ?s) k = (case map_of m k of None \<Rightarrow> [] | Some s \<Rightarrow> s)" for k
    by (simp add: str_field_def map_of_map map_of_sort_key_fst [OF assms(2)] split: option.split)
  ultimately show ?thesis using t(1) that by blast
qed

end
