(* ===== verification/Oauth_Claims.thy ===== *)
theory Oauth_Claims
  imports Go_Json
begin

text \<open>
  \<open>claims.go\<close> and \<open>errors.go\<close>: the typed claims of a token, their projection from a raw JSON map,
  and the comparisons used in validation (email domain, audience, issuer, scopes). \<open>oor\<close> is the
  platform's conversion of a double outside the \<open>int64\<close> range. Shown: what each comparison
  decides, as a statement about normal forms.
\<close>

datatype oauth_error =
    ErrMissingToken
  | ErrInvalidToken
  | ErrTokenExpired
  | ErrInsufficientScopes
  | ErrEmailNotVerified
  | ErrUnauthorizedDomain
  | ErrOther string

record claims =
  cl_Subject :: string
  cl_Issuer :: string
  cl_Audience :: "string list"
  cl_ExpiresAt :: int
  cl_IssuedAt :: int
  cl_NotBefore :: int
  cl_Scopes :: "string list"
  cl_Email :: string
  cl_Name :: string
  cl_HostedDomain :: string
  cl_EmailVerified :: bool
  cl_Extra :: jmap

text \<open>The type switches of the projection, on \<open>raw[key]\<close> (absent is \<open>None\<close>).\<close>

definition string_claim :: "any option \<Rightarrow> string" where
  "string_claim v = (case v of Some (AString s) \<Rightarrow> s | _ \<Rightarrow> [])"

definition time_claim :: "(float64 \<Rightarrow> int) \<Rightarrow> any option \<Rightarrow> int" where
  "time_claim oor v =
    (case v of
       Some (AFloat f) \<Rightarrow> int64_of_f64 oor f
     | Some (ANumber s) \<Rightarrow> (case Atoi s of Some n \<Rightarrow> n | None \<Rightarrow> 0)
     | _ \<Rightarrow> 0)"

fun strings_of :: "any list \<Rightarrow> string list" where
  "strings_of [] = []"
| "strings_of (AString s # xs) = s # strings_of xs"
| "strings_of (x # xs) = strings_of xs"

definition verified_claim :: "unicode \<Rightarrow> any option \<Rightarrow> bool" where
  "verified_claim U v =
    (case v of
       Some (ABool b) \<Rightarrow> b
     | Some (AString s) \<Rightarrow> EqualFold U s ''true''
     | _ \<Rightarrow> False)"

definition aud_claim :: "any option \<Rightarrow> string list" where
  "aud_claim v =
    (case v of Some (AString s) \<Rightarrow> [s] | Some (ASlice xs) \<Rightarrow> strings_of xs | _ \<Rightarrow> [])"

definition scope_claim :: "any option \<Rightarrow> string list" where
  "scope_claim v =
    (case v of Some (AString s) \<Rightarrow> Fields s | Some (ASlice xs) \<Rightarrow> strings_of xs | _ \<Rightarrow> [])"

definition standard_claims :: "string list" where
  "standard_claims = [''sub'', ''iss'', ''aud'', ''exp'', ''iat'', ''nbf'', ''jti'', ''scope'', ''email'',
     ''name'', ''hd'', ''email_verified'']"

definition claimsFromRaw :: "(float64 \<Rightarrow> int) \<Rightarrow> unicode \<Rightarrow> jmap \<Rightarrow> claims" where
  "claimsFromRaw oor U raw =
    \<lparr>cl_Subject = string_claim (map_of raw ''sub''),
     cl_Issuer = string_claim (map_of raw ''iss''),
     cl_Audience = aud_claim (map_of raw ''aud''),
     cl_ExpiresAt = time_claim oor (map_of raw ''exp''),
     cl_IssuedAt = time_claim oor (map_of raw ''iat''),
     cl_NotBefore = time_claim oor (map_of raw ''nbf''),
     cl_Scopes = scope_claim (map_of raw ''scope''),
     cl_Email = string_claim (map_of raw ''email''),
     cl_Name = string_claim (map_of raw ''name''),
     cl_HostedDomain = string_claim (map_of raw ''hd''),
     cl_EmailVerified = verified_claim U (map_of raw ''email_verified''),
     cl_Extra = filter (\<lambda>(k, v). k \<notin> set standard_claims) raw\<rparr>"

definition userinfo_claims :: "string list" where
  "userinfo_claims = [''sub'', ''iss'', ''email'', ''name'', ''hd'', ''email_verified'', ''scope'']"

definition claimsFromUserInfo :: "jmap \<Rightarrow> claims" where
  "claimsFromUserInfo raw =
    \<lparr>cl_Subject = string_claim (map_of raw ''sub''),
     cl_Issuer = string_claim (map_of raw ''iss''),
     cl_Audience = [],
     cl_ExpiresAt = 0,
     cl_IssuedAt = 0,
     cl_NotBefore = 0,
     cl_Scopes = (case map_of raw ''scope'' of Some (AString s) \<Rightarrow> Fields s | _ \<Rightarrow> []),
     cl_Email = string_claim (map_of raw ''email''),
     cl_Name = string_claim (map_of raw ''name''),
     cl_HostedDomain = string_claim (map_of raw ''hd''),
     cl_EmailVerified = (case map_of raw ''email_verified'' of Some (ABool b) \<Rightarrow> b | _ \<Rightarrow> False),
     cl_Extra = filter (\<lambda>(k, v). k \<notin> set userinfo_claims) raw\<rparr>"

definition emailDomain :: "unicode \<Rightarrow> string \<Rightarrow> string" where
  "emailDomain U email =
    (let parts = Split (ToLower U (TrimSpace email)) (CHR ''@'') in
     if length parts \<noteq> 2 then [] else parts ! 1)"

fun containsDomain :: "unicode \<Rightarrow> string list \<Rightarrow> string \<Rightarrow> bool" where
  "containsDomain U [] target = False"
| "containsDomain U (d # ds) target =
    (if EqualFold U (TrimSpace d) (TrimSpace target) then True else containsDomain U ds target)"

text \<open>The normal form of an audience or issuer: trimmed, without trailing slashes.\<close>

definition slash_norm :: "string \<Rightarrow> string" where
  "slash_norm s = TrimRight (TrimSpace s) (CHR ''/'')"

fun audience_loop :: "string list \<Rightarrow> string \<Rightarrow> string \<Rightarrow> bool" where
  "audience_loop [] expected e = False"
| "audience_loop (c # cs) expected e =
    (if c = expected then True
     else if slash_norm c = e then True
     else audience_loop cs expected e)"

definition audienceMatchesResource :: "string list \<Rightarrow> string \<Rightarrow> bool" where
  "audienceMatchesResource auds expected = audience_loop auds expected (slash_norm expected)"

definition looksLikeJWT :: "string \<Rightarrow> bool" where
  "looksLikeJWT token \<longleftrightarrow> Count token (CHR ''.'') = 2"

fun issuer_loop :: "string \<Rightarrow> string list \<Rightarrow> bool" where
  "issuer_loop got [] = False"
| "issuer_loop got (a # as) = (if slash_norm a = got then True else issuer_loop got as)"

definition issuerAllowed :: "string \<Rightarrow> string list \<Rightarrow> string \<Rightarrow> bool" where
  "issuerAllowed got0 allowlist singleIssuer =
    (let got = slash_norm got0 in
     if 0 < length allowlist then issuer_loop got allowlist
     else if slash_norm singleIssuer \<noteq> [] then got = slash_norm singleIssuer
     else True)"

fun hasRequiredScopes :: "string list \<Rightarrow> string list \<Rightarrow> bool" where
  "hasRequiredScopes toks [] = True"
| "hasRequiredScopes toks (r # rs) = (if r \<notin> set toks then False else hasRequiredScopes toks rs)"

subsection \<open>What the comparisons decide\<close>

lemma containsDomain_iff:
  "containsDomain U ds t \<longleftrightarrow> (\<exists>d \<in> set ds. EqualFold U (TrimSpace d) (TrimSpace t))"
  by (induction ds) auto

lemma audience_loop_iff:
  "audience_loop cs x (slash_norm x) \<longleftrightarrow> (\<exists>c \<in> set cs. slash_norm x = slash_norm c)"
  by (induction cs) auto

lemma audienceMatchesResource_iff:
  "audienceMatchesResource cs x \<longleftrightarrow> slash_norm x \<in> slash_norm ` set cs"
  by (auto simp: audienceMatchesResource_def audience_loop_iff)

lemma issuer_loop_iff: "issuer_loop got as \<longleftrightarrow> got \<in> slash_norm ` set as"
  by (induction as) auto

lemma issuerAllowed_iff:
  "issuerAllowed got as single \<longleftrightarrow>
     (if as \<noteq> [] then slash_norm got \<in> slash_norm ` set as
      else slash_norm single = [] \<or> slash_norm got = slash_norm single)"
  by (auto simp: issuerAllowed_def issuer_loop_iff)

lemma hasRequiredScopes_iff: "hasRequiredScopes toks rs \<longleftrightarrow> set rs \<subseteq> set toks"
  by (induction rs) auto

text \<open>An email has a domain exactly when its trimmed lower-case form has one \<open>@\<close>; the domain is
  what follows it.\<close>

lemma emailDomain_iff:
  "emailDomain U e = d \<and> d \<noteq> [] \<longleftrightarrow>
     d \<noteq> [] \<and> CHR ''@'' \<notin> set d \<and>
     (\<exists>l. CHR ''@'' \<notin> set l \<and> ToLower U (TrimSpace e) = l @ ''@'' @ d)"
proof -
  let ?s = "ToLower U (TrimSpace e)"
  have "d \<noteq> [] \<Longrightarrow> emailDomain U e = d \<longleftrightarrow> (\<exists>l. Split ?s (CHR ''@'') = [l, d])"
    by (auto simp: emailDomain_def Let_def length_Suc_conv numeral_2_eq_2)
  moreover have "Split ?s (CHR ''@'') = [l, d] \<longleftrightarrow>
      CHR ''@'' \<notin> set l \<and> CHR ''@'' \<notin> set d \<and> ?s = l @ ''@'' @ d" for l
    using Split_no_sep [of _ ?s "CHR ''@''"] Split_Join [of ?s "CHR ''@''"]
    by (auto simp: Split_append_sep Split_single)
  ultimately show ?thesis by blast
qed

end
