(* ===== verification/Oauth_Config.thy ===== *)
theory Oauth_Config
  imports Go_Strings
begin

text \<open>
  \<open>config.go\<close>: the operator's configuration, the mode and its normal form, and the cross-field
  checks of \<open>Config.Validate\<close>. Durations are nanoseconds, as \<open>time.Duration\<close>. The logger and the
  HTTP client are not part of the record: logging has no effect on what the code returns, and
  the client is the environment's network. Shown: \<open>Validate\<close> accepts exactly the
  configurations its documentation describes.
\<close>

definition second :: int where "second = 1000000000"
definition minute :: int where "minute = 60 * second"
definition hour :: int where "hour = 60 * minute"

definition ModeForward :: string where "ModeForward = ''forward''"
definition ModeGating :: string where "ModeGating = ''gating''"

definition Normalize :: "unicode \<Rightarrow> string \<Rightarrow> string" where
  "Normalize U m =
    (let l = ToLower U (TrimSpace m) in
     if l = ModeForward then ModeForward
     else if l = ModeGating \<or> l = [] then ModeGating
     else m)"

definition IsForward :: "unicode \<Rightarrow> string \<Rightarrow> bool" where
  "IsForward U m \<longleftrightarrow> Normalize U m = ModeForward"

definition IsGating :: "unicode \<Rightarrow> string \<Rightarrow> bool" where
  "IsGating U m \<longleftrightarrow> Normalize U m = ModeGating"

record config =
  cfg_Mode :: string
  cfg_BrokerUpstream :: bool
  cfg_Issuer :: string
  cfg_JWKSURL :: string
  cfg_Audience :: string
  cfg_ClientID :: string
  cfg_ClientSecret :: string
  cfg_AuthURL :: string
  cfg_TokenURL :: string
  cfg_UserInfoURL :: string
  cfg_Scopes :: "string list"
  cfg_RequiredScopes :: "string list"
  cfg_SigningSecret :: string
  cfg_PublicResourceURL :: string
  cfg_PublicAuthServerURL :: string
  cfg_AllowedEmailDomains :: "string list"
  cfg_AllowedHostedDomains :: "string list"
  cfg_AllowUnverifiedEmail :: bool
  cfg_UpstreamIssuerAllowlist :: "string list"
  cfg_UpstreamOfflineAccess :: bool
  cfg_UpstreamForceConsent :: bool
  cfg_AccessTokenTTL :: int
  cfg_RefreshTokenTTL :: int
  cfg_AuthorizationPath :: string
  cfg_CallbackPath :: string
  cfg_TokenPath :: string

definition zero_config :: config where
  "zero_config = \<lparr>cfg_Mode = [], cfg_BrokerUpstream = False, cfg_Issuer = [], cfg_JWKSURL = [],
     cfg_Audience = [], cfg_ClientID = [], cfg_ClientSecret = [], cfg_AuthURL = [],
     cfg_TokenURL = [], cfg_UserInfoURL = [], cfg_Scopes = [], cfg_RequiredScopes = [],
     cfg_SigningSecret = [], cfg_PublicResourceURL = [], cfg_PublicAuthServerURL = [],
     cfg_AllowedEmailDomains = [], cfg_AllowedHostedDomains = [], cfg_AllowUnverifiedEmail = False,
     cfg_UpstreamIssuerAllowlist = [], cfg_UpstreamOfflineAccess = False,
     cfg_UpstreamForceConsent = False, cfg_AccessTokenTTL = 0, cfg_RefreshTokenTTL = 0,
     cfg_AuthorizationPath = [], cfg_CallbackPath = [], cfg_TokenPath = []\<rparr>"

datatype config_error =
    UnknownMode string
  | ClientIDRequired
  | IssuerOrURLsRequired
  | SigningSecretRequired
  | IssuerOrJWKSRequired
  | ForbiddenInPureGating string

text \<open>The loop over the broker-only settings: the first one that is set is the error.\<close>

fun check_forbidden :: "(string \<times> string) list \<Rightarrow> (config_error, unit) result" where
  "check_forbidden [] = Inr ()"
| "check_forbidden ((name, val) # fs) =
    (if TrimSpace val \<noteq> [] then Inl (ForbiddenInPureGating name) else check_forbidden fs)"

definition forbidden_settings :: "config \<Rightarrow> (string \<times> string) list" where
  "forbidden_settings c =
    [(''client_secret'', cfg_ClientSecret c), (''token_url'', cfg_TokenURL c),
     (''auth_url'', cfg_AuthURL c), (''userinfo_url'', cfg_UserInfoURL c),
     (''public_auth_server_url'', cfg_PublicAuthServerURL c)]"

definition Validate_config :: "unicode \<Rightarrow> config \<Rightarrow> (config_error, unit) result" where
  "Validate_config U c =
    (let m = Normalize U (cfg_Mode c) in
     if m \<noteq> ModeForward \<and> m \<noteq> ModeGating then Inl (UnknownMode (cfg_Mode c))
     else
       (let broker = (m = ModeForward \<or> (m = ModeGating \<and> cfg_BrokerUpstream c)) in
        if broker then
          (if TrimSpace (cfg_ClientID c) = [] then Inl ClientIDRequired
           else if TrimSpace (cfg_Issuer c) = []
                   \<and> (TrimSpace (cfg_AuthURL c) = [] \<or> TrimSpace (cfg_TokenURL c) = [])
             then Inl IssuerOrURLsRequired
           else if length (cfg_SigningSecret c) = 0 then Inl SigningSecretRequired
           else Inr ())
        else
          (if TrimSpace (cfg_Issuer c) = [] \<and> TrimSpace (cfg_JWKSURL c) = []
           then Inl IssuerOrJWKSRequired
           else check_forbidden (forbidden_settings c))))"

definition defaultAccessTokenTTL :: int where "defaultAccessTokenTTL = hour"
definition defaultRefreshTokenTTL :: int where "defaultRefreshTokenTTL = 30 * 24 * hour"
definition defaultJWKSCacheTTL :: int where "defaultJWKSCacheTTL = 5 * minute"
definition defaultClockSkewSeconds :: int where "defaultClockSkewSeconds = 60"

definition accessTokenTTL :: "config \<Rightarrow> int" where
  "accessTokenTTL c = (if 0 < cfg_AccessTokenTTL c then cfg_AccessTokenTTL c else defaultAccessTokenTTL)"

definition refreshTokenTTL :: "config \<Rightarrow> int" where
  "refreshTokenTTL c = (if 0 < cfg_RefreshTokenTTL c then cfg_RefreshTokenTTL c else defaultRefreshTokenTTL)"

definition brokerActive :: "unicode \<Rightarrow> config \<Rightarrow> bool" where
  "brokerActive U c =
    (let m = Normalize U (cfg_Mode c) in
     if m = ModeForward then True else m = ModeGating \<and> cfg_BrokerUpstream c)"

subsection \<open>Facts\<close>

lemma mode_neq [simp]: "ModeForward \<noteq> ModeGating" "ModeGating \<noteq> ModeForward"
  by (simp_all add: ModeForward_def ModeGating_def)

lemma accessTokenTTL_pos: "0 < accessTokenTTL c"
  by (simp add: accessTokenTTL_def defaultAccessTokenTTL_def hour_def minute_def second_def)

lemma check_forbidden_ok:
  "check_forbidden fs = Inr () \<longleftrightarrow> (\<forall>(name, val) \<in> set fs. TrimSpace val = [])"
  by (induction fs rule: check_forbidden.induct) auto

lemma brokerActive_iff:
  "brokerActive U c \<longleftrightarrow> IsForward U (cfg_Mode c) \<or> (IsGating U (cfg_Mode c) \<and> cfg_BrokerUpstream c)"
  by (auto simp: brokerActive_def IsForward_def IsGating_def Let_def)

lemma forward_normal: "Normalize U ModeForward = ModeForward"
proof -
  have t: "TrimSpace ModeForward = ModeForward" by code_simp
  have r: "runes ModeForward = [102, 111, 114, 119, 97, 114, 100]" "of_runes [102, 111, 114, 119, 97, 114, 100] = ModeForward"
    by code_simp+
  have "ToLower U ModeForward = ModeForward"
    by (simp add: ToLower_def r lower_rune_def)
  then show ?thesis by (simp add: Normalize_def t)
qed

text \<open>C38. The configurations that are accepted. The mode is forward or gating; a broker (forward mode, or gating
  with the upstream broker) has a client identifier, a signing secret, and an issuer or both
  upstream URLs; a pure resource server, which exists in gating mode only, has an issuer or a key-set URL, and none of
  the broker-only settings. So no audience and no client secret is ever required, although the README lists
  both as required; and the README's example of a resource server without a broker, in forward mode with an issuer and
  an audience only, is refused because it has no client identifier.\<close>

theorem Validate_config_iff:
  "(Validate_config U c = Inr () \<longleftrightarrow>
     (IsForward U (cfg_Mode c) \<or> IsGating U (cfg_Mode c)) \<and>
     (if brokerActive U c then
        TrimSpace (cfg_ClientID c) \<noteq> [] \<and> cfg_SigningSecret c \<noteq> [] \<and>
        (TrimSpace (cfg_Issuer c) \<noteq> [] \<or>
         (TrimSpace (cfg_AuthURL c) \<noteq> [] \<and> TrimSpace (cfg_TokenURL c) \<noteq> []))
      else
        (TrimSpace (cfg_Issuer c) \<noteq> [] \<or> TrimSpace (cfg_JWKSURL c) \<noteq> []) \<and>
        list_all (\<lambda>val. TrimSpace val = [])
          [cfg_ClientSecret c, cfg_TokenURL c, cfg_AuthURL c, cfg_UserInfoURL c, cfg_PublicAuthServerURL c])) \<and>
   Validate_config U (zero_config\<lparr>cfg_Mode := ModeForward, cfg_Issuer := issuer, cfg_Audience := audience\<rparr>) =
     Inl ClientIDRequired"
proof
  have "TrimSpace [] = []" by code_simp
  then show "Validate_config U (zero_config\<lparr>cfg_Mode := ModeForward, cfg_Issuer := issuer, cfg_Audience := audience\<rparr>) =
      Inl ClientIDRequired"
    by (simp add: Validate_config_def forward_normal Let_def) (simp add: zero_config_def)
qed (auto simp: Validate_config_def brokerActive_def IsForward_def IsGating_def Let_def
    check_forbidden_ok forbidden_settings_def)

theorem Validate_config_iff_witness:
  "Validate_config \<lparr>uni_lower = id, uni_upper = id, uni_fold = id, uni_print = (\<lambda>_. True)\<rparr>
     (zero_config\<lparr>cfg_Mode := '' Gating'', cfg_Issuer := ''https://idp.example''\<rparr>) = Inr ()"
  unfolding Validate_config_iff [THEN conjunct1] by code_simp

end
