(* ===== verification/Oauth_Jwe.thy ===== *)
theory Oauth_Jwe
  imports Go_Json_Laws Oauth_Claims Oauth_Config
begin

text \<open>
  \<open>jwe.go\<close>: the encrypted artifacts the broker hands out instead of keeping state. Encryption
  (go-jose: A256KW and A256GCM, compact serialisation) and HKDF (golang.org/x/crypto) are
  library code: the record \<open>jose\<close>, an argument. What the code relies on is \<open>jose_correct\<close>
  (decryption inverts encryption, a wrong key is refused, HKDF gives 32 bytes) and
  \<open>hkdf_separates\<close> (the three labels give three keys). Shown: what decodeJWE accepts, that it
  reads back what encodeJWE wrote until the artifact expires, and that an artifact of one kind
  is never read as another.
\<close>

record jose =
  jose_hkdf :: "string \<Rightarrow> string \<Rightarrow> string"
  jose_encrypt :: "nat \<Rightarrow> string \<Rightarrow> string \<Rightarrow> string \<Rightarrow> string option"
  jose_parse :: "string \<Rightarrow> (string \<times> string) option"
  jose_decrypt :: "string \<Rightarrow> string \<Rightarrow> string option"

text \<open>\<open>jose_encrypt n key kid plaintext\<close> is the compact serialisation (\<open>n\<close> numbers the random
  choices); \<open>jose_parse token\<close> the \<open>kid\<close> header and the ciphertext of a token whose algorithms
  are the two allowed ones; \<open>jose_decrypt key ciphertext\<close> the plaintext.\<close>

definition jweKidV1 :: string where "jweKidV1 = ''v1''"
definition hkdfInfoPendingAuth :: string where
  "hkdfInfoPendingAuth = ''altinity-mcp/oauth/pending-auth/v1''"
definition hkdfInfoAuthCode :: string where
  "hkdfInfoAuthCode = ''altinity-mcp/oauth/auth-code/v2''"
definition hkdfInfoDownstreamToken :: string where
  "hkdfInfoDownstreamToken = ''altinity-mcp/oauth/downstream-token/v1''"

definition deriveKey :: "jose \<Rightarrow> string \<Rightarrow> string \<Rightarrow> string" where
  "deriveKey J secret info = jose_hkdf J secret info"

definition encodeJWE :: "jose \<Rightarrow> nat \<Rightarrow> string \<Rightarrow> string \<Rightarrow> jmap \<Rightarrow> string option" where
  "encodeJWE J n secret info claims =
    (let key = deriveKey J secret info in
     Option.bind (marshal_map claims) (\<lambda>plaintext. jose_encrypt J n key jweKidV1 plaintext))"

definition jweAllowedClaimKeys :: "string list" where
  "jweAllowedClaimKeys =
    [''iss'', ''sub'', ''aud'', ''exp'', ''nbf'', ''iat'', ''jti'',
     ''client_id'', ''redirect_uri'', ''redirect_uris'', ''scope'', ''client_state'',
     ''code_challenge'', ''code_challenge_method'', ''resource'', ''upstream_auth_code'',
     ''upstream_pkce_verifier'', ''upstream_bearer_token'', ''upstream_id_token'',
     ''upstream_refresh_token'', ''upstream_token_type'', ''token_endpoint_auth_method'',
     ''grant_type'', ''access_token_exp'', ''email'', ''name'', ''hd'', ''email_verified'']"

fun validateJWEClaimsWhitelist :: "jmap \<Rightarrow> (oauth_error, unit) result" where
  "validateJWEClaimsWhitelist [] = Inr ()"
| "validateJWEClaimsWhitelist ((k, v) # cs) =
    (if k \<notin> set jweAllowedClaimKeys then Inl (ErrOther (''disallowed claim key '' @ k))
     else validateJWEClaimsWhitelist cs)"

text \<open>Times are nanoseconds since 1970. \<open>time.Unix\<close> counts seconds since year 1 in an \<open>int64\<close>, so a
  value near its limits wraps around, and the method \<open>Unix\<close> subtracts the offset again.\<close>

definition unixToInternal :: int where "unixToInternal = 62135596800"

definition time_Unix :: "int \<Rightarrow> int" where
  "time_Unix sec = (wrap64 (sec + unixToInternal) - unixToInternal) * second"

definition Unix :: "int \<Rightarrow> int" where
  "Unix t = wrap64 (t div second)"

definition validateJWEExpiration :: "(float64 \<Rightarrow> int) \<Rightarrow> int \<Rightarrow> jmap \<Rightarrow> (oauth_error, unit) result" where
  "validateJWEExpiration oor now claims =
    (case map_of claims ''exp'' of
       None \<Rightarrow> Inr ()
     | Some v \<Rightarrow>
       (case (case v of AFloat f \<Rightarrow> Some (int64_of_f64 oor f) | AInt i \<Rightarrow> Some i | _ \<Rightarrow> None) of
          None \<Rightarrow> Inl ErrInvalidToken
        | Some expTime \<Rightarrow> if expTime < Unix now then Inl ErrInvalidToken else Inr ()))"

definition decodeJWE ::
  "jose \<Rightarrow> (float64 \<Rightarrow> int) \<Rightarrow> int \<Rightarrow> string \<Rightarrow> string \<Rightarrow> string \<Rightarrow> (oauth_error, jmap) result" where
  "decodeJWE J oor now secret info token =
    (case jose_parse J token of
       None \<Rightarrow> Inl ErrInvalidToken
     | Some (kid, obj) \<Rightarrow>
       if kid \<noteq> jweKidV1 then Inl ErrInvalidToken
       else case jose_decrypt J (deriveKey J secret info) obj of
         None \<Rightarrow> Inl ErrInvalidToken
       | Some decrypted \<Rightarrow>
         (case unmarshal_map decrypted of
            None \<Rightarrow> Inl ErrInvalidToken
          | Some claims \<Rightarrow>
            (case validateJWEClaimsWhitelist claims of
               Inl e \<Rightarrow> Inl e
             | Inr _ \<Rightarrow>
               (case validateJWEExpiration oor now claims of
                  Inl e \<Rightarrow> Inl e
                | Inr _ \<Rightarrow> Inr claims))))"

subsection \<open>What the code relies on\<close>

definition jose_correct :: "jose \<Rightarrow> bool" where
  "jose_correct J \<longleftrightarrow>
     (\<forall>secret info. length (jose_hkdf J secret info) = 32) \<and>
     (\<forall>n key p. length key = 32 \<longrightarrow> jose_encrypt J n key jweKidV1 p \<noteq> None) \<and>
     (\<forall>n key p t. jose_encrypt J n key jweKidV1 p = Some t \<longrightarrow>
        (\<exists>obj. jose_parse J t = Some (jweKidV1, obj) \<and> jose_decrypt J key obj = Some p \<and>
               (\<forall>key'. key' \<noteq> key \<longrightarrow> jose_decrypt J key' obj = None)))"

definition hkdf_separates :: "jose \<Rightarrow> string \<Rightarrow> bool" where
  "hkdf_separates J secret \<longleftrightarrow>
     distinct [jose_hkdf J secret hkdfInfoPendingAuth, jose_hkdf J secret hkdfInfoAuthCode,
               jose_hkdf J secret hkdfInfoDownstreamToken]"

text \<open>A concrete scheme that meets both, to instantiate them: the token carries kid, key and
  plaintext in the clear, and HKDF tells labels apart by their length.\<close>

definition plain_jose :: jose where
  "plain_jose =
    \<lparr>jose_hkdf = (\<lambda>secret info. replicate 32 (chr (length info))),
     jose_encrypt = (\<lambda>n key kid p. if length key = 32 \<and> length kid = 2 then Some (kid @ key @ p) else None),
     jose_parse = (\<lambda>t. Some (take 2 t, drop 2 t)),
     jose_decrypt = (\<lambda>key obj. if length key = 32 \<and> take 32 obj = key then Some (drop 32 obj) else None)\<rparr>"

lemma plain_jose_correct: "jose_correct plain_jose"
  by (auto simp: jose_correct_def plain_jose_def jweKidV1_def)

lemma plain_jose_separates: "hkdf_separates plain_jose secret"
  by (auto simp: hkdf_separates_def plain_jose_def hkdfInfoPendingAuth_def hkdfInfoAuthCode_def
      hkdfInfoDownstreamToken_def)

subsection \<open>Decoding what was encoded\<close>

lemma whitelist_ok:
  "validateJWEClaimsWhitelist cs = Inr () \<longleftrightarrow> set (map fst cs) \<subseteq> set jweAllowedClaimKeys"
  by (induction cs rule: validateJWEClaimsWhitelist.induct) auto

lemma whitelist_cases:
  "validateJWEClaimsWhitelist cs = Inr () \<or> (\<exists>e. validateJWEClaimsWhitelist cs = Inl e)"
  by (cases "validateJWEClaimsWhitelist cs") auto

text \<open>Claims of an artifact: distinct ASCII keys of the whitelist, string and integer values.\<close>

definition artifact_claims :: "jmap \<Rightarrow> bool" where
  "artifact_claims cs \<longleftrightarrow>
     list_all (claim_value \<circ> snd) cs \<and> distinct (map fst cs) \<and> list_all (ascii \<circ> fst) cs \<and>
     set (map fst cs) \<subseteq> set jweAllowedClaimKeys"

lemma jose_correctD:
  assumes "jose_correct J" and "jose_encrypt J n key jweKidV1 p = Some t"
  obtains obj where "jose_parse J t = Some (jweKidV1, obj)" and "jose_decrypt J key obj = Some p"
    and "\<And>key'. key' \<noteq> key \<Longrightarrow> jose_decrypt J key' obj = None"
  using assms unfolding jose_correct_def by metis

lemma encodeJWE_total:
  assumes "jose_correct J" "artifact_claims cs"
  obtains t where "encodeJWE J n secret info cs = Some t"
proof -
  obtain p where "marshal_map cs = Some p"
    using assms(2) by (auto simp: artifact_claims_def elim: unmarshal_marshal)
  moreover have "jose_encrypt J n (deriveKey J secret info) jweKidV1 p \<noteq> None"
    using assms(1) by (simp add: jose_correct_def deriveKey_def)
  ultimately show ?thesis by (auto simp: encodeJWE_def Let_def intro: that)
qed

lemma exp_reread:
  assumes "\<bar>i\<bar> < 2 ^ 53"
  shows "case reread (AInt i) of AFloat f \<Rightarrow> int64_of_f64 oor f = i | _ \<Rightarrow> False"
proof -
  obtain f where "reread (AInt i) = AFloat f" "f64_trunc f = i"
    using assms by (rule reread_AInt)
  moreover have "min_int64 \<le> i" "i \<le> max_int64"
    using assms by (simp_all add: min_int64_def max_int64_def)
  ultimately show ?thesis by (simp add: int64_of_f64_def del: reread.simps)
qed

lemma expiration_reread:
  assumes "map_of cs ''exp'' = Some (AInt i)" "\<bar>i\<bar> < 2 ^ 53"
    and "map_of cs' = map_option reread \<circ> map_of cs"
  shows "validateJWEExpiration oor now cs' = (if i < Unix now then Inl ErrInvalidToken else Inr ())"
  using assms exp_reread [OF assms(2), of oor]
  by (auto simp: validateJWEExpiration_def split: any.splits simp del: reread.simps)

text \<open>A token encodeJWE made, decoded with the same secret and label: its claims as JSON reads
  them back, or ErrInvalidToken once the clock has passed \<open>exp\<close>.\<close>

lemma decode_encodeJWE:
  assumes J: "jose_correct J" and cs: "artifact_claims cs"
    and exp: "map_of cs ''exp'' = Some (AInt i)"
    and enc: "encodeJWE J n secret info cs = Some t"
  obtains cs' where "map_of cs' = map_option reread \<circ> map_of cs"
    and "decodeJWE J oor now secret info t =
           (if i < Unix now then Inl ErrInvalidToken else Inr cs')"
proof -
  obtain p cs' where p: "marshal_map cs = Some p" "unmarshal_map p = Some cs'"
    and m: "map_of cs' = map_option reread \<circ> map_of cs" and k: "set (map fst cs') = set (map fst cs)"
    using cs unfolding artifact_claims_def by (metis unmarshal_marshal)
  from enc p have "jose_encrypt J n (deriveKey J secret info) jweKidV1 p = Some t"
    by (simp add: encodeJWE_def Let_def)
  with J obtain obj where "jose_parse J t = Some (jweKidV1, obj)"
    "jose_decrypt J (deriveKey J secret info) obj = Some p"
    by (rule jose_correctD)
  moreover have "validateJWEClaimsWhitelist cs' = Inr ()"
    using cs k by (simp add: whitelist_ok artifact_claims_def)
  moreover have "\<bar>i\<bar> < 2 ^ 53"
    using cs exp by (auto simp: artifact_claims_def list_all_iff dest: map_of_SomeD)
  ultimately have "decodeJWE J oor now secret info t =
      (if i < Unix now then Inl ErrInvalidToken else Inr cs')"
    using p expiration_reread [OF exp _ m, of oor now] by (simp add: decodeJWE_def)
  with m show ?thesis by (rule that)
qed

text \<open>With another key (another secret or another label) the token is refused.\<close>

lemma decodeJWE_other_key:
  assumes "jose_correct J" and "encodeJWE J n secret info cs = Some t"
    and "deriveKey J secret' info' \<noteq> deriveKey J secret info"
  shows "decodeJWE J oor now secret' info' t = Inl ErrInvalidToken"
proof -
  obtain p where "jose_encrypt J n (deriveKey J secret info) jweKidV1 p = Some t"
    using assms(2) by (auto simp: encodeJWE_def Let_def bind_eq_Some_conv)
  with assms(1,3) obtain obj where "jose_parse J t = Some (jweKidV1, obj)"
    "jose_decrypt J (deriveKey J secret' info') obj = None"
    by (metis jose_correctD)
  then show ?thesis by (simp add: decodeJWE_def)
qed

text \<open>Whatever decodeJWE returns has only allowed keys, and an \<open>exp\<close>, if present, that is a
  number not in the past.\<close>

lemma decodeJWE_ok:
  assumes "decodeJWE J oor now secret info t = Inr cs"
  shows "set (map fst cs) \<subseteq> set jweAllowedClaimKeys"
    and "validateJWEExpiration oor now cs = Inr ()"
  using assms whitelist_ok [of cs]
  by (auto simp: decodeJWE_def split: option.splits prod.splits if_splits sum.splits)

end
