(* ===== verification/Oauth_State.thy ===== *)
theory Oauth_State
  imports Oauth_Jwe
begin

text \<open>
  \<open>broker_state.go\<close> and \<open>downstream_token.go\<close>: the three artifacts the broker encrypts, the
  pending authorization (the upstream \<open>state\<close> parameter), the authorization code, and the
  downstream access token. Times are nanoseconds since the epoch. The locale \<open>artifact\<close> states
  what an artifact promises its users; the three kinds are its interpretations.
\<close>

record pendingAuth =
  pa_ClientID :: string
  pa_RedirectURI :: string
  pa_Scope :: string
  pa_ClientState :: string
  pa_CodeChallenge :: string
  pa_CodeChallengeMethod :: string
  pa_Resource :: string
  pa_UpstreamPKCEVerifier :: string
  pa_ExpiresAt :: int

record issuedCode =
  ic_ClientID :: string
  ic_RedirectURI :: string
  ic_Scope :: string
  ic_CodeChallenge :: string
  ic_CodeChallengeMethod :: string
  ic_Resource :: string
  ic_UpstreamAuthCode :: string
  ic_UpstreamPKCEVerifier :: string
  ic_ExpiresAt :: int

definition pendingAuth_claims :: "pendingAuth \<Rightarrow> jmap" where
  "pendingAuth_claims p =
    [(''client_id'', AString (pa_ClientID p)),
     (''redirect_uri'', AString (pa_RedirectURI p)),
     (''scope'', AString (pa_Scope p)),
     (''client_state'', AString (pa_ClientState p)),
     (''code_challenge'', AString (pa_CodeChallenge p)),
     (''code_challenge_method'', AString (pa_CodeChallengeMethod p)),
     (''resource'', AString (pa_Resource p)),
     (''upstream_pkce_verifier'', AString (pa_UpstreamPKCEVerifier p)),
     (''exp'', AInt (Unix (pa_ExpiresAt p)))]"

definition encodePendingAuth :: "jose \<Rightarrow> nat \<Rightarrow> string \<Rightarrow> pendingAuth \<Rightarrow> string option" where
  "encodePendingAuth J n secret p = encodeJWE J n secret hkdfInfoPendingAuth (pendingAuth_claims p)"

definition stringFromClaims :: "jmap \<Rightarrow> string \<Rightarrow> string" where
  "stringFromClaims claims key = (case map_of claims key of Some (AString v) \<Rightarrow> v | _ \<Rightarrow> [])"

text \<open>The zero \<open>time.Time\<close>: January 1, year 1.\<close>

definition zero_time :: int where
  "zero_time = - 62135596800 * second"

definition unixFromClaims :: "(float64 \<Rightarrow> int) \<Rightarrow> jmap \<Rightarrow> string \<Rightarrow> int" where
  "unixFromClaims oor claims key =
    (case map_of claims key of
       Some (AFloat f) \<Rightarrow> time_Unix (int64_of_f64 oor f)
     | Some (AInt i) \<Rightarrow> time_Unix i
     | _ \<Rightarrow> zero_time)"

definition pendingAuth_of :: "(float64 \<Rightarrow> int) \<Rightarrow> jmap \<Rightarrow> pendingAuth" where
  "pendingAuth_of oor claims =
    \<lparr>pa_ClientID = stringFromClaims claims ''client_id'',
     pa_RedirectURI = stringFromClaims claims ''redirect_uri'',
     pa_Scope = stringFromClaims claims ''scope'',
     pa_ClientState = stringFromClaims claims ''client_state'',
     pa_CodeChallenge = stringFromClaims claims ''code_challenge'',
     pa_CodeChallengeMethod = stringFromClaims claims ''code_challenge_method'',
     pa_Resource = stringFromClaims claims ''resource'',
     pa_UpstreamPKCEVerifier = stringFromClaims claims ''upstream_pkce_verifier'',
     pa_ExpiresAt = unixFromClaims oor claims ''exp''\<rparr>"

definition decodePendingAuth ::
  "jose \<Rightarrow> (float64 \<Rightarrow> int) \<Rightarrow> int \<Rightarrow> string \<Rightarrow> string \<Rightarrow> pendingAuth option" where
  "decodePendingAuth J oor now secret token =
    (if length secret = 0 then None
     else case decodeJWE J oor now secret hkdfInfoPendingAuth token of
       Inl _ \<Rightarrow> None
     | Inr claims \<Rightarrow> Some (pendingAuth_of oor claims))"

definition issuedCode_claims :: "issuedCode \<Rightarrow> jmap" where
  "issuedCode_claims c =
    [(''client_id'', AString (ic_ClientID c)),
     (''redirect_uri'', AString (ic_RedirectURI c)),
     (''scope'', AString (ic_Scope c)),
     (''code_challenge'', AString (ic_CodeChallenge c)),
     (''code_challenge_method'', AString (ic_CodeChallengeMethod c)),
     (''resource'', AString (ic_Resource c)),
     (''upstream_auth_code'', AString (ic_UpstreamAuthCode c)),
     (''upstream_pkce_verifier'', AString (ic_UpstreamPKCEVerifier c)),
     (''exp'', AInt (Unix (ic_ExpiresAt c)))]"

definition encodeAuthCode :: "jose \<Rightarrow> nat \<Rightarrow> string \<Rightarrow> issuedCode \<Rightarrow> string option" where
  "encodeAuthCode J n secret c = encodeJWE J n secret hkdfInfoAuthCode (issuedCode_claims c)"

definition issuedCode_of :: "(float64 \<Rightarrow> int) \<Rightarrow> jmap \<Rightarrow> issuedCode" where
  "issuedCode_of oor claims =
    \<lparr>ic_ClientID = stringFromClaims claims ''client_id'',
     ic_RedirectURI = stringFromClaims claims ''redirect_uri'',
     ic_Scope = stringFromClaims claims ''scope'',
     ic_CodeChallenge = stringFromClaims claims ''code_challenge'',
     ic_CodeChallengeMethod = stringFromClaims claims ''code_challenge_method'',
     ic_Resource = stringFromClaims claims ''resource'',
     ic_UpstreamAuthCode = stringFromClaims claims ''upstream_auth_code'',
     ic_UpstreamPKCEVerifier = stringFromClaims claims ''upstream_pkce_verifier'',
     ic_ExpiresAt = unixFromClaims oor claims ''exp''\<rparr>"

definition decodeAuthCode ::
  "jose \<Rightarrow> (float64 \<Rightarrow> int) \<Rightarrow> int \<Rightarrow> string \<Rightarrow> string \<Rightarrow> issuedCode option" where
  "decodeAuthCode J oor now secret token =
    (if length secret = 0 then None
     else case decodeJWE J oor now secret hkdfInfoAuthCode token of
       Inl _ \<Rightarrow> None
     | Inr claims \<Rightarrow> Some (issuedCode_of oor claims))"

definition downstream_claims :: "string \<times> int \<Rightarrow> jmap" where
  "downstream_claims d =
    [(''upstream_id_token'', AString (fst d)), (''exp'', AInt (Unix (snd d)))]"

definition encodeDownstreamAccessToken :: "jose \<Rightarrow> nat \<Rightarrow> string \<Rightarrow> string \<Rightarrow> int \<Rightarrow> string option" where
  "encodeDownstreamAccessToken J n secret upstreamIDToken exp =
    encodeJWE J n secret hkdfInfoDownstreamToken (downstream_claims (upstreamIDToken, exp))"

definition decodeDownstreamAccessToken ::
  "jose \<Rightarrow> (float64 \<Rightarrow> int) \<Rightarrow> int \<Rightarrow> string \<Rightarrow> string \<Rightarrow> (oauth_error, string) result" where
  "decodeDownstreamAccessToken J oor now secret token =
    (case decodeJWE J oor now secret hkdfInfoDownstreamToken token of
       Inl e \<Rightarrow> Inl e
     | Inr claims \<Rightarrow>
       (let idToken = string_claim (map_of claims ''upstream_id_token'') in
        if idToken = [] then Inl ErrInvalidToken else Inr idToken))"

subsection \<open>The contract of an artifact\<close>

text \<open>What the handlers rely on: \<open>enc\<close> always produces a token; \<open>dec\<close> with the same secret gives
  back the content (as JSON reads it back) up to and including the second of its expiry, and
  nothing later; tokens made under another label are refused.\<close>

locale artifact =
  fixes enc :: "jose \<Rightarrow> nat \<Rightarrow> string \<Rightarrow> 'a \<Rightarrow> string option"
    and dec :: "jose \<Rightarrow> (float64 \<Rightarrow> int) \<Rightarrow> int \<Rightarrow> string \<Rightarrow> string \<Rightarrow> 'b option"
    and label :: string
    and to_claims :: "'a \<Rightarrow> jmap"
    and of_claims :: "(float64 \<Rightarrow> int) \<Rightarrow> jmap \<Rightarrow> 'b option"
    and expiry :: "'a \<Rightarrow> int"
  assumes enc_jwe: "enc J n s a = encodeJWE J n s label (to_claims a)"
    and dec_jwe: "s \<noteq> [] \<Longrightarrow> dec J oor now s t =
      (case decodeJWE J oor now s label t of Inl e \<Rightarrow> None | Inr cs \<Rightarrow> of_claims oor cs)"
    and claims_ok: "\<bar>Unix (expiry a)\<bar> < 2 ^ 53 \<Longrightarrow> artifact_claims (to_claims a)"
    and claims_exp: "map_of (to_claims a) ''exp'' = Some (AInt (Unix (expiry a)))"
    and of_claims_ext: "map_of cs = map_of cs' \<Longrightarrow> of_claims oor cs = of_claims oor cs'"
begin

definition content :: "(float64 \<Rightarrow> int) \<Rightarrow> 'a \<Rightarrow> 'b option" where
  "content oor a = of_claims oor (map (\<lambda>(k, v). (k, reread v)) (to_claims a))"

lemma mints:
  assumes "jose_correct J" "\<bar>Unix (expiry a)\<bar> < 2 ^ 53"
  shows "\<exists>t. enc J n s a = Some t"
  using encodeJWE_total [OF assms(1) claims_ok [OF assms(2)]] enc_jwe by metis

lemma decodes:
  assumes "jose_correct J" "\<bar>Unix (expiry a)\<bar> < 2 ^ 53" "s \<noteq> []" "enc J n s a = Some t"
  shows "dec J oor now s t = (if Unix (expiry a) < Unix now then None else content oor a)"
proof -
  obtain cs where cs: "map_of cs = map_option reread \<circ> map_of (to_claims a)"
    and d: "decodeJWE J oor now s label t =
      (if Unix (expiry a) < Unix now then Inl ErrInvalidToken else Inr cs)"
    using decode_encodeJWE [OF assms(1) claims_ok [OF assms(2)] claims_exp] assms(4) enc_jwe
    by metis
  have "map_of (map (\<lambda>(k, v). (k, reread v)) (to_claims a)) = map_of cs"
    by (simp add: cs map_of_map fun_eq_iff)
  then have "of_claims oor cs = content oor a"
    unfolding content_def by (intro of_claims_ext) simp
  with d show ?thesis using assms(3) by (simp add: dec_jwe)
qed

lemma rejects_other_key:
  assumes "jose_correct J" "encodeJWE J n s' label' cs = Some t" "s \<noteq> []"
    and "deriveKey J s label \<noteq> deriveKey J s' label'"
  shows "dec J oor now s t = None"
  using decodeJWE_other_key [OF assms(1,2,4)] assms(3) by (simp add: dec_jwe)

end

lemma allowed_keys_ascii: "list_all ascii jweAllowedClaimKeys"
  by (simp add: jweAllowedClaimKeys_def ascii_def)

lemma artifact_claimsI:
  assumes "list_all (claim_value \<circ> snd) cs" "distinct (map fst cs)"
    and "set (map fst cs) \<subseteq> set jweAllowedClaimKeys"
  shows "artifact_claims cs"
  using assms allowed_keys_ascii by (auto simp: artifact_claims_def list_all_iff)

lemmas claim_readers = stringFromClaims_def unixFromClaims_def string_claim_def

interpretation pending: artifact encodePendingAuth decodePendingAuth hkdfInfoPendingAuth
  pendingAuth_claims "\<lambda>oor cs. Some (pendingAuth_of oor cs)" pa_ExpiresAt
proof (unfold_locales, goal_cases)
  case 1 show ?case by (simp add: encodePendingAuth_def)
next
  case 2 then show ?case by (simp add: decodePendingAuth_def)
next
  case 3 then show ?case
    by (intro artifact_claimsI) (simp_all add: pendingAuth_claims_def jweAllowedClaimKeys_def)
next
  case 4 show ?case by (simp add: pendingAuth_claims_def)
next
  case 5 then show ?case by (simp add: pendingAuth_of_def claim_readers)
qed

interpretation code: artifact encodeAuthCode decodeAuthCode hkdfInfoAuthCode
  issuedCode_claims "\<lambda>oor cs. Some (issuedCode_of oor cs)" ic_ExpiresAt
proof (unfold_locales, goal_cases)
  case 1 show ?case by (simp add: encodeAuthCode_def)
next
  case 2 then show ?case by (simp add: decodeAuthCode_def)
next
  case 3 then show ?case
    by (intro artifact_claimsI) (simp_all add: issuedCode_claims_def jweAllowedClaimKeys_def)
next
  case 4 show ?case by (simp add: issuedCode_claims_def)
next
  case 5 then show ?case by (simp add: issuedCode_of_def claim_readers)
qed

definition downstream_of :: "(float64 \<Rightarrow> int) \<Rightarrow> jmap \<Rightarrow> string option" where
  "downstream_of oor cs =
    (let t = string_claim (map_of cs ''upstream_id_token'') in if t = [] then None else Some t)"

interpretation downstream: artifact "\<lambda>J n s (tok, exp). encodeDownstreamAccessToken J n s tok exp"
  "\<lambda>J oor now s t. case decodeDownstreamAccessToken J oor now s t of Inl _ \<Rightarrow> None | Inr x \<Rightarrow> Some x"
  hkdfInfoDownstreamToken downstream_claims downstream_of snd
proof (unfold_locales, goal_cases)
  case (1 J n s a) show ?case by (cases a) (simp add: encodeDownstreamAccessToken_def)
next
  case 2 then show ?case
    by (simp add: decodeDownstreamAccessToken_def downstream_of_def Let_def split: sum.split)
next
  case 3 then show ?case
    by (intro artifact_claimsI) (simp_all add: downstream_claims_def jweAllowedClaimKeys_def)
next
  case 4 show ?case by (simp add: downstream_claims_def)
next
  case 5 then show ?case by (simp add: downstream_of_def claim_readers)
qed

subsection \<open>What comes back\<close>

lemma exp_reread_time:
  assumes "\<bar>i\<bar> < 2 ^ 53"
  shows "(case reread (AInt i) of AFloat f \<Rightarrow> time_Unix (int64_of_f64 oor f) | AInt j \<Rightarrow> time_Unix j
          | _ \<Rightarrow> zero_time) = i * second"
proof -
  have "time_Unix i = i * second"
    using assms by (simp add: time_Unix_def unixToInternal_def wrap64_def)
  then show ?thesis using exp_reread [OF assms, of oor] by (simp split: any.splits del: reread.simps)
qed

text \<open>The pending authorization as it is read back: strings with ill-formed UTF-8 replaced, the
  expiry cut to whole seconds.\<close>

definition reread_pending :: "pendingAuth \<Rightarrow> pendingAuth" where
  "reread_pending p =
    \<lparr>pa_ClientID = clean (pa_ClientID p), pa_RedirectURI = clean (pa_RedirectURI p),
     pa_Scope = clean (pa_Scope p), pa_ClientState = clean (pa_ClientState p),
     pa_CodeChallenge = clean (pa_CodeChallenge p),
     pa_CodeChallengeMethod = clean (pa_CodeChallengeMethod p),
     pa_Resource = clean (pa_Resource p),
     pa_UpstreamPKCEVerifier = clean (pa_UpstreamPKCEVerifier p),
     pa_ExpiresAt = Unix (pa_ExpiresAt p) * second\<rparr>"

definition reread_code :: "issuedCode \<Rightarrow> issuedCode" where
  "reread_code c =
    \<lparr>ic_ClientID = clean (ic_ClientID c), ic_RedirectURI = clean (ic_RedirectURI c),
     ic_Scope = clean (ic_Scope c), ic_CodeChallenge = clean (ic_CodeChallenge c),
     ic_CodeChallengeMethod = clean (ic_CodeChallengeMethod c),
     ic_Resource = clean (ic_Resource c), ic_UpstreamAuthCode = clean (ic_UpstreamAuthCode c),
     ic_UpstreamPKCEVerifier = clean (ic_UpstreamPKCEVerifier c),
     ic_ExpiresAt = Unix (ic_ExpiresAt c) * second\<rparr>"

lemma pending_content:
  "\<bar>Unix (pa_ExpiresAt p)\<bar> < 2 ^ 53 \<Longrightarrow> pending.content oor p = Some (reread_pending p)"
  using exp_reread_time [of "Unix (pa_ExpiresAt p)" oor]
  unfolding pending.content_def
  by (simp add: pendingAuth_claims_def pendingAuth_of_def claim_readers
      reread_pending_def del: reread.simps(2))

lemma code_content:
  "\<bar>Unix (ic_ExpiresAt c)\<bar> < 2 ^ 53 \<Longrightarrow> code.content oor c = Some (reread_code c)"
  using exp_reread_time [of "Unix (ic_ExpiresAt c)" oor]
  unfolding code.content_def
  by (simp add: issuedCode_claims_def issuedCode_of_def claim_readers
      reread_code_def del: reread.simps(2))

lemma downstream_content:
  "downstream.content oor (tok, exp) = (if clean tok = [] then None else Some (clean tok))"
  unfolding downstream.content_def
  by (simp add: downstream_claims_def downstream_of_def claim_readers Let_def)

section \<open>Theorems\<close>

text \<open>C18. Reading an artifact back. Whatever the library returns for a token was inside an encryption under
  the key of this secret and label; it has only the allowed claims; and an expiry, if present,
  is a number that the clock has not passed.\<close>

theorem decodeJWE_sound:
  assumes "decodeJWE J oor now secret info token = Inr cs"
  shows "\<exists>obj p. jose_parse J token = Some (''v1'', obj) \<and> jose_decrypt J (jose_hkdf J secret info) obj = Some p \<and>
    unmarshal_map p = Some cs \<and> set (map fst cs) \<subseteq> set jweAllowedClaimKeys \<and>
    (case map_of cs ''exp'' of
       None \<Rightarrow> True
     | Some (AFloat f) \<Rightarrow> Unix now \<le> int64_of_f64 oor f
     | Some (AInt i) \<Rightarrow> Unix now \<le> i
     | Some _ \<Rightarrow> False)"
proof -
  have "case map_of cs ''exp'' of None \<Rightarrow> True | Some (AFloat f) \<Rightarrow> Unix now \<le> int64_of_f64 oor f
      | Some (AInt i) \<Rightarrow> Unix now \<le> i | Some _ \<Rightarrow> False"
    using decodeJWE_ok(2) [OF assms] by (auto simp: validateJWEExpiration_def not_less split: option.splits any.splits if_splits)
  moreover from assms decodeJWE_ok(1) [OF assms] have
    "\<exists>obj p. jose_parse J token = Some (''v1'', obj) \<and> jose_decrypt J (jose_hkdf J secret info) obj = Some p \<and>
      unmarshal_map p = Some cs \<and> set (map fst cs) \<subseteq> set jweAllowedClaimKeys"
    by (auto simp: decodeJWE_def deriveKey_def jweKidV1_def split: option.splits prod.splits if_splits sum.splits)
  ultimately show ?thesis by blast
qed

definition sample_code :: issuedCode where
  "sample_code = \<lparr>ic_ClientID = ''https://c.example/m'', ic_RedirectURI = ''https://c.example/cb'', ic_Scope = [],
     ic_CodeChallenge = ''ch'', ic_CodeChallengeMethod = ''S256'', ic_Resource = [],
     ic_UpstreamAuthCode = ''uc'', ic_UpstreamPKCEVerifier = ''uv'', ic_ExpiresAt = 60 * second\<rparr>"

lemma sample_time: "\<bar>Unix (60 * second)\<bar> < 2 ^ 53" "Unix (60 * second) = 60"
  by (simp_all add: Unix_def second_def wrap64_def)

theorem decodeJWE_sound_witness:
  "\<exists>t cs. encodeJWE plain_jose 0 ''s'' hkdfInfoAuthCode (issuedCode_claims sample_code) = Some t \<and>
     decodeJWE plain_jose (\<lambda>_. 0) 0 ''s'' hkdfInfoAuthCode t = Inr cs \<and> set (map fst cs) \<subseteq> set jweAllowedClaimKeys"
proof -
  have c: "artifact_claims (issuedCode_claims sample_code)"
    using code.claims_ok [of sample_code] sample_time by (simp add: sample_code_def)
  have e: "map_of (issuedCode_claims sample_code) ''exp'' = Some (AInt 60)"
    using code.claims_exp [of sample_code] sample_time by (simp add: sample_code_def)
  obtain t where t: "encodeJWE plain_jose 0 ''s'' hkdfInfoAuthCode (issuedCode_claims sample_code) = Some t"
    using encodeJWE_total [OF plain_jose_correct c] .
  obtain cs where "decodeJWE plain_jose (\<lambda>_. 0) 0 ''s'' hkdfInfoAuthCode t = Inr cs"
    using decode_encodeJWE [OF plain_jose_correct c e t, of "\<lambda>_. 0" 0] by (auto simp: Unix_def wrap64_def)
  with t decodeJWE_sound [OF this] show ?thesis by blast
qed

text \<open>C17. An authorization code that is issued decodes, under the same secret, to the data it was issued for
  (strings with ill-formed UTF-8 replaced, the expiry cut to seconds) up to and including the
  second of its expiry, and to nothing after.\<close>

theorem authCode_roundtrip:
  assumes "jose_correct J" "\<bar>Unix (ic_ExpiresAt c)\<bar> < 2 ^ 53" "secret \<noteq> []"
  shows "\<exists>t. encodeAuthCode J n secret c = Some t \<and>
    (\<forall>oor now. decodeAuthCode J oor now secret t =
       (if Unix (ic_ExpiresAt c) < Unix now then None else Some (reread_code c)))"
proof -
  obtain t where t: "encodeAuthCode J n secret c = Some t" using code.mints [OF assms(1,2)] by blast
  with code.decodes [OF assms t] show ?thesis by (auto simp: code_content [OF assms(2)])
qed

theorem authCode_roundtrip_witness:
  "\<exists>t. encodeAuthCode plain_jose 0 ''s'' sample_code = Some t \<and>
     decodeAuthCode plain_jose (\<lambda>_. 0) (60 * second) ''s'' t \<noteq> None \<and>
     decodeAuthCode plain_jose (\<lambda>_. 0) (61 * second) ''s'' t = None"
proof -
  have "\<bar>Unix (ic_ExpiresAt sample_code)\<bar> < 2 ^ 53" using sample_time by (simp add: sample_code_def)
  from authCode_roundtrip [OF plain_jose_correct this, of "''s''" 0] show ?thesis
    by (auto simp: sample_code_def Unix_def second_def wrap64_def)
qed

text \<open>C16. The three kinds of artifact are not interchangeable: with a key derivation that separates the
  labels, a token minted as one kind is refused where another kind is expected. A state
  parameter is not an authorization code, and neither is a bearer token.\<close>

theorem artifacts_separated:
  assumes "jose_correct J" "hkdf_separates J secret" "secret \<noteq> []"
  shows "(\<forall>p t. encodePendingAuth J n secret p = Some t \<longrightarrow>
      decodeAuthCode J oor now secret t = None \<and> \<not> is_ok (decodeDownstreamAccessToken J oor now secret t)) \<and>
    (\<forall>c t. encodeAuthCode J n secret c = Some t \<longrightarrow>
      decodePendingAuth J oor now secret t = None \<and> \<not> is_ok (decodeDownstreamAccessToken J oor now secret t)) \<and>
    (\<forall>tok e t. encodeDownstreamAccessToken J n secret tok e = Some t \<longrightarrow>
      decodePendingAuth J oor now secret t = None \<and> decodeAuthCode J oor now secret t = None)"
proof -
  have r: "decodeJWE J oor now secret info' t = Inl ErrInvalidToken"
    if "encodeJWE J n secret info cs = Some t" "info \<noteq> info'"
      "{info, info'} \<subseteq> {hkdfInfoPendingAuth, hkdfInfoAuthCode, hkdfInfoDownstreamToken}" for info info' cs t
    using that assms(2) by (intro decodeJWE_other_key [OF assms(1)]) (auto simp: hkdf_separates_def deriveKey_def)
  have "distinct [hkdfInfoPendingAuth, hkdfInfoAuthCode, hkdfInfoDownstreamToken]"
    by (simp add: hkdfInfoPendingAuth_def hkdfInfoAuthCode_def hkdfInfoDownstreamToken_def)
  with r show ?thesis
    by (auto simp: encodePendingAuth_def encodeAuthCode_def encodeDownstreamAccessToken_def decodePendingAuth_def
        decodeAuthCode_def decodeDownstreamAccessToken_def)
qed

theorem artifacts_separated_witness:
  "\<exists>t. encodeAuthCode plain_jose 0 ''s'' sample_code = Some t \<and>
     decodePendingAuth plain_jose (\<lambda>_. 0) 0 ''s'' t = None"
proof -
  have "\<bar>Unix (ic_ExpiresAt sample_code)\<bar> < 2 ^ 53" using sample_time by (simp add: sample_code_def)
  then obtain t where "encodeAuthCode plain_jose 0 ''s'' sample_code = Some t"
    using code.mints [OF plain_jose_correct] by blast
  with artifacts_separated [OF plain_jose_correct plain_jose_separates, of "''s''" 0 "\<lambda>_. 0" 0] show ?thesis
    by auto
qed

end
