(* ===== verification/Go_Url.thy ===== *)
theory Go_Url
  imports Go_Strings "HOL-Library.Char_ord" "HOL-Library.List_Lexorder"
begin

text \<open>
  Packages \<open>net/url\<close> and \<open>path\<close> as the code uses them, after Go 1.25.0 (the version \<open>go.mod\<close>
  names): percent-encoding by mode, \<open>url.Parse\<close>, \<open>URL.String\<close>, \<open>Hostname\<close> and \<open>Port\<close>,
  \<open>url.Values\<close>, \<open>path.Clean\<close>, and the \<open>Location\<close> that \<open>http.Redirect\<close> computes.
\<close>

subsection \<open>Percent-encoding\<close>

datatype encoding =
  encodePath | encodePathSegment | encodeHost | encodeZone | encodeUserPassword | encodeQueryComponent | encodeFragment

definition alnum :: "char \<Rightarrow> bool" where
  "alnum c \<longleftrightarrow> is_letter c \<or> is_digit c"

definition host_punct :: string where
  "host_punct = ''!$&'' @ [CHR 0x27] @ ''()*+,;=:[]<>'' @ [CHR 0x22]"

definition shouldEscape :: "char \<Rightarrow> encoding \<Rightarrow> bool" where
  "shouldEscape c m =
    (if alnum c then False
     else if (m = encodeHost \<or> m = encodeZone) \<and> c \<in> set host_punct then False
     else if c \<in> set ''-_.~'' then False
     else if c \<in> set ''$&+,/:;=?@'' \<and> m \<noteq> encodeHost \<and> m \<noteq> encodeZone then
       (case m of
          encodePath \<Rightarrow> c = CHR ''?''
        | encodePathSegment \<Rightarrow> c \<in> set ''/;,?''
        | encodeUserPassword \<Rightarrow> c \<in> set ''@/?:''
        | encodeQueryComponent \<Rightarrow> True
        | _ \<Rightarrow> False)
     else if m = encodeFragment \<and> c \<in> set ''!()*'' then False
     else True)"

definition url_unhex :: "char \<Rightarrow> nat option" where
  "url_unhex c = (let x = byte c in
     if 48 \<le> x \<and> x \<le> 57 then Some (x - 48)
     else if 97 \<le> x \<and> x \<le> 102 then Some (x - 87)
     else if 65 \<le> x \<and> x \<le> 70 then Some (x - 55)
     else None)"

definition hex_pair :: "string \<Rightarrow> (nat \<times> nat) option" where
  "hex_pair s = (case s of
      a # b # _ \<Rightarrow> (case (url_unhex a, url_unhex b) of (Some x, Some y) \<Rightarrow> Some (x, y) | _ \<Rightarrow> None)
    | _ \<Rightarrow> None)"

text \<open>\<open>unescape\<close>; \<open>None\<close> is the EscapeError or InvalidHostError.\<close>

function unescape :: "string \<Rightarrow> encoding \<Rightarrow> string option" where
  "unescape [] m = Some []"
| "unescape (c # s) m =
    (if c = CHR ''%'' then
       (case hex_pair s of None \<Rightarrow> None
        | Some (x, y) \<Rightarrow>
          if m = encodeHost \<and> x < 8 \<and> take 2 s \<noteq> ''25'' then None
          else if m = encodeZone \<and> take 2 s \<noteq> ''25'' \<and> x * 16 + y \<noteq> 32
                  \<and> shouldEscape (chr (x * 16 + y)) encodeHost then None
          else map_option (Cons (chr (x * 16 + y))) (unescape (drop 2 s) m))
     else if c = CHR ''+'' then
       map_option (Cons (if m = encodeQueryComponent then CHR '' '' else c)) (unescape s m)
     else if (m = encodeHost \<or> m = encodeZone) \<and> byte c < 0x80 \<and> shouldEscape c m then None
     else map_option (Cons c) (unescape s m))"
  by pat_completeness auto
termination
  by (relation "measure (\<lambda>(s, m). length s)") auto

definition upper_hex :: "nat \<Rightarrow> char" where
  "upper_hex n = (if n < 10 then chr (48 + n) else chr (55 + n))"

definition escape_byte :: "encoding \<Rightarrow> char \<Rightarrow> string" where
  "escape_byte m c =
    (if shouldEscape c m then
       (if c = CHR '' '' \<and> m = encodeQueryComponent then ''+''
        else [CHR ''%'', upper_hex (byte c div 16), upper_hex (byte c mod 16)])
     else [c])"

definition escape :: "string \<Rightarrow> encoding \<Rightarrow> string" where
  "escape s m = concat (map (escape_byte m) s)"

definition validEncoded :: "string \<Rightarrow> encoding \<Rightarrow> bool" where
  "validEncoded s m =
    list_all (\<lambda>c. c \<in> set (''!$&'' @ [CHR 0x27] @ ''()*+,;=:@[]%'') \<or> \<not> shouldEscape c m) s"

subsection \<open>url.Parse\<close>

record userinfo =
  username :: string
  password :: "string option"

record url =
  Scheme :: string
  Opaque :: string
  User :: "userinfo option"
  Host :: string
  Path :: string
  RawPath :: string
  OmitHost :: bool
  ForceQuery :: bool
  RawQuery :: string
  Fragment :: string
  RawFragment :: string

definition empty_url :: url where
  "empty_url = \<lparr>Scheme = [], Opaque = [], User = None, Host = [], Path = [], RawPath = [],
     OmitHost = False, ForceQuery = False, RawQuery = [], Fragment = [], RawFragment = []\<rparr>"

definition ascii_lower :: "string \<Rightarrow> string" where
  "ascii_lower s = map (\<lambda>c. if 65 \<le> byte c \<and> byte c \<le> 90 then chr (byte c + 32) else c) s"

text \<open>\<open>getScheme\<close>: the scheme (empty when there is none) and the rest; \<open>None\<close> is
  "missing protocol scheme". \<open>acc\<close> is what has been read, reversed.\<close>

fun getScheme :: "string \<Rightarrow> string \<Rightarrow> string \<Rightarrow> (string \<times> string) option" where
  "getScheme raw acc [] = Some ([], raw)"
| "getScheme raw acc (c # s) =
    (if is_letter c then getScheme raw (c # acc) s
     else if is_digit c \<or> c \<in> set ''+-.'' then
       (if acc = [] then Some ([], raw) else getScheme raw (c # acc) s)
     else if c = CHR '':'' then (if acc = [] then None else Some (rev acc, s))
     else Some ([], raw))"

definition validOptionalPort :: "string \<Rightarrow> bool" where
  "validOptionalPort p \<longleftrightarrow> p = [] \<or> (hd p = CHR '':'' \<and> list_all is_digit (tl p))"

text \<open>The parts of \<open>s\<close> before and after the last \<open>c\<close>.\<close>

definition cut_last :: "string \<Rightarrow> char \<Rightarrow> (string \<times> string) option" where
  "cut_last s c =
    (case Cut (rev s) c of (b, a, f) \<Rightarrow> if f then Some (rev a, rev b) else None)"

text \<open>The parts before and from the first \<open>%25\<close>.\<close>

fun cut_zone :: "string \<Rightarrow> (string \<times> string) option" where
  "cut_zone [] = None"
| "cut_zone (c # s) =
    (if HasPrefix (c # s) ''%25'' then Some ([], c # s)
     else map_option (apfst (Cons c)) (cut_zone s))"

definition parseHost :: "string \<Rightarrow> string option" where
  "parseHost host =
    (if HasPrefix host ''['' then
       (case cut_last host (CHR '']'') of
          None \<Rightarrow> None
        | Some (inner, colonPort) \<Rightarrow>
          if \<not> validOptionalPort colonPort then None
          else (case cut_zone inner of
                  None \<Rightarrow> unescape host encodeHost
                | Some (h1, h2) \<Rightarrow>
                    Option.bind (unescape h1 encodeHost) (\<lambda>a.
                    Option.bind (unescape h2 encodeZone) (\<lambda>b.
                    Option.bind (unescape ('']'' @ colonPort) encodeHost) (\<lambda>c. Some (a @ b @ c))))))
     else
       (case cut_last host (CHR '':'') of
          Some (_, port) \<Rightarrow>
            if \<not> validOptionalPort ('':'' @ port) then None else unescape host encodeHost
        | None \<Rightarrow> unescape host encodeHost))"

definition validUserinfo :: "string \<Rightarrow> bool" where
  "validUserinfo s =
    list_all (\<lambda>c. alnum c \<or> c \<in> set (''-._:~!$&'' @ [CHR 0x27] @ ''()*+,;=%@'')) s"

definition parseUserinfo :: "string \<Rightarrow> userinfo option" where
  "parseUserinfo ui =
    (if \<not> validUserinfo ui then None
     else case Cut ui (CHR '':'') of
       (u, p, found) \<Rightarrow>
         if \<not> found then
           map_option (\<lambda>x. \<lparr>username = x, password = None\<rparr>) (unescape ui encodeUserPassword)
         else
           Option.bind (unescape u encodeUserPassword) (\<lambda>x.
           map_option (\<lambda>y. \<lparr>username = x, password = Some y\<rparr>) (unescape p encodeUserPassword)))"

definition parseAuthority :: "string \<Rightarrow> (userinfo option \<times> string) option" where
  "parseAuthority auth =
    (case cut_last auth (CHR ''@'') of
       None \<Rightarrow> map_option (Pair None) (parseHost auth)
     | Some (ui, h) \<Rightarrow>
         Option.bind (parseHost h) (\<lambda>host.
         map_option (\<lambda>u. (Some u, host)) (parseUserinfo ui)))"

definition setPath :: "url \<Rightarrow> string \<Rightarrow> url option" where
  "setPath u p =
    map_option (\<lambda>path. u\<lparr>Path := path, RawPath := if escape path encodePath = p then [] else p\<rparr>)
      (unescape p encodePath)"

definition setFragment :: "url \<Rightarrow> string \<Rightarrow> url option" where
  "setFragment u f =
    map_option
      (\<lambda>fr. u\<lparr>Fragment := fr, RawFragment := if escape fr encodeFragment = f then [] else f\<rparr>)
      (unescape f encodeFragment)"

definition ctl_byte :: "char \<Rightarrow> bool" where
  "ctl_byte c \<longleftrightarrow> byte c < 32 \<or> byte c = 0x7F"

text \<open>\<open>parse(rawURL, false)\<close>, in its three stages: query, authority, path.\<close>

definition parse_hier :: "url \<Rightarrow> string \<Rightarrow> url option" where
  "parse_hier u rest =
    (if HasPrefix rest ''//'' \<and> (Scheme u \<noteq> [] \<or> \<not> HasPrefix rest ''///'') then
       (let auth = takeWhile (\<lambda>c. c \<noteq> CHR ''/'') (drop 2 rest);
            path = dropWhile (\<lambda>c. c \<noteq> CHR ''/'') (drop 2 rest)
        in Option.bind (parseAuthority auth) (\<lambda>(ui, h). setPath (u\<lparr>User := ui, Host := h\<rparr>) path))
     else setPath (u\<lparr>OmitHost := Scheme u \<noteq> [] \<and> HasPrefix rest ''/''\<rparr>) rest)"

definition parse_noquery :: "url \<Rightarrow> string \<Rightarrow> url option" where
  "parse_noquery u rest =
    (if \<not> HasPrefix rest ''/'' then
       (if Scheme u \<noteq> [] then Some (u\<lparr>Opaque := rest\<rparr>)
        else if CHR '':'' \<in> set (takeWhile (\<lambda>c. c \<noteq> CHR ''/'') rest) then None
        else parse_hier u rest)
     else parse_hier u rest)"

definition parse_nofrag :: "string \<Rightarrow> url option" where
  "parse_nofrag raw =
    (if list_ex ctl_byte raw then None
     else if raw = ''*'' then Some (empty_url\<lparr>Path := ''*''\<rparr>)
     else Option.bind (getScheme raw [] raw) (\<lambda>(scheme, rest).
       (let u = empty_url\<lparr>Scheme := ascii_lower scheme\<rparr> in
        if HasSuffix rest ''?'' \<and> Count rest (CHR ''?'') = 1
        then parse_noquery (u\<lparr>ForceQuery := True\<rparr>) (butlast rest)
        else (case Cut rest (CHR ''?'') of
                (r, q, _) \<Rightarrow> parse_noquery (u\<lparr>RawQuery := q\<rparr>) r))))"

definition Parse :: "string \<Rightarrow> url option" where
  "Parse raw =
    (case Cut raw (CHR ''#'') of
       (u, frag, _) \<Rightarrow>
         Option.bind (parse_nofrag u) (\<lambda>url. if frag = [] then Some url else setFragment url frag))"

subsection \<open>Accessors and String\<close>

definition splitHostPort :: "string \<Rightarrow> string \<times> string" where
  "splitHostPort hp =
    (let (host, port) =
       (case cut_last hp (CHR '':'') of
          Some (h, p) \<Rightarrow> if validOptionalPort ('':'' @ p) then (h, p) else (hp, [])
        | None \<Rightarrow> (hp, []))
     in (if HasPrefix host ''['' \<and> HasSuffix host '']'' then butlast (tl host) else host, port))"

definition Hostname :: "url \<Rightarrow> string" where
  "Hostname u = fst (splitHostPort (Host u))"

definition Port :: "url \<Rightarrow> string" where
  "Port u = snd (splitHostPort (Host u))"

definition EscapedPath :: "url \<Rightarrow> string" where
  "EscapedPath u =
    (if RawPath u \<noteq> [] \<and> validEncoded (RawPath u) encodePath
        \<and> unescape (RawPath u) encodePath = Some (Path u) then RawPath u
     else if Path u = ''*'' then ''*''
     else escape (Path u) encodePath)"

definition EscapedFragment :: "url \<Rightarrow> string" where
  "EscapedFragment u =
    (if RawFragment u \<noteq> [] \<and> validEncoded (RawFragment u) encodeFragment
        \<and> unescape (RawFragment u) encodeFragment = Some (Fragment u) then RawFragment u
     else escape (Fragment u) encodeFragment)"

definition userinfo_String :: "userinfo \<Rightarrow> string" where
  "userinfo_String ui =
    (if username ui \<noteq> [] \<or> (password ui \<noteq> None \<and> password ui \<noteq> Some []) then
       escape (username ui) encodeUserPassword
       @ (case password ui of None \<Rightarrow> [] | Some p \<Rightarrow> '':'' @ escape p encodeUserPassword)
     else [])"

definition authority_String :: "url \<Rightarrow> string" where
  "authority_String u =
    (if (Scheme u \<noteq> [] \<or> Host u \<noteq> [] \<or> User u \<noteq> None)
        \<and> \<not> (OmitHost u \<and> Host u = [] \<and> User u = None) then
       (if Host u \<noteq> [] \<or> Path u \<noteq> [] \<or> User u \<noteq> None then ''//'' else [])
       @ (case User u of None \<Rightarrow> [] | Some ui \<Rightarrow> userinfo_String ui @ ''@'')
       @ escape (Host u) encodeHost
     else [])"

definition url_String :: "url \<Rightarrow> string" where
  "url_String u =
    (let scheme = (if Scheme u \<noteq> [] then Scheme u @ '':'' else []);
         path = EscapedPath u;
         slash = (if path \<noteq> [] \<and> hd path \<noteq> CHR ''/'' \<and> Host u \<noteq> [] then ''/'' else []);
         pre = scheme @ authority_String u @ slash;
         dot = (if pre = [] \<and> CHR '':'' \<in> set (takeWhile (\<lambda>c. c \<noteq> CHR ''/'') path) then ''./'' else [])
     in (if Opaque u \<noteq> [] then scheme @ Opaque u else pre @ dot @ path)
        @ (if ForceQuery u \<or> RawQuery u \<noteq> [] then ''?'' @ RawQuery u else [])
        @ (if Fragment u \<noteq> [] then ''#'' @ EscapedFragment u else []))"

subsection \<open>url.Values\<close>

text \<open>A multimap as the list of its pairs, values of one key in order.\<close>

type_synonym url_values = "(string \<times> string) list"

definition Get :: "url_values \<Rightarrow> string \<Rightarrow> string" where
  "Get vs k = (case map_of vs k of None \<Rightarrow> [] | Some v \<Rightarrow> v)"

definition SetValue :: "url_values \<Rightarrow> string \<Rightarrow> string \<Rightarrow> url_values" where
  "SetValue vs k v = filter (\<lambda>p. fst p \<noteq> k) vs @ [(k, v)]"

text \<open>One piece of a query between ampersands; \<open>None\<close> is an error of \<open>ParseQuery\<close>, which skips
  the piece and goes on.\<close>

definition parse_pair :: "string \<Rightarrow> (string \<times> string) option" where
  "parse_pair p =
    (if CHR '';'' \<in> set p then None
     else case Cut p (CHR ''='') of (k, v, _) \<Rightarrow>
       Option.bind (unescape k encodeQueryComponent) (\<lambda>k'.
       map_option (Pair k') (unescape v encodeQueryComponent)))"

definition query_pieces :: "string \<Rightarrow> string list" where
  "query_pieces q = filter (\<lambda>p. p \<noteq> []) (Split q (CHR ''&''))"

definition ParseQuery :: "string \<Rightarrow> url_values" where
  "ParseQuery q = List.map_filter parse_pair (query_pieces q)"

definition query_ok :: "string \<Rightarrow> bool" where
  "query_ok q = list_all (\<lambda>p. parse_pair p \<noteq> None) (query_pieces q)"

definition QueryEscape :: "string \<Rightarrow> string" where
  "QueryEscape s = escape s encodeQueryComponent"

definition Encode :: "url_values \<Rightarrow> string" where
  "Encode vs = Join (map (\<lambda>(k, v). QueryEscape k @ ''='' @ QueryEscape v) (sort_key fst vs)) ''&''"

subsection \<open>path.Clean and http.Redirect\<close>

text \<open>\<open>path.Clean\<close> on the elements of the path; the accumulator is the output so far, last
  element first.\<close>

fun clean_segs :: "bool \<Rightarrow> string list \<Rightarrow> string list \<Rightarrow> string list" where
  "clean_segs rooted acc [] = rev acc"
| "clean_segs rooted acc (x # xs) =
    (if x = [] \<or> x = ''.'' then clean_segs rooted acc xs
     else if x = ''..'' then
       (if acc \<noteq> [] \<and> hd acc \<noteq> ''..'' then clean_segs rooted (tl acc) xs
        else if rooted then clean_segs rooted acc xs
        else clean_segs rooted (x # acc) xs)
     else clean_segs rooted (x # acc) xs)"

definition Clean :: "string \<Rightarrow> string" where
  "Clean p =
    (let rooted = HasPrefix p ''/'';
         out = (if rooted then ''/'' else []) @ Join (clean_segs rooted [] (Split p (CHR ''/''))) ''/''
     in if out = [] then ''.'' else out)"

definition lower_hex :: "nat \<Rightarrow> char" where
  "lower_hex n = (if n < 10 then chr (48 + n) else chr (87 + n))"

definition hexEscapeNonASCII :: "string \<Rightarrow> string" where
  "hexEscapeNonASCII s =
    concat (map (\<lambda>c. if 0x80 \<le> byte c
                     then [CHR ''%'', lower_hex (byte c div 16), lower_hex (byte c mod 16)] else [c]) s)"

text \<open>The \<open>Location\<close> header of \<open>http.Redirect(w, r, url, code)\<close> for a request of path \<open>reqPath\<close>: a
  target without scheme and host is made absolute and cleaned.\<close>

definition redirect_Location :: "string \<Rightarrow> string \<Rightarrow> string" where
  "redirect_Location reqPath target =
    hexEscapeNonASCII
      (case Parse target of
         Some u \<Rightarrow>
           if Scheme u = [] \<and> Host u = [] then
             (let oldpath = (if reqPath = [] then ''/'' else reqPath);
                  olddir = rev (dropWhile (\<lambda>c. c \<noteq> CHR ''/'') (rev oldpath));
                  t = (if \<not> HasPrefix target ''/'' then olddir @ target else target);
                  path = takeWhile (\<lambda>c. c \<noteq> CHR ''?'') t;
                  query = dropWhile (\<lambda>c. c \<noteq> CHR ''?'') t;
                  cl = Clean path
              in (if HasSuffix path ''/'' \<and> \<not> HasSuffix cl ''/'' then cl @ ''/'' else cl) @ query)
           else target
       | None \<Rightarrow> target)"

end
