(* ===== verification/Go_Http.thy ===== *)
theory Go_Http
  imports Go_Url Go_Json
begin

text \<open>
  HTTP messages as the handlers see them (package \<open>net/http\<close>): the inbound request, the response
  a handler writes, form parsing, and the requests the library sends itself. A response body is
  the value given to \<open>json.NewEncoder(w).Encode\<close>.
\<close>

record request =
  req_Method :: string
  req_Path :: string
  req_RawQuery :: string
  req_TLS :: bool
  req_Host :: string
  req_Header :: "(string \<times> string) list"
  req_MediaType :: "string option"
  req_Body :: "string option"

text \<open>\<open>r.Header.Get\<close> on a canonical key; \<open>req_MediaType\<close> is the media type of the Content-Type
  header as \<open>mime.ParseMediaType\<close> reads it (\<open>None\<close>: it does not parse), \<open>req_Body\<close> the body
  (\<open>None\<close>: reading it fails).\<close>

definition header_get :: "request \<Rightarrow> string \<Rightarrow> string" where
  "header_get r k = (case map_of (req_Header r) k of None \<Rightarrow> [] | Some v \<Rightarrow> v)"

definition Query :: "request \<Rightarrow> url_values" where
  "Query r = ParseQuery (req_RawQuery r)"

definition maxFormSize :: nat where
  "maxFormSize = 10485760"

text \<open>\<open>r.ParseForm\<close> of a POST request: the values of \<open>r.Form\<close> (body before query), \<open>None\<close> on an
  error. A body of another media type is not read.\<close>

definition ParseForm :: "request \<Rightarrow> url_values option" where
  "ParseForm r =
    (let q = req_RawQuery r in
     case req_MediaType r of
       None \<Rightarrow> None
     | Some mt \<Rightarrow>
       if mt = ''application/x-www-form-urlencoded'' then
         (case req_Body r of
            None \<Rightarrow> None
          | Some b \<Rightarrow>
            if maxFormSize < length b \<or> \<not> query_ok b \<or> \<not> query_ok q then None
            else Some (ParseQuery b @ ParseQuery q))
       else if query_ok q then Some (ParseQuery q) else None)"

record response =
  resp_Status :: nat
  resp_Header :: "(string \<times> string) list"
  resp_Body :: "any option"

definition set_header :: "string \<Rightarrow> string \<Rightarrow> response \<Rightarrow> response" where
  "set_header k v w = w\<lparr>resp_Header := AList.update k v (resp_Header w)\<rparr>"

definition no_response :: response where
  "no_response = \<lparr>resp_Status = 200, resp_Header = [], resp_Body = None\<rparr>"

text \<open>\<open>http.Redirect(w, r, url, 302)\<close>, without the short HTML body it writes for a GET request.\<close>

definition redirect :: "request \<Rightarrow> string \<Rightarrow> response" where
  "redirect r target =
    set_header ''Location'' (redirect_Location (req_Path r) target)
      (no_response\<lparr>resp_Status := 302\<rparr>)"

subsection \<open>Outbound requests\<close>

datatype http_out =
    HttpGet string "(string \<times> string) list"
  | HttpPostForm string url_values

record http_in =
  in_Status :: nat
  in_ContentType :: string
  in_CacheControl :: string
  in_Body :: "string option"

subsection \<open>Quoting (fmt verb q)\<close>

definition hex_digits :: "nat \<Rightarrow> nat \<Rightarrow> string" where
  "hex_digits width n = map (\<lambda>i. lower_hex (n div 16 ^ i mod 16)) (rev [0..<width])"

definition quote_rune :: "unicode \<Rightarrow> nat \<Rightarrow> string" where
  "quote_rune U r =
    (let bs = CHR 0x5C in
     if r = 0x22 \<or> r = 0x5C then [bs, chr r]
     else if (if r < 0x80 then 0x20 \<le> r \<and> r \<noteq> 0x7F else uni_print U r) then encode_rune r
     else if r = 7 then [bs, CHR ''a'']
     else if r = 8 then [bs, CHR ''b'']
     else if r = 12 then [bs, CHR ''f'']
     else if r = 10 then [bs, CHR ''n'']
     else if r = 13 then [bs, CHR ''r'']
     else if r = 9 then [bs, CHR ''t'']
     else if r = 11 then [bs, CHR ''v'']
     else if r < 0x20 \<or> r = 0x7F then [bs, CHR ''x''] @ hex_digits 2 r
     else if r < 0x10000 then [bs, CHR ''u''] @ hex_digits 4 r
     else [bs, CHR ''U''] @ hex_digits 8 r)"

function quote_body :: "unicode \<Rightarrow> string \<Rightarrow> string" where
  "quote_body U [] = []"
| "quote_body U (c # s) =
    (case decode_rune (c # s) of
       (r, w) \<Rightarrow>
         (if r = rune_error \<and> w = 1 then [CHR 0x5C, CHR ''x''] @ hex_digits 2 (byte c) else quote_rune U r) @
         quote_body U (drop (w - 1) s))"
  by pat_completeness auto
termination
  by (relation "measure (\<lambda>(U, s). length s)") auto

text \<open>\<open>strconv.Quote\<close>, the meaning of the verb on strings.\<close>

definition Quote :: "unicode \<Rightarrow> string \<Rightarrow> string" where
  "Quote U s = [CHR 0x22] @ quote_body U s @ [CHR 0x22]"

end
