(* ===== verification/Oauth_Urls.thy ===== *)
theory Oauth_Urls
  imports Go_Http
begin

text \<open>
  \<open>urls.go\<close>: URL and path normal forms, the externally visible base URL, scope lists. Shown:
  route lists and scope lists have no duplicates and keep the order of first occurrence.
\<close>

definition normalizeURL :: "string \<Rightarrow> string" where
  "normalizeURL raw = TrimRight (TrimSpace raw) (CHR ''/'')"

definition canonicalResourceURL :: "string \<Rightarrow> string" where
  "canonicalResourceURL raw =
    (let trimmed = TrimSpace raw in
     if trimmed = [] then [] else TrimRight trimmed (CHR ''/'') @ ''/'')"

definition normalizedPath :: "string \<Rightarrow> string \<Rightarrow> string" where
  "normalizedPath raw fallback =
    (let p0 = TrimSpace raw;
         p1 = (if p0 = [] then fallback else p0)
     in if p1 = [] then []
        else
          (let p2 = (if \<not> HasPrefix p1 ''/'' then ''/'' @ p1 else p1) in
           if p2 = ''/'' then p2 else TrimRight p2 (CHR ''/'')))"

definition joinURLPath :: "string \<Rightarrow> string \<Rightarrow> string" where
  "joinURLPath base path =
    (let b = normalizeURL base; p = normalizedPath path [] in
     if p = [] \<or> p = ''/'' then b else b @ p)"

definition ttlSeconds :: "int \<Rightarrow> int \<Rightarrow> int" where
  "ttlSeconds value fallback = (if 0 < value then value else fallback)"

fun uniquePaths_loop :: "string list \<Rightarrow> string list \<Rightarrow> string list \<Rightarrow> string list" where
  "uniquePaths_loop out seen [] = out"
| "uniquePaths_loop out seen (p # ps) =
    (let p' = normalizedPath p [] in
     if p' = [] then uniquePaths_loop out seen ps
     else if p' \<in> set seen then uniquePaths_loop out seen ps
     else uniquePaths_loop (out @ [p']) (p' # seen) ps)"

definition uniquePaths :: "string list \<Rightarrow> string list" where
  "uniquePaths ps = uniquePaths_loop [] [] ps"

fun suffixPrefix :: "string \<Rightarrow> string list \<Rightarrow> string" where
  "suffixPrefix path [] = []"
| "suffixPrefix path (m # ms) =
    (if \<not> HasPrefix path m then suffixPrefix path ms
     else
       (let suffix = TrimSpace (TrimPrefix path m) in
        if suffix = [] then suffixPrefix path ms
        else TrimRight (if \<not> HasPrefix suffix ''/'' then ''/'' @ suffix else suffix) (CHR ''/'')))"

definition pathFromConfiguredURL :: "string \<Rightarrow> string" where
  "pathFromConfiguredURL raw =
    (if raw = [] then []
     else case Parse raw of None \<Rightarrow> [] | Some u \<Rightarrow> TrimRight (Path u) (CHR ''/''))"

definition schemeAndHost :: "unicode \<Rightarrow> request \<Rightarrow> string" where
  "schemeAndHost U r =
    (let s0 = (if req_TLS r then ''https'' else ''http'');
         proto = header_get r ''X-Forwarded-Proto'';
         scheme = (if proto \<noteq> [] then ToLower U proto else s0);
         host = (if req_Host r = [] \<or>
                    ContainsAny (req_Host r) (''/<>'' @ [CHR 0x22, CHR 0x27, CHR 0x5C])
                 then ''localhost'' else req_Host r)
     in scheme @ ''://'' @ host)"

definition sanitizeScope :: "string \<Rightarrow> string" where
  "sanitizeScope scope = Join (Fields scope) '' ''"

definition map_google_scope :: "string \<Rightarrow> string" where
  "map_google_scope p =
    (if p = ''https://www.googleapis.com/auth/userinfo.email'' then ''email''
     else if p = ''https://www.googleapis.com/auth/userinfo.profile'' then ''profile''
     else if p = ''https://www.googleapis.com/auth/openid'' then ''openid''
     else p)"

fun scope_loop :: "string list \<Rightarrow> string list \<Rightarrow> string list \<Rightarrow> string list" where
  "scope_loop out seen [] = out"
| "scope_loop out seen (p # ps) =
    (let mapped = map_google_scope p in
     if mapped \<in> set seen then scope_loop out seen ps
     else scope_loop (out @ [mapped]) (mapped # seen) ps)"

definition normalizeUpstreamScopeForClient :: "string \<Rightarrow> string" where
  "normalizeUpstreamScopeForClient scope =
    (if scope = [] then [] else Join (scope_loop [] [] (Fields scope)) '' '')"

definition advertised_scopes :: "string list" where
  "advertised_scopes = [''openid'', ''email'', ''profile'', ''offline_access'']"

fun oidc_loop :: "string list \<Rightarrow> string list \<Rightarrow> string list \<Rightarrow> string list" where
  "oidc_loop out seen [] = out"
| "oidc_loop out seen (s # ss) =
    (if s \<notin> set advertised_scopes then oidc_loop out seen ss
     else if s \<in> set seen then oidc_loop out seen ss
     else oidc_loop (out @ [s]) (s # seen) ss)"

definition oidcScopesForAdvertisement :: "string list \<Rightarrow> string list" where
  "oidcScopesForAdvertisement scopes = oidc_loop [] [] scopes"

definition isGoogleIssuer :: "unicode \<Rightarrow> string \<Rightarrow> bool" where
  "isGoogleIssuer U issuer =
    (let h0 = ToLower U (TrimSpace issuer);
         h1 = TrimPrefix h0 ''https://'';
         h2 = TrimPrefix h1 ''http://'';
         host = fst (Cut h2 (CHR ''/''))
     in host = ''accounts.google.com'' \<or> host = ''www.google.com'')"

definition truncateForLog :: "string \<Rightarrow> int \<Rightarrow> string" where
  "truncateForLog value mx = (if mx \<le> 0 \<or> int (length value) \<le> mx then value else take (nat mx) value)"

subsection \<open>Duplicate-free lists in order of first occurrence\<close>

fun dedup :: "'a list \<Rightarrow> 'a list" where
  "dedup [] = []"
| "dedup (x # xs) = x # filter (\<lambda>y. y \<noteq> x) (dedup xs)"

lemma set_dedup [simp]: "set (dedup xs) = set xs"
  by (induction xs) auto

lemma distinct_dedup [simp]: "distinct (dedup xs)"
  by (induction xs) auto

lemma dedup_distinct: "distinct xs \<Longrightarrow> dedup xs = xs"
  by (induction xs) (auto simp: filter_id_conv)

lemma dedup_filter: "dedup (filter P xs) = filter P (dedup xs)"
  by (induction xs) (auto simp: conj_commute intro: filter_cong)

text \<open>The three loops compute the duplicate-free list of what they let through.\<close>

lemma uniquePaths_loop_dedup:
  "set out = set seen \<Longrightarrow>
   uniquePaths_loop out seen ps =
     out @ filter (\<lambda>p. p \<notin> set seen) (dedup (filter (\<lambda>p. p \<noteq> []) (map (\<lambda>p. normalizedPath p []) ps)))"
proof (induction ps arbitrary: out seen)
  case (Cons p ps)
  show ?case
    using Cons.IH [of out seen] Cons.IH [of "out @ [normalizedPath p []]" "normalizedPath p [] # seen"]
      Cons.prems
    by (auto simp: Let_def intro: filter_cong)
qed simp

lemma scope_loop_dedup:
  "set out = set seen \<Longrightarrow>
   scope_loop out seen ps = out @ filter (\<lambda>p. p \<notin> set seen) (dedup (map map_google_scope ps))"
proof (induction ps arbitrary: out seen)
  case (Cons p ps)
  show ?case
    using Cons.IH [of out seen] Cons.IH [of "out @ [map_google_scope p]" "map_google_scope p # seen"]
      Cons.prems
    by (auto simp: Let_def intro: filter_cong)
qed simp

lemma oidc_loop_dedup:
  "set out = set seen \<Longrightarrow>
   oidc_loop out seen ss =
     out @ filter (\<lambda>p. p \<notin> set seen) (dedup (filter (\<lambda>s. s \<in> set advertised_scopes) ss))"
proof (induction ss arbitrary: out seen)
  case (Cons s ss)
  show ?case
    using Cons.IH [of out seen] Cons.IH [of "out @ [s]" "s # seen"] Cons.prems
    by (auto simp: Let_def intro: filter_cong)
qed simp

lemma uniquePaths_eq:
  "uniquePaths ps = dedup (filter (\<lambda>p. p \<noteq> []) (map (\<lambda>p. normalizedPath p []) ps))"
  by (simp add: uniquePaths_def uniquePaths_loop_dedup)

text \<open>The scope lists. The scope handed to the client is the upstream's, Google's URI forms replaced by the
  short names, without duplicates and in order of first occurrence; the scopes advertised are
  the configured ones that are OIDC scopes, again without duplicates and in order.\<close>

theorem scope_lists_spec:
  "normalizeUpstreamScopeForClient scope =
     (if scope = [] then [] else Join (dedup (map map_google_scope (Fields scope))) '' '') \<and>
   oidcScopesForAdvertisement ss = dedup (filter (\<lambda>s. s \<in> {''openid'', ''email'', ''profile'', ''offline_access''}) ss)"
proof -
  have "set advertised_scopes = {''openid'', ''email'', ''profile'', ''offline_access''}"
    by (simp add: advertised_scopes_def)
  then show ?thesis
    by (simp add: normalizeUpstreamScopeForClient_def scope_loop_dedup oidcScopesForAdvertisement_def oidc_loop_dedup)
qed

end
