(* ===== verification/Go_Crypto.thy ===== *)
theory Go_Crypto
  imports Go_Strings "HOL-Library.Word"
begin

unbundle bit_operations_syntax

text \<open>
  The parts of Go's standard library behind PKCE: \<open>crypto/sha256\<close> (FIPS 180-4, on 32-bit words)
  and \<open>encoding/base64\<close>'s RawURLEncoding (RFC 4648 section 5, no padding).
\<close>

subsection \<open>SHA-256\<close>

type_synonym u32 = "32 word"

text \<open>The round constants, in decimal.\<close>

definition sha256_K :: "u32 list" where
  "sha256_K =
    [1116352408, 1899447441, 3049323471, 3921009573, 961987163, 1508970993,
     2453635748, 2870763221, 3624381080, 310598401, 607225278, 1426881987,
     1925078388, 2162078206, 2614888103, 3248222580, 3835390401, 4022224774,
     264347078, 604807628, 770255983, 1249150122, 1555081692, 1996064986,
     2554220882, 2821834349, 2952996808, 3210313671, 3336571891, 3584528711,
     113926993, 338241895, 666307205, 773529912, 1294757372, 1396182291,
     1695183700, 1986661051, 2177026350, 2456956037, 2730485921, 2820302411,
     3259730800, 3345764771, 3516065817, 3600352804, 4094571909, 275423344,
     430227734, 506948616, 659060556, 883997877, 958139571, 1322822218,
     1537002063, 1747873779, 1955562222, 2024104815, 2227730452, 2361852424,
     2428436474, 2756734187, 3204031479, 3329325298]"

record sha_state =
  sha_a :: u32
  sha_b :: u32
  sha_c :: u32
  sha_d :: u32
  sha_e :: u32
  sha_f :: u32
  sha_g :: u32
  sha_h :: u32

definition sha256_init :: sha_state where
  "sha256_init = \<lparr>sha_a = 0x6a09e667, sha_b = 0xbb67ae85, sha_c = 0x3c6ef372, sha_d = 0xa54ff53a,
     sha_e = 0x510e527f, sha_f = 0x9b05688c, sha_g = 0x1f83d9ab, sha_h = 0x5be0cd19\<rparr>"

definition rotr :: "nat \<Rightarrow> u32 \<Rightarrow> u32" where
  "rotr n x = drop_bit n x OR push_bit (32 - n) x"

definition small_sigma0 :: "u32 \<Rightarrow> u32" where
  "small_sigma0 x = rotr 7 x XOR rotr 18 x XOR drop_bit 3 x"

definition small_sigma1 :: "u32 \<Rightarrow> u32" where
  "small_sigma1 x = rotr 17 x XOR rotr 19 x XOR drop_bit 10 x"

text \<open>The message schedule, newest word first: one step adds the word after the sixteen
  latest ones.\<close>

definition schedule_step :: "u32 list \<Rightarrow> u32 list" where
  "schedule_step ws =
    (small_sigma1 (ws ! 1) + ws ! 6 + small_sigma0 (ws ! 14) + ws ! 15) # ws"

definition schedule :: "u32 list \<Rightarrow> u32 list" where
  "schedule block = rev ((schedule_step ^^ 48) (rev block))"

definition sha_round :: "sha_state \<Rightarrow> u32 \<times> u32 \<Rightarrow> sha_state" where
  "sha_round s kw =
    (let a = sha_a s; e = sha_e s;
         t1 = sha_h s + (rotr 6 e XOR rotr 11 e XOR rotr 25 e)
              + ((e AND sha_f s) XOR (NOT e AND sha_g s)) + fst kw + snd kw;
         t2 = (rotr 2 a XOR rotr 13 a XOR rotr 22 a)
              + ((a AND sha_b s) XOR (a AND sha_c s) XOR (sha_b s AND sha_c s))
     in \<lparr>sha_a = t1 + t2, sha_b = a, sha_c = sha_b s, sha_d = sha_c s,
         sha_e = sha_d s + t1, sha_f = e, sha_g = sha_f s, sha_h = sha_g s\<rparr>)"

definition sha_block :: "sha_state \<Rightarrow> u32 list \<Rightarrow> sha_state" where
  "sha_block h block =
    (let s = foldl sha_round h (zip sha256_K (schedule block))
     in \<lparr>sha_a = sha_a h + sha_a s, sha_b = sha_b h + sha_b s, sha_c = sha_c h + sha_c s,
         sha_d = sha_d h + sha_d s, sha_e = sha_e h + sha_e s, sha_f = sha_f h + sha_f s,
         sha_g = sha_g h + sha_g s, sha_h = sha_h h + sha_h s\<rparr>)"

definition be_bytes :: "nat \<Rightarrow> nat \<Rightarrow> string" where
  "be_bytes k n = map (\<lambda>i. chr (n div 256 ^ i mod 256)) (rev [0..<k])"

definition sha_pad :: "string \<Rightarrow> string" where
  "sha_pad m = m @ CHR 0x80 # replicate ((119 - length m mod 64) mod 64) (CHR 0x00)
                 @ be_bytes 8 (8 * length m)"

fun be_words :: "string \<Rightarrow> u32 list" where
  "be_words (a # b # c # d # s) =
    of_nat (byte a * 16777216 + byte b * 65536 + byte c * 256 + byte d) # be_words s"
| "be_words _ = []"

fun sha_blocks :: "sha_state \<Rightarrow> u32 list \<Rightarrow> sha_state" where
  "sha_blocks h ws = (if length ws < 16 then h else sha_blocks (sha_block h (take 16 ws)) (drop 16 ws))"

declare sha_blocks.simps [simp del]

definition sha256 :: "string \<Rightarrow> string" where
  "sha256 m =
    (let h = sha_blocks sha256_init (be_words (sha_pad m))
     in concat (map (\<lambda>f. be_bytes 4 (unat (f h)))
          [sha_a, sha_b, sha_c, sha_d, sha_e, sha_f, sha_g, sha_h]))"

subsection \<open>Base64, URL alphabet, no padding\<close>

definition b64url_alphabet :: string where
  "b64url_alphabet = ''ABCDEFGHIJKLMNOPQRSTUVWXYZabcdefghijklmnopqrstuvwxyz0123456789-_''"

definition b64char :: "nat \<Rightarrow> char" where
  "b64char n = b64url_alphabet ! (n mod 64)"

fun raw_url_encode :: "string \<Rightarrow> string" where
  "raw_url_encode [] = []"
| "raw_url_encode [a] = [b64char (byte a div 4), b64char (byte a mod 4 * 16)]"
| "raw_url_encode [a, b] =
    [b64char (byte a div 4), b64char (byte a mod 4 * 16 + byte b div 16), b64char (byte b mod 16 * 4)]"
| "raw_url_encode (a # b # c # s) =
    b64char (byte a div 4) # b64char (byte a mod 4 * 16 + byte b div 16)
    # b64char (byte b mod 16 * 4 + byte c div 64) # b64char (byte c mod 64) # raw_url_encode s"

lemma length_be_bytes [simp]: "length (be_bytes k n) = k"
  by (simp add: be_bytes_def)

lemma length_sha256 [simp]: "length (sha256 m) = 32"
  by (simp add: sha256_def Let_def)

lemma length_raw_url_encode: "length (raw_url_encode s) = (4 * length s + 2) div 3"
  by (induction s rule: raw_url_encode.induct) auto

lemma b64char_alphabet: "b64char n \<in> set b64url_alphabet"
proof -
  have "length b64url_alphabet = 64" by (simp add: b64url_alphabet_def)
  then show ?thesis unfolding b64char_def by (intro nth_mem) simp
qed

lemma raw_url_encode_alphabet: "set (raw_url_encode s) \<subseteq> set b64url_alphabet"
  by (induction s rule: raw_url_encode.induct) (auto simp: b64char_alphabet)

text \<open>The decoder, and that it inverts the encoding.\<close>

definition b64val :: "char \<Rightarrow> nat" where
  "b64val c = length (takeWhile (\<lambda>x. x \<noteq> c) b64url_alphabet)"

fun raw_url_decode :: "string \<Rightarrow> string" where
  "raw_url_decode (x # y # z # u # s) =
    chr (b64val x * 4 + b64val y div 16) # chr (b64val y mod 16 * 16 + b64val z div 4)
    # chr (b64val z mod 4 * 64 + b64val u) # raw_url_decode s"
| "raw_url_decode [x, y, z] = [chr (b64val x * 4 + b64val y div 16), chr (b64val y mod 16 * 16 + b64val z div 4)]"
| "raw_url_decode [x, y] = [chr (b64val x * 4 + b64val y div 16)]"
| "raw_url_decode _ = []"

lemma b64val_b64char: "n < 64 \<Longrightarrow> b64val (b64char n) = n"
proof -
  have "list_all (\<lambda>n. b64val (b64char n) = n) [0..<64]" by code_simp
  then show "n < 64 \<Longrightarrow> b64val (b64char n) = n" by (simp add: list_all_iff)
qed

lemma byte_less_256: "byte c < 256"
  by simp

lemma byte_parts:
  "byte a div 4 < 64" "byte a mod 4 * 16 < 64" "byte a mod 16 * 4 < 64" "byte a mod 64 < 64"
  "byte b div 16 < 16" "byte b div 64 < 4"
  "byte a mod 4 * 16 + byte b div 16 < 64" "byte a mod 16 * 4 + byte b div 64 < 64"
proof -
  show h: "byte a div 4 < 64" "byte b div 16 < 16" "byte b div 64 < 4" for a b
    using byte_less_256 [of a] byte_less_256 [of b] by (intro less_mult_imp_div_less; simp)+
  have "byte a mod 4 < 4" "byte a mod 16 < 16" by simp_all
  then show "byte a mod 4 * 16 < 64" "byte a mod 16 * 4 < 64" "byte a mod 64 < 64"
    "byte a mod 4 * 16 + byte b div 16 < 64" "byte a mod 16 * 4 + byte b div 64 < 64"
    using h(2,3) [of b] by simp_all
qed

lemma byte_carry:
  "byte b div 16 div 16 = 0" "byte b div 16 mod 16 = byte b div 16"
  "byte b div 64 div 4 = 0" "byte b div 64 mod 4 = byte b div 64"
  using byte_parts(5,6) [of b] by simp_all

lemma raw_url_decode_encode: "raw_url_decode (raw_url_encode s) = s"
  by (induction s rule: raw_url_encode.induct) (simp_all add: b64val_b64char byte_parts byte_carry)

end
