(* ===== verification/Oauth_Pkce.thy ===== *)
theory Oauth_Pkce
  imports Go_Crypto Go_Json_Laws
begin

text \<open>
  \<open>pkce.go\<close>: the S256 challenge of a verifier, and the broker's own verifier for the leg to the
  upstream identity provider. The 32 random bytes that \<open>rand.Read\<close> fills in are an argument,
  \<open>None\<close> when it fails.
\<close>

definition pkceChallenge :: "string \<Rightarrow> string" where
  "pkceChallenge verifier = raw_url_encode (sha256 verifier)"

definition newPKCEVerifier :: "string option \<Rightarrow> string option" where
  "newPKCEVerifier buf = map_option raw_url_encode buf"

lemma length_pkceChallenge: "length (pkceChallenge v) = 43"
  by (simp add: pkceChallenge_def length_raw_url_encode)

lemma raw_url_encode_ascii: "ascii (raw_url_encode s)"
proof -
  have "ascii b64url_alphabet" by (simp add: b64url_alphabet_def ascii_def)
  with raw_url_encode_alphabet [of s] show ?thesis by (auto simp: ascii_def list_all_iff)
qed

lemma pkceChallenge_clean: "clean (pkceChallenge v) = pkceChallenge v"
  by (simp add: pkceChallenge_def clean_ascii raw_url_encode_ascii)

text \<open>Challenges and verifiers have the form RFC 7636 asks for: 43 characters of the URL-safe alphabet,
  which pass through JSON unchanged; and the verifier determines the 32 random bytes it was made
  from, so that no entropy is lost.\<close>

theorem pkce_form:
  assumes "length buf = 32" "newPKCEVerifier (Some buf) = Some verifier"
  shows "length verifier = 43 \<and> length (pkceChallenge verifier) = 43 \<and>
    set verifier \<union> set (pkceChallenge verifier) \<subseteq> set b64url_alphabet \<and>
    clean verifier = verifier \<and> clean (pkceChallenge verifier) = pkceChallenge verifier \<and>
    raw_url_decode verifier = buf"
proof -
  have v: "verifier = raw_url_encode buf" using assms(2) by (simp add: newPKCEVerifier_def)
  moreover have "set (pkceChallenge verifier) \<subseteq> set b64url_alphabet"
    by (simp add: pkceChallenge_def raw_url_encode_alphabet)
  ultimately show ?thesis
    using assms(1) raw_url_encode_alphabet [of buf]
    by (simp add: length_raw_url_encode length_pkceChallenge pkceChallenge_clean clean_ascii raw_url_encode_ascii
        raw_url_decode_encode)
qed

theorem pkce_form_witness:
  "length (raw_url_encode (replicate 32 (CHR ''r''))) = 43 \<and>
   raw_url_decode (raw_url_encode (replicate 32 (CHR ''r''))) = replicate 32 (CHR ''r'')"
  using pkce_form [of "replicate 32 (CHR ''r'')" "raw_url_encode (replicate 32 (CHR ''r''))"]
  by (simp add: newPKCEVerifier_def)

end
