(* ===== verification/Cimd_Cache.thy ===== *)
theory Cimd_Cache
  imports Go_Strings "HOL-Library.AList"
begin

text \<open>
  The two bounded caches of the client resolver: \<open>cimdCache\<close> of \<open>cimd.go\<close> (client documents and
  negative results) and \<open>cimdJWKSCache\<close> of \<open>client_assertion.go\<close> (client key sets). Each is a Go
  map with a slice of its keys in insertion order, guarded by a mutex, so that a concurrent
  history is a sequence of the operations below. Indexing the empty slice would panic: \<open>put\<close>
  returns \<open>None\<close> there. Shown, once for both through the locale \<open>fifo_ttl_cache\<close>: no sequence of
  operations panics, the size stays within the capacity, \<open>get\<close> answers exactly the live
  entries, and an entry is evicted only by expiry, removal, or as many later insertions as the
  capacity.
\<close>

record 'e cache =
  entries :: "(string \<times> 'e) list"
  order :: "string list"
  capacity :: nat

definition new_cache :: "int \<Rightarrow> 'e cache" where
  "new_cache cp = \<lparr>entries = [], order = [], capacity = (if cp \<le> 0 then 1 else nat cp)\<rparr>"

subsection \<open>cimdCache\<close>

record ('a, 'b) cimdCacheEntry =
  ce_client :: "'a option"
  ce_err :: "'b option"
  ce_expiresAt :: int

definition newCIMDCache :: "int \<Rightarrow> ('a, 'b) cimdCacheEntry cache" where
  "newCIMDCache cp = new_cache cp"

fun remove_key :: "string list \<Rightarrow> string \<Rightarrow> string list" where
  "remove_key [] key = []"
| "remove_key (k # ks) key = (if k = key then ks else k # remove_key ks key)"

definition evictLocked :: "'e cache \<Rightarrow> string \<Rightarrow> 'e cache" where
  "evictLocked c key =
    c\<lparr>entries := AList.delete key (entries c), order := remove_key (order c) key\<rparr>"

definition cimdCache_get ::
  "('a, 'b) cimdCacheEntry cache \<Rightarrow> string \<Rightarrow> int \<Rightarrow>
   ('a, 'b) cimdCacheEntry option \<times> ('a, 'b) cimdCacheEntry cache" where
  "cimdCache_get c key now =
    (case map_of (entries c) key of
       None \<Rightarrow> (None, c)
     | Some e \<Rightarrow>
       if ce_expiresAt e < now then (None, evictLocked c key) else (Some e, c))"

text \<open>The insertion both caches share: a new key pushes the oldest one out when the cache is
  full. \<open>None\<close> is the panic on \<open>c.order[0]\<close>.\<close>

definition insert_entry :: "'e cache \<Rightarrow> string \<Rightarrow> 'e \<Rightarrow> 'e cache option" where
  "insert_entry c key e =
    (if map_of (entries c) key = None then
       (if capacity c \<le> length (entries c) then
          (case order c of
             [] \<Rightarrow> None
           | oldest # rest \<Rightarrow>
             Some (c\<lparr>order := rest @ [key],
                     entries := AList.update key e (AList.delete oldest (entries c))\<rparr>))
        else Some (c\<lparr>order := order c @ [key], entries := AList.update key e (entries c)\<rparr>))
     else Some (c\<lparr>entries := AList.update key e (entries c)\<rparr>))"

definition keeps_live ::
  "('a, 'b) cimdCacheEntry cache \<Rightarrow> string \<Rightarrow> ('a, 'b) cimdCacheEntry \<Rightarrow> int \<Rightarrow> bool" where
  "keeps_live c key e now =
    (ce_err e \<noteq> None \<and>
     (case map_of (entries c) key of
        None \<Rightarrow> False
      | Some existing \<Rightarrow> ce_err existing = None \<and> now < ce_expiresAt existing))"

definition cimdCache_put ::
  "('a, 'b) cimdCacheEntry cache \<Rightarrow> string \<Rightarrow> ('a, 'b) cimdCacheEntry \<Rightarrow> int \<Rightarrow>
   ('a, 'b) cimdCacheEntry cache option" where
  "cimdCache_put c key e now = (if keeps_live c key e now then Some c else insert_entry c key e)"

subsection \<open>cimdJWKSCache\<close>

record ('a, 'b) cimdJWKSCacheEntry =
  je_keys :: "'a option"
  je_err :: "'b option"
  je_expiresAt :: int

definition newCIMDJWKSCache :: "int \<Rightarrow> ('a, 'b) cimdJWKSCacheEntry cache" where
  "newCIMDJWKSCache cp = new_cache cp"

definition jwksCache_get ::
  "('a, 'b) cimdJWKSCacheEntry cache \<Rightarrow> string \<Rightarrow> int \<Rightarrow>
   ('a, 'b) cimdJWKSCacheEntry option \<times> ('a, 'b) cimdJWKSCacheEntry cache" where
  "jwksCache_get c key now =
    (case map_of (entries c) key of
       None \<Rightarrow> (None, c)
     | Some e \<Rightarrow>
       if je_expiresAt e < now
       then (None, c\<lparr>entries := AList.delete key (entries c), order := remove_key (order c) key\<rparr>)
       else (Some e, c))"

definition jwksCache_put ::
  "('a, 'b) cimdJWKSCacheEntry cache \<Rightarrow> string \<Rightarrow> ('a, 'b) cimdJWKSCacheEntry \<Rightarrow>
   ('a, 'b) cimdJWKSCacheEntry cache option" where
  "jwksCache_put c key e = insert_entry c key e"

definition jwksCache_invalidate :: "'e cache \<Rightarrow> string \<Rightarrow> 'e cache" where
  "jwksCache_invalidate c key =
    (if map_of (entries c) key = None then c
     else c\<lparr>entries := AList.delete key (entries c), order := remove_key (order c) key\<rparr>)"

subsection \<open>Invariant and abstraction\<close>

definition cache_inv :: "'e cache \<Rightarrow> bool" where
  "cache_inv c \<longleftrightarrow>
     distinct (map fst (entries c)) \<and> distinct (order c) \<and>
     set (order c) = set (map fst (entries c)) \<and>
     length (entries c) \<le> capacity c \<and> 0 < capacity c"

text \<open>The entries, oldest insertion first.\<close>

definition fifo :: "'e cache \<Rightarrow> (string \<times> 'e) list" where
  "fifo c = map (\<lambda>k. (k, the (map_of (entries c) k))) (order c)"

text \<open>The abstract operations on such a list.\<close>

definition fifo_put :: "nat \<Rightarrow> string \<Rightarrow> 'e \<Rightarrow> (string \<times> 'e) list \<Rightarrow> (string \<times> 'e) list" where
  "fifo_put n k e l =
    (if k \<in> set (map fst l) then map (\<lambda>(k', e'). (k', if k' = k then e else e')) l
     else (if n \<le> length l then tl l else l) @ [(k, e)])"

definition fifo_drop :: "string \<Rightarrow> (string \<times> 'e) list \<Rightarrow> (string \<times> 'e) list" where
  "fifo_drop k l = filter (\<lambda>p. fst p \<noteq> k) l"

lemma remove_key_filter: "distinct ks \<Longrightarrow> remove_key ks key = filter (\<lambda>k. k \<noteq> key) ks"
proof (induction ks)
  case (Cons k ks)
  then have "k \<notin> set ks \<Longrightarrow> filter (\<lambda>k'. k' \<noteq> k) ks = ks" by (auto simp: filter_id_conv)
  with Cons show ?case by auto
qed simp

lemma keys_fifo [simp]: "map fst (fifo c) = order c"
  by (simp add: fifo_def comp_def)

lemma cache_inv_length: "cache_inv c \<Longrightarrow> length (order c) = length (entries c)"
  unfolding cache_inv_def by (metis distinct_card length_map)

lemma length_fifo: "cache_inv c \<Longrightarrow> length (fifo c) = length (entries c)"
  by (simp add: fifo_def cache_inv_length)

lemma map_of_fifo: "cache_inv c \<Longrightarrow> map_of (fifo c) k = map_of (entries c) k"
proof -
  assume "cache_inv c"
  then have s: "set (order c) = fst ` set (entries c)" by (simp add: cache_inv_def)
  have "map_of (map (\<lambda>k. (k, f k)) ks) k = (if k \<in> set ks then Some (f k) else None)"
    for ks and f :: "string \<Rightarrow> 'a"
    by (induction ks) auto
  note m = this
  show ?thesis
  proof (cases "map_of (entries c) k")
    case None
    then have "k \<notin> set (order c)" using s by (simp add: map_of_eq_None_iff)
    with None m show ?thesis by (simp add: fifo_def)
  next
    case (Some e)
    then have "k \<in> set (order c)" using s by (auto dest: map_of_SomeD intro: rev_image_eqI)
    with Some m show ?thesis by (simp add: fifo_def)
  qed
qed

lemma map_of_entries_None: "cache_inv c \<Longrightarrow> map_of (entries c) k = None \<longleftrightarrow> k \<notin> set (order c)"
  by (simp add: cache_inv_def map_of_eq_None_iff)

lemma new_cache_inv [inv_intros]: "cache_inv (new_cache n)"
  by (simp add: new_cache_def cache_inv_def)

lemma fifo_new [simp]: "fifo (new_cache n) = []"
  by (simp add: new_cache_def fifo_def)

subsection \<open>Each operation keeps the invariant and refines its abstract counterpart\<close>

definition drop_entry :: "'e cache \<Rightarrow> string \<Rightarrow> 'e cache" where
  "drop_entry c key =
    c\<lparr>entries := AList.delete key (entries c), order := remove_key (order c) key\<rparr>"

lemma drop_entry_inv [inv_intros]:
  assumes "cache_inv c"
  shows "cache_inv (drop_entry c key)"
proof -
  have "length (AList.delete key (entries c)) \<le> length (entries c)"
    by (simp add: AList.delete_eq)
  with assms show ?thesis
    by (auto simp: drop_entry_def cache_inv_def remove_key_filter AList.delete_keys
        distinct_removeAll)
qed

lemma drop_entry_fifo: "cache_inv c \<Longrightarrow> fifo (drop_entry c key) = fifo_drop key (fifo c)"
  by (auto simp: drop_entry_def fifo_def fifo_drop_def cache_inv_def remove_key_filter
      AList.delete_conv filter_map comp_def)

lemma drop_entry_absent: "cache_inv c \<Longrightarrow> map_of (entries c) key = None \<Longrightarrow> fifo_drop key (fifo c) = fifo c"
  by (auto simp: fifo_drop_def fifo_def filter_id_conv map_of_entries_None)

lemma update_entry_inv:
  assumes "cache_inv c" "map_of (entries c) key \<noteq> None"
  shows "cache_inv (c\<lparr>entries := AList.update key e (entries c)\<rparr>)"
    and "fifo (c\<lparr>entries := AList.update key e (entries c)\<rparr>) = fifo_put n key e (fifo c)"
proof -
  have k: "key \<in> fst ` set (entries c)" using assms(2) by (simp add: map_of_eq_None_iff)
  then have "map fst (AList.update key e (entries c)) = map fst (entries c)"
    by (simp add: AList.update_keys)
  moreover from this have "length (AList.update key e (entries c)) = length (entries c)"
    by (metis length_map)
  ultimately show "cache_inv (c\<lparr>entries := AList.update key e (entries c)\<rparr>)"
    using assms(1) by (simp add: cache_inv_def)
  from k assms(1) have "key \<in> set (order c)" by (simp add: cache_inv_def)
  then show "fifo (c\<lparr>entries := AList.update key e (entries c)\<rparr>) = fifo_put n key e (fifo c)"
    unfolding fifo_put_def keys_fifo by (simp add: fifo_def AList.update_conv')
qed

lemma append_entry:
  assumes "cache_inv c" "map_of (entries c) key = None" "length (entries c) < capacity c"
  shows "cache_inv (c\<lparr>order := order c @ [key], entries := AList.update key e (entries c)\<rparr>)"
      (is "cache_inv ?c'")
    and "fifo (c\<lparr>order := order c @ [key], entries := AList.update key e (entries c)\<rparr>)
           = fifo c @ [(key, e)]"
proof -
  have k: "key \<notin> fst ` set (entries c)" using assms(2) by (simp add: map_of_eq_None_iff)
  then have u: "map fst (AList.update key e (entries c)) = map fst (entries c) @ [key]"
    by (simp add: AList.update_keys)
  then have "length (AList.update key e (entries c)) = Suc (length (entries c))"
    by (metis length_append_singleton length_map)
  with k u assms(1,3) show "cache_inv ?c'"
    by (auto simp: cache_inv_def)
  show "fifo ?c' = fifo c @ [(key, e)]"
    using k assms(1) by (auto simp: fifo_def cache_inv_def AList.update_conv')
qed

text \<open>Putting an entry never panics, keeps the invariant and is the abstract insertion.\<close>

lemma insert_entry_refines:
  assumes inv: "cache_inv c"
  obtains c' where "insert_entry c key e = Some c'" and "cache_inv c'"
    and "capacity c' = capacity c" and "fifo c' = fifo_put (capacity c) key e (fifo c)"
proof (cases "map_of (entries c) key = None")
  case False
  then show ?thesis
    using update_entry_inv(1) [OF inv False, of e] update_entry_inv(2) [OF inv False, of e "capacity c"]
    by (intro that [of "c\<lparr>entries := AList.update key e (entries c)\<rparr>"]) (auto simp: insert_entry_def)
next
  case new: True
  then have kk: "key \<notin> set (order c)" using inv by (simp add: map_of_entries_None)
  show ?thesis
  proof (cases "capacity c \<le> length (entries c)")
    case False
    let ?c' = "c\<lparr>order := order c @ [key], entries := AList.update key e (entries c)\<rparr>"
    show ?thesis
      using append_entry [OF inv new] False new kk
      by (intro that [of ?c']) (simp_all add: insert_entry_def fifo_put_def length_fifo inv del: set_map)
  next
    case True
    with inv have "order c \<noteq> []" using cache_inv_length [OF inv] by (auto simp: cache_inv_def)
    then obtain old rest where o: "order c = old # rest" by (cases "order c") auto
    let ?d = "drop_entry c old"
    have d: "cache_inv ?d" by (rule drop_entry_inv [OF inv])
    have od: "order ?d = rest" using o inv by (simp add: drop_entry_def)
    have nd: "map_of (entries ?d) key = None" using new by (simp add: drop_entry_def AList.delete_conv)
    have "length (entries ?d) < capacity ?d"
      using cache_inv_length [OF d] cache_inv_length [OF inv] o od inv
      by (simp add: drop_entry_def cache_inv_def)
    note ap = append_entry [OF d nd this, of e]
    have "fifo ?d = tl (fifo c)"
      unfolding drop_entry_fifo [OF inv]
      using inv o by (simp add: fifo_drop_def fifo_def cache_inv_def filter_id_conv) blast
    then show ?thesis
      using ap o od new kk True
      by (intro that [of "?d\<lparr>order := order ?d @ [key], entries := AList.update key e (entries ?d)\<rparr>"])
        (simp_all add: insert_entry_def fifo_put_def length_fifo inv drop_entry_def del: set_map)
  qed
qed

subsection \<open>The contract both caches share\<close>

text \<open>A history is a sequence of calls under the mutex.\<close>

datatype 'e cache_op = OpGet string int | OpPut string 'e int | OpDrop string

fun cache_step ::
  "('c \<Rightarrow> string \<Rightarrow> int \<Rightarrow> 'e option \<times> 'c) \<Rightarrow> ('c \<Rightarrow> string \<Rightarrow> 'e \<Rightarrow> int \<Rightarrow> 'c option) \<Rightarrow>
   ('c \<Rightarrow> string \<Rightarrow> 'c) \<Rightarrow> 'e cache_op \<Rightarrow> 'c \<Rightarrow> 'c option" where
  "cache_step get put drop_key (OpGet k t) c = Some (snd (get c k t))"
| "cache_step get put drop_key (OpPut k e t) c = put c k e t"
| "cache_step get put drop_key (OpDrop k) c = Some (drop_key c k)"

primrec cache_run ::
  "('c \<Rightarrow> string \<Rightarrow> int \<Rightarrow> 'e option \<times> 'c) \<Rightarrow> ('c \<Rightarrow> string \<Rightarrow> 'e \<Rightarrow> int \<Rightarrow> 'c option) \<Rightarrow>
   ('c \<Rightarrow> string \<Rightarrow> 'c) \<Rightarrow> 'e cache_op list \<Rightarrow> 'c \<Rightarrow> 'c option" where
  "cache_run get put drop_key [] c = Some c"
| "cache_run get put drop_key (op # ops) c =
    Option.bind (cache_step get put drop_key op c) (cache_run get put drop_key ops)"

fun is_put :: "'e cache_op \<Rightarrow> bool" where
  "is_put (OpPut k e t) = True"
| "is_put _ = False"

fun touches :: "string \<Rightarrow> int \<Rightarrow> 'e cache_op \<Rightarrow> bool" where
  "touches k x (OpPut k' e t) = (k' = k)"
| "touches k x (OpDrop k') = (k' = k)"
| "touches k x (OpGet k' t) = (k' = k \<and> x < t)"

lemma map_of_fifo_drop: "map_of (fifo_drop k l) k' = (if k' = k then None else map_of l k')"
  by (induction l) (auto simp: fifo_drop_def)

lemma set_fifo_drop: "set (fifo_drop k l) \<subseteq> set l"
  by (auto simp: fifo_drop_def)

lemma length_fifo_drop: "length (fifo_drop k l) \<le> length l"
  by (simp add: fifo_drop_def)

lemma set_fifo_put: "set (fifo_put n k e l) \<subseteq> insert (k, e) (set l)"
proof -
  have "set (tl l) \<subseteq> set l" by (cases l) auto
  then show ?thesis by (auto simp: fifo_put_def split: if_splits)
qed

lemma fifo_put_split:
  assumes "k' \<noteq> k" "l = pre @ (k, x) # post" "length l \<le> n" "Suc (length post) < n \<or> k' \<in> fst ` set l"
  obtains pre' post' where "fifo_put n k' e l = pre' @ (k, x) # post'" "length post' \<le> Suc (length post)"
proof (cases "k' \<in> fst ` set l")
  case True
  let ?f = "\<lambda>(k'', e'). (k'', if k'' = k' then e else e')"
  have "fifo_put n k' e l = map ?f pre @ (k, x) # map ?f post"
    using True assms(1,2) by (auto simp: fifo_put_def)
  then show ?thesis by (rule that) simp
next
  case False
  then have put: "fifo_put n k' e l = (if n \<le> length l then tl l else l) @ [(k', e)]"
    by (simp add: fifo_put_def)
  show ?thesis
  proof (cases pre)
    case Nil
    with False assms have "\<not> n \<le> length l" by simp
    then show ?thesis using put assms(2) by (intro that [of pre "post @ [(k', e)]"]) simp_all
  next
    case (Cons p ps)
    then show ?thesis using put assms(2)
      by (intro that [of "if n \<le> length l then ps else pre" "post @ [(k', e)]"]) simp_all
  qed
qed

locale fifo_ttl_cache =
  fixes get :: "'c \<Rightarrow> string \<Rightarrow> int \<Rightarrow> 'e option \<times> 'c"
    and put :: "'c \<Rightarrow> string \<Rightarrow> 'e \<Rightarrow> int \<Rightarrow> 'c option"
    and drop_key :: "'c \<Rightarrow> string \<Rightarrow> 'c"
    and empty :: "int \<Rightarrow> 'c"
    and invar :: "'c \<Rightarrow> bool"
    and abs :: "'c \<Rightarrow> (string \<times> 'e) list"
    and cap :: "'c \<Rightarrow> nat"
    and expires :: "'e \<Rightarrow> int"
    and refuses :: "(string \<times> 'e) list \<Rightarrow> string \<Rightarrow> 'e \<Rightarrow> int \<Rightarrow> bool"
  assumes empty_ok: "invar (empty n) \<and> abs (empty n) = [] \<and> cap (empty n) = nat (max 1 n)"
    and bounded: "invar c \<Longrightarrow> length (abs c) \<le> cap c"
    and keys_distinct: "invar c \<Longrightarrow> distinct (map fst (abs c))"
    and get_hit: "invar c \<Longrightarrow> map_of (abs c) k = Some e \<Longrightarrow> now \<le> expires e \<Longrightarrow> get c k now = (Some e, c)"
    and get_miss: "invar c \<Longrightarrow> (\<And>e. map_of (abs c) k = Some e \<Longrightarrow> expires e < now) \<Longrightarrow>
      \<exists>c'. get c k now = (None, c') \<and> invar c' \<and> cap c' = cap c \<and> abs c' = fifo_drop k (abs c)"
    and put_refused: "invar c \<Longrightarrow> refuses (abs c) k e now \<Longrightarrow> put c k e now = Some c"
    and put_stored: "invar c \<Longrightarrow> \<not> refuses (abs c) k e now \<Longrightarrow>
      \<exists>c'. put c k e now = Some c' \<and> invar c' \<and> cap c' = cap c \<and> abs c' = fifo_put (cap c) k e (abs c)"
    and drop_ok: "invar c \<Longrightarrow>
      invar (drop_key c k) \<and> cap (drop_key c k) = cap c \<and> abs (drop_key c k) = fifo_drop k (abs c)"
begin

abbreviation step :: "'e cache_op \<Rightarrow> 'c \<Rightarrow> 'c option" where
  "step \<equiv> cache_step get put drop_key"

abbreviation run :: "'e cache_op list \<Rightarrow> 'c \<Rightarrow> 'c option" where
  "run \<equiv> cache_run get put drop_key"

lemma get_cases:
  assumes "invar c"
  obtains (hit) e where "map_of (abs c) k = Some e" "now \<le> expires e" "get c k now = (Some e, c)"
    | (miss) c' where "get c k now = (None, c')" "invar c'" "cap c' = cap c" "abs c' = fifo_drop k (abs c)"
        "\<And>e. map_of (abs c) k = Some e \<Longrightarrow> expires e < now"
  using get_hit [OF assms] get_miss [OF assms, of k now] by (metis linorder_not_le)

lemma get_answer: "invar c \<Longrightarrow>
    fst (get c k now) = Some e \<longleftrightarrow> map_of (abs c) k = Some e \<and> now \<le> expires e"
  by (rule get_cases [of c k now]) auto

lemma step_ok:
  assumes "invar c"
  obtains c' where "step op c = Some c'" "invar c'" "cap c' = cap c"
    "abs c' = abs c \<or> (\<exists>k. abs c' = fifo_drop k (abs c)) \<or>
     (\<exists>k e t. op = OpPut k e t \<and> abs c' = fifo_put (cap c) k e (abs c))"
proof (cases op)
  case (OpGet k t)
  with assms show ?thesis by (cases rule: get_cases [OF assms, of k t]) (auto intro: that)
next
  case (OpPut k e t)
  with put_refused [OF assms, of k e t] put_stored [OF assms, of k e t] assms
  show ?thesis by (metis cache_step.simps(2) that)
next
  case (OpDrop k)
  with drop_ok [OF assms, of k] show ?thesis by (intro that [of "drop_key c k"]) auto
qed

lemma run_ok:
  assumes "invar c"
  obtains c' where "run ops c = Some c'" "invar c'" "cap c' = cap c"
proof -
  from assms have "\<exists>c'. run ops c = Some c' \<and> invar c' \<and> cap c' = cap c"
  proof (induction ops arbitrary: c)
    case (Cons op ops)
    obtain d where "step op c = Some d" "invar d" "cap d = cap c"
      using step_ok [OF Cons.prems] by metis
    with Cons.IH [of d] show ?case by auto
  qed simp
  then show ?thesis using that by blast
qed

text \<open>No history panics, and the size never exceeds the capacity.\<close>

lemma no_panic: "\<exists>c'. run ops (empty n) = Some c' \<and> invar c' \<and> length (abs c') \<le> nat (max 1 n)"
proof -
  have e: "invar (empty n)" "cap (empty n) = nat (max 1 n)" using empty_ok by auto
  obtain c' where "run ops (empty n) = Some c'" "invar c'" "cap c' = cap (empty n)"
    using run_ok [OF e(1)] by blast
  with bounded [of c'] e(2) show ?thesis by auto
qed

text \<open>What \<open>get\<close> answers was stored under that key and has not expired.\<close>

lemma run_origin:
  assumes "invar c" "run ops c = Some c'" "(k, e) \<in> set (abs c')"
  shows "(k, e) \<in> set (abs c) \<or> (\<exists>t. OpPut k e t \<in> set ops)"
  using assms
proof (induction ops arbitrary: c)
  case (Cons op ops)
  obtain d where d: "step op c = Some d" "invar d"
    "abs d = abs c \<or> (\<exists>k. abs d = fifo_drop k (abs c)) \<or>
     (\<exists>k e t. op = OpPut k e t \<and> abs d = fifo_put (cap c) k e (abs c))"
    using step_ok [OF Cons.prems(1)] by metis
  with Cons.IH [OF d(2)] Cons.prems
  have "(k, e) \<in> set (abs d) \<or> (\<exists>t. OpPut k e t \<in> set ops)" by simp
  with d(3) set_fifo_drop set_fifo_put show ?case by (fastforce simp: subset_iff)
qed simp

lemma get_origin:
  assumes "run ops (empty n) = Some c" "fst (get c k now) = Some e"
  shows "now \<le> expires e \<and> (\<exists>t. OpPut k e t \<in> set ops)"
proof -
  have "invar (empty n)" "abs (empty n) = []" using empty_ok by auto
  moreover from this(1) have "invar c" using assms(1) by (metis run_ok option.inject)
  ultimately show ?thesis
    using get_answer assms run_origin by (metis empty_iff list.set(1) map_of_SomeD)
qed

text \<open>A new entry is answered until it expires, through fewer insertions than the capacity.\<close>

lemma step_keeps:
  assumes "invar c" "abs c = pre @ (k, e) # post" "\<not> touches k (expires e) op"
    "is_put op \<Longrightarrow> Suc (length post) < cap c"
  obtains c' pre' post' where "step op c = Some c'" "invar c'" "cap c' = cap c"
    "abs c' = pre' @ (k, e) # post'" "length post' \<le> length post + (if is_put op then 1 else 0)"
proof (cases op)
  case (OpGet k' t)
  have "map_of (abs c) k = Some e"
    using keys_distinct [OF assms(1)] assms(2) by (intro map_of_is_SomeI) auto
  note live = this
  from assms(1) show ?thesis
  proof (cases rule: get_cases [where k = k' and now = t])
    case hit
    with assms OpGet show ?thesis by (intro that [of c pre post]) simp_all
  next
    case (miss c')
    then have "k' \<noteq> k" using live assms(3) OpGet by auto
    with miss assms(2) OpGet show ?thesis
      by (intro that [of c' "fifo_drop k' pre" "fifo_drop k' post"]) (simp_all add: fifo_drop_def)
  qed
next
  case (OpPut k' x t)
  then have ne: "k' \<noteq> k" using assms(3) by simp
  show ?thesis
  proof (cases "refuses (abs c) k' x t")
    case True
    with put_refused assms OpPut show ?thesis by (intro that [of c pre post]) auto
  next
    case False
    then obtain c' where c': "put c k' x t = Some c'" "invar c'" "cap c' = cap c"
      "abs c' = fifo_put (cap c) k' x (abs c)" using put_stored assms(1) by blast
    obtain pre' post' where "fifo_put (cap c) k' x (abs c) = pre' @ (k, e) # post'"
      "length post' \<le> Suc (length post)"
      using fifo_put_split [OF ne assms(2) bounded [OF assms(1)]] assms(4) OpPut by auto
    with c' OpPut show ?thesis by (intro that [of c' pre' post']) auto
  qed
next
  case (OpDrop k')
  with assms drop_ok [OF assms(1), of k'] show ?thesis
    by (intro that [of "drop_key c k'" "fifo_drop k' pre" "fifo_drop k' post"])
      (auto simp: fifo_drop_def intro: le_trans [OF length_filter_le])
qed

lemma run_keeps:
  assumes "invar c" "abs c = pre @ (k, e) # post" "\<forall>op \<in> set ops. \<not> touches k (expires e) op"
    "length post + length (filter is_put ops) < cap c"
  shows "\<exists>c'. run ops c = Some c' \<and> invar c' \<and> (k, e) \<in> set (abs c')"
  using assms
proof (induction ops arbitrary: c pre post)
  case (Cons op ops)
  obtain c' pre' post' where c': "step op c = Some c'" "invar c'" "cap c' = cap c"
    "abs c' = pre' @ (k, e) # post'" "length post' \<le> length post + (if is_put op then 1 else 0)"
    using step_keeps [OF Cons.prems(1,2), of op] Cons.prems(3,4) by (auto split: if_splits)
  with Cons.IH [OF c'(2,4)] Cons.prems(3,4) show ?case by (auto split: if_splits)
qed auto

lemma survives:
  assumes "invar c" "map_of (abs c) k = None" "put c k e t = Some c1" "\<not> refuses (abs c) k e t"
    "\<forall>op \<in> set ops. \<not> touches k (expires e) op" "length (filter is_put ops) < cap c"
    "now \<le> expires e"
  shows "\<exists>c2. run ops c1 = Some c2 \<and> fst (get c2 k now) = Some e"
proof -
  have c1: "invar c1" "cap c1 = cap c" "abs c1 = fifo_put (cap c) k e (abs c)"
    using put_stored [OF assms(1,4)] assms(3) by auto
  moreover have "k \<notin> set (map fst (abs c))" using assms(2) by (simp add: map_of_eq_None_iff)
  ultimately have "abs c1 = (if cap c \<le> length (abs c) then tl (abs c) else abs c) @ (k, e) # []"
    by (simp add: fifo_put_def)
  from run_keeps [OF c1(1) this assms(5)] assms(6) c1(2)
  obtain c2 where c2: "run ops c1 = Some c2" "invar c2" "(k, e) \<in> set (abs c2)" by auto
  then have "map_of (abs c2) k = Some e" using keys_distinct by simp
  with c2 assms(7) get_answer show ?thesis by auto
qed

end

subsection \<open>Both caches provide it\<close>

definition refuses_negative ::
  "(string \<times> ('a, 'b) cimdCacheEntry) list \<Rightarrow> string \<Rightarrow> ('a, 'b) cimdCacheEntry \<Rightarrow> int \<Rightarrow> bool" where
  "refuses_negative l key e now =
    (ce_err e \<noteq> None \<and>
     (case map_of l key of
        None \<Rightarrow> False
      | Some x \<Rightarrow> ce_err x = None \<and> now < ce_expiresAt x))"

lemma keeps_live_fifo: "cache_inv c \<Longrightarrow> keeps_live c k e now = refuses_negative (fifo c) k e now"
  by (simp add: keeps_live_def refuses_negative_def map_of_fifo)

lemmas drop_entry_laws = drop_entry_inv drop_entry_fifo drop_entry_absent map_of_fifo

lemma capacity_drop_entry [simp]: "capacity (drop_entry c k) = capacity c"
  by (simp add: drop_entry_def)

lemma evictLocked_drop: "evictLocked c k = drop_entry c k"
  by (simp add: evictLocked_def drop_entry_def)

lemma invalidate_drop: "jwksCache_invalidate c k = (if map_of (entries c) k = None then c else drop_entry c k)"
  by (simp add: jwksCache_invalidate_def drop_entry_def)

lemma jwksCache_get_drop: "jwksCache_get c k now = (case map_of (entries c) k of None \<Rightarrow> (None, c)
    | Some e \<Rightarrow> if je_expiresAt e < now then (None, drop_entry c k) else (Some e, c))"
  by (cases "map_of (entries c) k") (simp_all add: jwksCache_get_def drop_entry_def)

interpretation docs: fifo_ttl_cache cimdCache_get cimdCache_put evictLocked newCIMDCache cache_inv fifo
  capacity ce_expiresAt refuses_negative
proof (unfold_locales, goal_cases)
  case (1 n) show ?case by (auto simp: newCIMDCache_def new_cache_inv) (simp add: new_cache_def)
next
  case (2 c) then show ?case by (simp add: length_fifo) (simp add: cache_inv_def)
next
  case (3 c) then show ?case by (simp add: cache_inv_def)
next
  case (4 c k e now) then show ?case by (simp add: cimdCache_get_def map_of_fifo)
next
  case (5 c k now) then show ?case
    by (cases "map_of (entries c) k") (auto simp: cimdCache_get_def evictLocked_drop drop_entry_laws)
next
  case (6 c k e now) then show ?case by (simp add: cimdCache_put_def keeps_live_fifo)
next
  case (7 c k e now) then show ?case
    by (auto simp: cimdCache_put_def keeps_live_fifo intro: insert_entry_refines [of c k e])
next
  case (8 c k) then show ?case by (simp add: evictLocked_drop drop_entry_laws)
qed

interpretation keysets: fifo_ttl_cache jwksCache_get "\<lambda>c k e now. jwksCache_put c k e"
  jwksCache_invalidate newCIMDJWKSCache cache_inv fifo capacity je_expiresAt "\<lambda>l k e now. False"
proof (unfold_locales, goal_cases)
  case (1 n) show ?case by (auto simp: newCIMDJWKSCache_def new_cache_inv) (simp add: new_cache_def)
next
  case (2 c) then show ?case by (simp add: length_fifo) (simp add: cache_inv_def)
next
  case (3 c) then show ?case by (simp add: cache_inv_def)
next
  case (4 c k e now) then show ?case by (simp add: jwksCache_get_drop map_of_fifo)
next
  case (5 c k now) then show ?case
    by (cases "map_of (entries c) k") (auto simp: jwksCache_get_drop drop_entry_laws)
next
  case (7 c k e now) then show ?case
    by (auto simp: jwksCache_put_def intro: insert_entry_refines [of c k e])
next
  case (8 c k) then show ?case by (simp add: invalidate_drop drop_entry_laws)
qed simp

definition cimdCache_run ::
  "('a, 'b) cimdCacheEntry cache_op list \<Rightarrow> ('a, 'b) cimdCacheEntry cache \<Rightarrow>
   ('a, 'b) cimdCacheEntry cache option" where
  "cimdCache_run = cache_run cimdCache_get cimdCache_put evictLocked"

definition jwksCache_run ::
  "('a, 'b) cimdJWKSCacheEntry cache_op list \<Rightarrow> ('a, 'b) cimdJWKSCacheEntry cache \<Rightarrow>
   ('a, 'b) cimdJWKSCacheEntry cache option" where
  "jwksCache_run = cache_run jwksCache_get (\<lambda>c k e now. jwksCache_put c k e) jwksCache_invalidate"

subsection \<open>What the caches guarantee\<close>

text \<open>Neither cache can panic or outgrow its capacity: every sequence of calls on a new
  cache succeeds (the slice of keys is never empty when the oldest key is popped) and leaves at
  most the requested capacity of entries, in a state whose map and key slice agree.\<close>

theorem caches_bounded:
  "(\<exists>c. cimdCache_run ops (newCIMDCache n) = Some c \<and> cache_inv c \<and>
      length (entries c) \<le> nat (max 1 n)) \<and>
   (\<exists>c. jwksCache_run ops' (newCIMDJWKSCache n) = Some c \<and> cache_inv c \<and>
      length (entries c) \<le> nat (max 1 n))"
  using docs.no_panic [of ops n] keysets.no_panic [of ops' n]
  unfolding cimdCache_run_def jwksCache_run_def by (auto simp: length_fifo)

text \<open>C26. Storing refines the bounded queue: \<open>put\<close> always succeeds and keeps the invariant; an
  error result never replaces a live client document; otherwise an existing key keeps its place with
  the new entry, and a new key goes to the end, the oldest entry leaving when the cache is full.\<close>

theorem cimdCache_put_refines:
  assumes "cache_inv c"
  shows "\<exists>c'. cimdCache_put c key e now = Some c' \<and> cache_inv c' \<and> capacity c' = capacity c \<and>
    fifo c' = (if refuses_negative (fifo c) key e now then fifo c
               else fifo_put (capacity c) key e (fifo c))"
  using docs.put_refused [OF assms, of key e now] docs.put_stored [OF assms, of key e now] assms
  by (cases "refuses_negative (fifo c) key e now") auto

theorem cimdCache_put_refines_witness:
  "\<exists>c'. cimdCache_put (newCIMDCache 2) ''k'' \<lparr>ce_client = Some (1 :: nat), ce_err = None :: nat option, ce_expiresAt = 5\<rparr> 0
      = Some c' \<and> fifo c' = [(''k'', \<lparr>ce_client = Some 1, ce_err = None, ce_expiresAt = 5\<rparr>)]"
proof -
  let ?e = "\<lparr>ce_client = Some (1 :: nat), ce_err = None :: nat option, ce_expiresAt = 5\<rparr>"
  have "cache_inv (newCIMDCache 2 :: (nat, nat) cimdCacheEntry cache)"
    by (simp add: newCIMDCache_def inv_intros)
  from cimdCache_put_refines [OF this, of "''k''" ?e 0] show ?thesis
    by (auto simp: newCIMDCache_def refuses_negative_def fifo_put_def)
qed

text \<open>C27. A client document that was just stored under a new key is answered by every later
  \<open>get\<close> until it expires, whatever happens to other keys in between, as long as fewer entries are
  stored than the capacity.\<close>

theorem cimdCache_keeps_entry:
  assumes "cache_inv c" "map_of (entries c) key = None" "cimdCache_put c key e t = Some c1"
    "list_all (\<lambda>op. \<not> touches key (ce_expiresAt e) op) ops" "length (filter is_put ops) < capacity c"
    "now \<le> ce_expiresAt e"
  shows "\<exists>c2. cimdCache_run ops c1 = Some c2 \<and> fst (cimdCache_get c2 key now) = Some e"
proof -
  have "map_of (fifo c) key = None" using assms(1,2) by (simp add: map_of_fifo)
  then show ?thesis
    unfolding cimdCache_run_def
    by (intro docs.survives [OF assms(1) _ assms(3)])
      (use assms(4-6) in \<open>auto simp: refuses_negative_def list_all_iff\<close>)
qed

theorem cimdCache_keeps_entry_witness:
  "\<exists>c1 c2. cimdCache_put (newCIMDCache 2) ''k'' \<lparr>ce_client = Some (1 :: nat), ce_err = None :: nat option, ce_expiresAt = 5\<rparr> 0 = Some c1 \<and>
     cimdCache_run [OpGet ''k'' 3, OpPut ''l'' \<lparr>ce_client = None, ce_err = Some 2, ce_expiresAt = 9\<rparr> 3] c1 = Some c2 \<and>
     fst (cimdCache_get c2 ''k'' 5) = Some \<lparr>ce_client = Some 1, ce_err = None, ce_expiresAt = 5\<rparr>"
proof -
  let ?e = "\<lparr>ce_client = Some (1 :: nat), ce_err = None :: nat option, ce_expiresAt = 5\<rparr>"
  let ?c = "newCIMDCache 2 :: (nat, nat) cimdCacheEntry cache"
  have c: "cache_inv ?c" "map_of (entries ?c) ''k'' = None" "capacity ?c = 2"
    by (simp_all add: newCIMDCache_def inv_intros) (simp_all add: new_cache_def)
  obtain c1 where "cimdCache_put ?c ''k'' ?e 0 = Some c1"
    using docs.put_stored [OF c(1), of "''k''" ?e 0] by (auto simp: newCIMDCache_def refuses_negative_def)
  with cimdCache_keeps_entry [OF c(1,2) this, of
      "[OpGet ''k'' 3, OpPut ''l'' \<lparr>ce_client = None, ce_err = Some 2, ce_expiresAt = 9\<rparr> 3]" 5] c(3)
  show ?thesis by auto
qed

text \<open>What a lookup answers was stored under exactly that key earlier in the history and has not
  expired, for client documents and for key sets alike: no answer is stale, and none belongs to another
  client.\<close>

theorem caches_answer_stored:
  "(cimdCache_run ops (newCIMDCache n) = Some c \<and> fst (cimdCache_get c key now) = Some e \<longrightarrow>
      now \<le> ce_expiresAt e \<and> (\<exists>t. OpPut key e t \<in> set ops)) \<and>
   (jwksCache_run ops' (newCIMDJWKSCache n') = Some c' \<and> fst (jwksCache_get c' key' now') = Some e' \<longrightarrow>
      now' \<le> je_expiresAt e' \<and> (\<exists>t. OpPut key' e' t \<in> set ops'))"
  using docs.get_origin [of ops n c key now e] keysets.get_origin [of ops' n' c' key' now' e']
  unfolding cimdCache_run_def jwksCache_run_def by blast

theorem caches_answer_stored_witness:
  "\<exists>t. OpPut ''k'' \<lparr>ce_client = Some (1 :: nat), ce_err = None :: nat option, ce_expiresAt = 5\<rparr> t
     \<in> set [OpPut ''k'' \<lparr>ce_client = Some 1, ce_err = None, ce_expiresAt = 5\<rparr> 0]"
proof -
  let ?e = "\<lparr>ce_client = Some (1 :: nat), ce_err = None :: nat option, ce_expiresAt = 5\<rparr>"
  let ?f = "\<lparr>je_keys = Some (1 :: nat), je_err = None :: nat option, je_expiresAt = 5\<rparr>"
  let ?c = "\<lparr>entries = [(''k'', ?e)], order = [''k''], capacity = 2\<rparr>"
  let ?d = "\<lparr>entries = [(''k'', ?f)], order = [''k''], capacity = 2\<rparr>"
  have "cimdCache_run [OpPut ''k'' ?e 0] (newCIMDCache 2) = Some ?c" "fst (cimdCache_get ?c ''k'' 5) = Some ?e"
    "jwksCache_run [OpPut ''k'' ?f 0] (newCIMDJWKSCache 2) = Some ?d" "fst (jwksCache_get ?d ''k'' 5) = Some ?f"
    by (simp_all add: cimdCache_run_def jwksCache_run_def cimdCache_put_def jwksCache_put_def
        cimdCache_get_def jwksCache_get_def insert_entry_def keeps_live_def newCIMDCache_def
        newCIMDJWKSCache_def new_cache_def)
  with caches_answer_stored [of "[OpPut ''k'' ?e 0]" 2 ?c "''k''" 5 ?e "[OpPut ''k'' ?f 0]" 2 ?d "''k''" 5 ?f]
  show ?thesis by blast
qed

end
