(* ===== verification/Cimd_Ssrf.thy ===== *)
theory Cimd_Ssrf
  imports Go_Strings "HOL-Library.Word"
begin

unbundle bit_operations_syntax

text \<open>
  The address filter of the client-metadata fetcher (\<open>cimd.go\<close>, \<open>ssrfBlockedCIDRs\<close> to
  \<open>ssrfSafeDial\<close>): \<open>net.IP\<close> values as byte slices, the block list parsed from its CIDR literals,
  membership by masked comparison, and the dialer that pins a permitted address and checks the
  peer again after the connection is made. Shown: the literals parse; the blocked addresses
  are exactly the ranges written out below, for IPv4, IPv4-mapped and IPv6 addresses; the dialer
  connects only to permitted addresses and hands out only connections whose peer is permitted.
\<close>

subsection \<open>Addresses (package net)\<close>

type_synonym bytes8 = "8 word list"

text \<open>\<open>net.IP\<close>: \<open>None\<close> is the nil slice.\<close>

type_synonym ip = "bytes8 option"

record ipnet =
  net_IP :: bytes8
  net_Mask :: bytes8

definition v4InV6Prefix :: bytes8 where
  "v4InV6Prefix = replicate 10 0 @ [0xFF, 0xFF]"

definition To4 :: "bytes8 \<Rightarrow> bytes8 option" where
  "To4 b =
    (if length b = 4 then Some b
     else if length b = 16 \<and> take 12 b = v4InV6Prefix then Some (drop 12 b)
     else None)"

definition ip_Equal :: "bytes8 \<Rightarrow> bytes8 \<Rightarrow> bool" where
  "ip_Equal a b =
    (if length a = length b then a = b
     else if length a = 4 \<and> length b = 16 then take 12 b = v4InV6Prefix \<and> a = drop 12 b
     else if length a = 16 \<and> length b = 4 then take 12 a = v4InV6Prefix \<and> drop 12 a = b
     else False)"

definition IsUnspecified :: "bytes8 \<Rightarrow> bool" where
  "IsUnspecified b \<longleftrightarrow> ip_Equal b (v4InV6Prefix @ [0, 0, 0, 0]) \<or> ip_Equal b (replicate 16 0)"

definition CIDRMask :: "nat \<Rightarrow> nat \<Rightarrow> bytes8" where
  "CIDRMask ones len =
    map (\<lambda>i. if 8 * (i + 1) \<le> ones then 0xFF
              else if ones \<le> 8 * i then 0
              else NOT (drop_bit (ones - 8 * i) 0xFF)) [0..<len]"

definition and_bytes :: "bytes8 \<Rightarrow> bytes8 \<Rightarrow> bytes8" where
  "and_bytes a b = map2 (AND) a b"

definition net_Contains :: "ipnet \<Rightarrow> bytes8 \<Rightarrow> bool" where
  "net_Contains n b =
    (let a = (case To4 b of Some x \<Rightarrow> x | None \<Rightarrow> b) in
     length a = length (net_IP n) \<and> and_bytes (net_IP n) (net_Mask n) = and_bytes a (net_Mask n))"

subsection \<open>Parsing the literals (net.ParseCIDR)\<close>

definition octet :: "string \<Rightarrow> (8 word) option" where
  "octet f =
    (if f = [] \<or> \<not> list_all is_digit f \<or> (hd f = CHR ''0'' \<and> f \<noteq> ''0'') \<or> 255 < digits_val f then None
     else Some (of_int (digits_val f)))"

definition parseIPv4 :: "string \<Rightarrow> bytes8 option" where
  "parseIPv4 s =
    (let fs = Split s (CHR ''.'') in
     if length fs = 4 then those (map octet fs) else None)"

definition ipv6_digit :: "char \<Rightarrow> nat option" where
  "ipv6_digit c =
    (if is_digit c then Some (byte c - 48)
     else if 97 \<le> byte c \<and> byte c \<le> 102 then Some (byte c - 87)
     else if 65 \<le> byte c \<and> byte c \<le> 70 then Some (byte c - 55)
     else None)"

definition hextet :: "string \<Rightarrow> bytes8 option" where
  "hextet g =
    (if g = [] \<or> 4 < length g then None
     else (case those (map ipv6_digit g) of
             None \<Rightarrow> None
           | Some ds \<Rightarrow>
             (let n = foldl (\<lambda>a d. 16 * a + d) 0 ds in
              Some [of_nat (n div 256), of_nat (n mod 256)])))"

text \<open>The groups of one side of the ellipsis; only the last group of the address may be a dotted
  IPv4 address.\<close>

fun hextets :: "bool \<Rightarrow> string list \<Rightarrow> bytes8 option" where
  "hextets v4 [] = Some []"
| "hextets v4 [g] = (if v4 \<and> CHR ''.'' \<in> set g then parseIPv4 g else hextet g)"
| "hextets v4 (g # gs) =
    (case (hextet g, hextets v4 gs) of (Some a, Some b) \<Rightarrow> Some (a @ b) | _ \<Rightarrow> None)"

fun ellipsis :: "string \<Rightarrow> (string \<times> string) option" where
  "ellipsis (a # b # s) =
    (if a = CHR '':'' \<and> b = CHR '':'' then Some ([], s)
     else map_option (\<lambda>(l, r). (a # l, r)) (ellipsis (b # s)))"
| "ellipsis _ = None"

definition side :: "bool \<Rightarrow> string \<Rightarrow> bytes8 option" where
  "side v4 s = (if s = [] then Some [] else hextets v4 (Split s (CHR '':'')))"

definition parseIPv6 :: "string \<Rightarrow> bytes8 option" where
  "parseIPv6 s =
    (case ellipsis s of
       None \<Rightarrow> (case side True s of Some b \<Rightarrow> if length b = 16 then Some b else None | None \<Rightarrow> None)
     | Some (l, r) \<Rightarrow>
       (case (side False l, side True r) of
          (Some a, Some b) \<Rightarrow>
            if length a + length b \<le> 14
            then Some (a @ replicate (16 - length a - length b) 0 @ b) else None
        | _ \<Rightarrow> None))"

text \<open>\<open>netip.ParseAddr\<close>: the first of dot, colon or percent sign decides; a zone is refused by
  \<open>ParseCIDR\<close>.\<close>

fun ParseAddr_from :: "string \<Rightarrow> string \<Rightarrow> bytes8 option" where
  "ParseAddr_from all [] = None"
| "ParseAddr_from all (c # s) =
    (if c = CHR ''.'' then parseIPv4 all
     else if c = CHR '':'' then parseIPv6 all
     else if c = CHR ''%'' then None
     else ParseAddr_from all s)"

definition ParseAddr :: "string \<Rightarrow> bytes8 option" where
  "ParseAddr s = ParseAddr_from s s"

definition ParseCIDR :: "string \<Rightarrow> ipnet option" where
  "ParseCIDR s =
    (case Cut s (CHR ''/'') of
       (addr, bits, found) \<Rightarrow>
         if \<not> found then None
         else (case ParseAddr addr of
                 None \<Rightarrow> None
               | Some b \<Rightarrow>
                 if bits = [] \<or> \<not> list_all is_digit bits \<or> int (8 * length b) < digits_val bits then None
                 else (let m = CIDRMask (nat (digits_val bits)) (length b) in
                       Some \<lparr>net_IP = and_bytes b m, net_Mask = m\<rparr>)))"

subsection \<open>The block list\<close>

definition ssrf_literals :: "string list" where
  "ssrf_literals =
    [''0.0.0.0/8'', ''10.0.0.0/8'', ''100.64.0.0/10'', ''127.0.0.0/8'', ''169.254.0.0/16'',
     ''172.16.0.0/12'', ''192.0.0.0/24'', ''192.0.2.0/24'', ''192.168.0.0/16'', ''198.18.0.0/15'',
     ''198.51.100.0/24'', ''203.0.113.0/24'', ''224.0.0.0/4'', ''240.0.0.0/4'',
     ''::1/128'', ''64:ff9b::/96'', ''100::/64'', ''2001:db8::/32'', ''fc00::/7'', ''fe80::/10'',
     ''ff00::/8'']"

text \<open>\<open>None\<close> is the panic of \<open>mustParseCIDRs\<close> at package initialisation.\<close>

definition mustParseCIDRs :: "string list \<Rightarrow> ipnet list option" where
  "mustParseCIDRs cidrs = those (map ParseCIDR cidrs)"

definition ssrfBlockedCIDRs :: "ipnet list" where
  "ssrfBlockedCIDRs = (case mustParseCIDRs ssrf_literals of Some ns \<Rightarrow> ns | None \<Rightarrow> [])"

fun isBlockedIP :: "ip \<Rightarrow> bool" where
  "isBlockedIP None = True"
| "isBlockedIP (Some b) = (IsUnspecified b \<or> list_ex (\<lambda>n. net_Contains n b) ssrfBlockedCIDRs)"

lemma literals_parse: "mustParseCIDRs ssrf_literals = Some ssrfBlockedCIDRs"
  by code_simp

lemma ssrfBlockedCIDRs_eq: "ssrfBlockedCIDRs =
    [\<lparr>net_IP = [0, 0, 0, 0], net_Mask = [255, 0, 0, 0]\<rparr>,
     \<lparr>net_IP = [10, 0, 0, 0], net_Mask = [255, 0, 0, 0]\<rparr>,
     \<lparr>net_IP = [100, 64, 0, 0], net_Mask = [255, 192, 0, 0]\<rparr>,
     \<lparr>net_IP = [127, 0, 0, 0], net_Mask = [255, 0, 0, 0]\<rparr>,
     \<lparr>net_IP = [169, 254, 0, 0], net_Mask = [255, 255, 0, 0]\<rparr>,
     \<lparr>net_IP = [172, 16, 0, 0], net_Mask = [255, 240, 0, 0]\<rparr>,
     \<lparr>net_IP = [192, 0, 0, 0], net_Mask = [255, 255, 255, 0]\<rparr>,
     \<lparr>net_IP = [192, 0, 2, 0], net_Mask = [255, 255, 255, 0]\<rparr>,
     \<lparr>net_IP = [192, 168, 0, 0], net_Mask = [255, 255, 0, 0]\<rparr>,
     \<lparr>net_IP = [198, 18, 0, 0], net_Mask = [255, 254, 0, 0]\<rparr>,
     \<lparr>net_IP = [198, 51, 100, 0], net_Mask = [255, 255, 255, 0]\<rparr>,
     \<lparr>net_IP = [203, 0, 113, 0], net_Mask = [255, 255, 255, 0]\<rparr>,
     \<lparr>net_IP = [224, 0, 0, 0], net_Mask = [240, 0, 0, 0]\<rparr>,
     \<lparr>net_IP = [240, 0, 0, 0], net_Mask = [240, 0, 0, 0]\<rparr>,
     \<lparr>net_IP = [0, 0, 0, 0, 0, 0, 0, 0, 0, 0, 0, 0, 0, 0, 0, 1], net_Mask = [255, 255, 255, 255, 255, 255, 255, 255, 255, 255, 255, 255, 255, 255, 255, 255]\<rparr>,
     \<lparr>net_IP = [0, 100, 255, 155, 0, 0, 0, 0, 0, 0, 0, 0, 0, 0, 0, 0], net_Mask = [255, 255, 255, 255, 255, 255, 255, 255, 255, 255, 255, 255, 0, 0, 0, 0]\<rparr>,
     \<lparr>net_IP = [1, 0, 0, 0, 0, 0, 0, 0, 0, 0, 0, 0, 0, 0, 0, 0], net_Mask = [255, 255, 255, 255, 255, 255, 255, 255, 0, 0, 0, 0, 0, 0, 0, 0]\<rparr>,
     \<lparr>net_IP = [32, 1, 13, 184, 0, 0, 0, 0, 0, 0, 0, 0, 0, 0, 0, 0], net_Mask = [255, 255, 255, 255, 0, 0, 0, 0, 0, 0, 0, 0, 0, 0, 0, 0]\<rparr>,
     \<lparr>net_IP = [252, 0, 0, 0, 0, 0, 0, 0, 0, 0, 0, 0, 0, 0, 0, 0], net_Mask = [254, 0, 0, 0, 0, 0, 0, 0, 0, 0, 0, 0, 0, 0, 0, 0]\<rparr>,
     \<lparr>net_IP = [254, 128, 0, 0, 0, 0, 0, 0, 0, 0, 0, 0, 0, 0, 0, 0], net_Mask = [255, 192, 0, 0, 0, 0, 0, 0, 0, 0, 0, 0, 0, 0, 0, 0]\<rparr>,
     \<lparr>net_IP = [255, 0, 0, 0, 0, 0, 0, 0, 0, 0, 0, 0, 0, 0, 0, 0], net_Mask = [255, 0, 0, 0, 0, 0, 0, 0, 0, 0, 0, 0, 0, 0, 0, 0]\<rparr>]"
  by code_simp

subsection \<open>The blocked ranges\<close>

definition listed4 :: "8 word \<Rightarrow> 8 word \<Rightarrow> 8 word \<Rightarrow> bool" where
  "listed4 a b c \<longleftrightarrow>
     a = 0 \<or> a = 10 \<or> (a = 100 \<and> 64 \<le> b \<and> b \<le> 127) \<or> a = 127 \<or>
     (a = 169 \<and> b = 254) \<or> (a = 172 \<and> 16 \<le> b \<and> b \<le> 31) \<or>
     (a = 192 \<and> b = 0 \<and> c = 0) \<or> (a = 192 \<and> b = 0 \<and> c = 2) \<or> (a = 192 \<and> b = 168) \<or>
     (a = 198 \<and> 18 \<le> b \<and> b \<le> 19) \<or> (a = 198 \<and> b = 51 \<and> c = 100) \<or>
     (a = 203 \<and> b = 0 \<and> c = 113) \<or> 224 \<le> a"

definition listed6 :: "bytes8 \<Rightarrow> bool" where
  "listed6 b \<longleftrightarrow>
     b = replicate 16 0 \<or> b = replicate 15 0 @ [1] \<or>
     take 12 b = [0, 0x64, 0xFF, 0x9B, 0, 0, 0, 0, 0, 0, 0, 0] \<or>
     take 8 b = [1, 0, 0, 0, 0, 0, 0, 0] \<or>
     take 4 b = [0x20, 1, 0x0D, 0xB8] \<or>
     (0xFC \<le> b ! 0 \<and> b ! 0 \<le> 0xFD) \<or> (b ! 0 = 0xFE \<and> 0x80 \<le> b ! 1 \<and> b ! 1 \<le> 0xBF) \<or>
     b ! 0 = 0xFF"

lemma mask_FF: "(a :: 8 word) AND 255 = a"
proof -
  have "(255 :: 8 word) = - 1" by simp
  then show ?thesis by (simp only: and.right_neutral)
qed

lemma unat_clear_low: "unat (a AND NOT (mask n)) = unat a div 2 ^ n * 2 ^ n" for a :: "'a::len word"
proof -
  have "a AND NOT (mask n) = a - (a AND mask n)"
    by (subst disjunctive_diff_eq_and_not) (auto simp: bit_eq_iff bit_simps)
  moreover have "a AND mask n \<le> a" by (rule word_and_le2)
  ultimately have "unat (a AND NOT (mask n)) = unat a - unat (a AND mask n)" by (simp add: unat_sub)
  also have "unat (a AND mask n) = take_bit n (unat a)"
    by (simp only: take_bit_eq_mask [symmetric] unsigned_take_bit_eq)
  finally show ?thesis by (simp add: take_bit_eq_mod minus_mod_eq_div_mult)
qed

lemma block_eq: "0 < k \<Longrightarrow> k * q = n div k * k \<longleftrightarrow> k * q \<le> n \<and> n < k * q + (k :: nat)"
  using div_nat_eqI [of k q n] div_times_less_eq_dividend [of n k] dividend_less_div_times [of k n]
  by (auto simp: mult.commute)

lemma clear_low_byte:
  fixes a :: "8 word"
  shows "64 * q = unat x \<Longrightarrow> a AND 192 = x \<longleftrightarrow> unat x \<le> unat a \<and> unat a < unat x + 64"
    and "16 * q = unat x \<Longrightarrow> a AND 240 = x \<longleftrightarrow> unat x \<le> unat a \<and> unat a < unat x + 16"
    and "2 * q = unat x \<Longrightarrow> a AND 254 = x \<longleftrightarrow> unat x \<le> unat a \<and> unat a < unat x + 2"
proof -
  have m: "(192 :: 8 word) = NOT (mask 6)" "(240 :: 8 word) = NOT (mask 4)" "(254 :: 8 word) = NOT (mask 1)"
    by code_simp+
  have e: "a AND 192 = x \<longleftrightarrow> unat x = unat a div 64 * 64" "a AND 240 = x \<longleftrightarrow> unat x = unat a div 16 * 16"
    "a AND 254 = x \<longleftrightarrow> unat x = unat a div 2 * 2"
    unfolding m word_unat_eq_iff unat_clear_low by auto
  show "64 * q = unat x \<Longrightarrow> a AND 192 = x \<longleftrightarrow> unat x \<le> unat a \<and> unat a < unat x + 64"
    unfolding e using block_eq [of 64 q "unat a"] by simp
  show "16 * q = unat x \<Longrightarrow> a AND 240 = x \<longleftrightarrow> unat x \<le> unat a \<and> unat a < unat x + 16"
    unfolding e using block_eq [of 16 q "unat a"] by simp
  show "2 * q = unat x \<Longrightarrow> a AND 254 = x \<longleftrightarrow> unat x \<le> unat a \<and> unat a < unat x + 2"
    unfolding e using block_eq [of 2 q "unat a"] by simp
qed

lemma masked_bytes:
  fixes a :: "8 word"
  shows "a AND 192 = 64 \<longleftrightarrow> 64 \<le> a \<and> a \<le> 127" and "a AND 240 = 16 \<longleftrightarrow> 16 \<le> a \<and> a \<le> 31"
    and "a AND 254 = 18 \<longleftrightarrow> 18 \<le> a \<and> a \<le> 19" and "a AND 240 = 224 \<or> a AND 240 = 240 \<longleftrightarrow> 224 \<le> a"
    and "a AND 254 = 252 \<longleftrightarrow> 252 \<le> a \<and> a \<le> 253" and "a AND 192 = 128 \<longleftrightarrow> 128 \<le> a \<and> a \<le> 191"
proof -
  have lt: "unat a < 256" using unsigned_less [of a] by simp
  show "a AND 192 = 64 \<longleftrightarrow> 64 \<le> a \<and> a \<le> 127" "a AND 192 = 128 \<longleftrightarrow> 128 \<le> a \<and> a \<le> 191"
    using clear_low_byte(1) [of 1 64 a] clear_low_byte(1) [of 2 128 a]
    by (auto simp: word_le_nat_alt)
  show "a AND 254 = 18 \<longleftrightarrow> 18 \<le> a \<and> a \<le> 19" "a AND 254 = 252 \<longleftrightarrow> 252 \<le> a \<and> a \<le> 253"
    using clear_low_byte(3) [of 9 18 a] clear_low_byte(3) [of 126 252 a]
    by (auto simp: word_le_nat_alt)
  show "a AND 240 = 16 \<longleftrightarrow> 16 \<le> a \<and> a \<le> 31" "a AND 240 = 224 \<or> a AND 240 = 240 \<longleftrightarrow> 224 \<le> a"
    using clear_low_byte(2) [of 1 16 a] clear_low_byte(2) [of 14 224 a] clear_low_byte(2) [of 15 240 a] lt
    by (auto simp: word_le_nat_alt)
qed

lemma and_bytes_simps [simp]:
  "and_bytes [] bs = []" "and_bytes (a # as) (b # bs) = (a AND b) # and_bytes as bs"
  by (simp_all add: and_bytes_def)

lemma To4_4 [simp]: "To4 [a, b, c, d] = Some [a, b, c, d]"
  by (simp add: To4_def)

lemma length_v4InV6Prefix [simp]: "length v4InV6Prefix = 12"
  by (simp add: v4InV6Prefix_def)

lemma To4_mapped [simp]: "To4 (v4InV6Prefix @ [a, b, c, d]) = Some [a, b, c, d]"
  by (simp add: To4_def)

lemma IsUnspecified_4: "IsUnspecified [a, b, c, d] \<longleftrightarrow> a = 0 \<and> b = 0 \<and> c = 0 \<and> d = 0"
proof -
  have "take 12 (replicate 16 (0 :: 8 word)) \<noteq> v4InV6Prefix" by code_simp
  then show ?thesis by (simp add: IsUnspecified_def ip_Equal_def)
qed

text \<open>An address and its IPv4-mapped form are contained in the same networks.\<close>

lemma net_Contains_mapped: "net_Contains n (v4InV6Prefix @ [a, b, c, d]) = net_Contains n [a, b, c, d]"
  by (simp add: net_Contains_def)

lemma net_Contains_4:
  "net_Contains \<lparr>net_IP = [p, q, r, s], net_Mask = [k, l, m, n]\<rparr> [a, b, c, d] \<longleftrightarrow>
     p AND k = a AND k \<and> q AND l = b AND l \<and> r AND m = c AND m \<and> s AND n = d AND n"
  by (simp add: net_Contains_def)

lemma net_Contains_4_6:
  "length p = 16 \<Longrightarrow> \<not> net_Contains \<lparr>net_IP = p, net_Mask = m\<rparr> [a, b, c, d]"
  by (auto simp: net_Contains_def)

lemma isBlockedIP_4: "isBlockedIP (Some [a, b, c, d]) \<longleftrightarrow> listed4 a b c"
proof -
  have "list_ex (\<lambda>n. net_Contains n [a, b, c, d]) ssrfBlockedCIDRs \<longleftrightarrow> listed4 a b c"
    unfolding ssrfBlockedCIDRs_eq listed4_def
    by (simp add: net_Contains_4 net_Contains_4_6 mask_FF masked_bytes)
  moreover have "a = 0 \<Longrightarrow> listed4 a b c" by (simp add: listed4_def)
  ultimately show ?thesis unfolding isBlockedIP.simps IsUnspecified_4 by blast
qed

lemma isBlockedIP_mapped: "isBlockedIP (Some (v4InV6Prefix @ [a, b, c, d])) \<longleftrightarrow> listed4 a b c"
proof -
  have "v4InV6Prefix \<noteq> replicate 12 0" by code_simp
  moreover have "replicate 16 (0 :: 8 word) = replicate 12 0 @ replicate 4 0" by code_simp
  ultimately have "v4InV6Prefix @ [a, b, c, d] \<noteq> replicate 16 0" by simp
  then have "IsUnspecified (v4InV6Prefix @ [a, b, c, d]) = IsUnspecified [a, b, c, d]"
    unfolding IsUnspecified_4 by (simp add: IsUnspecified_def ip_Equal_def)
  then show ?thesis
    using isBlockedIP_4 [of a b c d] by (simp add: net_Contains_mapped)
qed

lemma list_16:
  assumes "length b = 16"
  obtains a0 a1 a2 a3 a4 a5 a6 a7 a8 a9 a10 a11 a12 a13 a14 a15
    where "b = [a0, a1, a2, a3, a4, a5, a6, a7, a8, a9, a10, a11, a12, a13, a14, a15]"
  using assms by (auto simp: numeral_eq_Suc length_Suc_conv)

lemma net_Contains_6:
  "To4 b = None \<Longrightarrow> length b = 16 \<Longrightarrow>
     net_Contains n b \<longleftrightarrow> length (net_IP n) = 16 \<and>
       and_bytes (net_IP n) (net_Mask n) = and_bytes b (net_Mask n)"
  by (auto simp: net_Contains_def)

lemma isBlockedIP_6:
  assumes "length b = 16" "To4 b = None"
  shows "isBlockedIP (Some b) \<longleftrightarrow> listed6 b"
proof -
  have "take 12 b \<noteq> v4InV6Prefix" using assms by (auto simp: To4_def)
  then have u: "IsUnspecified b \<longleftrightarrow> b = replicate 16 0"
    using assms(1) by (auto simp: IsUnspecified_def ip_Equal_def)
  obtain a0 a1 a2 a3 a4 a5 a6 a7 a8 a9 a10 a11 a12 a13 a14 a15
    where b: "b = [a0, a1, a2, a3, a4, a5, a6, a7, a8, a9, a10, a11, a12, a13, a14, a15]"
    using assms(1) by (rule list_16)
  have "list_ex (\<lambda>n. net_Contains n b) ssrfBlockedCIDRs \<longleftrightarrow>
     b = replicate 15 0 @ [1] \<or> take 12 b = [0, 0x64, 0xFF, 0x9B, 0, 0, 0, 0, 0, 0, 0, 0] \<or>
     take 8 b = [1, 0, 0, 0, 0, 0, 0, 0] \<or> take 4 b = [0x20, 1, 0x0D, 0xB8] \<or>
     (0xFC \<le> b ! 0 \<and> b ! 0 \<le> 0xFD) \<or> (b ! 0 = 0xFE \<and> 0x80 \<le> b ! 1 \<and> b ! 1 \<le> 0xBF) \<or>
     b ! 0 = 0xFF"
    unfolding ssrfBlockedCIDRs_eq
    by (simp add: net_Contains_6 [OF assms(2,1)])
      (simp add: b mask_FF masked_bytes eval_nat_numeral)
  then show ?thesis unfolding isBlockedIP.simps u listed6_def by simp
qed

subsection \<open>The dialer\<close>

fun last_index :: "char \<Rightarrow> string \<Rightarrow> nat option" where
  "last_index c [] = None"
| "last_index c (x # s) =
    (case last_index c s of Some i \<Rightarrow> Some (Suc i) | None \<Rightarrow> if x = c then Some 0 else None)"

definition first_index :: "char \<Rightarrow> string \<Rightarrow> nat option" where
  "first_index c s = (let i = length (takeWhile (\<lambda>x. x \<noteq> c) s) in if i < length s then Some i else None)"

text \<open>\<open>net.SplitHostPort\<close>.\<close>

definition SplitHostPort :: "string \<Rightarrow> (string \<times> string) option" where
  "SplitHostPort hp =
    (case last_index (CHR '':'') hp of
       None \<Rightarrow> None
     | Some i \<Rightarrow>
       (if hd hp = CHR ''['' then
          (case first_index (CHR '']'') hp of
             None \<Rightarrow> None
           | Some e \<Rightarrow>
             if Suc e \<noteq> i then None
             else if CHR ''['' \<in> set (drop 1 hp) \<or> CHR '']'' \<in> set (drop (Suc e) hp) then None
             else Some (take (e - 1) (drop 1 hp), drop (Suc i) hp))
        else if CHR '':'' \<in> set (take i hp) then None
        else if CHR ''['' \<in> set hp \<or> CHR '']'' \<in> set hp then None
        else Some (take i hp, drop (Suc i) hp)))"

datatype dial_error =
    AddrError
  | BlockedDns
  | BlockedNoPublic
  | DialFailed
  | BlockedPostDial

text \<open>The errors that wrap \<open>errCIMDSSRFBlocked\<close>.\<close>

definition ssrf_blocked :: "dial_error \<Rightarrow> bool" where
  "ssrf_blocked e \<longleftrightarrow> e \<in> {BlockedDns, BlockedNoPublic, BlockedPostDial}"

text \<open>\<open>conn.RemoteAddr()\<close>: \<open>None\<close> when it is not a TCP address.\<close>

record conn =
  conn_Remote :: "ip option"

definition pin :: "ip list \<Rightarrow> ip" where
  "pin ips = (case dropWhile isBlockedIP ips of [] \<Rightarrow> None | a # _ \<Rightarrow> a)"

text \<open>\<open>resolveIP\<close> and \<open>dial\<close> stand for the resolver and the socket layer; the first component of
  the result is the address handed to \<open>d.DialContext\<close>, if any.\<close>

definition ssrfSafeDial ::
  "(string \<Rightarrow> ip list option) \<Rightarrow> (string \<Rightarrow> bytes8 \<Rightarrow> string \<Rightarrow> conn option) \<Rightarrow>
   string \<Rightarrow> string \<Rightarrow> bytes8 option \<times> (dial_error, conn) result" where
  "ssrfSafeDial resolveIP dial network addr =
    (case SplitHostPort addr of
       None \<Rightarrow> (None, Inl AddrError)
     | Some (host, port) \<Rightarrow>
       (case resolveIP host of
          None \<Rightarrow> (None, Inl BlockedDns)
        | Some ips \<Rightarrow>
          (case pin ips of
             None \<Rightarrow> (None, Inl BlockedNoPublic)
           | Some pinned \<Rightarrow>
             (case dial network pinned port of
                None \<Rightarrow> (Some pinned, Inl DialFailed)
              | Some c \<Rightarrow>
                (case conn_Remote c of
                   Some peer \<Rightarrow>
                     if isBlockedIP peer then (Some pinned, Inl BlockedPostDial) else (Some pinned, Inr c)
                 | None \<Rightarrow> (Some pinned, Inr c))))))"

lemma pin_allowed: "pin ips = Some a \<Longrightarrow> Some a \<in> set ips \<and> \<not> isBlockedIP (Some a)"
proof -
  assume a: "pin ips = Some a"
  then obtain rest where "dropWhile isBlockedIP ips = Some a # rest"
    by (auto simp: pin_def split: list.splits)
  then show ?thesis by (metis hd_dropWhile list.sel(1) list.discI list.set_intros(1) set_dropWhileD)
qed

lemma pin_None: "pin ips = None \<longleftrightarrow> (\<forall>a \<in> set ips. isBlockedIP a)"
proof -
  have "\<not> isBlockedIP a \<Longrightarrow> a \<noteq> None" for a by (cases a) auto
  moreover have "dropWhile isBlockedIP ips = a # l \<Longrightarrow> \<not> isBlockedIP a \<and> a \<in> set ips" for a l
    by (metis hd_dropWhile list.sel(1) list.discI list.set_intros(1) set_dropWhileD)
  ultimately show ?thesis by (fastforce simp: pin_def dropWhile_eq_Nil_conv split: list.splits)
qed

subsection \<open>What the filter guarantees\<close>

text \<open>C28. What the block list blocks, in octets. The CIDR literals parse, and an IPv4 address, in its
  four-byte form or mapped into IPv6, is blocked iff it lies in one of the listed ranges (\<^const>\<open>listed4\<close>: this
  network, private, shared, loopback, link-local, protocol assignments, documentation, benchmarking, multicast,
  reserved); any other sixteen-byte address iff it is unspecified or in a listed IPv6 range (\<^const>\<open>listed6\<close>). The list
  is not the whole of the special-purpose registries: a 6to4 address (\<open>2002::/16\<close>) and one for local-use translation
  (\<open>64:ff9b:1::/48\<close>) are let through, whatever IPv4 address they embed.\<close>

theorem isBlockedIP_ranges:
  "isBlockedIP (Some [a, b, c, d]) = listed4 a b c \<and>
   isBlockedIP (Some (v4InV6Prefix @ [a, b, c, d])) = listed4 a b c \<and>
   (length x = 16 \<and> take 12 x \<noteq> v4InV6Prefix \<longrightarrow> isBlockedIP (Some x) = listed6 x) \<and>
   (length y = 14 \<longrightarrow> \<not> isBlockedIP (Some (0x20 # 0x02 # y))) \<and>
   (length z = 10 \<longrightarrow> \<not> isBlockedIP (Some ([0, 0x64, 0xFF, 0x9B, 0, 1] @ z)))"
proof -
  have m: "isBlockedIP (Some x) = listed6 x" if "length x = 16" "take 12 x \<noteq> v4InV6Prefix" for x
    using that isBlockedIP_6 by (simp add: To4_def)
  have r: "replicate 16 (0 :: 8 word) = 0 # replicate 15 0" "replicate 15 (0 :: 8 word) = 0 # replicate 14 0"
    "replicate 10 (0 :: 8 word) = 0 # replicate 9 0" "replicate 9 (0 :: 8 word) = 0 # replicate 8 0"
    "replicate 14 (0 :: 8 word) = 0 # replicate 13 0"
    by code_simp+
  have "\<not> isBlockedIP (Some (0x20 # 0x02 # y))" if "length y = 14"
    using that m [of "0x20 # 0x02 # y"] by (simp add: v4InV6Prefix_def listed6_def r del: isBlockedIP.simps)
  moreover have "\<not> isBlockedIP (Some ([0, 0x64, 0xFF, 0x9B, 0, 1] @ z))" if "length z = 10"
    using that m [of "[0, 0x64, 0xFF, 0x9B, 0, 1] @ z"] by (simp add: v4InV6Prefix_def listed6_def r del: isBlockedIP.simps)
  ultimately show ?thesis using isBlockedIP_4 isBlockedIP_mapped m by blast
qed

theorem isBlockedIP_ranges_witness:
  "isBlockedIP (Some [169, 254, 169, 254]) \<and> \<not> isBlockedIP (Some [8, 8, 8, 8]) \<and>
   isBlockedIP (Some (v4InV6Prefix @ [127, 0, 0, 1])) \<and> isBlockedIP (Some (0xFD # replicate 15 0)) \<and>
   \<not> isBlockedIP (Some (0x20 # 0x02 # [127, 0, 0, 1] @ replicate 10 0))"
proof -
  have "listed4 169 254 169" "\<not> listed4 8 8 8" "listed4 127 0 0" "listed6 (0xFD # replicate 15 0)"
    "take 12 (0xFD # replicate 15 (0 :: 8 word)) \<noteq> v4InV6Prefix"
    by code_simp+
  then show ?thesis
    using isBlockedIP_ranges [of 169 254 169 254 "0xFD # replicate 15 0" "[127, 0, 0, 1] @ replicate 10 0" "[]"]
      isBlockedIP_ranges [of 8 8 8 8 "[]" "[]" "[]"] isBlockedIP_ranges [of 127 0 0 1 "[]" "[]" "[]"]
    by simp
qed

text \<open>C7. The dialer of the metadata client never connects to a blocked address: whatever the
  resolver and the network answer, the address it dials is one the resolver gave for the host and is
  not blocked, and a connection it returns does not have a blocked peer (so that a DNS answer that
  changes between the check and the connection gains nothing).\<close>

theorem ssrfSafeDial_safe:
  assumes "ssrfSafeDial resolveIP dial network addr = (dialed, res)"
  shows "(\<forall>a. dialed = Some a \<longrightarrow> \<not> isBlockedIP (Some a) \<and>
            (\<exists>host port ips. SplitHostPort addr = Some (host, port) \<and> resolveIP host = Some ips \<and>
               Some a \<in> set ips)) \<and>
         (\<forall>c. res = Inr c \<longrightarrow> dialed \<noteq> None \<and>
            (\<forall>peer. conn_Remote c = Some peer \<longrightarrow> \<not> isBlockedIP peer))"
  using assms
  by (auto simp: ssrfSafeDial_def simp del: isBlockedIP.simps dest: pin_allowed pin_allowed [OF sym]
      split: option.splits prod.splits if_splits) metis+

theorem ssrfSafeDial_safe_witness:
  "fst (ssrfSafeDial (\<lambda>_. Some [Some [10, 0, 0, 1], Some [8, 8, 8, 8]])
      (\<lambda>_ a _. Some \<lparr>conn_Remote = Some (Some a)\<rparr>) ''tcp'' ''a.b:443'') = Some [8, 8, 8, 8] \<and>
   \<not> isBlockedIP (Some [8, 8, 8, 8])"
proof -
  let ?r = "\<lambda>_ :: string. Some [Some [10, 0, 0, 1], Some [8, 8, 8, 8 :: 8 word]]"
  let ?d = "\<lambda>(_ :: string) a (_ :: string). Some \<lparr>conn_Remote = Some (Some a)\<rparr>"
  have e: "ssrfSafeDial ?r ?d ''tcp'' ''a.b:443'' =
      (Some [8, 8, 8, 8], Inr \<lparr>conn_Remote = Some (Some [8, 8, 8, 8])\<rparr>)"
    by code_simp
  from ssrfSafeDial_safe [OF e] show ?thesis by (simp add: e del: isBlockedIP.simps)
qed

text \<open>The dialer refuses a host with the policy error exactly when the name does not resolve,
  all its addresses are blocked, or the peer of the new connection is blocked; it fails otherwise only
  because the address is malformed or the socket layer fails.\<close>

theorem ssrfSafeDial_blocked_iff:
  "(\<exists>e. snd (ssrfSafeDial resolveIP dial network addr) = Inl e \<and> ssrf_blocked e) \<longleftrightarrow>
     (case SplitHostPort addr of None \<Rightarrow> False | Some (host, port) \<Rightarrow>
       (case resolveIP host of None \<Rightarrow> True | Some ips \<Rightarrow>
          list_all isBlockedIP ips \<or>
          (\<exists>a c peer. pin ips = Some a \<and> dial network a port = Some c \<and> conn_Remote c = Some peer \<and>
             isBlockedIP peer)))"
  by (auto simp: ssrfSafeDial_def ssrf_blocked_def list_all_iff pin_None [symmetric]
      split: option.splits prod.splits if_splits)

end
