(* ===== verification/Oauth_Env.thy ===== *)
theory Oauth_Env
  imports Oauth_State Oauth_Urls Oauth_Pkce Go_Http Cimd_Cache Cimd_Ssrf
begin

text \<open>
  The environment of the stateful code and the state it keeps. The record \<open>env\<close> holds what is
  not in the repository: the Unicode tables and cryptography, the libraries that decode tokens,
  key sets and client documents (go-jose, oauthex, idna), and the outside world (clock, random
  source, network, resolver), which is read by event number, so that nothing is assumed about
  two answers being equal. The record \<open>world\<close> holds the caches of the \<open>Validator\<close> and of the
  \<open>cimdResolver\<close>, the number of events so far, the trace of requests sent and addresses
  dialed, and whether the code has panicked. Each computation of the state monad runs without
  interruption; the processes of \<open>Conc_Process\<close> let other requests in between the cache accesses
  and the requests on the network.
\<close>

subsection \<open>Library data\<close>

record jwk =
  jwk_Key :: string
  jwk_KeyID :: string
  jwk_Algorithm :: string
  jwk_Use :: string

text \<open>The header of a JWS, and the registered claims as \<open>jwt.Claims\<close> holds them (seconds).\<close>

record jws_header =
  hdr_KeyID :: string
  hdr_Algorithm :: string

record jwt_claims =
  jc_Issuer :: string
  jc_Subject :: string
  jc_Audience :: "string list"
  jc_Expiry :: "int option"
  jc_NotBefore :: "int option"
  jc_IssuedAt :: "int option"

text \<open>The fields of \<open>oauthex.ClientRegistrationResponse\<close> the code reads.\<close>

record client_document =
  doc_ClientID :: string
  doc_ClientName :: string
  doc_ClientSecret :: string
  doc_ClientSecretExpiresAt_IsZero :: bool
  doc_TokenEndpointAuthMethod :: string
  doc_JWKSURI :: string
  doc_RedirectURIs :: "string list"
  doc_GrantTypes :: "string list"
  doc_ResponseTypes :: "string list"

subsection \<open>State of the repository\<close>

record registeredClient =
  rc_RedirectURIs :: "string list"
  rc_TokenEndpointAuthMethod :: string
  rc_JWKSURI :: string

text \<open>Errors of \<open>cimd.go\<close> and \<open>client_assertion.go\<close>: the sentinel that \<open>errors.Is\<close> finds, with the
  detail of the message.\<close>

datatype cimd_error =
    errCIMDInvalidURL string
  | errCIMDSSRFBlocked string
  | errCIMDFetch string
  | errCIMDInvalidMetadata string
  | errClientAssertionInvalid string
  | errJWKSFetch string

record openIDConfiguration =
  oc_Issuer :: string
  oc_AuthorizationEndpoint :: string
  oc_TokenEndpoint :: string
  oc_JWKSURI :: string
  oc_UserInfoEndpoint :: string

record validator =
  v_jwks :: "jwk list"
  v_jwksURL :: string
  v_jwksTime :: int
  v_oidcCache :: openIDConfiguration
  v_oidcURL :: string
  v_oidcTime :: int

definition newValidator :: validator where
  "newValidator =
    \<lparr>v_jwks = [], v_jwksURL = [], v_jwksTime = zero_time,
     v_oidcCache = \<lparr>oc_Issuer = [], oc_AuthorizationEndpoint = [], oc_TokenEndpoint = [],
                    oc_JWKSURI = [], oc_UserInfoEndpoint = []\<rparr>,
     v_oidcURL = [], v_oidcTime = zero_time\<rparr>"

definition cimdCacheCap :: int where "cimdCacheCap = 1024"

record world =
  w_tick :: nat
  w_sent :: "http_out list"
  w_dialed :: "bytes8 list"
  w_panicked :: bool
  w_validator :: validator
  w_cache :: "(registeredClient, cimd_error) cimdCacheEntry cache"
  w_jwksCache :: "(jwk list, cimd_error) cimdJWKSCacheEntry cache"

text \<open>The state \<open>New\<close> builds.\<close>

definition new_world :: world where
  "new_world =
    \<lparr>w_tick = 0, w_sent = [], w_dialed = [], w_panicked = False, w_validator = newValidator,
     w_cache = newCIMDCache cimdCacheCap, w_jwksCache = newCIMDJWKSCache cimdCacheCap\<rparr>"

subsection \<open>The environment\<close>

record env =
  env_unicode :: unicode
  env_oor :: "float64 \<Rightarrow> int"
  env_jose :: jose
  env_clock :: "nat \<Rightarrow> int"
  env_rand :: "nat \<Rightarrow> string option"
  env_http :: "nat \<Rightarrow> http_out \<Rightarrow> http_in option"
  env_resolveIP :: "nat \<Rightarrow> string \<Rightarrow> ip list option"
  env_dial :: "nat \<Rightarrow> string \<Rightarrow> bytes8 \<Rightarrow> string \<Rightarrow> conn option"
  env_idna :: "string \<Rightarrow> string option"
  env_document :: "string \<Rightarrow> client_document option"
  env_keyset :: "string \<Rightarrow> jwk list option"
  env_keyset_Key :: "jwk list \<Rightarrow> string \<Rightarrow> jwk list"
  env_ParseSigned :: "string list \<Rightarrow> string \<Rightarrow> jws_header list option"
  env_Claims :: "string \<Rightarrow> string \<Rightarrow> jmap option"
  env_jwt_Claims :: "string \<Rightarrow> string \<Rightarrow> jwt_claims option"
  env_ValidateWithLeeway :: "jwt_claims \<Rightarrow> int \<Rightarrow> int \<Rightarrow> bool"

text \<open>\<open>env_ParseSigned algs token\<close> is \<open>jwt.ParseSigned\<close> with the accepted signature algorithms;
  \<open>env_Claims token key\<close> is \<open>parsed.Claims(key, &raw)\<close>: the payload of the token when its
  signature verifies under the key; \<open>env_jwt_Claims\<close> the same with a \<open>jwt.Claims\<close> target;
  \<open>env_keyset_Key\<close> the method \<open>Key\<close> of a key set; \<open>env_keyset\<close> and \<open>env_document\<close> decode a body;
  \<open>env_idna\<close> is \<open>idna.Lookup.ToASCII\<close>.\<close>

text \<open>What the code relies on of go-jose: \<open>Key(kid)\<close> returns keys of the set with that identifier, and
  \<open>ParseSigned\<close> refuses a token whose header names an algorithm that is not listed.\<close>

definition keyset_Key_sound :: "env \<Rightarrow> bool" where
  "keyset_Key_sound E \<longleftrightarrow>
     (\<forall>ks kid. \<forall>k \<in> set (env_keyset_Key E ks kid). k \<in> set ks \<and> jwk_KeyID k = kid)"

definition ParseSigned_sound :: "env \<Rightarrow> bool" where
  "ParseSigned_sound E \<longleftrightarrow>
     (\<forall>algs token hdrs. env_ParseSigned E algs token = Some hdrs \<longrightarrow>
        (\<forall>hdr \<in> set hdrs. hdr_Algorithm hdr \<in> set algs))"

subsection \<open>Effects\<close>

definition time_Now :: "env \<Rightarrow> (world, int) state" where
  "time_Now E = State (\<lambda>w. (env_clock E (w_tick w), w\<lparr>w_tick := Suc (w_tick w)\<rparr>))"

definition rand_Read :: "env \<Rightarrow> (world, string option) state" where
  "rand_Read E = State (\<lambda>w. (env_rand E (w_tick w), w\<lparr>w_tick := Suc (w_tick w)\<rparr>))"

text \<open>A fresh number for the random choices of an encryption.\<close>

definition nonce :: "(world, nat) state" where
  "nonce = State (\<lambda>w. (w_tick w, w\<lparr>w_tick := Suc (w_tick w)\<rparr>))"

definition http_Do :: "env \<Rightarrow> http_out \<Rightarrow> (world, http_in option) state" where
  "http_Do E out =
    State (\<lambda>w. (env_http E (w_tick w) out, w\<lparr>w_tick := Suc (w_tick w), w_sent := w_sent w @ [out]\<rparr>))"

text \<open>\<open>client.Get\<close> and \<open>client.PostForm\<close> fail before anything is sent when the URL does not parse.\<close>

definition http_Get :: "env \<Rightarrow> string \<Rightarrow> (string \<times> string) list \<Rightarrow> (world, http_in option) state" where
  "http_Get E u hs = (if Parse u = None then return None else http_Do E (HttpGet u hs))"

definition http_PostForm :: "env \<Rightarrow> string \<Rightarrow> url_values \<Rightarrow> (world, http_in option) state" where
  "http_PostForm E u vs = (if Parse u = None then return None else http_Do E (HttpPostForm u vs))"

definition get_validator :: "(world, validator) state" where
  "get_validator = State (\<lambda>w. (w_validator w, w))"

definition put_validator :: "validator \<Rightarrow> (world, unit) state" where
  "put_validator v = State (\<lambda>w. ((), w\<lparr>w_validator := v\<rparr>))"

definition panic :: "(world, unit) state" where
  "panic = State (\<lambda>w. ((), w\<lparr>w_panicked := True\<rparr>))"

lemmas effect_defs [io_simps] = time_Now_def rand_Read_def nonce_def http_Do_def get_validator_def
  put_validator_def panic_def

text \<open>\<open>io.ReadAll(io.LimitReader(body, n))\<close>.\<close>

definition read_limited :: "nat \<Rightarrow> http_in \<Rightarrow> string option" where
  "read_limited n resp = map_option (take n) (in_Body resp)"

subsection \<open>Frame conditions of a computation\<close>

text \<open>\<open>sends P m\<close>: every request \<open>m\<close> adds to the trace satisfies \<open>P\<close>, and nothing is removed
  from the trace.\<close>

definition sends :: "(http_out \<Rightarrow> bool) \<Rightarrow> (world, 'a) state \<Rightarrow> bool" where
  "sends P m \<longleftrightarrow>
     (\<forall>w. \<exists>l. w_sent (snd (run_state m w)) = w_sent w @ l \<and> list_all P l)"

lemma sends_return [inv_intros]: "sends P (return a)"
  by (simp add: sends_def)

lemma sends_bind [inv_intros]:
  assumes "sends P m" "\<And>a. sends P (f a)"
  shows "sends P (State_Monad.bind m f)"
  unfolding sends_def
proof
  fix w
  obtain a w1 where 1: "run_state m w = (a, w1)" by fastforce
  from assms(1) 1 obtain l where l: "w_sent w1 = w_sent w @ l" "list_all P l"
    unfolding sends_def by (metis snd_conv)
  from assms(2) obtain l' where "w_sent (snd (run_state (f a) w1)) = w_sent w1 @ l'" "list_all P l'"
    unfolding sends_def by blast
  with 1 l show "\<exists>l. w_sent (snd (run_state (State_Monad.bind m f) w)) = w_sent w @ l \<and> list_all P l"
    by (intro exI [of _ "l @ l'"]) simp
qed

lemma sends_mono: "sends P m \<Longrightarrow> (\<And>x. P x \<Longrightarrow> Q x) \<Longrightarrow> sends Q m"
  unfolding sends_def by (metis list_all_iff)

lemma sends_effects [inv_intros]:
  "sends P (time_Now E)" "sends P (rand_Read E)" "sends P nonce" "sends P get_validator"
  "sends P (put_validator v)" "sends P panic"
  by (simp_all add: sends_def io_simps)

lemma sends_http [inv_intros]: "P out \<Longrightarrow> sends P (http_Do E out)"
  by (simp add: sends_def http_Do_def)

lemma sends_Get [inv_intros]: "P (HttpGet u hs) \<Longrightarrow> sends P (http_Get E u hs)"
  by (simp add: http_Get_def sends_return sends_http)

lemma sends_PostForm [inv_intros]: "P (HttpPostForm u vs) \<Longrightarrow> sends P (http_PostForm E u vs)"
  by (simp add: http_PostForm_def sends_return sends_http)

text \<open>\<open>ensures I m Q\<close>: the computation keeps the invariant \<open>I\<close> of the world, and its result
  satisfies \<open>Q\<close>.\<close>

definition ensures :: "(world \<Rightarrow> bool) \<Rightarrow> (world, 'a) state \<Rightarrow> ('a \<Rightarrow> bool) \<Rightarrow> bool" where
  "ensures I m Q \<longleftrightarrow> (\<forall>w. I w \<longrightarrow> (case run_state m w of (a, w') \<Rightarrow> Q a \<and> I w'))"

lemma ensures_return [inv_intros]: "Q a \<Longrightarrow> ensures I (return a) Q"
  by (simp add: ensures_def)

lemma ensures_bind:
  assumes "ensures I m R" "\<And>a. R a \<Longrightarrow> ensures I (f a) Q"
  shows "ensures I (State_Monad.bind m f) Q"
  unfolding ensures_def
proof (intro allI impI)
  fix w
  assume w: "I w"
  obtain a w1 where 1: "run_state m w = (a, w1)" by fastforce
  with assms(1) w have "R a" "I w1" unfolding ensures_def by fastforce+
  with assms(2) 1 show "case run_state (State_Monad.bind m f) w of (b, w') \<Rightarrow> Q b \<and> I w'"
    unfolding ensures_def by auto
qed

lemma ensures_step:
  assumes "ensures I m (\<lambda>_. True)" "\<And>a. ensures I (f a) Q"
  shows "ensures I (State_Monad.bind m f) Q"
  using assms by (intro ensures_bind [where R = "\<lambda>_. True"]) auto

lemma ensuresD: "ensures I m Q \<Longrightarrow> I w \<Longrightarrow> run_state m w = (a, w') \<Longrightarrow> Q a \<and> I w'"
  by (auto simp: ensures_def split: prod.splits)

lemma ensures_weaken: "ensures I m Q \<Longrightarrow> (\<And>a. Q a \<Longrightarrow> R a) \<Longrightarrow> ensures I m R"
  by (auto simp: ensures_def split: prod.splits)

text \<open>\<open>frames g m\<close>: the computation leaves the part \<open>g\<close> of the world alone.\<close>

definition frames :: "(world \<Rightarrow> 'b) \<Rightarrow> (world, 'a) state \<Rightarrow> bool" where
  "frames g m \<longleftrightarrow> (\<forall>w. g (snd (run_state m w)) = g w)"

lemma frames_return [inv_intros]: "frames g (return a)"
  by (simp add: frames_def)

lemma frames_bind [inv_intros]:
  "frames g m \<Longrightarrow> (\<And>a. frames g (f a)) \<Longrightarrow> frames g (State_Monad.bind m f)"
  by (simp add: frames_def split: prod.split) (metis snd_conv)

lemma frames_effects [inv_intros]:
  "frames w_validator (time_Now E)" "frames w_validator nonce" "frames w_validator panic"
  by (simp_all add: frames_def io_simps)

lemma ensures_framed:
  assumes "ensures I m Q" "frames g m"
  shows "ensures (\<lambda>w. I w \<and> P (g w)) m Q"
  unfolding ensures_def
proof (intro allI impI)
  fix w
  assume w: "I w \<and> P (g w)"
  obtain a w' where r: "run_state m w = (a, w')" by fastforce
  with assms(2) have "g w' = g w" unfolding frames_def by (metis snd_conv)
  with w r ensuresD [OF assms(1)] show "case run_state m w of (a, w') \<Rightarrow> Q a \<and> I w' \<and> P (g w')" by auto
qed

lemma run_bindE:
  assumes "run_state (State_Monad.bind m f) w = (b, w')"
  obtains a w1 where "run_state m w = (a, w1)" "run_state (f a) w1 = (b, w')"
  using assms by (auto split: prod.splits)

end
