(* ===== verification/Cimd.thy ===== *)
theory Cimd
  imports Oauth_Env
begin

text \<open>
  \<open>cimd.go\<close>: resolution of an OAuth client from its metadata document. The \<open>client_id\<close> is an
  HTTPS URL; it is validated, looked up in the cache, fetched through the filtering dialer,
  checked, and cached for the time its Cache-Control allows. Shown: what the checks admit, what a
  resolved client satisfies and how old it can be, that only the client's own URL is fetched,
  and that the caches stay well formed and nothing panics. The statements over whole runs are in
  \<open>Client_Theorems\<close>.
\<close>

definition cimdMaxURLLength :: nat where "cimdMaxURLLength = 2048"
definition cimdMaxBodyBytes :: nat where "cimdMaxBodyBytes = 5 * 1024"
definition cimdMaxRedirectURIs :: nat where "cimdMaxRedirectURIs = 20"
definition cimdMaxRedirectURILength :: nat where "cimdMaxRedirectURILength = 2048"
definition cimdMaxClientNameLength :: nat where "cimdMaxClientNameLength = 128"
definition cimdDefaultCacheTTL :: int where "cimdDefaultCacheTTL = 5 * minute"
definition cimdMaxCacheTTL :: int where "cimdMaxCacheTTL = hour"
definition jwksMaxBodyBytes :: nat where "jwksMaxBodyBytes = 64 * 1024"
definition cimdNegativeCacheTTL :: int where "cimdNegativeCacheTTL = 30 * second"

subsection \<open>The client identifier URL\<close>

definition validateCIMDPath :: "env \<Rightarrow> string \<Rightarrow> (cimd_error, unit) result" where
  "validateCIMDPath E rawPath =
    (if \<not> HasPrefix rawPath ''/'' then Inl (errCIMDInvalidURL ''path must start with /'')
     else
       (let upper = ToUpper (env_unicode E) rawPath in
        if Contains upper ''%2F'' \<or> Contains upper ''%5C''
        then Inl (errCIMDInvalidURL ''encoded slash or backslash in path'')
        else case unescape rawPath encodePathSegment of
          None \<Rightarrow> Inl (errCIMDInvalidURL ''invalid percent-encoding in path'')
        | Some decoded \<Rightarrow>
          (let cleaned = Clean decoded in
           if cleaned \<noteq> decoded \<and> cleaned @ ''/'' \<noteq> decoded
           then Inl (errCIMDInvalidURL ''dot-segment in path'')
           else Inr ())))"

definition validateCIMDClientIDURL :: "env \<Rightarrow> string \<Rightarrow> (cimd_error, url) result" where
  "validateCIMDClientIDURL E raw =
    (if raw = [] \<or> cimdMaxURLLength < length raw then Inl (errCIMDInvalidURL ''length out of range'')
     else case Parse raw of
       None \<Rightarrow> Inl (errCIMDInvalidURL ''parse'')
     | Some u \<Rightarrow>
       if Scheme u \<noteq> ''https'' then Inl (errCIMDInvalidURL ''scheme must be https'')
       else if User u \<noteq> None then Inl (errCIMDInvalidURL ''userinfo not allowed'')
       else if Fragment u \<noteq> [] then Inl (errCIMDInvalidURL ''fragment not allowed'')
       else if RawQuery u \<noteq> [] then Inl (errCIMDInvalidURL ''query not allowed'')
       else if Hostname u = [] then Inl (errCIMDInvalidURL ''hostname required'')
       else if Port u \<noteq> [] \<and> Port u \<noteq> ''443'' then Inl (errCIMDInvalidURL ''port not allowed'')
       else case env_idna E (Hostname u) of
         None \<Rightarrow> Inl (errCIMDInvalidURL ''hostname IDNA failure'')
       | Some asciiHost \<Rightarrow>
         if asciiHost \<noteq> Hostname u then Inl (errCIMDInvalidURL ''hostname must be lowercase ASCII'')
         else if Path u = [] \<or> Path u = ''/'' then Inl (errCIMDInvalidURL ''non-empty path required'')
         else case validateCIMDPath E (EscapedPath u) of
           Inl err \<Rightarrow> Inl err
         | Inr _ \<Rightarrow> Inr u)"

subsection \<open>The metadata document\<close>

definition validateJWKSURI :: "env \<Rightarrow> string \<Rightarrow> (cimd_error, unit) result" where
  "validateJWKSURI E raw =
    (if raw = [] \<or> cimdMaxURLLength < length raw
     then Inl (errCIMDInvalidMetadata ''jwks_uri length out of range'')
     else case Parse raw of
       None \<Rightarrow> Inl (errCIMDInvalidMetadata ''jwks_uri parse'')
     | Some u \<Rightarrow>
       if Scheme u \<noteq> ''https'' then Inl (errCIMDInvalidMetadata ''jwks_uri scheme must be https'')
       else if User u \<noteq> None \<or> Fragment u \<noteq> []
       then Inl (errCIMDInvalidMetadata ''jwks_uri userinfo/fragment not allowed'')
       else if Hostname u = [] then Inl (errCIMDInvalidMetadata ''jwks_uri hostname required'')
       else if Port u \<noteq> [] \<and> Port u \<noteq> ''443'' then Inl (errCIMDInvalidMetadata ''jwks_uri port not allowed'')
       else if env_idna E (Hostname u) \<noteq> Some (Hostname u)
       then Inl (errCIMDInvalidMetadata ''jwks_uri hostname must be lowercase ASCII'')
       else if Path u \<noteq> [] then
         (case validateCIMDPath E (EscapedPath u) of
            Inl _ \<Rightarrow> Inl (errCIMDInvalidMetadata ''jwks_uri'')
          | Inr _ \<Rightarrow> Inr ())
       else Inr ())"

definition validateCIMDRedirectURI :: "string \<Rightarrow> (cimd_error, unit) result" where
  "validateCIMDRedirectURI ru =
    (case Parse ru of
       None \<Rightarrow> Inl (errCIMDInvalidMetadata ''redirect_uri parse'')
     | Some u \<Rightarrow>
       if Scheme u \<noteq> ''https'' then Inl (errCIMDInvalidMetadata ''redirect_uri scheme must be https'')
       else if Host u = [] then Inl (errCIMDInvalidMetadata ''redirect_uri host required'')
       else Inr ())"

text \<open>The loops over the redirect URIs (with the map \<open>seen\<close>), the grant types and the response
  types.\<close>

fun redirect_uris_loop :: "string list \<Rightarrow> string list \<Rightarrow> (cimd_error, unit) result" where
  "redirect_uris_loop seen [] = Inr ()"
| "redirect_uris_loop seen (ru # rus) =
    (if ru = [] \<or> cimdMaxRedirectURILength < length ru
     then Inl (errCIMDInvalidMetadata ''redirect_uri length out of range'')
     else if ru \<in> set seen then Inl (errCIMDInvalidMetadata ''duplicate redirect_uri'')
     else case validateCIMDRedirectURI ru of
       Inl e \<Rightarrow> Inl e
     | Inr _ \<Rightarrow> redirect_uris_loop (ru # seen) rus)"

fun grant_types_loop :: "bool \<Rightarrow> string list \<Rightarrow> (cimd_error, bool) result" where
  "grant_types_loop hasAuthCode [] = Inr hasAuthCode"
| "grant_types_loop hasAuthCode (gt # gts) =
    (if gt = ''authorization_code'' then grant_types_loop True gts
     else if gt = ''refresh_token'' then grant_types_loop hasAuthCode gts
     else Inl (errCIMDInvalidMetadata ''unsupported grant_type''))"

fun response_types_loop :: "bool \<Rightarrow> string list \<Rightarrow> (cimd_error, bool) result" where
  "response_types_loop hasCode [] = Inr hasCode"
| "response_types_loop hasCode (rt # rts) =
    (if rt = ''code'' then response_types_loop True rts
     else Inl (errCIMDInvalidMetadata ''unsupported response_type''))"

definition check_auth_method :: "env \<Rightarrow> client_document \<Rightarrow> (cimd_error, unit) result" where
  "check_auth_method E doc =
    (if doc_TokenEndpointAuthMethod doc = ''none'' then Inr ()
     else if doc_TokenEndpointAuthMethod doc = ''private_key_jwt'' then
       (if doc_JWKSURI doc = [] then Inl (errCIMDInvalidMetadata ''jwks_uri required'')
        else validateJWKSURI E (doc_JWKSURI doc))
     else Inl (errCIMDInvalidMetadata ''token_endpoint_auth_method unsupported''))"

definition check_types :: "client_document \<Rightarrow> (cimd_error, unit) result" where
  "check_types doc =
    (case (if 0 < length (doc_GrantTypes doc) then grant_types_loop False (doc_GrantTypes doc) else Inr True) of
       Inl e \<Rightarrow> Inl e
     | Inr hasAuthCode \<Rightarrow>
       if \<not> hasAuthCode then Inl (errCIMDInvalidMetadata ''grant_types must include authorization_code'')
       else case (if 0 < length (doc_ResponseTypes doc)
                  then response_types_loop False (doc_ResponseTypes doc) else Inr True) of
         Inl e \<Rightarrow> Inl e
       | Inr hasCode \<Rightarrow>
         if \<not> hasCode then Inl (errCIMDInvalidMetadata ''response_types must include code'') else Inr ())"

definition parseCIMDMetadata :: "env \<Rightarrow> string \<Rightarrow> string \<Rightarrow> (cimd_error, registeredClient) result" where
  "parseCIMDMetadata E clientIDURL body =
    (case env_document E body of
       None \<Rightarrow> Inl (errCIMDInvalidMetadata ''decode'')
     | Some doc \<Rightarrow>
       if doc_ClientID doc \<noteq> clientIDURL then Inl (errCIMDInvalidMetadata ''client_id mismatch'')
       else if doc_ClientName doc = [] \<or> cimdMaxClientNameLength < length (doc_ClientName doc)
       then Inl (errCIMDInvalidMetadata ''client_name length out of range'')
       else if doc_ClientSecret doc \<noteq> [] \<or> \<not> doc_ClientSecretExpiresAt_IsZero doc
       then Inl (errCIMDInvalidMetadata ''client_secret not allowed for CIMD public client'')
       else case check_auth_method E doc of
         Inl e \<Rightarrow> Inl e
       | Inr _ \<Rightarrow>
         if length (doc_RedirectURIs doc) = 0 \<or> cimdMaxRedirectURIs < length (doc_RedirectURIs doc)
         then Inl (errCIMDInvalidMetadata ''redirect_uris count out of range'')
         else case redirect_uris_loop [] (doc_RedirectURIs doc) of
           Inl e \<Rightarrow> Inl e
         | Inr _ \<Rightarrow>
           (case check_types doc of
              Inl e \<Rightarrow> Inl e
            | Inr _ \<Rightarrow>
              Inr \<lparr>rc_RedirectURIs = doc_RedirectURIs doc,
                   rc_TokenEndpointAuthMethod = doc_TokenEndpointAuthMethod doc,
                   rc_JWKSURI = doc_JWKSURI doc\<rparr>))"

subsection \<open>Cache lifetime\<close>

definition isApplicationJSON :: "env \<Rightarrow> string \<Rightarrow> bool" where
  "isApplicationJSON E ct = EqualFold (env_unicode E) (TrimSpace (fst (Cut ct (CHR '';'')))) ''application/json''"

text \<open>The loop over the directives; \<open>maxAge\<close> is the running value, -1 before any max-age.\<close>

fun directives_loop :: "env \<Rightarrow> int \<Rightarrow> string list \<Rightarrow> int" where
  "directives_loop E maxAge [] =
    (if maxAge < 0 then cimdDefaultCacheTTL
     else if cimdMaxCacheTTL < maxAge then cimdMaxCacheTTL
     else maxAge)"
| "directives_loop E maxAge (raw # rest) =
    (let directive = TrimSpace (ToLower (env_unicode E) raw) in
     if directive = [] then directives_loop E maxAge rest
     else if directive = ''no-store'' \<or> directive = ''no-cache'' then 0
     else if HasPrefix directive ''max-age='' then
       (case Atoi (TrimPrefix directive ''max-age='') of
          None \<Rightarrow> directives_loop E maxAge rest
        | Some n \<Rightarrow>
          if n \<le> 0 then 0
          else if cimdMaxCacheTTL div second < n then cimdMaxCacheTTL
          else directives_loop E (wrap64 (n * second)) rest)
     else directives_loop E maxAge rest)"

definition cacheTTLFromHeader :: "env \<Rightarrow> string \<Rightarrow> int" where
  "cacheTTLFromHeader E cc =
    (if cc = [] then cimdDefaultCacheTTL else directives_loop E (- 1) (Split cc (CHR '','')))"

subsection \<open>Fetching and caching\<close>

definition JoinHostPort :: "string \<Rightarrow> string \<Rightarrow> string" where
  "JoinHostPort host port =
    (if CHR '':'' \<in> set host \<or> CHR ''%'' \<in> set host then ''['' @ host @ '']:'' @ port else host @ '':'' @ port)"

text \<open>The address \<open>http.Transport\<close> dials for a URL.\<close>

definition canonicalAddr :: "url \<Rightarrow> string" where
  "canonicalAddr u =
    JoinHostPort (Hostname u)
      (if Port u \<noteq> [] then Port u
       else if Scheme u = ''https'' then ''443''
       else if Scheme u = ''http'' then ''80''
       else [])"

datatype do_error = DoBuild | DoDial dial_error | DoTransport

text \<open>\<open>http.NewRequestWithContext\<close> and \<open>r.httpClient.Do\<close> of the resolver's client: every request
  opens its connection with \<^const>\<open>ssrfSafeDial\<close>; there is no proxy and redirects are not followed.
  A pooled connection that is reused was opened the same way.\<close>

definition resolver_Do :: "env \<Rightarrow> string \<Rightarrow> (world, (do_error, http_in) result) state" where
  "resolver_Do E u =
    State (\<lambda>w.
      case Parse u of
        None \<Rightarrow> (Inl DoBuild, w)
      | Some pu \<Rightarrow>
        (let n = w_tick w; out = HttpGet u [(''Accept'', ''application/json'')] in
         case ssrfSafeDial (env_resolveIP E n) (env_dial E n) ''tcp'' (canonicalAddr pu) of
           (dialed, res) \<Rightarrow>
             (let w1 = w\<lparr>w_tick := Suc n,
                         w_dialed := w_dialed w @ (case dialed of None \<Rightarrow> [] | Some a \<Rightarrow> [a])\<rparr> in
              case res of
                Inl e \<Rightarrow> (Inl (DoDial e), w1)
              | Inr c \<Rightarrow>
                (let w2 = w1\<lparr>w_sent := w_sent w1 @ [out]\<rparr> in
                 case env_http E n out of
                   None \<Rightarrow> (Inl DoTransport, w2)
                 | Some resp \<Rightarrow> (Inr resp, w2)))))"

definition fetchAndValidate :: "env \<Rightarrow> string \<Rightarrow> (world, (cimd_error, registeredClient \<times> int) result) state" where
  "fetchAndValidate E clientIDURL = do {
     r \<leftarrow> resolver_Do E clientIDURL;
     return (case r of
       Inl DoBuild \<Rightarrow> Inl (errCIMDFetch ''build request'')
     | Inl e \<Rightarrow> Inl (errCIMDFetch [])
     | Inr resp \<Rightarrow>
       if in_Status resp div 100 = 3 then Inl (errCIMDFetch ''unexpected redirect'')
       else if in_Status resp \<noteq> 200 then Inl (errCIMDFetch ''HTTP'')
       else if \<not> isApplicationJSON E (in_ContentType resp) then Inl (errCIMDFetch ''content-type'')
       else case read_limited (cimdMaxBodyBytes + 1) resp of
         None \<Rightarrow> Inl (errCIMDFetch ''body read'')
       | Some body \<Rightarrow>
         if cimdMaxBodyBytes < length body then Inl (errCIMDFetch ''body exceeds'')
         else case parseCIMDMetadata E clientIDURL body of
           Inl e \<Rightarrow> Inl e
         | Inr client \<Rightarrow> Inr (client, cacheTTLFromHeader E (in_CacheControl resp)))
   }"

definition cache_get :: "string \<Rightarrow> int \<Rightarrow> (world, (registeredClient, cimd_error) cimdCacheEntry option) state" where
  "cache_get key now =
    State (\<lambda>w. case cimdCache_get (w_cache w) key now of (e, c) \<Rightarrow> (e, w\<lparr>w_cache := c\<rparr>))"

definition cache_put :: "string \<Rightarrow> (registeredClient, cimd_error) cimdCacheEntry \<Rightarrow> int \<Rightarrow> (world, unit) state" where
  "cache_put key e now =
    State (\<lambda>w. case cimdCache_put (w_cache w) key e now of
                 None \<Rightarrow> ((), w\<lparr>w_panicked := True\<rparr>)
               | Some c \<Rightarrow> ((), w\<lparr>w_cache := c\<rparr>))"

text \<open>\<open>errors.Is\<close> against the three sentinels that are cached.\<close>

fun negative_cached :: "cimd_error \<Rightarrow> bool" where
  "negative_cached (errCIMDInvalidMetadata m) = True"
| "negative_cached (errCIMDInvalidURL m) = True"
| "negative_cached (errCIMDSSRFBlocked m) = True"
| "negative_cached _ = False"

definition store_result ::
  "env \<Rightarrow> string \<Rightarrow> (cimd_error, registeredClient \<times> int) result \<Rightarrow>
   (world, (cimd_error, registeredClient) result) state" where
  "store_result E clientIDURL res = do {
     now \<leftarrow> time_Now E;
     (case res of
        Inl err \<Rightarrow> do {
          (if negative_cached err
           then cache_put clientIDURL
             \<lparr>ce_client = None, ce_err = Some err, ce_expiresAt = now + cimdNegativeCacheTTL\<rparr> now
           else return ());
          return (Inl err)
        }
      | Inr (client, ttl) \<Rightarrow> do {
          (if 0 < ttl
           then cache_put clientIDURL \<lparr>ce_client = Some client, ce_err = None, ce_expiresAt = now + ttl\<rparr> now
           else return ());
          return (Inr client)
        })
   }"

definition resolve :: "env \<Rightarrow> string \<Rightarrow> (world, (cimd_error, registeredClient) result) state" where
  "resolve E clientIDURL =
    (case validateCIMDClientIDURL E clientIDURL of
       Inl err \<Rightarrow> do {
         t \<leftarrow> time_Now E;
         now \<leftarrow> time_Now E;
         cache_put clientIDURL
           \<lparr>ce_client = None, ce_err = Some err, ce_expiresAt = t + cimdNegativeCacheTTL\<rparr> now;
         return (Inl err)
       }
     | Inr _ \<Rightarrow> do {
         now \<leftarrow> time_Now E;
         hit \<leftarrow> cache_get clientIDURL now;
         (case hit of
            Some e \<Rightarrow>
              (case ce_err e of
                 Some err \<Rightarrow> return (Inl err)
               | None \<Rightarrow>
                 (case ce_client e of
                    Some client \<Rightarrow> return (Inr client)
                  | None \<Rightarrow> do { panic; return (Inl (errCIMDFetch ''nil client'')) }))
          | None \<Rightarrow> do {
              res \<leftarrow> fetchAndValidate E clientIDURL;
              store_result E clientIDURL res
            })
       })"

subsection \<open>What the checks admit\<close>

definition valid_redirect :: "string \<Rightarrow> bool" where
  "valid_redirect ru \<longleftrightarrow> ru \<noteq> [] \<and> length ru \<le> cimdMaxRedirectURILength \<and>
     (\<exists>u. Parse ru = Some u \<and> Scheme u = ''https'' \<and> Host u \<noteq> [])"

lemma redirect_uri_ok: "validateCIMDRedirectURI ru = Inr () \<longleftrightarrow>
    (\<exists>u. Parse ru = Some u \<and> Scheme u = ''https'' \<and> Host u \<noteq> [])"
  by (auto simp: validateCIMDRedirectURI_def split: option.splits)

lemma redirect_uris_loop_ok:
  "redirect_uris_loop seen rus = Inr () \<longleftrightarrow>
     list_all valid_redirect rus \<and> distinct rus \<and> set rus \<inter> set seen = {}"
proof (induction seen rus rule: redirect_uris_loop.induct)
  case (2 seen ru rus)
  have "(case validateCIMDRedirectURI ru of Inl e \<Rightarrow> Inl e | Inr x \<Rightarrow> redirect_uris_loop (ru # seen) rus) = Inr ()
      \<longleftrightarrow> validateCIMDRedirectURI ru = Inr () \<and> redirect_uris_loop (ru # seen) rus = Inr ()"
    by (auto split: sum.splits)
  with 2 show ?case
    by (auto simp: valid_redirect_def redirect_uri_ok not_less split: sum.splits)
qed simp

lemma grant_types_loop_ok:
  "grant_types_loop b gts = Inr r \<longleftrightarrow>
     set gts \<subseteq> {''authorization_code'', ''refresh_token''} \<and>
     r = (b \<or> ''authorization_code'' \<in> set gts)"
  by (induction b gts rule: grant_types_loop.induct) auto

lemma response_types_loop_ok:
  "response_types_loop b rts = Inr r \<longleftrightarrow> set rts \<subseteq> {''code''} \<and> r = (b \<or> rts \<noteq> [])"
  by (induction b rts rule: response_types_loop.induct) auto

text \<open>A client that passed the checks.\<close>

definition client_ok :: "env \<Rightarrow> registeredClient \<Rightarrow> bool" where
  "client_ok E c \<longleftrightarrow>
     list_all valid_redirect (rc_RedirectURIs c) \<and> distinct (rc_RedirectURIs c) \<and>
     0 < length (rc_RedirectURIs c) \<and> length (rc_RedirectURIs c) \<le> cimdMaxRedirectURIs \<and>
     (rc_TokenEndpointAuthMethod c = ''none'' \<or>
      rc_TokenEndpointAuthMethod c = ''private_key_jwt'' \<and> validateJWKSURI E (rc_JWKSURI c) = Inr ())"

lemma parseCIMDMetadata_ok:
  assumes "parseCIMDMetadata E k body = Inr c"
  shows "client_ok E c \<and> (\<exists>doc. env_document E body = Some doc \<and> doc_ClientID doc = k \<and>
    rc_RedirectURIs c = doc_RedirectURIs doc)"
proof -
  obtain doc where d: "env_document E body = Some doc" "doc_ClientID doc = k"
    "check_auth_method E doc = Inr ()" "redirect_uris_loop [] (doc_RedirectURIs doc) = Inr ()"
    "length (doc_RedirectURIs doc) \<noteq> 0" "\<not> cimdMaxRedirectURIs < length (doc_RedirectURIs doc)"
    "c = \<lparr>rc_RedirectURIs = doc_RedirectURIs doc,
          rc_TokenEndpointAuthMethod = doc_TokenEndpointAuthMethod doc, rc_JWKSURI = doc_JWKSURI doc\<rparr>"
    using assms by (auto simp: parseCIMDMetadata_def split: option.splits if_splits sum.splits)
  from d(3) have "doc_TokenEndpointAuthMethod doc = ''none'' \<or>
      doc_TokenEndpointAuthMethod doc = ''private_key_jwt'' \<and> validateJWKSURI E (doc_JWKSURI doc) = Inr ()"
    by (auto simp: check_auth_method_def split: if_splits)
  with d show ?thesis by (auto simp: client_ok_def redirect_uris_loop_ok)
qed

lemma validateCIMDPath_cases: "validateCIMDPath E p = Inr () \<or> (\<exists>m. validateCIMDPath E p = Inl (errCIMDInvalidURL m))"
  by (auto simp: validateCIMDPath_def Let_def split: option.splits)

text \<open>Cache lifetimes.\<close>

lemma ttl_consts: "second = 1000000000" "cimdMaxCacheTTL = 3600 * second" "cimdDefaultCacheTTL = 300 * second"
  by (simp_all add: cimdMaxCacheTTL_def cimdDefaultCacheTTL_def hour_def minute_def second_def)

lemma directives_loop_bounds:
  "m \<le> cimdMaxCacheTTL \<Longrightarrow> 0 \<le> directives_loop E m ds \<and> directives_loop E m ds \<le> cimdMaxCacheTTL"
proof (induction E m ds rule: directives_loop.induct)
  case (2 E m raw rest)
  have "0 < n \<Longrightarrow> n \<le> cimdMaxCacheTTL div second \<Longrightarrow> wrap64 (n * second) \<le> cimdMaxCacheTTL" for n
    by (simp add: ttl_consts wrap64_def)
  with 2 show ?case
    by (auto simp: Let_def ttl_consts(2,3) split: option.splits) (simp_all add: ttl_consts(1))
qed (auto simp: ttl_consts)

subsection \<open>The invariant of the resolver's state\<close>

text \<open>What the resolver was given: at event \<open>n\<close> it connected, through the filtering dialer, to the
  host of the URL and was answered with this body.\<close>

definition resolver_served :: "env \<Rightarrow> nat \<Rightarrow> string \<Rightarrow> nat \<Rightarrow> string \<Rightarrow> bool" where
  "resolver_served E n u limit body \<longleftrightarrow>
     (\<exists>pu addr cn resp. Parse u = Some pu \<and>
        ssrfSafeDial (env_resolveIP E n) (env_dial E n) ''tcp'' (canonicalAddr pu) = (addr, Inr cn) \<and>
        env_http E n (HttpGet u [(''Accept'', ''application/json'')]) = Some resp \<and> in_Status resp = 200 \<and>
        isApplicationJSON E (in_ContentType resp) \<and> in_Body resp = Some body \<and> length body \<le> limit)"

text \<open>A client whose document was served at its own identifier and passed the checks, and a key set
  served at a URL.\<close>

definition client_at :: "env \<Rightarrow> nat \<Rightarrow> string \<Rightarrow> registeredClient \<Rightarrow> bool" where
  "client_at E n k c \<longleftrightarrow>
     is_ok (validateCIMDClientIDURL E k) \<and>
     (\<exists>body. resolver_served E n k cimdMaxBodyBytes body \<and> parseCIMDMetadata E k body = Inr c)"

definition keys_at :: "env \<Rightarrow> nat \<Rightarrow> string \<Rightarrow> jwk list \<Rightarrow> bool" where
  "keys_at E n u ks \<longleftrightarrow>
     ks \<noteq> [] \<and> (\<exists>body. resolver_served E n u jwksMaxBodyBytes body \<and> env_keyset E body = Some ks)"

definition client_of :: "env \<Rightarrow> string \<Rightarrow> registeredClient \<Rightarrow> bool" where
  "client_of E k c \<longleftrightarrow> (\<exists>n. client_at E n k c)"

text \<open>A positive cache entry holds what was fetched before, and expires at most the longest
  lifetime after that; the key-set cache has no negative entries.\<close>

definition entry_ok :: "env \<Rightarrow> nat \<Rightarrow> string \<Rightarrow> (registeredClient, cimd_error) cimdCacheEntry \<Rightarrow> bool" where
  "entry_ok E tick k e \<longleftrightarrow>
     (ce_err e = None \<longrightarrow>
       (\<exists>c n. ce_client e = Some c \<and> n < tick \<and> client_at E n k c \<and>
          ce_expiresAt e \<le> env_clock E (Suc n) + cimdMaxCacheTTL))"

definition keys_entry_ok :: "env \<Rightarrow> nat \<Rightarrow> string \<Rightarrow> (jwk list, cimd_error) cimdJWKSCacheEntry \<Rightarrow> bool" where
  "keys_entry_ok E tick u e \<longleftrightarrow>
     (\<exists>ks n. je_err e = None \<and> je_keys e = Some ks \<and> n < tick \<and> keys_at E n u ks \<and>
        je_expiresAt e \<le> env_clock E (Suc n) + cimdMaxCacheTTL)"

lemma entry_ok_mono:
  "entry_ok E m k e \<Longrightarrow> m \<le> n \<Longrightarrow> entry_ok E n k e"
  "keys_entry_ok E m u e' \<Longrightarrow> m \<le> n \<Longrightarrow> keys_entry_ok E n u e'"
  unfolding entry_ok_def keys_entry_ok_def by (meson less_le_trans)+

definition world_inv :: "env \<Rightarrow> world \<Rightarrow> bool" where
  "world_inv E w \<longleftrightarrow>
     \<not> w_panicked w \<and> cache_inv (w_cache w) \<and> cache_inv (w_jwksCache w) \<and>
     capacity (w_cache w) = nat cimdCacheCap \<and> capacity (w_jwksCache w) = nat cimdCacheCap \<and>
     (\<forall>(k, e) \<in> set (fifo (w_cache w)). entry_ok E (w_tick w) k e) \<and>
     (\<forall>(u, e) \<in> set (fifo (w_jwksCache w)). keys_entry_ok E (w_tick w) u e) \<and>
     (\<forall>a \<in> set (w_dialed w). \<not> isBlockedIP (Some a))"

lemma world_inv_ticks: "world_inv E w \<Longrightarrow> w_tick w \<le> n \<Longrightarrow> world_inv E (w\<lparr>w_tick := n\<rparr>)"
  unfolding world_inv_def by (auto intro: entry_ok_mono)

lemmas world_inv_tick [simp, intro] = world_inv_ticks [OF _ le_SucI [OF order_refl]]

lemma world_inv_sent [simp]: "world_inv E (w\<lparr>w_sent := l\<rparr>) = world_inv E w"
  and world_inv_validator [simp]: "world_inv E (w\<lparr>w_validator := v\<rparr>) = world_inv E w"
  by (simp_all add: world_inv_def)

lemma capacity_new [simp]: "capacity (new_cache n) = nat (max 1 n)"
  by (simp add: new_cache_def)

lemma new_world_inv: "world_inv E new_world"
  by (simp add: world_inv_def new_world_def newCIMDCache_def newCIMDJWKSCache_def inv_intros cimdCacheCap_def)

lemma ensures_effects [inv_intros]:
  "ensures (world_inv E) (time_Now E') (\<lambda>_. True)" "ensures (world_inv E) (rand_Read E') (\<lambda>_. True)"
  "ensures (world_inv E) nonce (\<lambda>_. True)" "ensures (world_inv E) (http_Do E' out) (\<lambda>_. True)"
  "ensures (world_inv E) get_validator (\<lambda>_. True)" "ensures (world_inv E) (put_validator v) (\<lambda>_. True)"
  by (simp_all add: ensures_def io_simps)

lemma ensures_http [inv_intros]:
  "ensures (world_inv E) (http_Get E' u hs) (\<lambda>_. True)"
  "ensures (world_inv E) (http_PostForm E' u vs) (\<lambda>_. True)"
  by (simp_all add: http_Get_def http_PostForm_def inv_intros)

lemma world_inv_dialed:
  "world_inv E w \<Longrightarrow> \<forall>a \<in> set l. \<not> isBlockedIP (Some a) \<Longrightarrow> world_inv E (w\<lparr>w_dialed := w_dialed w @ l\<rparr>)"
  unfolding world_inv_def by auto

lemma dialed_allowed:
  "ssrfSafeDial res dl net addr = (Some a, r) \<Longrightarrow> \<not> isBlockedIP (Some a)"
  by (auto simp: ssrfSafeDial_def simp del: isBlockedIP.simps dest: pin_allowed pin_allowed [OF sym]
      split: option.splits prod.splits if_splits)

text \<open>What a request of the resolver changes: the trace, and the addresses dialed, which are permitted.\<close>

lemma resolver_Do_effect:
  assumes "run_state (resolver_Do E u) w = (r, w')"
  obtains n l s where "w' = w\<lparr>w_tick := n, w_dialed := w_dialed w @ l, w_sent := w_sent w @ s\<rparr>" "w_tick w \<le> n"
    "\<forall>a \<in> set l. \<not> isBlockedIP (Some a)" "set s \<subseteq> {HttpGet u [(''Accept'', ''application/json'')]}"
proof (cases "Parse u")
  case None
  with assms that [where n = "w_tick w" and l = "[]" and s = "[]"] show ?thesis by (simp add: resolver_Do_def)
next
  case (Some pu)
  obtain d res where r: "ssrfSafeDial (env_resolveIP E (w_tick w)) (env_dial E (w_tick w)) ''tcp'' (canonicalAddr pu) = (d, res)"
    by fastforce
  let ?l = "case d of None \<Rightarrow> [] | Some a \<Rightarrow> [a]"
  let ?s = "case res of Inl e \<Rightarrow> [] | Inr c \<Rightarrow> [HttpGet u [(''Accept'', ''application/json'')]]"
  have "\<forall>a \<in> set ?l. \<not> isBlockedIP (Some a)"
    using r by (auto dest: dialed_allowed simp del: isBlockedIP.simps split: option.splits)
  moreover have "w' = w\<lparr>w_tick := Suc (w_tick w), w_dialed := w_dialed w @ ?l, w_sent := w_sent w @ ?s\<rparr>"
    using assms Some r by (auto simp: resolver_Do_def Let_def split: sum.splits option.splits)
  moreover have "set ?s \<subseteq> {HttpGet u [(''Accept'', ''application/json'')]}" by (cases res) simp_all
  ultimately show ?thesis by (intro that [where n = "Suc (w_tick w)" and l = ?l and s = ?s]) (assumption | simp)+
qed

lemma ensures_resolver_Do [inv_intros]: "ensures (world_inv E) (resolver_Do E' u) (\<lambda>_. True)"
proof -
  have "world_inv E w'" if w: "world_inv E w" and r: "run_state (resolver_Do E' u) w = (r, w')" for w w' r
  proof -
    obtain n l s where "w' = w\<lparr>w_tick := n, w_dialed := w_dialed w @ l, w_sent := w_sent w @ s\<rparr>" "w_tick w \<le> n"
      "\<forall>a \<in> set l. \<not> isBlockedIP (Some a)" using resolver_Do_effect [OF r] by metis
    with world_inv_dialed [OF world_inv_ticks [OF w], of n l] show ?thesis by (simp del: isBlockedIP.simps)
  qed
  then show ?thesis by (auto simp: ensures_def split: prod.split)
qed

lemma resolver_Do_tick:
  "run_state (resolver_Do E u) w = (r, w') \<Longrightarrow> Parse u = Some pu \<Longrightarrow> w_tick w' = Suc (w_tick w)"
  by (auto simp: resolver_Do_def Let_def split: prod.splits sum.splits option.splits)

lemma read_limited_short:
  "read_limited (Suc n) resp = Some body \<Longrightarrow> \<not> n < length body \<Longrightarrow> in_Body resp = Some body"
  by (auto simp: read_limited_def)

lemma resolver_Do_served:
  assumes "run_state (resolver_Do E u) w = (Inr resp, w')" "in_Status resp = 200"
    "isApplicationJSON E (in_ContentType resp)" "read_limited (Suc limit) resp = Some body"
    "\<not> limit < length body"
  shows "resolver_served E (w_tick w) u limit body \<and> w_tick w' = Suc (w_tick w)"
proof -
  obtain pu addr cn where "Parse u = Some pu"
    "ssrfSafeDial (env_resolveIP E (w_tick w)) (env_dial E (w_tick w)) ''tcp'' (canonicalAddr pu) = (addr, Inr cn)"
    "env_http E (w_tick w) (HttpGet u [(''Accept'', ''application/json'')]) = Some resp"
    using assms(1) by (auto simp: resolver_Do_def Let_def split: prod.splits sum.splits option.splits)
  with assms read_limited_short [OF assms(4,5)] resolver_Do_tick [OF assms(1)] show ?thesis
    unfolding resolver_served_def by auto
qed

lemma cacheTTLFromHeader_le: "cacheTTLFromHeader E cc \<le> cimdMaxCacheTTL"
  using directives_loop_bounds [of "- 1" E "Split cc (CHR '','')"]
  by (auto simp: cacheTTLFromHeader_def ttl_consts)

lemma fetchAndValidate_Do:
  assumes "run_state (fetchAndValidate E k) w = (r, w')"
  obtains x where "run_state (resolver_Do E k) w = (x, w')"
  using assms by (auto simp: fetchAndValidate_def split: prod.splits)

lemma fetchAndValidate_client:
  assumes run: "run_state (fetchAndValidate E k) w = (Inr (c, ttl), w')" and u: "validateCIMDClientIDURL E k = Inr u"
  shows "client_at E (w_tick w) k c \<and> ttl \<le> cimdMaxCacheTTL"
proof -
  obtain x where x: "run_state (resolver_Do E k) w = (x, w')" by (rule fetchAndValidate_Do [OF run])
  with run obtain resp body where resp: "x = Inr resp" "in_Status resp = 200"
    "isApplicationJSON E (in_ContentType resp)" "read_limited (Suc cimdMaxBodyBytes) resp = Some body"
    "\<not> cimdMaxBodyBytes < length body" "parseCIMDMetadata E k body = Inr c"
    "ttl = cacheTTLFromHeader E (in_CacheControl resp)"
    by (auto simp: fetchAndValidate_def split: sum.splits do_error.splits if_splits option.splits)
  with u resolver_Do_served [OF x [unfolded resp(1)] resp(2-5)]
  show ?thesis unfolding client_at_def by (auto simp: cacheTTLFromHeader_le)
qed

lemma fetchAndValidate_run:
  assumes run: "run_state (fetchAndValidate E k) w = (r, w')" and inv: "world_inv E w"
    and u: "validateCIMDClientIDURL E k = Inr u"
  shows "world_inv E w' \<and> w_tick w' = Suc (w_tick w)"
    and "r = Inr (c, ttl) \<Longrightarrow> client_at E (w_tick w) k c \<and> ttl \<le> cimdMaxCacheTTL"
proof -
  from u have pu: "Parse k = Some u"
    by (auto simp: validateCIMDClientIDURL_def split: if_splits option.splits sum.splits)
  obtain x where x: "run_state (resolver_Do E k) w = (x, w')" by (rule fetchAndValidate_Do [OF run])
  from ensuresD [OF ensures_resolver_Do inv x] resolver_Do_tick [OF x pu]
  show "world_inv E w' \<and> w_tick w' = Suc (w_tick w)" by simp
qed (use fetchAndValidate_client run u in blast)

lemma world_inv_cache:
  assumes "world_inv E w" "cache_inv c" "capacity c = capacity (w_cache w)"
    "\<And>k e. (k, e) \<in> set (fifo c) \<Longrightarrow> (k, e) \<in> set (fifo (w_cache w)) \<or> entry_ok E (w_tick w) k e"
  shows "world_inv E (w\<lparr>w_cache := c\<rparr>)"
  using assms unfolding world_inv_def by fastforce

lemma cache_get_run:
  assumes "run_state (cache_get k now) w = (r, w')" "world_inv E w"
  shows "world_inv E w' \<and> w_tick w' = w_tick w"
    and "r = Some e \<Longrightarrow> entry_ok E (w_tick w) k e \<and> now \<le> ce_expiresAt e"
proof -
  have inv: "cache_inv (w_cache w)" using assms(2) by (simp add: world_inv_def)
  have "(world_inv E w' \<and> w_tick w' = w_tick w) \<and>
      (r = Some e \<longrightarrow> entry_ok E (w_tick w) k e \<and> now \<le> ce_expiresAt e)"
    using inv
  proof (cases rule: docs.get_cases [where k = k and now = now])
    case (hit e)
    then show ?thesis using assms by (auto simp: cache_get_def world_inv_def dest: map_of_SomeD)
  next
    case (miss c')
    then have "world_inv E (w\<lparr>w_cache := c'\<rparr>)"
      using assms(2) set_fifo_drop [of k "fifo (w_cache w)"] by (intro world_inv_cache) auto
    with miss(1) assms(1) show ?thesis by (auto simp: cache_get_def)
  qed
  then show "world_inv E w' \<and> w_tick w' = w_tick w"
    "r = Some e \<Longrightarrow> entry_ok E (w_tick w) k e \<and> now \<le> ce_expiresAt e" by auto
qed

lemma cache_put_run:
  assumes "run_state (cache_put k e now) w = (r, w')" "world_inv E w" "entry_ok E (w_tick w) k e"
  shows "world_inv E w'"
proof (cases "refuses_negative (fifo (w_cache w)) k e now")
  have inv: "cache_inv (w_cache w)" using assms(2) by (simp add: world_inv_def)
  case True
  then show ?thesis using assms docs.put_refused [OF inv] by (auto simp: cache_put_def)
next
  have inv: "cache_inv (w_cache w)" using assms(2) by (simp add: world_inv_def)
  case False
  then obtain c where "cimdCache_put (w_cache w) k e now = Some c" "cache_inv c"
    "capacity c = capacity (w_cache w)"
    "fifo c = fifo_put (capacity (w_cache w)) k e (fifo (w_cache w))"
    using docs.put_stored [OF inv] by blast
  moreover from this have "world_inv E (w\<lparr>w_cache := c\<rparr>)"
    using assms(2,3) set_fifo_put [of "capacity (w_cache w)" k e "fifo (w_cache w)"]
    by (intro world_inv_cache) auto
  ultimately show ?thesis using assms(1) by (auto simp: cache_put_def)
qed

lemma entry_ok_error [simp]: "entry_ok E n k \<lparr>ce_client = c, ce_err = Some err, ce_expiresAt = t\<rparr>"
  by (simp add: entry_ok_def)

lemma store_result_run:
  assumes "run_state (store_result E k res) w = (r, w')" "world_inv E w" "w_tick w = Suc n"
    and "\<And>c ttl. res = Inr (c, ttl) \<Longrightarrow> client_at E n k c \<and> ttl \<le> cimdMaxCacheTTL"
  shows "world_inv E w' \<and> r = map_sum id fst res"
proof -
  let ?w = "w\<lparr>w_tick := Suc (w_tick w)\<rparr>" and ?now = "env_clock E (Suc n)"
  have inv: "world_inv E ?w" using assms(2) by simp
  show ?thesis
  proof (cases res)
    case (Inl err)
    then show ?thesis
      using assms(1,3) inv cache_put_run [OF _ inv entry_ok_error]
      by (auto simp: store_result_def time_Now_def split: if_splits prod.splits)
  next
    case (Inr p)
    then obtain c ttl where p: "res = Inr (c, ttl)" by (cases p) auto
    then have "entry_ok E (Suc (Suc n)) k \<lparr>ce_client = Some c, ce_err = None, ce_expiresAt = ?now + ttl\<rparr>"
      using assms(4) by (auto simp: entry_ok_def intro!: exI [of _ n])
    then have "entry_ok E (w_tick ?w) k \<lparr>ce_client = Some c, ce_err = None, ce_expiresAt = ?now + ttl\<rparr>"
      using assms(3) by simp
    with p show ?thesis
      using assms(1,3) inv cache_put_run [OF _ inv]
      by (auto simp: store_result_def time_Now_def split: if_splits prod.splits)
  qed
qed

text \<open>A client the resolver returns was fetched now, or before and not longer ago than the
  longest lifetime.\<close>

definition recent :: "env \<Rightarrow> nat \<Rightarrow> nat \<Rightarrow> bool" where
  "recent E tick n \<longleftrightarrow>
     n = Suc tick \<or> n < tick \<and> env_clock E tick \<le> env_clock E (Suc n) + cimdMaxCacheTTL"

definition fresh_client :: "env \<Rightarrow> nat \<Rightarrow> string \<Rightarrow> registeredClient \<Rightarrow> bool" where
  "fresh_client E tick k c \<longleftrightarrow> (\<exists>n. client_at E n k c \<and> recent E tick n)"

lemma fresh_client_of: "fresh_client E t k c \<Longrightarrow> client_of E k c"
  by (auto simp: fresh_client_def client_of_def)

lemma resolve_run:
  assumes "run_state (resolve E k) w = (r, w')" "world_inv E w"
  shows "world_inv E w' \<and> (\<forall>c. r = Inr c \<longrightarrow> fresh_client E (w_tick w) k c)"
proof (cases "validateCIMDClientIDURL E k")
  case (Inl err)
  have "ensures (world_inv E) (cache_put k \<lparr>ce_client = None, ce_err = Some err, ce_expiresAt = t\<rparr> now) (\<lambda>_. True)"
    for t now using cache_put_run [OF _ _ entry_ok_error] by (auto simp: ensures_def)
  then have "ensures (world_inv E) (resolve E k) (\<lambda>r. r = Inl err)"
    unfolding resolve_def Inl sum.case by (auto intro!: ensures_step inv_intros)
  from ensuresD [OF this assms(2,1)] show ?thesis by simp
next
  case (Inr u)
  let ?w = "w\<lparr>w_tick := Suc (w_tick w)\<rparr>" and ?now = "env_clock E (w_tick w)"
  obtain hit w1 where g: "run_state (cache_get k ?now) ?w = (hit, w1)" by fastforce
  note w1 = cache_get_run [OF g world_inv_tick [OF assms(2)]]
  show ?thesis
  proof (cases hit)
    case None
    obtain res w2 where f: "run_state (fetchAndValidate E k) w1 = (res, w2)" by fastforce
    note w2 = fetchAndValidate_run [OF f conjunct1 [OF w1(1)] Inr]
    have "run_state (store_result E k res) w2 = (r, w')"
      using assms(1) Inr g f None by (simp add: resolve_def time_Now_def)
    from store_result_run [OF this conjunct1 [OF w2(1)] conjunct2 [OF w2(1)] w2(2)] w2(2) w1(1)
    show ?thesis by (cases res) (auto simp: fresh_client_def recent_def)
  next
    case (Some e)
    from g have "fst (cimdCache_get (w_cache w) k ?now) = Some e"
      using Some by (auto simp: cache_get_def split: prod.splits)
    then have "entry_ok E (w_tick w) k e \<and> ?now \<le> ce_expiresAt e"
      using cache_get_run(2) [of k ?now w hit "w\<lparr>w_cache := w_cache w1\<rparr>" E e] assms(2) Some g
      by (auto simp: cache_get_def split: prod.splits)
    then show ?thesis
      using assms(1) Inr g Some w1(1)
      by (cases "ce_err e")
        (auto simp: resolve_def time_Now_def entry_ok_def fresh_client_def recent_def intro: order_trans)
  qed
qed

lemma resolve_ensures:
  "ensures (world_inv E) (resolve E k) (\<lambda>r. \<forall>c. r = Inr c \<longrightarrow> client_of E k c)"
  using resolve_run fresh_client_of by (fastforce simp: ensures_def)

text \<open>The resolver asks for the client's own URL only.\<close>

lemma sends_resolver_Do: "sends (\<lambda>out. out = HttpGet u [(''Accept'', ''application/json'')]) (resolver_Do E u)"
  by (simp add: sends_def resolver_Do_def Let_def split: option.splits sum.splits prod.splits)

lemma sends_cache [inv_intros]: "sends P (cache_get k now)" "sends P (cache_put k e now)"
  by (simp_all add: sends_def cache_get_def cache_put_def split: option.splits prod.splits)

lemma sends_resolve: "sends (\<lambda>out. out = HttpGet k [(''Accept'', ''application/json'')]) (resolve E k)"
  unfolding resolve_def fetchAndValidate_def store_result_def
  by (auto intro!: inv_intros sends_resolver_Do split: sum.split option.split)

lemma frames_resolver [inv_intros]:
  "frames w_validator (resolver_Do E u)" "frames w_validator (cache_get k now)"
  "frames w_validator (cache_put k e now)"
  by (simp_all add: frames_def resolver_Do_def cache_get_def cache_put_def Let_def
      split: option.splits sum.splits prod.splits)

lemma frames_resolve: "frames w_validator (resolve E k)"
  unfolding resolve_def fetchAndValidate_def store_result_def
  by (auto intro!: inv_intros split: sum.split option.split)

subsection \<open>A cleaned path has no dot-segments\<close>

lemma clean_segs_proper:
  "\<forall>x \<in> set acc. x \<notin> {[], ''.'', ''..''} \<Longrightarrow> x \<in> set (clean_segs True acc xs) \<Longrightarrow>
   x \<notin> {[], ''.'', ''..''} \<and> (x \<in> set acc \<or> x \<in> set xs)"
proof (induction "True" acc xs rule: clean_segs.induct)
  case (2 acc y ys)
  then show ?case by (cases acc) (auto split: if_splits)
qed auto

lemma Clean_no_dots:
  assumes "HasPrefix p ''/''" "Clean p = p \<or> Clean p @ ''/'' = p" "x \<in> set (Split p (CHR ''/''))"
  shows "x \<noteq> ''.'' \<and> x \<noteq> ''..''"
proof -
  let ?segs = "clean_segs True [] (Split p (CHR ''/''))"
  have proper: "y \<in> set ?segs \<Longrightarrow> y \<notin> {[], ''.'', ''..''} \<and> CHR ''/'' \<notin> set y" for y
    using clean_segs_proper [of "[]" y "Split p (CHR ''/'')"] Split_no_sep by auto
  have c: "Clean p = ''/'' @ Join ?segs ''/''" using assms(1) by (simp add: Clean_def Let_def)
  have "set (Split (Clean p) (CHR ''/'')) \<subseteq> insert [] (set ?segs)"
    using c proper by (cases "?segs = []") (auto simp: Split_Join_segs)
  moreover have "Split (Clean p @ ''/'') (CHR ''/'') = Split (Clean p) (CHR ''/'') @ [[]]"
    using Split_append_sep [of "Clean p" "CHR ''/''" "[]"] by simp
  ultimately have "set (Split p (CHR ''/'')) \<subseteq> insert [] (set ?segs)"
    using assms(2) by (metis Un_insert_right empty_set insert_absorb2 insert_mono insert_subset list.simps(15)
        set_append subset_insertI sup_bot.right_neutral)
  with assms(3) proper show ?thesis by auto
qed

definition plain_path :: "env \<Rightarrow> string \<Rightarrow> bool" where
  "plain_path E p \<longleftrightarrow>
     (\<exists>decoded. unescape p encodePathSegment = Some decoded \<and>
        list_all (\<lambda>seg. seg \<noteq> ''.'' \<and> seg \<noteq> ''..'') (Split decoded (CHR ''/''))) \<and>
     \<not> Contains (ToUpper (env_unicode E) p) ''%2F'' \<and> \<not> Contains (ToUpper (env_unicode E) p) ''%5C''"

lemma validateCIMDPath_plain:
  assumes "validateCIMDPath E p = Inr ()"
  shows "plain_path E p"
proof -
  obtain d where d: "HasPrefix p ''/''" "unescape p encodePathSegment = Some d"
    "Clean d = d \<or> Clean d @ ''/'' = d"
    "\<not> Contains (ToUpper (env_unicode E) p) ''%2F''" "\<not> Contains (ToUpper (env_unicode E) p) ''%5C''"
    using assms by (auto simp: validateCIMDPath_def Let_def split: if_splits option.splits)
  have "HasPrefix d ''/''" using d(1,2) by (cases p) (auto simp: map_option_case split: option.splits)
  with d show ?thesis by (auto simp: plain_path_def list_all_iff dest: Clean_no_dots)
qed

lemma validateCIMDClientIDURL_ok:
  assumes "validateCIMDClientIDURL E raw = Inr u"
  shows "Parse raw = Some u" and "raw \<noteq> [] \<and> length raw \<le> cimdMaxURLLength"
    and "Scheme u = ''https'' \<and> User u = None \<and> Fragment u = [] \<and> RawQuery u = []"
    and "Hostname u \<noteq> [] \<and> env_idna E (Hostname u) = Some (Hostname u) \<and> (Port u = [] \<or> Port u = ''443'')"
    and "Path u \<noteq> [] \<and> Path u \<noteq> ''/'' \<and> plain_path E (EscapedPath u)"
proof -
  have "Parse raw = Some u \<and> raw \<noteq> [] \<and> length raw \<le> cimdMaxURLLength \<and>
    Scheme u = ''https'' \<and> User u = None \<and> Fragment u = [] \<and> RawQuery u = [] \<and>
    Hostname u \<noteq> [] \<and> env_idna E (Hostname u) = Some (Hostname u) \<and> (Port u = [] \<or> Port u = ''443'') \<and>
    Path u \<noteq> [] \<and> Path u \<noteq> ''/'' \<and> validateCIMDPath E (EscapedPath u) = Inr ()"
    using assms by (auto simp: validateCIMDClientIDURL_def split: if_splits option.splits sum.splits)
  then show "Parse raw = Some u" "raw \<noteq> [] \<and> length raw \<le> cimdMaxURLLength"
    "Scheme u = ''https'' \<and> User u = None \<and> Fragment u = [] \<and> RawQuery u = []"
    "Hostname u \<noteq> [] \<and> env_idna E (Hostname u) = Some (Hostname u) \<and> (Port u = [] \<or> Port u = ''443'')"
    "Path u \<noteq> [] \<and> Path u \<noteq> ''/'' \<and> plain_path E (EscapedPath u)"
    using validateCIMDPath_plain by blast+
qed

end
