(* ===== verification/Client_Assertion.thy ===== *)
theory Client_Assertion
  imports Cimd
begin

text \<open>
  \<open>client_assertion.go\<close>: client authentication with a signed assertion (RFC 7523). The client's
  key set is fetched through the same filtered client and cache discipline as its document; a
  key the cached set lacks causes one fetch more. Shown: where the keys come from and how old they
  can be, which key is chosen, what an accepted assertion satisfies, and that only the
  client's key-set URL is asked for.
\<close>

definition clientAssertionType :: string where
  "clientAssertionType = ''urn:ietf:params:oauth:client-assertion-type:jwt-bearer''"
definition clientAssertionMaxLifetime :: int where "clientAssertionMaxLifetime = 10 * minute"
definition clientAssertionClockSkew :: int where "clientAssertionClockSkew = 60 * second"

subsection \<open>The key set\<close>

definition fetchJWKSUncached :: "env \<Rightarrow> string \<Rightarrow> (world, (cimd_error, jwk list \<times> int) result) state" where
  "fetchJWKSUncached E jwksURI = do {
     r \<leftarrow> resolver_Do E jwksURI;
     return (case r of
       Inl DoBuild \<Rightarrow> Inl (errJWKSFetch ''build request'')
     | Inl e \<Rightarrow> Inl (errJWKSFetch [])
     | Inr resp \<Rightarrow>
       if in_Status resp div 100 = 3 then Inl (errJWKSFetch ''unexpected redirect'')
       else if in_Status resp \<noteq> 200 then Inl (errJWKSFetch ''HTTP'')
       else if \<not> isApplicationJSON E (in_ContentType resp) then Inl (errJWKSFetch ''content-type'')
       else case read_limited (jwksMaxBodyBytes + 1) resp of
         None \<Rightarrow> Inl (errJWKSFetch ''body read'')
       | Some body \<Rightarrow>
         if jwksMaxBodyBytes < length body then Inl (errJWKSFetch ''body exceeds'')
         else case env_keyset E body of
           None \<Rightarrow> Inl (errJWKSFetch ''decode'')
         | Some keys \<Rightarrow>
           if length keys = 0 then Inl (errJWKSFetch ''empty key set'')
           else Inr (keys, cacheTTLFromHeader E (in_CacheControl resp)))
   }"

definition keyset_get :: "string \<Rightarrow> int \<Rightarrow> (world, (jwk list, cimd_error) cimdJWKSCacheEntry option) state" where
  "keyset_get key now =
    State (\<lambda>w. case jwksCache_get (w_jwksCache w) key now of (e, c) \<Rightarrow> (e, w\<lparr>w_jwksCache := c\<rparr>))"

definition keyset_put :: "string \<Rightarrow> (jwk list, cimd_error) cimdJWKSCacheEntry \<Rightarrow> (world, unit) state" where
  "keyset_put key e =
    State (\<lambda>w. case jwksCache_put (w_jwksCache w) key e of
                 None \<Rightarrow> ((), w\<lparr>w_panicked := True\<rparr>)
               | Some c \<Rightarrow> ((), w\<lparr>w_jwksCache := c\<rparr>))"

definition keyset_invalidate :: "string \<Rightarrow> (world, unit) state" where
  "keyset_invalidate key =
    State (\<lambda>w. ((), w\<lparr>w_jwksCache := jwksCache_invalidate (w_jwksCache w) key\<rparr>))"

text \<open>The key set as a pointer: \<open>None\<close> is nil.\<close>

definition client_fetchJWKS :: "env \<Rightarrow> string \<Rightarrow> (world, (cimd_error, jwk list option) result) state" where
  "client_fetchJWKS E jwksURI = do {
     t \<leftarrow> time_Now E;
     hit \<leftarrow> keyset_get jwksURI t;
     (case hit of
        Some e \<Rightarrow> return (case je_err e of Some err \<Rightarrow> Inl err | None \<Rightarrow> Inr (je_keys e))
      | None \<Rightarrow> do {
          res \<leftarrow> fetchJWKSUncached E jwksURI;
          now \<leftarrow> time_Now E;
          (case res of
             Inl err \<Rightarrow> return (Inl err)
           | Inr (keys, ttl) \<Rightarrow> do {
               (if 0 < ttl
                then keyset_put jwksURI \<lparr>je_keys = Some keys, je_err = None, je_expiresAt = now + ttl\<rparr>
                else return ());
               return (Inr (Some keys))
             })
        })
   }"

subsection \<open>Choosing the key\<close>

definition isSigKey :: "jwk \<Rightarrow> bool" where
  "isSigKey k \<longleftrightarrow> jwk_Use k = [] \<or> jwk_Use k = ''sig''"

fun find_kid :: "string \<Rightarrow> jwk list \<Rightarrow> jwk option" where
  "find_kid kid [] = None"
| "find_kid kid (k # ks) = (if jwk_KeyID k = kid \<and> isSigKey k then Some k else find_kid kid ks)"

fun find_alg :: "string \<Rightarrow> jwk list \<Rightarrow> jwk option" where
  "find_alg alg [] = None"
| "find_alg alg (k # ks) =
    (if \<not> isSigKey k then find_alg alg ks
     else if jwk_Algorithm k = alg \<or> jwk_Algorithm k = [] then Some k
     else find_alg alg ks)"

definition selectJWK :: "jwk list option \<Rightarrow> string \<Rightarrow> string \<Rightarrow> jwk option" where
  "selectJWK set0 kid alg =
    (case set0 of
       None \<Rightarrow> None
     | Some keys \<Rightarrow> if kid \<noteq> [] then find_kid kid keys else find_alg alg keys)"

fun audienceMatches :: "string list \<Rightarrow> string \<Rightarrow> bool" where
  "audienceMatches [] expected = False"
| "audienceMatches (a # as) expected = (if a = expected then True else audienceMatches as expected)"

subsection \<open>The assertion\<close>

text \<open>The claims are checked after the signature; seconds are compared as durations, which cannot
  overflow for the difference of two NumericDates within \<open>time.Duration\<close> (saturating
  subtraction).\<close>

definition max_duration :: int where "max_duration = 2 ^ 63 - 1"

definition time_Sub :: "int \<Rightarrow> int \<Rightarrow> int" where
  "time_Sub t u = max (- (2 ^ 63)) (min max_duration (t - u))"

definition check_assertion_claims ::
  "env \<Rightarrow> string \<Rightarrow> string \<Rightarrow> int \<Rightarrow> jwt_claims \<Rightarrow> (cimd_error, unit) result" where
  "check_assertion_claims E clientID expectedAud now claims =
    (if \<not> env_ValidateWithLeeway E claims now clientAssertionClockSkew
     then Inl (errClientAssertionInvalid ''time claims'')
     else if \<not> audienceMatches (jc_Audience claims) expectedAud
     then Inl (errClientAssertionInvalid ''aud does not match token endpoint'')
     else case (jc_IssuedAt claims, jc_Expiry claims) of
       (Some iat, Some exp) \<Rightarrow>
         if clientAssertionMaxLifetime < time_Sub (time_Unix exp) (time_Unix iat)
         then Inl (errClientAssertionInvalid ''exp - iat too long'')
         else Inr ()
     | _ \<Rightarrow> Inr ())"

definition verify_with_key ::
  "env \<Rightarrow> string \<Rightarrow> string \<Rightarrow> string \<Rightarrow> jwk \<Rightarrow> (world, (cimd_error, unit) result) state" where
  "verify_with_key E clientID assertion expectedAud k =
    (case env_jwt_Claims E assertion (jwk_Key k) of
       None \<Rightarrow> return (Inl (errClientAssertionInvalid ''signature''))
     | Some claims \<Rightarrow>
       if jc_Issuer claims \<noteq> clientID then return (Inl (errClientAssertionInvalid ''iss''))
       else if jc_Subject claims \<noteq> clientID then return (Inl (errClientAssertionInvalid ''sub''))
       else do {
         now \<leftarrow> time_Now E;
         return (check_assertion_claims E clientID expectedAud now claims)
       })"

definition find_key ::
  "env \<Rightarrow> string \<Rightarrow> jws_header \<Rightarrow> (world, (cimd_error, jwk) result) state" where
  "find_key E jwksURI hdr = do {
     r \<leftarrow> client_fetchJWKS E jwksURI;
     (case r of
        Inl err \<Rightarrow> return (Inl (errClientAssertionInvalid ''jwks unavailable''))
      | Inr keys \<Rightarrow>
        (case selectJWK keys (hdr_KeyID hdr) (hdr_Algorithm hdr) of
           Some k \<Rightarrow> return (Inr k)
         | None \<Rightarrow> do {
             keyset_invalidate jwksURI;
             r' \<leftarrow> client_fetchJWKS E jwksURI;
             return (case r' of
               Inl err \<Rightarrow> Inl (errClientAssertionInvalid ''jwks unavailable'')
             | Inr keys' \<Rightarrow>
               (case selectJWK keys' (hdr_KeyID hdr) (hdr_Algorithm hdr) of
                  Some k \<Rightarrow> Inr k
                | None \<Rightarrow> Inl (errClientAssertionInvalid ''no matching key'')))
           }))
   }"

definition clientAssertionAlgs :: "string list" where
  "clientAssertionAlgs = [''RS256'', ''RS384'', ''RS512'', ''PS256'', ''PS384'', ''PS512'', ''ES256'', ''ES384'',
     ''ES512'', ''EdDSA'']"

definition verifyClientAssertion ::
  "env \<Rightarrow> registeredClient \<Rightarrow> string \<Rightarrow> string \<Rightarrow> string \<Rightarrow> (world, (cimd_error, unit) result) state" where
  "verifyClientAssertion E client clientID assertion expectedAud =
    (if rc_JWKSURI client = [] then return (Inl (errClientAssertionInvalid ''client did not publish jwks_uri''))
     else if assertion = [] then return (Inl (errClientAssertionInvalid ''missing client_assertion''))
     else case env_ParseSigned E clientAssertionAlgs assertion of
       None \<Rightarrow> return (Inl (errClientAssertionInvalid ''parse''))
     | Some [hdr] \<Rightarrow> do {
         r \<leftarrow> find_key E (rc_JWKSURI client) hdr;
         (case r of
            Inl err \<Rightarrow> return (Inl err)
          | Inr k \<Rightarrow> verify_with_key E clientID assertion expectedAud k)
       }
     | Some _ \<Rightarrow> return (Inl (errClientAssertionInvalid ''expected exactly one JWS signature'')))"

subsection \<open>Key selection\<close>

lemma find_kid_SomeD: "find_kid kid ks = Some k \<Longrightarrow> k \<in> set ks \<and> jwk_KeyID k = kid \<and> isSigKey k"
  by (induction ks) (auto split: if_splits)

lemma find_alg_SomeD:
  "find_alg alg ks = Some k \<Longrightarrow> k \<in> set ks \<and> isSigKey k \<and> (jwk_Algorithm k = alg \<or> jwk_Algorithm k = [])"
  by (induction ks) (auto split: if_splits)

lemma find_kid_None: "find_kid kid ks = None \<longleftrightarrow> (\<forall>k \<in> set ks. \<not> (jwk_KeyID k = kid \<and> isSigKey k))"
  by (induction ks) auto

lemma find_alg_None:
  "find_alg alg ks = None \<longleftrightarrow>
     (\<forall>k \<in> set ks. \<not> (isSigKey k \<and> (jwk_Algorithm k = alg \<or> jwk_Algorithm k = [])))"
  by (induction ks) auto

lemma audienceMatches_iff: "audienceMatches as x \<longleftrightarrow> x \<in> set as"
  by (induction as) auto

definition usable_key :: "string \<Rightarrow> string \<Rightarrow> jwk \<Rightarrow> bool" where
  "usable_key kid alg k \<longleftrightarrow> isSigKey k \<and>
     (if kid \<noteq> [] then jwk_KeyID k = kid else jwk_Algorithm k = alg \<or> jwk_Algorithm k = [])"

lemma selectJWK_SomeD:
  "selectJWK s kid alg = Some k \<Longrightarrow> \<exists>ks. s = Some ks \<and> k \<in> set ks \<and> usable_key kid alg k"
  by (auto simp: selectJWK_def usable_key_def split: option.splits if_splits
      dest: find_kid_SomeD find_alg_SomeD)

lemma selectJWK_None: "selectJWK (Some ks) kid alg = None \<longleftrightarrow> (\<forall>k \<in> set ks. \<not> usable_key kid alg k)"
  by (auto simp: selectJWK_def usable_key_def find_kid_None find_alg_None)

lemma sends_keyset [inv_intros]:
  "sends P (keyset_get k now)" "sends P (keyset_put k e)" "sends P (keyset_invalidate k)"
  by (simp_all add: sends_def keyset_get_def keyset_put_def keyset_invalidate_def
      split: option.splits prod.splits)

lemma sends_client_fetchJWKS:
  "sends (\<lambda>out. out = HttpGet u [(''Accept'', ''application/json'')]) (client_fetchJWKS E u)"
  unfolding client_fetchJWKS_def fetchJWKSUncached_def
  by (auto intro!: inv_intros sends_resolver_Do split: sum.split option.split)

lemma sends_verifyClientAssertion:
  "sends (\<lambda>out. out = HttpGet (rc_JWKSURI c) [(''Accept'', ''application/json'')])
     (verifyClientAssertion E c cid a aud)"
  unfolding verifyClientAssertion_def find_key_def verify_with_key_def
  by (auto intro!: inv_intros sends_client_fetchJWKS split: sum.split option.split list.split)

subsection \<open>Where the keys come from\<close>

lemma world_inv_jwksCache:
  assumes "world_inv E w" "cache_inv c" "capacity c = capacity (w_jwksCache w)"
    "\<And>u e. (u, e) \<in> set (fifo c) \<Longrightarrow> (u, e) \<in> set (fifo (w_jwksCache w)) \<or> keys_entry_ok E (w_tick w) u e"
  shows "world_inv E (w\<lparr>w_jwksCache := c\<rparr>)"
  using assms unfolding world_inv_def by fastforce

lemma keyset_get_run:
  assumes "run_state (keyset_get u now) w = (r, w')" "world_inv E w"
  shows "world_inv E w' \<and> w_tick w' = w_tick w"
    and "r = Some e \<Longrightarrow> keys_entry_ok E (w_tick w) u e \<and> now \<le> je_expiresAt e"
proof -
  have inv: "cache_inv (w_jwksCache w)" using assms(2) by (simp add: world_inv_def)
  have "(world_inv E w' \<and> w_tick w' = w_tick w) \<and>
      (r = Some e \<longrightarrow> keys_entry_ok E (w_tick w) u e \<and> now \<le> je_expiresAt e)"
    using inv
  proof (cases rule: keysets.get_cases [where k = u and now = now])
    case (hit e)
    then show ?thesis using assms by (auto simp: keyset_get_def world_inv_def dest: map_of_SomeD)
  next
    case (miss c')
    then have "world_inv E (w\<lparr>w_jwksCache := c'\<rparr>)"
      using assms(2) set_fifo_drop [of u "fifo (w_jwksCache w)"] by (intro world_inv_jwksCache) auto
    with miss(1) assms(1) show ?thesis by (auto simp: keyset_get_def)
  qed
  then show "world_inv E w' \<and> w_tick w' = w_tick w"
    "r = Some e \<Longrightarrow> keys_entry_ok E (w_tick w) u e \<and> now \<le> je_expiresAt e" by auto
qed

lemma keyset_put_run:
  assumes "run_state (keyset_put u e) w = (r, w')" "world_inv E w" "keys_entry_ok E (w_tick w) u e"
  shows "world_inv E w'"
proof -
  have "cache_inv (w_jwksCache w)" using assms(2) by (simp add: world_inv_def)
  then obtain c where c: "jwksCache_put (w_jwksCache w) u e = Some c" "cache_inv c"
    "capacity c = capacity (w_jwksCache w)"
    "fifo c = fifo_put (capacity (w_jwksCache w)) u e (fifo (w_jwksCache w))"
    using keysets.put_stored [of "w_jwksCache w" u e] by auto
  then have "world_inv E (w\<lparr>w_jwksCache := c\<rparr>)"
    using assms(2,3) set_fifo_put [of "capacity (w_jwksCache w)" u e "fifo (w_jwksCache w)"]
    by (intro world_inv_jwksCache) auto
  with c(1) assms(1) show ?thesis by (auto simp: keyset_put_def)
qed

lemma ensures_invalidate: "ensures (world_inv E) (keyset_invalidate u) (\<lambda>_. True)"
proof -
  have "world_inv E (w\<lparr>w_jwksCache := jwksCache_invalidate (w_jwksCache w) u\<rparr>)" if w: "world_inv E w" for w
    using w keysets.drop_ok [of "w_jwksCache w" u] set_fifo_drop [of u "fifo (w_jwksCache w)"]
    by (intro world_inv_jwksCache [OF w]) (auto simp: world_inv_def)
  then show ?thesis by (simp add: ensures_def keyset_invalidate_def)
qed

lemma fetchJWKSUncached_Do:
  assumes "run_state (fetchJWKSUncached E u) w = (r, w')"
  obtains x where "run_state (resolver_Do E u) w = (x, w')"
  using assms by (auto simp: fetchJWKSUncached_def split: prod.splits)

lemma fetchJWKSUncached_keys:
  assumes run: "run_state (fetchJWKSUncached E u) w = (Inr (ks, ttl), w')"
  shows "keys_at E (w_tick w) u ks \<and> ttl \<le> cimdMaxCacheTTL \<and> w_tick w' = Suc (w_tick w)"
proof -
  obtain x where x: "run_state (resolver_Do E u) w = (x, w')" by (rule fetchJWKSUncached_Do [OF run])
  with run obtain resp body where resp: "x = Inr resp" "in_Status resp = 200"
    "isApplicationJSON E (in_ContentType resp)" "read_limited (Suc jwksMaxBodyBytes) resp = Some body"
    "\<not> jwksMaxBodyBytes < length body" "env_keyset E body = Some ks" "ks \<noteq> []"
    "ttl = cacheTTLFromHeader E (in_CacheControl resp)"
    by (auto simp: fetchJWKSUncached_def split: sum.splits do_error.splits if_splits option.splits)
  with resolver_Do_served [OF x [unfolded resp(1)] resp(2-5)]
  show ?thesis unfolding keys_at_def by (auto simp: cacheTTLFromHeader_le)
qed

lemma fetchJWKSUncached_run:
  assumes run: "run_state (fetchJWKSUncached E u) w = (r, w')" and inv: "world_inv E w"
  shows "world_inv E w'"
    and "r = Inr (ks, ttl) \<Longrightarrow>
      keys_at E (w_tick w) u ks \<and> ttl \<le> cimdMaxCacheTTL \<and> w_tick w' = Suc (w_tick w)"
proof -
  obtain x where "run_state (resolver_Do E u) w = (x, w')" by (rule fetchJWKSUncached_Do [OF run])
  from ensuresD [OF ensures_resolver_Do inv this] show "world_inv E w'" by simp
qed (use fetchJWKSUncached_keys run in blast)

lemma client_fetchJWKS_run:
  assumes "run_state (client_fetchJWKS E u) w = (r, w')" "world_inv E w"
  shows "world_inv E w' \<and> (\<forall>mk. r = Inr mk \<longrightarrow> (\<exists>ks n. mk = Some ks \<and> keys_at E n u ks \<and> recent E (w_tick w) n))"
proof -
  let ?w = "w\<lparr>w_tick := Suc (w_tick w)\<rparr>" and ?now = "env_clock E (w_tick w)"
  obtain hit w1 where g: "run_state (keyset_get u ?now) ?w = (hit, w1)" by fastforce
  note w1 = keyset_get_run [OF g world_inv_tick [OF assms(2)]]
  show ?thesis
  proof (cases hit)
    case None
    obtain res w2 where f: "run_state (fetchJWKSUncached E u) w1 = (res, w2)" by fastforce
    note w2 = fetchJWKSUncached_run [OF f conjunct1 [OF w1(1)]]
    let ?w2 = "w2\<lparr>w_tick := Suc (w_tick w2)\<rparr>"
    show ?thesis
    proof (cases res)
      case (Inl err)
      with assms(1) g f None w2(1) show ?thesis by (auto simp: client_fetchJWKS_def time_Now_def)
    next
      case (Inr p)
      then obtain ks ttl where p: "res = Inr (ks, ttl)" by (cases p) auto
      note k = w2(2) [OF p]
      let ?e = "\<lparr>je_keys = Some ks, je_err = None, je_expiresAt = env_clock E (w_tick w2) + ttl\<rparr>"
      have "keys_entry_ok E (w_tick ?w2) u ?e" using k by (auto simp: keys_entry_ok_def intro!: exI [of _ "w_tick w1"])
      then have "world_inv E (snd (run_state (keyset_put u ?e) ?w2))"
        using keyset_put_run [of u ?e ?w2] w2(1) by (metis prod.collapse world_inv_tick)
      with assms(1) g f None p world_inv_tick [OF w2(1)] k w1(1) show ?thesis
        by (auto simp: client_fetchJWKS_def time_Now_def recent_def split: if_splits prod.splits)
    qed
  next
    case (Some e)
    have "run_state (keyset_get u ?now) w = (hit, w\<lparr>w_jwksCache := w_jwksCache w1\<rparr>)"
      using g by (auto simp: keyset_get_def split: prod.splits)
    from keyset_get_run(2) [OF this assms(2) Some] obtain ks n where
      "je_err e = None" "je_keys e = Some ks" "keys_at E n u ks" "recent E (w_tick w) n"
      by (auto simp: keys_entry_ok_def recent_def intro: order_trans)
    then show ?thesis
      using assms(1) g Some w1(1) by (auto simp: client_fetchJWKS_def time_Now_def)
  qed
qed

text \<open>A key usable for the header, from a key set served at the URL.\<close>

definition client_key :: "env \<Rightarrow> string \<Rightarrow> jws_header \<Rightarrow> jwk \<Rightarrow> bool" where
  "client_key E u hdr k \<longleftrightarrow>
     (\<exists>n ks. keys_at E n u ks \<and> k \<in> set ks) \<and> usable_key (hdr_KeyID hdr) (hdr_Algorithm hdr) k"

lemma client_fetchJWKS_ensures:
  "ensures (world_inv E) (client_fetchJWKS E u) (\<lambda>r. \<forall>mk. r = Inr mk \<longrightarrow> (\<exists>ks n. mk = Some ks \<and> keys_at E n u ks))"
  using client_fetchJWKS_run by (fastforce simp: ensures_def)

lemma find_key_ensures:
  "ensures (world_inv E) (find_key E u hdr) (\<lambda>r. \<forall>k. r = Inr k \<longrightarrow> client_key E u hdr k)"
  unfolding find_key_def client_key_def
  by (rule ensures_bind [OF client_fetchJWKS_ensures],
      auto intro!: ensures_return ensures_step [OF ensures_invalidate] ensures_bind [OF client_fetchJWKS_ensures]
      split: sum.splits option.splits dest!: selectJWK_SomeD) blast+

subsection \<open>What is accepted\<close>

text \<open>An accepted assertion, at the time \<open>now\<close> it was checked.\<close>

definition assertion_ok :: "env \<Rightarrow> string \<Rightarrow> string \<Rightarrow> string \<Rightarrow> string \<Rightarrow> bool" where
  "assertion_ok E u clientID assertion aud \<longleftrightarrow>
     (\<exists>hdr k claims n.
        env_ParseSigned E clientAssertionAlgs assertion = Some [hdr] \<and> client_key E u hdr k \<and>
        env_jwt_Claims E assertion (jwk_Key k) = Some claims \<and>
        jc_Issuer claims = clientID \<and> jc_Subject claims = clientID \<and> aud \<in> set (jc_Audience claims) \<and>
        env_ValidateWithLeeway E claims (env_clock E n) clientAssertionClockSkew \<and>
        (\<forall>iat exp. jc_IssuedAt claims = Some iat \<and> jc_Expiry claims = Some exp \<longrightarrow>
           time_Sub (time_Unix exp) (time_Unix iat) \<le> clientAssertionMaxLifetime))"

lemma assertion_okI:
  assumes "env_ParseSigned E clientAssertionAlgs assertion = Some [hdr]" "client_key E u hdr k"
    "env_jwt_Claims E assertion (jwk_Key k) = Some claims" "jc_Issuer claims = clientID" "jc_Subject claims = clientID"
    "check_assertion_claims E clientID aud (env_clock E n) claims = Inr ()"
  shows "assertion_ok E u clientID assertion aud"
  unfolding assertion_ok_def
  by (intro exI [of _ hdr] exI [of _ k] exI [of _ claims] exI [of _ n])
    (use assms in \<open>auto simp: check_assertion_claims_def audienceMatches_iff split: if_splits option.splits\<close>)

lemma verify_with_key_ensures:
  assumes "env_ParseSigned E clientAssertionAlgs assertion = Some [hdr]" "client_key E u hdr k"
    "ensures I (time_Now E) (\<lambda>t. \<exists>n. t = env_clock E n)"
  shows "ensures I (verify_with_key E clientID assertion aud k)
    (\<lambda>r. r = Inr () \<longrightarrow> assertion_ok E u clientID assertion aud)"
  unfolding verify_with_key_def
  by (auto intro!: ensures_return ensures_bind [OF assms(3)] assertion_okI [OF assms(1,2)] split: option.splits)

lemma ensures_verifyClientAssertion:
  "ensures (world_inv E) (verifyClientAssertion E c clientID assertion aud)
    (\<lambda>r. r = Inr () \<longrightarrow> assertion_ok E (rc_JWKSURI c) clientID assertion aud)"
proof -
  have t: "ensures (world_inv E) (time_Now E) (\<lambda>t. \<exists>n. t = env_clock E n)"
    by (auto simp: ensures_def time_Now_def)
  have "ensures (world_inv E)
      (State_Monad.bind (find_key E (rc_JWKSURI c) hdr)
        (\<lambda>r. case r of Inl err \<Rightarrow> return (Inl err) | Inr k \<Rightarrow> verify_with_key E clientID assertion aud k))
      (\<lambda>r. r = Inr () \<longrightarrow> assertion_ok E (rc_JWKSURI c) clientID assertion aud)"
    if "env_ParseSigned E clientAssertionAlgs assertion = Some [hdr]" for hdr
    by (rule ensures_bind [OF find_key_ensures])
      (use that in \<open>auto intro!: ensures_return verify_with_key_ensures t split: sum.split\<close>)
  then show ?thesis
    unfolding verifyClientAssertion_def
    by (auto intro!: ensures_return split: option.split list.split)
qed

subsection \<open>What the rest of the state keeps\<close>

lemma frames_keyset [inv_intros]:
  "frames w_validator (keyset_get k now)" "frames w_validator (keyset_put k e)"
  "frames w_validator (keyset_invalidate k)"
  by (simp_all add: frames_def keyset_get_def keyset_put_def keyset_invalidate_def
      split: option.splits prod.splits)

lemma frames_verifyClientAssertion: "frames w_validator (verifyClientAssertion E c cid a aud)"
  unfolding verifyClientAssertion_def find_key_def verify_with_key_def client_fetchJWKS_def
    fetchJWKSUncached_def
  by (auto intro!: inv_intros split: sum.split option.split list.split)

end
