(* ===== verification/Oauth_Validator.thy ===== *)
theory Oauth_Validator
  imports Oauth_Env
begin

text \<open>
  \<open>validator.go\<close>: validation of a bearer token or of an upstream identity token against the
  provider's key set, which is found by OIDC discovery and cached, and the claim and identity
  checks that follow. Shown: every accepted token carries a signature under a key of the
  provider's set (the key its \<open>kid\<close> names, when it has one), an allowed issuer and the expected
  audience, is inside its validity window, and passes the identity policy; and where requests go.
\<close>

definition maxOAuthResponseBytes :: nat where "maxOAuthResponseBytes = 1048576"

subsection \<open>Discovery\<close>

definition oidc_fields :: "string list" where
  "oidc_fields = [''issuer'', ''authorization_endpoint'', ''token_endpoint'', ''jwks_uri'', ''userinfo_endpoint'']"

definition unmarshal_oidc :: "env \<Rightarrow> string \<Rightarrow> openIDConfiguration option" where
  "unmarshal_oidc E body =
    map_option
      (\<lambda>m. \<lparr>oc_Issuer = str_field m ''issuer'',
            oc_AuthorizationEndpoint = str_field m ''authorization_endpoint'',
            oc_TokenEndpoint = str_field m ''token_endpoint'',
            oc_JWKSURI = str_field m ''jwks_uri'',
            oc_UserInfoEndpoint = str_field m ''userinfo_endpoint''\<rparr>)
      (unmarshal_struct (env_unicode E) oidc_fields [] body)"

definition oidc_candidates :: "string \<Rightarrow> string list" where
  "oidc_candidates issuer =
    [issuer @ ''/.well-known/openid-configuration''] @
    (if \<not> Contains issuer ''/.well-known/''
     then [issuer @ ''/.well-known/oauth-authorization-server''] else [])"

text \<open>The loop over the candidate URLs.\<close>

fun discovery_loop :: "env \<Rightarrow> string \<Rightarrow> string list \<Rightarrow> (world, (oauth_error, openIDConfiguration) result) state" where
  "discovery_loop E issuer [] =
    return (Inl (ErrOther ''failed to discover openid configuration''))"
| "discovery_loop E issuer (u # us) = do {
     r \<leftarrow> http_Get E u [];
     (case r of
        None \<Rightarrow> discovery_loop E issuer us
      | Some resp \<Rightarrow>
        (case read_limited maxOAuthResponseBytes resp of
           None \<Rightarrow> discovery_loop E issuer us
         | Some body \<Rightarrow>
           if 300 \<le> in_Status resp then discovery_loop E issuer us
           else case unmarshal_oidc E body of
             None \<Rightarrow> discovery_loop E issuer us
           | Some d \<Rightarrow> do {
               now \<leftarrow> time_Now E;
               v \<leftarrow> get_validator;
               put_validator (v\<lparr>v_oidcCache := d, v_oidcURL := issuer, v_oidcTime := now\<rparr>);
               return (Inr d)
             }))
   }"

definition fetchOIDCDiscovery :: "env \<Rightarrow> string \<Rightarrow> (world, (oauth_error, openIDConfiguration) result) state" where
  "fetchOIDCDiscovery E issuer0 =
    (let issuer = TrimRight (TrimSpace issuer0) (CHR ''/'') in
     if issuer = [] then return (Inl (ErrOther ''issuer required''))
     else do {
       v \<leftarrow> get_validator;
       fresh \<leftarrow> (if v_oidcURL v = issuer \<and> v_oidcTime v \<noteq> zero_time then do {
                   now \<leftarrow> time_Now E;
                   return (now < v_oidcTime v + defaultJWKSCacheTTL \<and> oc_Issuer (v_oidcCache v) \<noteq> [])
                 } else return False);
       (if fresh then return (Inr (v_oidcCache v))
        else discovery_loop E issuer (oidc_candidates issuer))
     })"

definition resolveJWKSURL :: "env \<Rightarrow> config \<Rightarrow> (world, (oauth_error, string) result) state" where
  "resolveJWKSURL E cfg =
    (if TrimSpace (cfg_JWKSURL cfg) \<noteq> [] then return (Inr (TrimSpace (cfg_JWKSURL cfg)))
     else if TrimSpace (cfg_Issuer cfg) = []
     then return (Inl (ErrOther ''oauth: issuer or jwks_url must be configured''))
     else do {
       r \<leftarrow> fetchOIDCDiscovery E (TrimSpace (cfg_Issuer cfg));
       return (case r of
         Inl err \<Rightarrow> Inl err
       | Inr d \<Rightarrow>
         if TrimSpace (oc_JWKSURI d) = []
         then Inl (ErrOther ''openid discovery did not return jwks_uri'')
         else Inr (TrimSpace (oc_JWKSURI d)))
     })"

subsection \<open>The key set\<close>

definition fetchJWKS :: "env \<Rightarrow> string \<Rightarrow> (world, (oauth_error, jwk list) result) state" where
  "fetchJWKS E jwksURI = do {
     now \<leftarrow> time_Now E;
     v \<leftarrow> get_validator;
     (if 0 < length (v_jwks v) \<and> v_jwksURL v = jwksURI \<and> now < v_jwksTime v + defaultJWKSCacheTTL
      then return (Inr (v_jwks v))
      else do {
        r \<leftarrow> http_Get E jwksURI [];
        (case r of
           None \<Rightarrow> return (Inl (ErrOther ''fetch jwks''))
         | Some resp \<Rightarrow>
           (case read_limited maxOAuthResponseBytes resp of
              None \<Rightarrow> return (Inl (ErrOther ''read jwks''))
            | Some body \<Rightarrow>
              if 300 \<le> in_Status resp then return (Inl (ErrOther ''jwks endpoint returned status''))
              else case env_keyset E body of
                None \<Rightarrow> return (Inl (ErrOther ''parse jwks''))
              | Some keySet \<Rightarrow> do {
                  v \<leftarrow> get_validator;
                  put_validator (v\<lparr>v_jwks := keySet, v_jwksURL := jwksURI, v_jwksTime := now\<rparr>);
                  return (Inr keySet)
                }))
      })
   }"

text \<open>The keys to try: the whole set, or those the \<open>kid\<close> names, after one refresh of the cached set
  when it names none.\<close>

definition candidate_keys :: "env \<Rightarrow> string \<Rightarrow> string \<Rightarrow> (world, (oauth_error, jwk list) result) state" where
  "candidate_keys E jwksURI keyID = do {
     r \<leftarrow> fetchJWKS E jwksURI;
     (case r of
        Inl err \<Rightarrow> return (Inl err)
      | Inr keySet \<Rightarrow>
        if keyID = [] then return (Inr keySet)
        else if 0 < length (env_keyset_Key E keySet keyID) then return (Inr (env_keyset_Key E keySet keyID))
        else do {
          v \<leftarrow> get_validator;
          put_validator (v\<lparr>v_jwksTime := zero_time\<rparr>);
          r' \<leftarrow> fetchJWKS E jwksURI;
          return (case r' of
            Inl err \<Rightarrow> Inl err
          | Inr keySet' \<Rightarrow>
            if length (env_keyset_Key E keySet' keyID) = 0 then Inl (ErrOther ''no JWK found for kid'')
            else Inr (env_keyset_Key E keySet' keyID))
        })
   }"

subsection \<open>Signature, issuer, audience\<close>

text \<open>The loop over the keys; \<open>verified\<close> and \<open>rejected\<close> are the flags of the source
  (\<open>issuerRejected || audienceRejected\<close> in one).\<close>

fun verify_loop :: "env \<Rightarrow> config \<Rightarrow> string \<Rightarrow> string \<Rightarrow> bool \<Rightarrow> bool \<Rightarrow> jwk list \<Rightarrow> (oauth_error, claims) result" where
  "verify_loop E cfg token expectedAudience verified rejected [] =
    (if verified \<and> rejected then Inl ErrInvalidToken
     else Inl (ErrOther ''failed to verify JWT signature with discovered JWKs''))"
| "verify_loop E cfg token expectedAudience verified rejected (k # ks) =
    (case env_Claims E token (jwk_Key k) of
       None \<Rightarrow> verify_loop E cfg token expectedAudience verified rejected ks
     | Some raw \<Rightarrow>
       (let c = claimsFromRaw (env_oor E) (env_unicode E) raw in
        if \<not> issuerAllowed (cl_Issuer c) (cfg_UpstreamIssuerAllowlist cfg) (TrimSpace (cfg_Issuer cfg))
        then verify_loop E cfg token expectedAudience True True ks
        else if expectedAudience \<noteq> [] \<and> \<not> audienceMatchesResource (cl_Audience c) expectedAudience
        then verify_loop E cfg token expectedAudience True True ks
        else Inr c))"

definition upstreamAlgs :: "string list" where
  "upstreamAlgs = [''RS256'', ''RS384'', ''RS512'', ''ES256'', ''ES384'', ''ES512'', ''PS256'', ''PS384'',
     ''PS512'', ''EdDSA'']"

definition parseAndVerifyJWT :: "env \<Rightarrow> config \<Rightarrow> string \<Rightarrow> string \<Rightarrow> (world, (oauth_error, claims) result) state" where
  "parseAndVerifyJWT E cfg token expectedAudience = do {
     u \<leftarrow> resolveJWKSURL E cfg;
     (case u of
        Inl err \<Rightarrow> return (Inl err)
      | Inr jwksURI \<Rightarrow>
        (case env_ParseSigned E upstreamAlgs token of
           None \<Rightarrow> return (Inl (ErrOther ''parse signed JWT''))
         | Some [] \<Rightarrow> return (Inl (ErrOther ''missing JWT header''))
         | Some (hdr # _) \<Rightarrow> do {
             ks \<leftarrow> candidate_keys E jwksURI (hdr_KeyID hdr);
             return (case ks of
               Inl err \<Rightarrow> Inl err
             | Inr keys \<Rightarrow> verify_loop E cfg token expectedAudience False False keys)
           }))
   }"

subsection \<open>Claims and identity policy\<close>

definition applyIdentityPolicy :: "env \<Rightarrow> config \<Rightarrow> claims \<Rightarrow> (oauth_error, unit) result" where
  "applyIdentityPolicy E cfg c =
    (if \<not> cfg_AllowUnverifiedEmail cfg \<and> cl_Email c \<noteq> [] \<and> \<not> cl_EmailVerified c then Inl ErrEmailNotVerified
     else if 0 < length (cfg_AllowedEmailDomains cfg) \<and>
       (let domain = emailDomain (env_unicode E) (cl_Email c) in
        domain = [] \<or> \<not> containsDomain (env_unicode E) (cfg_AllowedEmailDomains cfg) domain)
     then Inl ErrUnauthorizedDomain
     else if 0 < length (cfg_AllowedHostedDomains cfg) \<and>
       (cl_HostedDomain c = [] \<or>
        \<not> containsDomain (env_unicode E) (cfg_AllowedHostedDomains cfg) (cl_HostedDomain c))
     then Inl ErrUnauthorizedDomain
     else Inr ())"

definition applyClaimChecks :: "env \<Rightarrow> config \<Rightarrow> claims \<Rightarrow> (world, (oauth_error, claims) result) state" where
  "applyClaimChecks E cfg c =
    (if cfg_Audience cfg \<noteq> [] \<and> length (cl_Audience c) = 0 then return (Inl ErrInvalidToken)
     else if cfg_Audience cfg \<noteq> [] \<and> \<not> audienceMatchesResource (cl_Audience c) (cfg_Audience cfg)
     then return (Inl ErrInvalidToken)
     else do {
       t \<leftarrow> time_Now E;
       (let now = Unix t; skew = defaultClockSkewSeconds in
        if 0 < cl_ExpiresAt c \<and> wrap64 (cl_ExpiresAt c + skew) < now then return (Inl ErrTokenExpired)
        else if 0 < cl_NotBefore c \<and> wrap64 (now + skew) < cl_NotBefore c then return (Inl ErrInvalidToken)
        else if 0 < cl_IssuedAt c \<and> wrap64 (now + skew) < cl_IssuedAt c then return (Inl ErrInvalidToken)
        else if 0 < length (cfg_RequiredScopes cfg) \<and> \<not> hasRequiredScopes (cl_Scopes c) (cfg_RequiredScopes cfg)
        then return (Inl ErrInsufficientScopes)
        else return (case applyIdentityPolicy E cfg c of Inl err \<Rightarrow> Inl err | Inr _ \<Rightarrow> Inr c))
     })"

definition ValidateUpstreamIdentityToken ::
  "env \<Rightarrow> config \<Rightarrow> string \<Rightarrow> string \<Rightarrow> (world, (oauth_error, claims) result) state" where
  "ValidateUpstreamIdentityToken E cfg token expectedAudience = do {
     r \<leftarrow> parseAndVerifyJWT E cfg token expectedAudience;
     return (case r of
       Inl err \<Rightarrow> Inl err
     | Inr c \<Rightarrow> (case applyIdentityPolicy E cfg c of Inl err \<Rightarrow> Inl err | Inr _ \<Rightarrow> Inr c))
   }"

text \<open>\<open>Validate\<close>; a nil \<open>*Claims\<close> is \<open>None\<close>.\<close>

definition Validate :: "env \<Rightarrow> config \<Rightarrow> string \<Rightarrow> (world, (oauth_error, claims option) result) state" where
  "Validate E cfg rawJWT =
    (if rawJWT = [] then return (Inl ErrMissingToken)
     else if \<not> looksLikeJWT rawJWT then
       return (if Normalize (env_unicode E) (cfg_Mode cfg) = ModeGating then Inl ErrInvalidToken else Inr None)
     else if TrimSpace (cfg_JWKSURL cfg) = [] \<and> TrimSpace (cfg_Issuer cfg) = [] then return (Inr None)
     else do {
       r \<leftarrow> parseAndVerifyJWT E cfg rawJWT (cfg_Audience cfg);
       (case r of
          Inl err \<Rightarrow> return (Inl err)
        | Inr c \<Rightarrow> do {
            r' \<leftarrow> applyClaimChecks E cfg c;
            return (case r' of Inl err \<Rightarrow> Inl err | Inr c' \<Rightarrow> Inr (Some c'))
          })
     })"

subsection \<open>The identity policy\<close>

definition domain_allowed :: "env \<Rightarrow> string list \<Rightarrow> string \<Rightarrow> bool" where
  "domain_allowed E ds d \<longleftrightarrow>
     d \<noteq> [] \<and> (\<exists>a \<in> set ds. EqualFold (env_unicode E) (TrimSpace a) (TrimSpace d))"

definition policy_ok :: "env \<Rightarrow> config \<Rightarrow> claims \<Rightarrow> bool" where
  "policy_ok E cfg c \<longleftrightarrow>
     (cfg_AllowUnverifiedEmail cfg \<or> cl_Email c = [] \<or> cl_EmailVerified c) \<and>
     (cfg_AllowedEmailDomains cfg = [] \<or>
      domain_allowed E (cfg_AllowedEmailDomains cfg) (emailDomain (env_unicode E) (cl_Email c))) \<and>
     (cfg_AllowedHostedDomains cfg = [] \<or>
      domain_allowed E (cfg_AllowedHostedDomains cfg) (cl_HostedDomain c))"

lemma applyIdentityPolicy_iff: "applyIdentityPolicy E cfg c = Inr () \<longleftrightarrow> policy_ok E cfg c"
  by (auto simp: applyIdentityPolicy_def policy_ok_def domain_allowed_def containsDomain_iff Let_def)

subsection \<open>The key loop\<close>

text \<open>The claims a key yields, and whether they name an allowed issuer and the audience.\<close>

definition key_claims :: "env \<Rightarrow> string \<Rightarrow> jwk \<Rightarrow> claims option" where
  "key_claims E token k =
    map_option (claimsFromRaw (env_oor E) (env_unicode E)) (env_Claims E token (jwk_Key k))"

definition claims_fit :: "config \<Rightarrow> string \<Rightarrow> claims \<Rightarrow> bool" where
  "claims_fit cfg aud c \<longleftrightarrow>
     issuerAllowed (cl_Issuer c) (cfg_UpstreamIssuerAllowlist cfg) (TrimSpace (cfg_Issuer cfg)) \<and>
     (aud = [] \<or> audienceMatchesResource (cl_Audience c) aud)"

lemma verify_loop_step:
  "verify_loop E cfg token aud v r (k # ks) =
    (case key_claims E token k of
       None \<Rightarrow> verify_loop E cfg token aud v r ks
     | Some c \<Rightarrow> if claims_fit cfg aud c then Inr c else verify_loop E cfg token aud True True ks)"
  by (simp add: key_claims_def claims_fit_def Let_def split: option.split)

lemma verify_loop_Inr:
  "verify_loop E cfg token aud v r ks = Inr c \<Longrightarrow>
     \<exists>k \<in> set ks. key_claims E token k = Some c \<and> claims_fit cfg aud c"
proof (induction ks arbitrary: v r)
  case (Cons k ks)
  then show ?case
    by (cases "key_claims E token k")
      (auto simp: verify_loop_step simp del: verify_loop.simps(2) split: if_splits)
qed (auto split: if_splits)

lemma verify_loop_total:
  "k \<in> set ks \<Longrightarrow> key_claims E token k = Some c \<Longrightarrow> claims_fit cfg aud c \<Longrightarrow>
     \<exists>c'. verify_loop E cfg token aud v r ks = Inr c'"
proof (induction ks arbitrary: v r)
  case (Cons k' ks)
  then show ?case
    by (cases "key_claims E token k'") (auto simp: verify_loop_step simp del: verify_loop.simps(2))
qed simp

lemma verify_loop_rejected:
  assumes "\<forall>k \<in> set ks. \<forall>c. key_claims E token k = Some c \<longrightarrow> \<not> claims_fit cfg aud c"
  shows "verify_loop E cfg token aud v v ks =
     (if v \<or> (\<exists>k \<in> set ks. key_claims E token k \<noteq> None) then Inl ErrInvalidToken
      else Inl (ErrOther ''failed to verify JWT signature with discovered JWKs''))"
  using assms
proof (induction ks arbitrary: v)
  case (Cons k ks)
  then show ?case
    by (cases "key_claims E token k") (simp_all add: verify_loop_step del: verify_loop.simps(2))
qed simp

subsection \<open>Where keys come from\<close>

text \<open>A body served with a success status at a URL.\<close>

definition served :: "env \<Rightarrow> string \<Rightarrow> string \<Rightarrow> bool" where
  "served E u body \<longleftrightarrow>
     (\<exists>n resp. env_http E n (HttpGet u []) = Some resp \<and> in_Status resp < 300 \<and>
        read_limited maxOAuthResponseBytes resp = Some body)"

lemma servedI:
  "\<exists>n. env_http E n (HttpGet u []) = Some resp \<Longrightarrow> \<not> 300 \<le> in_Status resp \<Longrightarrow>
   read_limited maxOAuthResponseBytes resp = Some body \<Longrightarrow> served E u body"
  by (auto simp: served_def not_le)

definition keys_of :: "env \<Rightarrow> string \<Rightarrow> jwk list \<Rightarrow> bool" where
  "keys_of E u ks \<longleftrightarrow> (\<exists>body. served E u body \<and> env_keyset E body = Some ks)"

definition discovered :: "env \<Rightarrow> string \<Rightarrow> openIDConfiguration \<Rightarrow> bool" where
  "discovered E issuer d \<longleftrightarrow>
     (\<exists>u \<in> set (oidc_candidates issuer). \<exists>body. served E u body \<and> unmarshal_oidc E body = Some d)"

text \<open>The key-set URL the configuration means: the configured one, or the one the issuer's
  discovery document names.\<close>

definition jwks_source :: "env \<Rightarrow> config \<Rightarrow> string \<Rightarrow> bool" where
  "jwks_source E cfg u \<longleftrightarrow>
     (if TrimSpace (cfg_JWKSURL cfg) \<noteq> [] then u = TrimSpace (cfg_JWKSURL cfg)
      else \<exists>d. discovered E (slash_norm (TrimSpace (cfg_Issuer cfg))) d \<and> u = TrimSpace (oc_JWKSURI d))"

text \<open>The caches of the validator hold what was served.\<close>

definition val_inv :: "env \<Rightarrow> validator \<Rightarrow> bool" where
  "val_inv E v \<longleftrightarrow>
     (v_jwks v \<noteq> [] \<longrightarrow> keys_of E (v_jwksURL v) (v_jwks v)) \<and>
     (oc_Issuer (v_oidcCache v) \<noteq> [] \<longrightarrow> discovered E (v_oidcURL v) (v_oidcCache v))"

lemma val_inv_new: "val_inv E newValidator"
  by (simp add: val_inv_def newValidator_def)

lemma val_inv_cached:
  "val_inv E v \<Longrightarrow> oc_Issuer (v_oidcCache v) \<noteq> [] \<Longrightarrow> discovered E (v_oidcURL v) (v_oidcCache v)"
  "val_inv E v \<Longrightarrow> v_jwks v \<noteq> [] \<Longrightarrow> keys_of E (v_jwksURL v) (v_jwks v)"
  by (auto simp: val_inv_def)

lemma val_inv_updates:
  assumes "val_inv E v"
  shows "discovered E i d \<Longrightarrow> val_inv E (v\<lparr>v_oidcCache := d, v_oidcURL := i, v_oidcTime := t\<rparr>)"
    and "keys_of E u ks \<Longrightarrow> val_inv E (v\<lparr>v_jwks := ks, v_jwksURL := u, v_jwksTime := t\<rparr>)"
    and "val_inv E (v\<lparr>v_jwksTime := t\<rparr>)"
  using assms by (auto simp: val_inv_def)

text \<open>A token whose signature the provider vouches for: a key of the served set verifies it, the
  one its header names when it names one, and the claims fit.\<close>

definition vouched :: "env \<Rightarrow> config \<Rightarrow> string \<Rightarrow> string \<Rightarrow> claims \<Rightarrow> bool" where
  "vouched E cfg token aud c \<longleftrightarrow>
     (\<exists>u ks k hdr hdrs. jwks_source E cfg u \<and> keys_of E u ks \<and> k \<in> set ks \<and>
        env_ParseSigned E upstreamAlgs token = Some (hdr # hdrs) \<and> (hdr_KeyID hdr \<noteq> [] \<longrightarrow> jwk_KeyID k = hdr_KeyID hdr) \<and>
        key_claims E token k = Some c \<and> claims_fit cfg aud c)"

text \<open>Inside the validity window, with the skew, in the arithmetic of \<open>int64\<close>.\<close>

definition in_window :: "int \<Rightarrow> claims \<Rightarrow> bool" where
  "in_window t c \<longleftrightarrow>
     (0 < cl_ExpiresAt c \<longrightarrow> Unix t \<le> wrap64 (cl_ExpiresAt c + defaultClockSkewSeconds)) \<and>
     (0 < cl_NotBefore c \<longrightarrow> cl_NotBefore c \<le> wrap64 (Unix t + defaultClockSkewSeconds)) \<and>
     (0 < cl_IssuedAt c \<longrightarrow> cl_IssuedAt c \<le> wrap64 (Unix t + defaultClockSkewSeconds))"

lemma applyClaimChecks_ok:
  assumes "run_state (applyClaimChecks E cfg c) w = (Inr c', w')"
  shows "c' = c \<and> policy_ok E cfg c \<and> in_window (env_clock E (w_tick w)) c \<and>
    set (cfg_RequiredScopes cfg) \<subseteq> set (cl_Scopes c) \<and>
    (cfg_Audience cfg \<noteq> [] \<longrightarrow> audienceMatchesResource (cl_Audience c) (cfg_Audience cfg))"
  using assms
  by (auto simp: applyClaimChecks_def time_Now_def in_window_def Let_def applyIdentityPolicy_iff [symmetric]
      hasRequiredScopes_iff not_less split: if_splits sum.splits)

text \<open>The window is checked against the last event of a successful validation.\<close>

lemma Validate_window:
  assumes "run_state (Validate E cfg token) w = (Inr (Some c), w')"
  shows "in_window (env_clock E (w_tick w' - 1)) c"
proof -
  obtain c0 w1 where 1: "run_state (applyClaimChecks E cfg c0) w1 = (Inr c, w')"
    using assms by (auto simp: Validate_def split: if_splits prod.splits sum.splits)
  then have "w_tick w' = Suc (w_tick w1)"
    by (auto simp: applyClaimChecks_def time_Now_def Let_def split: if_splits sum.splits)
  with applyClaimChecks_ok [OF 1] show ?thesis by simp
qed

text \<open>The validator's operations, under any invariant of the rest of the world that does not look at
  the clock, the trace or the validator.\<close>

locale validator_frame =
  fixes J :: "world \<Rightarrow> bool"
  assumes J_tick: "J w \<Longrightarrow> J (w\<lparr>w_tick := Suc (w_tick w)\<rparr>)"
    and J_sent: "J w \<Longrightarrow> J (w\<lparr>w_sent := l\<rparr>)"
    and J_validator: "J w \<Longrightarrow> J (w\<lparr>w_validator := v\<rparr>)"
begin

abbreviation inv :: "env \<Rightarrow> world \<Rightarrow> bool" where
  "inv E w \<equiv> J w \<and> val_inv E (w_validator w)"

lemma effects:
  "ensures (inv E) (time_Now E') (\<lambda>_. True)" "ensures (inv E) (rand_Read E') (\<lambda>_. True)"
  "ensures (inv E) nonce (\<lambda>_. True)" "ensures (inv E) get_validator (val_inv E)"
  "val_inv E v \<Longrightarrow> ensures (inv E) (put_validator v) (\<lambda>_. True)"
  using J_tick J_validator by (auto simp: ensures_def io_simps)

lemma http_Do_ensures:
  "ensures (inv E) (http_Do E out) (\<lambda>r. \<exists>n. r = env_http E n out)"
  using J_sent [OF J_tick] by (auto simp: ensures_def io_simps)

lemma http_Get_ensures:
  "ensures (inv E) (http_Get E u hs) (\<lambda>r. \<forall>resp. r = Some resp \<longrightarrow> (\<exists>n. env_http E n (HttpGet u hs) = Some resp))"
  unfolding http_Get_def
  by (auto intro!: ensures_return ensures_weaken [OF http_Do_ensures])

lemma http_PostForm_ensures:
  "ensures (inv E) (http_PostForm E u vs) (\<lambda>r. \<forall>resp. r = Some resp \<longrightarrow> (\<exists>n. env_http E n (HttpPostForm u vs) = Some resp))"
  unfolding http_PostForm_def by (auto intro!: ensures_return ensures_weaken [OF http_Do_ensures])

lemma discovery_loop_ensures:
  "set us \<subseteq> set (oidc_candidates issuer) \<Longrightarrow>
   ensures (inv E) (discovery_loop E issuer us) (\<lambda>r. \<forall>d. r = Inr d \<longrightarrow> discovered E issuer d)"
proof (induction us)
  case (Cons u us)
  then have IH: "ensures (inv E) (discovery_loop E issuer us) (\<lambda>r. \<forall>d. r = Inr d \<longrightarrow> discovered E issuer d)"
    by simp
  show ?case
    unfolding discovery_loop.simps
  proof (rule ensures_bind [OF http_Get_ensures], goal_cases)
    case (1 r)
    have "discovered E issuer d" if "r = Some resp" "read_limited maxOAuthResponseBytes resp = Some body"
        "\<not> 300 \<le> in_Status resp" "unmarshal_oidc E body = Some d" for resp body d
      using 1 that Cons.prems servedI [of E u resp body] by (auto simp: discovered_def)
    then show ?case
      using IH
      by (auto intro!: ensures_return ensures_step [OF effects(1)] ensures_bind [OF effects(4)]
          ensures_step [OF effects(5)] val_inv_updates(1,2) split: option.splits)
  qed
qed (simp add: ensures_return)

lemma fetchOIDCDiscovery_ensures:
  "ensures (inv E) (fetchOIDCDiscovery E i) (\<lambda>r. \<forall>d. r = Inr d \<longrightarrow> discovered E (slash_norm i) d)"
  unfolding fetchOIDCDiscovery_def Let_def slash_norm_def [symmetric]
proof (split if_split, intro conjI impI, goal_cases)
  case 2
  show ?case
  proof (rule ensures_bind [OF effects(4)], goal_cases)
    case (1 v)
    show ?case
      by (rule ensures_bind [where R = "\<lambda>fresh. fresh \<longrightarrow> v_oidcURL v = slash_norm i \<and> oc_Issuer (v_oidcCache v) \<noteq> []"])
        (use 1 in \<open>auto intro!: ensures_return ensures_step [OF effects(1)] discovery_loop_ensures dest: val_inv_cached\<close>)
  qed
qed (simp add: ensures_return)

lemma resolveJWKSURL_ensures:
  "ensures (inv E) (resolveJWKSURL E cfg) (\<lambda>r. \<forall>u. r = Inr u \<longrightarrow> jwks_source E cfg u)"
  unfolding resolveJWKSURL_def
  by (auto intro!: ensures_return ensures_bind [OF fetchOIDCDiscovery_ensures]
      simp: jwks_source_def split: sum.splits if_splits)

lemma fetchJWKS_ensures:
  "ensures (inv E) (fetchJWKS E u) (\<lambda>r. \<forall>ks. r = Inr ks \<longrightarrow> keys_of E u ks)"
  unfolding fetchJWKS_def
proof (rule ensures_step [OF effects(1)], rule ensures_bind [OF effects(4)], goal_cases)
  case (1 now v)
  have fetch: "ensures (inv E) (case r of
      None \<Rightarrow> return (Inl (ErrOther ''fetch jwks''))
    | Some resp \<Rightarrow> (case read_limited maxOAuthResponseBytes resp of
        None \<Rightarrow> return (Inl (ErrOther ''read jwks''))
      | Some body \<Rightarrow> if 300 \<le> in_Status resp then return (Inl (ErrOther ''jwks endpoint returned status''))
        else case env_keyset E body of None \<Rightarrow> return (Inl (ErrOther ''parse jwks''))
        | Some keySet \<Rightarrow> State_Monad.bind get_validator (\<lambda>v.
            State_Monad.bind (put_validator (v\<lparr>v_jwks := keySet, v_jwksURL := u, v_jwksTime := now\<rparr>))
              (\<lambda>_. return (Inr keySet))))) (\<lambda>r. \<forall>ks. r = Inr ks \<longrightarrow> keys_of E u ks)"
    if r: "\<forall>resp. r = Some resp \<longrightarrow> (\<exists>n. env_http E n (HttpGet u []) = Some resp)" for r
  proof -
    have "keys_of E u ks" if "r = Some resp" "read_limited maxOAuthResponseBytes resp = Some body"
        "\<not> 300 \<le> in_Status resp" "env_keyset E body = Some ks" for resp body ks
      using r that servedI [of E u resp body] by (auto simp: keys_of_def)
    then show ?thesis
      by (auto intro!: ensures_return ensures_bind [OF effects(4)] ensures_step [OF effects(5)]
          val_inv_updates(1,2) split: option.splits)
  qed
  then show ?case
    using 1 by (auto intro!: ensures_return ensures_bind [OF http_Get_ensures fetch] val_inv_cached(2))
qed

lemma candidate_keys_ensures:
  assumes "keyset_Key_sound E"
  shows "ensures (inv E) (candidate_keys E u kid) (\<lambda>r. \<forall>keys. r = Inr keys \<longrightarrow>
    (\<exists>ks. keys_of E u ks \<and> (\<forall>k \<in> set keys. k \<in> set ks \<and> (kid \<noteq> [] \<longrightarrow> jwk_KeyID k = kid))))"
proof -
  have sound: "k \<in> set (env_keyset_Key E ks i) \<Longrightarrow> k \<in> set ks \<and> jwk_KeyID k = i" for k ks i
    using assms by (auto simp: keyset_Key_sound_def)
  then show ?thesis
    unfolding candidate_keys_def
    by (auto intro!: ensures_bind [OF fetchJWKS_ensures] ensures_return ensures_bind [OF effects(4)]
        ensures_step [OF effects(5)] val_inv_updates(3) split: sum.splits if_splits) blast+
qed

lemma parseAndVerifyJWT_ensures:
  assumes "keyset_Key_sound E"
  shows "ensures (inv E) (parseAndVerifyJWT E cfg token aud) (\<lambda>r. \<forall>c. r = Inr c \<longrightarrow> vouched E cfg token aud c)"
  unfolding parseAndVerifyJWT_def
proof (rule ensures_bind [OF resolveJWKSURL_ensures], goal_cases)
  case (1 r)
  show ?case
  proof (cases r)
    case (Inr u)
    then have u: "jwks_source E cfg u" using 1 by simp
    show ?thesis
    proof (cases "env_ParseSigned E upstreamAlgs token")
      case (Some hdrs)
      show ?thesis
      proof (cases hdrs)
        case (Cons hdr rest)
        show ?thesis
          unfolding Inr Some Cons sum.case option.case list.case
          by (rule ensures_bind [OF candidate_keys_ensures [OF assms]])
            (use u Some Cons in \<open>force intro!: ensures_return simp: vouched_def split: sum.splits dest!: verify_loop_Inr\<close>)
      qed (simp add: Inr Some ensures_return)
    qed (simp add: Inr ensures_return)
  qed (simp add: ensures_return)
qed

lemma ValidateUpstreamIdentityToken_ensures:
  assumes "keyset_Key_sound E"
  shows "ensures (inv E) (ValidateUpstreamIdentityToken E cfg token aud)
    (\<lambda>r. \<forall>c. r = Inr c \<longrightarrow> vouched E cfg token aud c \<and> policy_ok E cfg c)"
  unfolding ValidateUpstreamIdentityToken_def
  by (rule ensures_bind [OF parseAndVerifyJWT_ensures [OF assms]])
    (auto intro!: ensures_return simp: applyIdentityPolicy_iff [symmetric] split: sum.splits)

lemma applyClaimChecks_ensures:
  "ensures (inv E) (applyClaimChecks E cfg c) (\<lambda>r. \<forall>c'. r = Inr c' \<longrightarrow> c' = c \<and> policy_ok E cfg c \<and>
    set (cfg_RequiredScopes cfg) \<subseteq> set (cl_Scopes c))"
proof -
  have "inv E (snd (run_state (applyClaimChecks E cfg c) w))" if "inv E w" for w
    using that J_tick by (auto simp: applyClaimChecks_def time_Now_def Let_def)
  with applyClaimChecks_ok [of E cfg c] show ?thesis
    by (fastforce simp: ensures_def split: prod.split)
qed

text \<open>The outcome of \<^const>\<open>Validate\<close> on a token it accepts.\<close>

lemma Validate_ensures:
  assumes "keyset_Key_sound E"
  shows "ensures (inv E) (Validate E cfg token) (\<lambda>r. \<forall>mc. r = Inr mc \<longrightarrow>
    (case mc of
       None \<Rightarrow> \<not> looksLikeJWT token \<and> \<not> IsGating (env_unicode E) (cfg_Mode cfg) \<or>
              TrimSpace (cfg_JWKSURL cfg) = [] \<and> TrimSpace (cfg_Issuer cfg) = []
     | Some c \<Rightarrow> vouched E cfg token (cfg_Audience cfg) c \<and> policy_ok E cfg c \<and>
         set (cfg_RequiredScopes cfg) \<subseteq> set (cl_Scopes c)))"
  unfolding Validate_def
  by (auto intro!: ensures_return ensures_bind [OF parseAndVerifyJWT_ensures [OF assms]]
      ensures_bind [OF applyClaimChecks_ensures] simp: IsGating_def split: sum.splits)

end

end
