(* ===== verification/Oauth_Broker.thy ===== *)
theory Oauth_Broker
  imports Client_Assertion Oauth_Refresh
begin

text \<open>
  \<open>broker.go\<close>: the authorization server's HTTP handlers. \<open>/oauth/authorize\<close> checks the client's request
  and sends the browser to the upstream provider with an encrypted pending authorization as
  \<open>state\<close>; \<open>/oauth/callback\<close> turns that state and the upstream code into an encrypted authorization
  code; \<open>/oauth/token\<close> authenticates the client, checks the code, its PKCE verifier and binding,
  exchanges the upstream code, validates the identity and answers with a bearer token. The
  broker keeps no state of its own between the three: everything travels in the artifacts.
  A handler is a computation that yields the response; the phases of the long token handler are
  separate definitions, composed in the order of the code.
\<close>

definition defaultProtectedResourceMetadataPath :: string where
  "defaultProtectedResourceMetadataPath = ''/.well-known/oauth-protected-resource''"
definition defaultAuthorizationServerMetadataPath :: string where
  "defaultAuthorizationServerMetadataPath = ''/.well-known/oauth-authorization-server''"
definition defaultOpenIDConfigurationPath :: string where
  "defaultOpenIDConfigurationPath = ''/.well-known/openid-configuration''"
definition defaultRegistrationPath :: string where "defaultRegistrationPath = ''/oauth/register''"
definition defaultAuthorizationPath :: string where "defaultAuthorizationPath = ''/oauth/authorize''"
definition defaultCallbackPath :: string where "defaultCallbackPath = ''/oauth/callback''"
definition defaultTokenPath :: string where "defaultTokenPath = ''/oauth/token''"
definition defaultPendingAuthTTLSeconds :: int where "defaultPendingAuthTTLSeconds = 10 * 60"
definition defaultAuthCodeTTLSeconds :: int where "defaultAuthCodeTTLSeconds = 60"
definition defaultAccessTokenTTLSeconds :: int where "defaultAccessTokenTTLSeconds = 60 * 60"

text \<open>\<open>New\<close>: the configuration is checked, the state is empty.\<close>

definition New :: "env \<Rightarrow> config \<Rightarrow> (config_error, config \<times> world) result" where
  "New E cfg =
    (case Validate_config (env_unicode E) cfg of
       Inl err \<Rightarrow> Inl err
     | Inr _ \<Rightarrow> Inr (cfg, new_world))"

text \<open>\<open>NewValidator\<close>: the validator alone, as \<open>New\<close> puts it into the broker.\<close>

definition NewValidator :: "env \<Rightarrow> config \<Rightarrow> (config_error, config \<times> validator) result" where
  "NewValidator E cfg =
    (case Validate_config (env_unicode E) cfg of
       Inl err \<Rightarrow> Inl err
     | Inr _ \<Rightarrow> Inr (cfg, newValidator))"

lemma NewValidator_New: "NewValidator E cfg = map_sum id (map_prod id w_validator) (New E cfg)"
  by (simp add: NewValidator_def New_def new_world_def split: sum.split)

subsection \<open>Paths and base URLs\<close>

definition authorizationPath :: "config \<Rightarrow> string" where
  "authorizationPath cfg = normalizedPath (cfg_AuthorizationPath cfg) defaultAuthorizationPath"
definition callbackPath :: "config \<Rightarrow> string" where
  "callbackPath cfg = normalizedPath (cfg_CallbackPath cfg) defaultCallbackPath"
definition tokenPath :: "config \<Rightarrow> string" where
  "tokenPath cfg = normalizedPath (cfg_TokenPath cfg) defaultTokenPath"

definition resourcePrefix :: "config \<Rightarrow> request \<Rightarrow> string" where
  "resourcePrefix cfg r =
    (let p1 = suffixPrefix (req_Path r)
           [''/.well-known/oauth-protected-resource'', ''/.well-known/oauth-authorization-server'',
            ''/.well-known/openid-configuration'']
     in if p1 \<noteq> [] then p1
        else let p2 = pathFromConfiguredURL (cfg_PublicResourceURL cfg)
             in if p2 \<noteq> [] then p2 else pathFromConfiguredURL (cfg_Audience cfg))"

definition authServerPrefix :: "config \<Rightarrow> request \<Rightarrow> string" where
  "authServerPrefix cfg r =
    (let p1 = suffixPrefix (req_Path r)
           [''/.well-known/oauth-authorization-server'', ''/.well-known/openid-configuration'']
     in if p1 \<noteq> [] then p1
        else let p2 = pathFromConfiguredURL (cfg_PublicAuthServerURL cfg)
             in if p2 \<noteq> [] then p2 else pathFromConfiguredURL (cfg_Issuer cfg))"

definition resourceBaseURL :: "env \<Rightarrow> config \<Rightarrow> request \<Rightarrow> string" where
  "resourceBaseURL E cfg r =
    (let u = normalizeURL (cfg_PublicResourceURL cfg)
     in if u \<noteq> [] then u else schemeAndHost (env_unicode E) r @ resourcePrefix cfg r)"

definition authServerBaseURL :: "env \<Rightarrow> config \<Rightarrow> request \<Rightarrow> string" where
  "authServerBaseURL E cfg r =
    (let u = normalizeURL (cfg_PublicAuthServerURL cfg)
     in if u \<noteq> [] then u else schemeAndHost (env_unicode E) r @ authServerPrefix cfg r)"

subsection \<open>Responses\<close>

definition json_response :: "nat \<Rightarrow> jmap \<Rightarrow> response" where
  "json_response status body =
    \<lparr>resp_Status = status, resp_Header = [(''Content-Type'', ''application/json'')], resp_Body = Some (AMap body)\<rparr>"

definition writeTokenError :: "env \<Rightarrow> nat \<Rightarrow> string \<Rightarrow> string \<Rightarrow> response" where
  "writeTokenError E status code description =
    \<lparr>resp_Status = status,
     resp_Header =
       (if status = 401
        then [(''WWW-Authenticate'', ''Bearer error='' @ Quote (env_unicode E) code @
                 '', error_description='' @ Quote (env_unicode E) description)]
        else []) @ [(''Content-Type'', ''application/json'')],
     resp_Body = Some (AMap [(''error'', AString code), (''error_description'', AString description)])\<rparr>"

definition strs :: "string list \<Rightarrow> any" where
  "strs xs = ASlice (map AString xs)"

subsection \<open>Metadata\<close>

definition handleProtectedResourceMetadata :: "env \<Rightarrow> config \<Rightarrow> request \<Rightarrow> response" where
  "handleProtectedResourceMetadata E cfg r =
    (let baseURL = resourceBaseURL E cfg r;
         authorizationServers =
           (if brokerActive (env_unicode E) cfg then [TrimRight (authServerBaseURL E cfg r) (CHR ''/'')]
            else [TrimSpace (cfg_Issuer cfg)])
     in json_response 200
          [(''resource'', AString (canonicalResourceURL baseURL)),
           (''authorization_servers'', strs authorizationServers),
           (''scopes_supported'', strs (oidcScopesForAdvertisement (cfg_Scopes cfg))),
           (''bearer_methods_supported'', strs [''header''])])"

definition asMetadata :: "env \<Rightarrow> config \<Rightarrow> request \<Rightarrow> jmap" where
  "asMetadata E cfg r =
    (let baseURL = authServerBaseURL E cfg r in
     [(''issuer'', AString (TrimRight baseURL (CHR ''/''))),
      (''authorization_endpoint'', AString (joinURLPath baseURL (authorizationPath cfg))),
      (''token_endpoint'', AString (joinURLPath baseURL (tokenPath cfg))),
      (''scopes_supported'', strs (oidcScopesForAdvertisement (cfg_Scopes cfg))),
      (''response_types_supported'', strs [''code'']),
      (''grant_types_supported'', strs [''authorization_code'']),
      (''token_endpoint_auth_methods_supported'', strs [''none'', ''private_key_jwt'']),
      (''token_endpoint_auth_signing_alg_values_supported'',
         strs [''RS256'', ''RS384'', ''RS512'', ''PS256'', ''PS384'', ''PS512'', ''ES256'', ''ES384'',
               ''ES512'', ''EdDSA'']),
      (''code_challenge_methods_supported'', strs [''S256'']),
      (''client_id_metadata_document_supported'', ABool True)])"

definition handleAuthorizationServerMetadata :: "env \<Rightarrow> config \<Rightarrow> request \<Rightarrow> response" where
  "handleAuthorizationServerMetadata E cfg r = json_response 200 (asMetadata E cfg r)"

definition handleOpenIDConfiguration :: "env \<Rightarrow> config \<Rightarrow> request \<Rightarrow> response" where
  "handleOpenIDConfiguration E cfg r =
    (let resp = asMetadata E cfg r in
     json_response 200
       (if \<not> IsForward (env_unicode E) (cfg_Mode cfg) then
          AList.update ''id_token_signing_alg_values_supported'' (strs [''HS256''])
            (AList.update ''subject_types_supported'' (strs [''public'']) resp)
        else resp))"

definition handleRegistrationRemoved :: "request \<Rightarrow> response" where
  "handleRegistrationRemoved r =
    json_response 410
      [(''error'', AString ''registration_not_supported''),
       (''error_description'', AString (''Dynamic Client Registration is no longer supported; clients must use OAuth Client ID Metadata Documents (CIMD). See client_id_metadata_document_supported on /.well-known/oauth-authorization-server.''))]"

subsection \<open>/oauth/authorize\<close>

definition authorize_scope :: "config \<Rightarrow> string" where
  "authorize_scope cfg = (let s = Join (cfg_Scopes cfg) '' '' in if s = [] then ''openid email'' else s)"

text \<open>The parameters of the upstream authorization request.\<close>

definition upstream_params :: "env \<Rightarrow> config \<Rightarrow> request \<Rightarrow> string \<Rightarrow> string \<Rightarrow> url_values" where
  "upstream_params E cfg r stateJWE upstreamVerifier =
    (let v0 = SetValue (SetValue (SetValue [] ''client_id'' (cfg_ClientID cfg))
                ''redirect_uri'' (joinURLPath (authServerBaseURL E cfg r) (callbackPath cfg)))
                ''response_type'' ''code'';
         scope = authorize_scope cfg;
         (v1, scope1) =
           (if cfg_UpstreamOfflineAccess cfg then
              (if isGoogleIssuer (env_unicode E) (cfg_Issuer cfg) then
                 (let v = SetValue v0 ''access_type'' ''offline'' in
                  (if cfg_UpstreamForceConsent cfg then SetValue v ''prompt'' ''consent'' else v, scope))
               else if ''offline_access'' \<notin> set (Fields scope)
               then (v0, TrimSpace (scope @ '' offline_access''))
               else (v0, scope))
            else (v0, scope))
     in SetValue (SetValue (SetValue (SetValue v1 ''scope'' scope1) ''state'' stateJWE)
          ''code_challenge'' (pkceChallenge upstreamVerifier)) ''code_challenge_method'' ''S256'')"

text \<open>The checks before anything is minted; \<open>Inr\<close> when the request is acceptable for the client.\<close>

definition authorize_checks :: "env \<Rightarrow> config \<Rightarrow> request \<Rightarrow> registeredClient \<Rightarrow> (response, unit) result" where
  "authorize_checks E cfg r client =
    (let q = Query r; resource = Get q ''resource'' in
     if Get q ''redirect_uri'' \<notin> set (rc_RedirectURIs client)
     then Inl (writeTokenError E 400 ''invalid_request'' ''redirect_uri not registered for this client'')
     else if Get q ''code_challenge'' = [] \<or> Get q ''code_challenge_method'' \<noteq> ''S256''
     then Inl (writeTokenError E 400 ''invalid_request'' ''PKCE S256 is required'')
     else if resource \<noteq> [] \<and>
       TrimRight resource (CHR ''/'') \<noteq> TrimRight (resourceBaseURL E cfg r) (CHR ''/'')
     then Inl (writeTokenError E 400 ''invalid_target'' ''resource indicator does not identify this MCP server'')
     else Inr ())"

definition pending_of_request :: "request \<Rightarrow> string \<Rightarrow> int \<Rightarrow> pendingAuth" where
  "pending_of_request r upstreamVerifier now =
    (let q = Query r in
     \<lparr>pa_ClientID = Get q ''client_id'', pa_RedirectURI = Get q ''redirect_uri'',
      pa_Scope = sanitizeScope (Get q ''scope''), pa_ClientState = Get q ''state'',
      pa_CodeChallenge = Get q ''code_challenge'', pa_CodeChallengeMethod = Get q ''code_challenge_method'',
      pa_Resource = Get q ''resource'', pa_UpstreamPKCEVerifier = upstreamVerifier,
      pa_ExpiresAt = now + defaultPendingAuthTTLSeconds * second\<rparr>)"

definition authorize_redirect :: "env \<Rightarrow> config \<Rightarrow> request \<Rightarrow> (world, response) state" where
  "authorize_redirect E cfg r = do {
     rnd \<leftarrow> rand_Read E;
     (case newPKCEVerifier rnd of
        None \<Rightarrow> return (writeTokenError E 500 ''server_error'' ''failed to generate PKCE verifier'')
      | Some upstreamVerifier \<Rightarrow> do {
          now \<leftarrow> time_Now E;
          n \<leftarrow> nonce;
          (case encodePendingAuth (env_jose E) n (cfg_SigningSecret cfg) (pending_of_request r upstreamVerifier now) of
             None \<Rightarrow> return (writeTokenError E 500 ''server_error'' ''failed to initialize OAuth state'')
           | Some stateJWE \<Rightarrow> do {
               u \<leftarrow> resolveUpstreamAuthURL E cfg;
               return (case u of
                 Inl _ \<Rightarrow> writeTokenError E 502 ''server_error'' ''failed to resolve upstream authorization endpoint''
               | Inr authURL \<Rightarrow>
                 redirect r (authURL @ ''?'' @ Encode (upstream_params E cfg r stateJWE upstreamVerifier)))
             })
        })
   }"

definition handleAuthorize :: "env \<Rightarrow> config \<Rightarrow> request \<Rightarrow> (world, response) state" where
  "handleAuthorize E cfg r =
    (if req_Method r \<noteq> ''GET'' then return (writeTokenError E 405 ''invalid_request'' ''method not allowed'')
     else
       (let q = Query r; clientID = Get q ''client_id''; redirectURI = Get q ''redirect_uri'' in
        if clientID = [] \<or> redirectURI = [] \<or> Get q ''response_type'' \<noteq> ''code''
        then return (writeTokenError E 400 ''invalid_request'' ''missing client_id, redirect_uri, or response_type=code'')
        else do {
          c \<leftarrow> resolve E clientID;
          (case c of
             Inl err \<Rightarrow> return (writeTokenError E 400 ''invalid_client'' ''unknown OAuth client'')
           | Inr client \<Rightarrow>
             (case authorize_checks E cfg r client of
                Inl resp \<Rightarrow> return resp
              | Inr _ \<Rightarrow> authorize_redirect E cfg r))
        }))"

subsection \<open>/oauth/callback\<close>

definition code_of_pending :: "pendingAuth \<Rightarrow> string \<Rightarrow> int \<Rightarrow> issuedCode" where
  "code_of_pending pending code now =
    \<lparr>ic_ClientID = pa_ClientID pending, ic_RedirectURI = pa_RedirectURI pending, ic_Scope = pa_Scope pending,
     ic_CodeChallenge = pa_CodeChallenge pending, ic_CodeChallengeMethod = pa_CodeChallengeMethod pending,
     ic_Resource = pa_Resource pending, ic_UpstreamAuthCode = code,
     ic_UpstreamPKCEVerifier = pa_UpstreamPKCEVerifier pending,
     ic_ExpiresAt = now + defaultAuthCodeTTLSeconds * second\<rparr>"

text \<open>The redirect to the client with the code and its state.\<close>

definition callback_target :: "pendingAuth \<Rightarrow> string \<Rightarrow> string option" where
  "callback_target pending codeJWE =
    map_option
      (\<lambda>u. let params = SetValue (ParseQuery (RawQuery u)) ''code'' codeJWE;
               params' = (if pa_ClientState pending \<noteq> [] then SetValue params ''state'' (pa_ClientState pending) else params)
           in url_String (u\<lparr>RawQuery := Encode params'\<rparr>))
      (Parse (pa_RedirectURI pending))"

definition handleCallback :: "env \<Rightarrow> config \<Rightarrow> request \<Rightarrow> (world, response) state" where
  "handleCallback E cfg r =
    (let q = Query r; state = Get q ''state''; code = Get q ''code'' in
     if state = [] \<or> code = []
     then return (writeTokenError E 400 ''invalid_request'' ''missing state or code on callback'')
     else do {
       t \<leftarrow> time_Now E;
       (case decodePendingAuth (env_jose E) (env_oor E) t (cfg_SigningSecret cfg) state of
          None \<Rightarrow> return (writeTokenError E 400 ''invalid_request'' ''unknown or expired authorization request'')
        | Some pending \<Rightarrow> do {
            now \<leftarrow> time_Now E;
            n \<leftarrow> nonce;
            return (case encodeAuthCode (env_jose E) n (cfg_SigningSecret cfg) (code_of_pending pending code now) of
              None \<Rightarrow> writeTokenError E 500 ''server_error'' ''failed to issue authorization code''
            | Some codeJWE \<Rightarrow>
              (case callback_target pending codeJWE of
                 None \<Rightarrow> writeTokenError E 502 ''server_error'' ''pending-auth carried an unparseable redirect_uri''
               | Some target \<Rightarrow> redirect r target))
          })
     })"

end
