(* ===== verification/Oauth_Token.thy ===== *)
theory Oauth_Token
  imports Oauth_Broker
begin

text \<open>
  \<open>broker.go\<close>, \<open>handleToken\<close> and \<open>handleTokenAuthCode\<close>: the token endpoint, in five phases, each
  of which yields the error response or what the next one needs. Client authentication and the
  redemption of the code come before the upstream exchange, so that a request that fails them
  causes no exchange; the identity is validated before a token is minted.
\<close>

record token_response =
  tr_AccessToken :: string
  tr_IDToken :: string
  tr_RefreshToken :: string
  tr_TokenType :: string
  tr_ExpiresIn :: int
  tr_Scope :: string
  tr_Error :: string

subsection \<open>Phase 1: the client\<close>

definition authenticate_method ::
  "env \<Rightarrow> config \<Rightarrow> request \<Rightarrow> url_values \<Rightarrow> registeredClient \<Rightarrow> (world, (response, unit) result) state" where
  "authenticate_method E cfg r form client =
    (let clientID = Get form ''client_id''; assertion = Get form ''client_assertion'';
         assertionType = Get form ''client_assertion_type'' in
     if rc_TokenEndpointAuthMethod client = ''none'' then
       return (if assertion \<noteq> [] \<or> assertionType \<noteq> []
               then Inl (writeTokenError E 401 ''invalid_client'' ''client_assertion not accepted for public clients'')
               else Inr ())
     else if rc_TokenEndpointAuthMethod client = ''private_key_jwt'' then
       (if assertion \<noteq> [] \<or> assertionType \<noteq> [] then
          (if assertionType \<noteq> clientAssertionType
           then return (Inl (writeTokenError E 401 ''invalid_client'' ''client_assertion_type must be jwt-bearer''))
           else do {
             v \<leftarrow> verifyClientAssertion E client clientID assertion
                    (joinURLPath (authServerBaseURL E cfg r) (tokenPath cfg));
             return (case v of
               Inl err \<Rightarrow> Inl (writeTokenError E 401 ''invalid_client'' ''client_assertion invalid'')
             | Inr _ \<Rightarrow> Inr ())
           })
        else return (Inr ()))
     else return (Inl (writeTokenError E 401 ''invalid_client'' ''unsupported client auth method'')))"

definition authenticate_client ::
  "env \<Rightarrow> config \<Rightarrow> request \<Rightarrow> url_values \<Rightarrow> (world, (response, registeredClient) result) state" where
  "authenticate_client E cfg r form =
    (if Get form ''client_secret'' \<noteq> []
     then return (Inl (writeTokenError E 401 ''invalid_client'' ''client_secret authentication not supported''))
     else do {
       c \<leftarrow> resolve E (Get form ''client_id'');
       (case c of
          Inl err \<Rightarrow> return (Inl (writeTokenError E 401 ''invalid_client'' ''unknown OAuth client''))
        | Inr client \<Rightarrow> do {
            a \<leftarrow> authenticate_method E cfg r form client;
            return (case a of Inl resp \<Rightarrow> Inl resp | Inr _ \<Rightarrow> Inr client)
          })
     })"

subsection \<open>Phase 2: the authorization code\<close>

definition check_code :: "env \<Rightarrow> url_values \<Rightarrow> issuedCode \<Rightarrow> (response, unit) result" where
  "check_code E form issued =
    (let formResource = Get form ''resource'' in
     if ic_ClientID issued \<noteq> Get form ''client_id'' \<or> ic_RedirectURI issued \<noteq> Get form ''redirect_uri''
     then Inl (writeTokenError E 400 ''invalid_grant'' ''invalid authorization code'')
     else if ic_CodeChallenge issued = [] \<or> pkceChallenge (Get form ''code_verifier'') \<noteq> ic_CodeChallenge issued
     then Inl (writeTokenError E 400 ''invalid_grant'' ''invalid PKCE verifier'')
     else if formResource \<noteq> [] \<and> ic_Resource issued \<noteq> [] \<and>
       TrimRight formResource (CHR ''/'') \<noteq> TrimRight (ic_Resource issued) (CHR ''/'')
     then Inl (writeTokenError E 400 ''invalid_target'' ''resource indicator does not match the one used at /authorize'')
     else if ic_UpstreamAuthCode issued = [] \<or> ic_UpstreamPKCEVerifier issued = []
     then Inl (writeTokenError E 400 ''invalid_grant'' ''invalid authorization code'')
     else Inr ())"

definition redeem_code ::
  "env \<Rightarrow> config \<Rightarrow> url_values \<Rightarrow> registeredClient \<Rightarrow> (world, (response, issuedCode) result) state" where
  "redeem_code E cfg form client =
    (if Get form ''redirect_uri'' \<notin> set (rc_RedirectURIs client)
     then return (Inl (writeTokenError E 400 ''invalid_grant'' ''redirect_uri not registered for this client''))
     else do {
       now \<leftarrow> time_Now E;
       return (case decodeAuthCode (env_jose E) (env_oor E) now (cfg_SigningSecret cfg) (Get form ''code'') of
         None \<Rightarrow> Inl (writeTokenError E 400 ''invalid_grant'' ''invalid authorization code'')
       | Some issued \<Rightarrow>
         (case check_code E form issued of Inl resp \<Rightarrow> Inl resp | Inr _ \<Rightarrow> Inr issued))
     })"

subsection \<open>Phase 3: the upstream exchange\<close>

definition exchange_form :: "env \<Rightarrow> config \<Rightarrow> request \<Rightarrow> issuedCode \<Rightarrow> url_values" where
  "exchange_form E cfg r issued =
    (let f0 = SetValue (SetValue (SetValue [] ''grant_type'' ''authorization_code'')
                ''code'' (ic_UpstreamAuthCode issued)) ''client_id'' (cfg_ClientID cfg);
         f1 = (if cfg_ClientSecret cfg \<noteq> [] then SetValue f0 ''client_secret'' (cfg_ClientSecret cfg) else f0)
     in SetValue (SetValue f1 ''redirect_uri'' (joinURLPath (authServerBaseURL E cfg r) (callbackPath cfg)))
          ''code_verifier'' (ic_UpstreamPKCEVerifier issued))"

definition exchange_response :: "env \<Rightarrow> http_in \<Rightarrow> (response, token_response) result" where
  "exchange_response E upstreamResp =
    (case read_limited maxOAuthResponseBytes upstreamResp of
       None \<Rightarrow> Inl (writeTokenError E 502 ''server_error'' ''failed to read upstream token response'')
     | Some body \<Rightarrow>
       if 300 \<le> in_Status upstreamResp
       then Inl (writeTokenError E 400 ''invalid_grant'' ''upstream rejected the authorization code'')
       else case unmarshal_struct (env_unicode E)
              [''access_token'', ''id_token'', ''refresh_token'', ''token_type'', ''scope'', ''error'', ''error_description'']
              [''expires_in''] body of
         None \<Rightarrow> Inl (writeTokenError E 502 ''server_error'' ''upstream returned non-JSON response'')
       | Some m \<Rightarrow>
         if str_field m ''error'' \<noteq> []
         then Inl (writeTokenError E 400 ''invalid_grant'' ''upstream rejected the authorization code'')
         else if str_field m ''access_token'' = [] \<and> str_field m ''id_token'' = []
         then Inl (writeTokenError E 502 ''server_error'' ''upstream returned no usable token'')
         else Inr \<lparr>tr_AccessToken = str_field m ''access_token'', tr_IDToken = str_field m ''id_token'',
                   tr_RefreshToken = str_field m ''refresh_token'', tr_TokenType = str_field m ''token_type'',
                   tr_ExpiresIn = int_field m ''expires_in'', tr_Scope = str_field m ''scope'',
                   tr_Error = str_field m ''error''\<rparr>)"

definition exchange_code ::
  "env \<Rightarrow> config \<Rightarrow> request \<Rightarrow> issuedCode \<Rightarrow> (world, (response, token_response) result) state" where
  "exchange_code E cfg r issued = do {
     u \<leftarrow> resolveUpstreamTokenURL E cfg;
     (case u of
        Inl err \<Rightarrow> return (Inl (writeTokenError E 502 ''server_error'' ''failed to resolve upstream token endpoint''))
      | Inr tokenURL \<Rightarrow> do {
          resp \<leftarrow> http_PostForm E tokenURL (exchange_form E cfg r issued);
          return (case resp of
            None \<Rightarrow> Inl (writeTokenError E 502 ''server_error'' ''upstream code exchange failed'')
          | Some upstreamResp \<Rightarrow> exchange_response E upstreamResp)
        })
   }"

subsection \<open>Phase 4: the identity\<close>

text \<open>\<open>fetchUserInfo\<close>: the claims of the userinfo endpoint, for an upstream without id_token.\<close>

definition userinfo_url :: "env \<Rightarrow> config \<Rightarrow> (world, string) state" where
  "userinfo_url E cfg =
    (if TrimSpace (cfg_UserInfoURL cfg) \<noteq> [] then return (TrimSpace (cfg_UserInfoURL cfg))
     else do {
       d \<leftarrow> fetchOIDCDiscovery E (TrimSpace (cfg_Issuer cfg));
       return (case d of Inl _ \<Rightarrow> [] | Inr d' \<Rightarrow> oc_UserInfoEndpoint d')
     })"

definition userinfo_claims_of :: "env \<Rightarrow> config \<Rightarrow> http_in \<Rightarrow> (oauth_error, claims) result" where
  "userinfo_claims_of E cfg resp =
    (case read_limited maxOAuthResponseBytes resp of
       None \<Rightarrow> Inl (ErrOther ''read'')
     | Some body \<Rightarrow>
       if 300 \<le> in_Status resp then Inl (ErrOther ''userinfo endpoint returned status'')
       else case unmarshal_map body of
         None \<Rightarrow> Inl (ErrOther ''json'')
       | Some raw \<Rightarrow>
         (let c0 = claimsFromUserInfo raw;
              c = (if cl_Issuer c0 = [] then c0\<lparr>cl_Issuer := cfg_Issuer cfg\<rparr> else c0)
          in case applyIdentityPolicy E cfg c of Inl err \<Rightarrow> Inl err | Inr _ \<Rightarrow> Inr c))"

definition fetchUserInfo :: "env \<Rightarrow> config \<Rightarrow> string \<Rightarrow> (world, (oauth_error, claims) result) state" where
  "fetchUserInfo E cfg accessToken = do {
     u \<leftarrow> userinfo_url E cfg;
     (if u = [] then return (Inl (ErrOther ''userinfo endpoint is not configured or discoverable''))
      else do {
        resp \<leftarrow> http_Get E u [(''Authorization'', ''Bearer '' @ accessToken)];
        return (case resp of
          None \<Rightarrow> Inl (ErrOther ''userinfo request'')
        | Some resp' \<Rightarrow> userinfo_claims_of E cfg resp')
      })
   }"

definition identify ::
  "env \<Rightarrow> config \<Rightarrow> token_response \<Rightarrow> (world, (response, claims) result) state" where
  "identify E cfg tok =
    (if tr_IDToken tok \<noteq> [] then do {
       v \<leftarrow> ValidateUpstreamIdentityToken E cfg (tr_IDToken tok) (cfg_ClientID cfg);
       return (case v of
         Inl err \<Rightarrow> Inl (writeTokenError E 502 ''server_error'' ''failed to validate upstream identity token'')
       | Inr c \<Rightarrow> Inr c)
     } else do {
       v \<leftarrow> fetchUserInfo E cfg (tr_AccessToken tok);
       return (case v of
         Inl err \<Rightarrow> Inl (writeTokenError E 502 ''server_error'' ''failed to validate upstream identity'')
       | Inr c \<Rightarrow> Inr c)
     })"

text \<open>The refresh of a near-expired id_token.\<close>

definition refresh_phase ::
  "env \<Rightarrow> config \<Rightarrow> token_response \<Rightarrow> claims option \<Rightarrow> (world, token_response \<times> claims option) state" where
  "refresh_phase E cfg tok mc =
    (if tr_IDToken tok \<noteq> [] \<and> tr_RefreshToken tok \<noteq> [] then do {
       x \<leftarrow> maybeRefreshNearExpiredIDToken E cfg (tr_IDToken tok) (tr_RefreshToken tok) mc;
       return (case x of
         (idToken, mc', freshDur) \<Rightarrow>
           (if 0 < freshDur
            then tok\<lparr>tr_IDToken := idToken, tr_ExpiresIn := freshDur div second\<rparr>
            else tok\<lparr>tr_IDToken := idToken\<rparr>, mc'))
     } else return (tok, mc))"

subsection \<open>Phase 5: the bearer token\<close>

definition wraps_token :: "env \<Rightarrow> config \<Rightarrow> token_response \<Rightarrow> bool" where
  "wraps_token E cfg tok \<longleftrightarrow> IsGating (env_unicode E) (cfg_Mode cfg) \<and> tr_IDToken tok \<noteq> []"

definition downstream_expiry :: "config \<Rightarrow> claims option \<Rightarrow> int \<Rightarrow> int" where
  "downstream_expiry cfg mc now =
    (let expAt = now + accessTokenTTL cfg in
     case mc of
       Some c \<Rightarrow>
         if 0 < cl_ExpiresAt c \<and> time_Unix (cl_ExpiresAt c) < expAt then time_Unix (cl_ExpiresAt c) else expAt
     | None \<Rightarrow> expAt)"

definition mint_bearer ::
  "env \<Rightarrow> config \<Rightarrow> token_response \<Rightarrow> claims option \<Rightarrow> (world, (response, string) result) state" where
  "mint_bearer E cfg tok mc =
    (if wraps_token E cfg tok then do {
       now \<leftarrow> time_Now E;
       n \<leftarrow> nonce;
       return (case encodeDownstreamAccessToken (env_jose E) n (cfg_SigningSecret cfg) (tr_IDToken tok)
                      (downstream_expiry cfg mc now) of
         None \<Rightarrow> Inl (writeTokenError E 500 ''server_error'' ''failed to mint downstream token'')
       | Some wrapped \<Rightarrow> Inr wrapped)
     } else return (Inr (if tr_IDToken tok = [] then tr_AccessToken tok else tr_IDToken tok)))"

definition expires_in :: "env \<Rightarrow> config \<Rightarrow> token_response \<Rightarrow> claims option \<Rightarrow> int \<Rightarrow> int" where
  "expires_in E cfg tok mc now =
    (let e =
       (if wraps_token E cfg tok then
          (let ttl = accessTokenTTL cfg div second in
           case mc of
             Some c \<Rightarrow>
               if 0 < cl_ExpiresAt c \<and> wrap64 (cl_ExpiresAt c - Unix now) < ttl
               then wrap64 (cl_ExpiresAt c - Unix now) else ttl
           | None \<Rightarrow> ttl)
        else
          (case mc of
             Some c \<Rightarrow>
               if tr_IDToken tok \<noteq> [] \<and> 0 < cl_ExpiresAt c then wrap64 (cl_ExpiresAt c - Unix now)
               else if 0 < tr_ExpiresIn tok then tr_ExpiresIn tok else defaultAccessTokenTTLSeconds
           | None \<Rightarrow> if 0 < tr_ExpiresIn tok then tr_ExpiresIn tok else defaultAccessTokenTTLSeconds))
     in if e < 0 then 0 else e)"

definition token_body :: "config \<Rightarrow> token_response \<Rightarrow> issuedCode \<Rightarrow> string \<Rightarrow> int \<Rightarrow> jmap" where
  "token_body cfg tok issued bearer expiresIn =
    (let scope0 = (if tr_Scope tok = [] then ic_Scope issued else tr_Scope tok);
         scope1 = (if scope0 = [] then Join (cfg_Scopes cfg) '' '' else scope0);
         s = normalizeUpstreamScopeForClient scope1
     in [(''access_token'', AString bearer),
         (''token_type'', AString (if tr_TokenType tok = [] then ''Bearer'' else tr_TokenType tok)),
         (''expires_in'', AInt expiresIn)] @ (if s \<noteq> [] then [(''scope'', AString s)] else []))"

text \<open>Phases 4 and 5 after a successful exchange.\<close>

definition issue_token ::
  "env \<Rightarrow> config \<Rightarrow> issuedCode \<Rightarrow> token_response \<Rightarrow> (world, response) state" where
  "issue_token E cfg issued tok0 = do {
     i \<leftarrow> identify E cfg tok0;
     (case i of
        Inl resp \<Rightarrow> return resp
      | Inr c0 \<Rightarrow> do {
          x \<leftarrow> refresh_phase E cfg tok0 (Some c0);
          (case x of
             (tok, mc) \<Rightarrow> do {
               b \<leftarrow> mint_bearer E cfg tok mc;
               (case b of
                  Inl resp \<Rightarrow> return resp
                | Inr bearer \<Rightarrow> do {
                    now \<leftarrow> time_Now E;
                    return (json_response 200 (token_body cfg tok issued bearer (expires_in E cfg tok mc now)))
                  })
             })
        })
   }"

definition handleTokenAuthCode :: "env \<Rightarrow> config \<Rightarrow> request \<Rightarrow> url_values \<Rightarrow> (world, response) state" where
  "handleTokenAuthCode E cfg r form = do {
     c \<leftarrow> authenticate_client E cfg r form;
     (case c of
        Inl resp \<Rightarrow> return resp
      | Inr client \<Rightarrow> do {
          i \<leftarrow> redeem_code E cfg form client;
          (case i of
             Inl resp \<Rightarrow> return resp
           | Inr issued \<Rightarrow> do {
               t \<leftarrow> exchange_code E cfg r issued;
               (case t of
                  Inl resp \<Rightarrow> return resp
                | Inr tok \<Rightarrow> issue_token E cfg issued tok)
             })
        })
   }"

definition handleToken :: "env \<Rightarrow> config \<Rightarrow> request \<Rightarrow> (world, response) state" where
  "handleToken E cfg r =
    (if req_Method r \<noteq> ''POST'' then return (writeTokenError E 405 ''invalid_request'' ''method not allowed'')
     else case ParseForm r of
       None \<Rightarrow> return (writeTokenError E 400 ''invalid_request'' ''invalid token request'')
     | Some form \<Rightarrow>
       if Get form ''grant_type'' = ''authorization_code'' then handleTokenAuthCode E cfg r form
       else return (writeTokenError E 400 ''unsupported_grant_type'' ''unsupported grant type''))"

end
