(* ===== verification/Oauth_Middleware.thy ===== *)
theory Oauth_Middleware
  imports Oauth_Token
begin

text \<open>
  \<open>middleware.go\<close>, \<open>context.go\<close>, \<open>cors.go\<close> and \<open>RegisterRoutes\<close>: the resource-server side. A request
  must carry a bearer token; a gating broker's own encrypted token is replaced by the identity token
  inside it; the token is validated and the claims are attached to the request for the next
  handler, or the request is answered with a challenge.
\<close>

subsection \<open>Request context\<close>

record req_context =
  ctx_rawToken :: "string option"
  ctx_claims :: "claims option option"

definition empty_context :: req_context where
  "empty_context = \<lparr>ctx_rawToken = None, ctx_claims = None\<rparr>"

definition withRawToken :: "req_context \<Rightarrow> string \<Rightarrow> req_context" where
  "withRawToken ctx token = ctx\<lparr>ctx_rawToken := Some token\<rparr>"

definition withClaims :: "req_context \<Rightarrow> claims option \<Rightarrow> req_context" where
  "withClaims ctx c = ctx\<lparr>ctx_claims := Some c\<rparr>"

definition RawTokenFromContext :: "req_context \<Rightarrow> string \<times> bool" where
  "RawTokenFromContext ctx =
    (case ctx_rawToken ctx of None \<Rightarrow> ([], False) | Some v \<Rightarrow> (v, v \<noteq> []))"

definition ClaimsFromContext :: "req_context \<Rightarrow> claims option \<times> bool" where
  "ClaimsFromContext ctx =
    (case ctx_claims ctx of None \<Rightarrow> (None, False) | Some v \<Rightarrow> (v, v \<noteq> None))"

subsection \<open>The middleware\<close>

definition extractBearer :: "env \<Rightarrow> request \<Rightarrow> string" where
  "extractBearer E r =
    (let auth = header_get r ''Authorization''; prefix = ''Bearer '' in
     if auth = [] then []
     else if length auth < length prefix \<or> \<not> EqualFold (env_unicode E) (take (length prefix) auth) prefix then []
     else TrimSpace (drop (length prefix) auth))"

definition challengeHeader :: "env \<Rightarrow> config \<Rightarrow> request \<Rightarrow> string \<Rightarrow> string \<Rightarrow> string" where
  "challengeHeader E cfg r code0 desc0 =
    (let U = env_unicode E;
         resourceMetadata = joinURLPath (resourceBaseURL E cfg r) defaultProtectedResourceMetadataPath;
         code = (if code0 = [] then ''invalid_token'' else code0);
         desc = (if desc0 = [] then ''Authentication required'' else desc0);
         parts = [''error='' @ Quote U code, ''error_description='' @ Quote U desc,
                  ''resource_metadata='' @ Quote U resourceMetadata];
         scope0 = Join (oidcScopesForAdvertisement (cfg_RequiredScopes cfg)) '' '';
         scope = (if scope0 = [] then Join (oidcScopesForAdvertisement (cfg_Scopes cfg)) '' '' else scope0)
     in ''Bearer '' @ Join (if scope \<noteq> [] then parts @ [''scope='' @ Quote U scope] else parts) '', '')"

definition writeUnauthorized :: "env \<Rightarrow> config \<Rightarrow> request \<Rightarrow> oauth_error \<Rightarrow> response" where
  "writeUnauthorized E cfg r err =
    (let (status, code, desc) =
       (case err of
          ErrInsufficientScopes \<Rightarrow> (403, ''insufficient_scope'', ''Insufficient OAuth scopes'')
        | ErrTokenExpired \<Rightarrow> (401, ''invalid_token'', ''OAuth token expired'')
        | _ \<Rightarrow> (401, ''invalid_token'', ''Authentication required''))
     in \<lparr>resp_Status = status,
         resp_Header = [(''WWW-Authenticate'', challengeHeader E cfg r code desc),
                        (''Content-Type'', ''application/json'')],
         resp_Body = Some (AMap [(''error'', AString code), (''error_description'', AString desc)])\<rparr>)"

text \<open>The request is answered, or passed on with a context.\<close>

datatype verdict = Rejected response | Passed req_context

definition unwrap_token :: "env \<Rightarrow> config \<Rightarrow> string \<Rightarrow> (world, string) state" where
  "unwrap_token E cfg token =
    (if IsGating (env_unicode E) (cfg_Mode cfg) \<and> 0 < length (cfg_SigningSecret cfg) then do {
       now \<leftarrow> time_Now E;
       return (case decodeDownstreamAccessToken (env_jose E) (env_oor E) now (cfg_SigningSecret cfg) token of
         Inl _ \<Rightarrow> token
       | Inr inner \<Rightarrow> inner)
     } else return token)"

definition Middleware :: "env \<Rightarrow> config \<Rightarrow> request \<Rightarrow> (world, verdict) state" where
  "Middleware E cfg r =
    (let token = extractBearer E r in
     if token = [] then return (Rejected (writeUnauthorized E cfg r ErrMissingToken))
     else do {
       inner \<leftarrow> unwrap_token E cfg token;
       v \<leftarrow> Validate E cfg inner;
       return (case v of
         Inl err \<Rightarrow> Rejected (writeUnauthorized E cfg r err)
       | Inr mc \<Rightarrow>
         (let ctx = withRawToken empty_context token in
          Passed (case mc of None \<Rightarrow> ctx | Some c \<Rightarrow> withClaims ctx (Some c))))
     })"

definition MiddlewareFunc :: "env \<Rightarrow> config \<Rightarrow> request \<Rightarrow> (world, verdict) state" where
  "MiddlewareFunc E cfg = Middleware E cfg"

subsection \<open>Routes\<close>

definition corsHeaders :: "(string \<times> string) list" where
  "corsHeaders =
    [(''Access-Control-Allow-Origin'', ''*''), (''Access-Control-Allow-Methods'', ''GET, POST, OPTIONS''),
     (''Access-Control-Allow-Headers'', ''Authorization, Content-Type''), (''Access-Control-Max-Age'', ''3600'')]"

definition withCORS :: "(request \<Rightarrow> (world, response) state) \<Rightarrow> request \<Rightarrow> (world, response) state" where
  "withCORS h r =
    (if req_Method r = ''OPTIONS'' then return \<lparr>resp_Status = 204, resp_Header = corsHeaders, resp_Body = None\<rparr>
     else do {
       resp \<leftarrow> h r;
       return (resp\<lparr>resp_Header := corsHeaders @ resp_Header resp\<rparr>)
     })"

datatype endpoint =
    ProtectedResourceMetadata
  | AuthorizationServerMetadata
  | OpenIDConfiguration
  | RegistrationRemoved
  | Authorize
  | Callback
  | Token

text \<open>The patterns registered, in order; \<open>http.ServeMux\<close> panics on a pattern that is registered
  twice (\<open>None\<close>). Paths with spaces or braces, which are pattern syntax there, are not considered.\<close>

definition routes :: "unicode \<Rightarrow> config \<Rightarrow> (string \<times> endpoint) list" where
  "routes U cfg =
    (defaultProtectedResourceMetadataPath, ProtectedResourceMetadata) #
    (if \<not> brokerActive U cfg then []
     else
       map (\<lambda>p. (p, AuthorizationServerMetadata))
         (uniquePaths [defaultAuthorizationServerMetadataPath, ''/.well-known/oauth-authorization-server/oauth'',
            ''/oauth/.well-known/oauth-authorization-server'']) @
       map (\<lambda>p. (p, OpenIDConfiguration))
         (uniquePaths [defaultOpenIDConfigurationPath, ''/.well-known/openid-configuration/oauth'',
            ''/oauth/.well-known/openid-configuration'']) @
       [(defaultRegistrationPath, RegistrationRemoved)] @
       map (\<lambda>p. (p, Authorize)) (uniquePaths [authorizationPath cfg, defaultAuthorizationPath]) @
       map (\<lambda>p. (p, Callback)) (uniquePaths [callbackPath cfg, defaultCallbackPath]) @
       map (\<lambda>p. (p, Token)) (uniquePaths [tokenPath cfg, defaultTokenPath]))"

definition RegisterRoutes :: "unicode \<Rightarrow> config \<Rightarrow> (string \<times> endpoint) list option" where
  "RegisterRoutes U cfg = (if distinct (map fst (routes U cfg)) then Some (routes U cfg) else None)"

fun handle :: "env \<Rightarrow> config \<Rightarrow> endpoint \<Rightarrow> request \<Rightarrow> (world, response) state" where
  "handle E cfg ProtectedResourceMetadata r = return (handleProtectedResourceMetadata E cfg r)"
| "handle E cfg AuthorizationServerMetadata r = return (handleAuthorizationServerMetadata E cfg r)"
| "handle E cfg OpenIDConfiguration r = return (handleOpenIDConfiguration E cfg r)"
| "handle E cfg RegistrationRemoved r = return (handleRegistrationRemoved r)"
| "handle E cfg Authorize r = handleAuthorize E cfg r"
| "handle E cfg Callback r = handleCallback E cfg r"
| "handle E cfg Token r = handleToken E cfg r"

text \<open>A request to the server: one of the registered endpoints, or an application route behind the
  middleware. A run is a sequence of them.\<close>

datatype event = Endpoint endpoint request | Application request

datatype outcome = Responded response | Ruled verdict

fun serve :: "env \<Rightarrow> config \<Rightarrow> event \<Rightarrow> (world, outcome) state" where
  "serve E cfg (Endpoint e r) = do { resp \<leftarrow> withCORS (handle E cfg e) r; return (Responded resp) }"
| "serve E cfg (Application r) = do { v \<leftarrow> Middleware E cfg r; return (Ruled v) }"

inductive reachable :: "env \<Rightarrow> config \<Rightarrow> world \<Rightarrow> bool" for E :: env and cfg :: config where
  start: "New E cfg = Inr (cfg, w) \<Longrightarrow> reachable E cfg w"
| step: "reachable E cfg w \<Longrightarrow> run_state (serve E cfg ev) w = (out, w') \<Longrightarrow> reachable E cfg w'"

inductive_cases reachableE: "reachable E cfg w"

subsection \<open>The broker's invariant\<close>

definition broker_inv :: "env \<Rightarrow> world \<Rightarrow> bool" where
  "broker_inv E w \<longleftrightarrow> world_inv E w \<and> val_inv E (w_validator w)"

interpretation framed: validator_frame "world_inv E"
  by unfold_locales simp_all

lemma broker_inv_eq: "broker_inv E = framed.inv E E"
  by (simp add: broker_inv_def fun_eq_iff)

end
