(* ===== verification/Oauth_Safety.thy ===== *)
theory Oauth_Safety
  imports Oauth_Middleware
begin

text \<open>
  Lemmas on the handlers: the invariant of the broker is kept by every request, a success
  response of the token endpoint is justified by the checks before it, and which requests each phase
  sends.
\<close>

subsection \<open>Every request keeps the invariant\<close>

lemma resolve_broker:
  "ensures (broker_inv E) (resolve E k) (\<lambda>r. \<forall>c. r = Inr c \<longrightarrow> client_of E k c)"
  unfolding broker_inv_def by (rule ensures_framed [OF resolve_ensures frames_resolve])

lemma verifyClientAssertion_broker:
  "ensures (broker_inv E) (verifyClientAssertion E c cid a aud)
     (\<lambda>r. r = Inr () \<longrightarrow> assertion_ok E (rc_JWKSURI c) cid a aud)"
  unfolding broker_inv_def
  by (rule ensures_framed [OF ensures_verifyClientAssertion frames_verifyClientAssertion])

lemma effects_broker:
  "ensures (broker_inv E) (time_Now E) (\<lambda>_. True)" "ensures (broker_inv E) (rand_Read E) (\<lambda>_. True)"
  "ensures (broker_inv E) nonce (\<lambda>_. True)"
  unfolding broker_inv_eq by (rule framed.effects)+

lemma validator_broker:
  "ensures (broker_inv E) (resolveUpstreamAuthURL E cfg) (\<lambda>_. True)"
  "ensures (broker_inv E) (resolveUpstreamTokenURL E cfg) (\<lambda>r. \<forall>u. r = Inr u \<longrightarrow> token_url E cfg u)"
  "ensures (broker_inv E) (http_PostForm E u vs) (\<lambda>r. \<forall>resp. r = Some resp \<longrightarrow> (\<exists>n. env_http E n (HttpPostForm u vs) = Some resp))"
  "ensures (broker_inv E) (http_Get E u hs) (\<lambda>r. \<forall>resp. r = Some resp \<longrightarrow> (\<exists>n. env_http E n (HttpGet u hs) = Some resp))"
  "ensures (broker_inv E) (fetchOIDCDiscovery E i) (\<lambda>r. \<forall>d. r = Inr d \<longrightarrow> discovered E (slash_norm i) d)"
  unfolding broker_inv_eq
  by (rule framed.resolveUpstream_ensures framed.http_PostForm_ensures framed.http_Get_ensures framed.fetchOIDCDiscovery_ensures)+

lemma identity_broker:
  assumes "keyset_Key_sound E"
  shows "ensures (broker_inv E) (ValidateUpstreamIdentityToken E cfg token (cfg_ClientID cfg))
      (\<lambda>r. \<forall>c. r = Inr c \<longrightarrow> identity_ok E cfg token c)"
    and "ensures (broker_inv E) (maybeRefreshNearExpiredIDToken E cfg tok rt mc)
      (\<lambda>(tok', mc', d). (tok', mc', d) = (tok, mc, 0) \<or>
         (\<exists>c. mc' = Some c \<and> refreshed E cfg rt tok' c))"
  unfolding broker_inv_eq identity_ok_def
  by (rule framed.ValidateUpstreamIdentityToken_ensures [OF assms] framed.maybeRefresh_ensures [OF assms])+

lemma authorize_broker: "ensures (broker_inv E) (handleAuthorize E cfg r) (\<lambda>_. True)"
  unfolding handleAuthorize_def authorize_redirect_def Let_def
  by (auto intro!: ensures_return ensures_bind [OF resolve_broker] ensures_step [OF effects_broker(1)]
      ensures_step [OF effects_broker(2)] ensures_step [OF effects_broker(3)]
      ensures_step [OF validator_broker(1)] split: sum.split option.split)

lemma callback_broker: "ensures (broker_inv E) (handleCallback E cfg r) (\<lambda>_. True)"
  unfolding handleCallback_def Let_def
  by (auto intro!: ensures_return ensures_step [OF effects_broker(1)] ensures_step [OF effects_broker(3)]
      split: option.split)

subsection \<open>The phases of the token endpoint\<close>

text \<open>The credentials a request presents. There is never a secret; a client of method \<open>none\<close> presents no
  assertion; a client of method \<open>private_key_jwt\<close> presents a valid one for this token endpoint, or none at all,
  and then nothing has authenticated it.\<close>

definition presents_assertion :: "url_values \<Rightarrow> bool" where
  "presents_assertion form \<longleftrightarrow> Get form ''client_assertion'' \<noteq> [] \<or> Get form ''client_assertion_type'' \<noteq> []"

definition credentials_ok :: "env \<Rightarrow> config \<Rightarrow> request \<Rightarrow> url_values \<Rightarrow> registeredClient \<Rightarrow> bool" where
  "credentials_ok E cfg r form client \<longleftrightarrow>
     Get form ''client_secret'' = [] \<and>
     (rc_TokenEndpointAuthMethod client = ''none'' \<and> \<not> presents_assertion form \<or>
      rc_TokenEndpointAuthMethod client = ''private_key_jwt'' \<and>
      (presents_assertion form \<longrightarrow>
       Get form ''client_assertion_type'' = clientAssertionType \<and>
       assertion_ok E (rc_JWKSURI client) (Get form ''client_id'') (Get form ''client_assertion'')
         (joinURLPath (authServerBaseURL E cfg r) (tokenPath cfg))))"

lemma authenticate_method_broker:
  "ensures (broker_inv E) (authenticate_method E cfg r form client)
     (\<lambda>x. Get form ''client_secret'' = [] \<and> x = Inr () \<longrightarrow> credentials_ok E cfg r form client)"
  unfolding authenticate_method_def credentials_ok_def presents_assertion_def Let_def
  by (auto intro!: ensures_return ensures_bind [OF verifyClientAssertion_broker] split: sum.splits)

lemma authenticate_client_broker:
  "ensures (broker_inv E) (authenticate_client E cfg r form)
     (\<lambda>x. \<forall>c. x = Inr c \<longrightarrow> client_of E (Get form ''client_id'') c \<and> credentials_ok E cfg r form c)"
  unfolding authenticate_client_def
  by (auto intro!: ensures_return ensures_bind [OF resolve_broker] ensures_bind [OF authenticate_method_broker]
      split: sum.splits)

text \<open>A code the token endpoint may redeem for this form.\<close>

definition redeemable :: "env \<Rightarrow> config \<Rightarrow> url_values \<Rightarrow> issuedCode \<Rightarrow> bool" where
  "redeemable E cfg form issued \<longleftrightarrow>
     (\<exists>n. decodeAuthCode (env_jose E) (env_oor E) (env_clock E n) (cfg_SigningSecret cfg) (Get form ''code'') = Some issued) \<and>
     ic_ClientID issued = Get form ''client_id'' \<and> ic_RedirectURI issued = Get form ''redirect_uri'' \<and>
     ic_CodeChallenge issued \<noteq> [] \<and> pkceChallenge (Get form ''code_verifier'') = ic_CodeChallenge issued \<and>
     (Get form ''resource'' = [] \<or> ic_Resource issued = [] \<or>
      TrimRight (Get form ''resource'') (CHR ''/'') = TrimRight (ic_Resource issued) (CHR ''/'')) \<and>
     ic_UpstreamAuthCode issued \<noteq> [] \<and> ic_UpstreamPKCEVerifier issued \<noteq> []"

lemma check_code_iff:
  "check_code E form issued = Inr () \<longleftrightarrow>
     ic_ClientID issued = Get form ''client_id'' \<and> ic_RedirectURI issued = Get form ''redirect_uri'' \<and>
     ic_CodeChallenge issued \<noteq> [] \<and> pkceChallenge (Get form ''code_verifier'') = ic_CodeChallenge issued \<and>
     (Get form ''resource'' = [] \<or> ic_Resource issued = [] \<or>
      TrimRight (Get form ''resource'') (CHR ''/'') = TrimRight (ic_Resource issued) (CHR ''/'')) \<and>
     ic_UpstreamAuthCode issued \<noteq> [] \<and> ic_UpstreamPKCEVerifier issued \<noteq> []"
  by (auto simp: check_code_def Let_def)

lemma time_Now_result: "ensures (broker_inv E) (time_Now E) (\<lambda>t. \<exists>n. t = env_clock E n)"
  by (auto simp: ensures_def time_Now_def broker_inv_def)

lemma redeem_code_broker:
  "ensures (broker_inv E) (redeem_code E cfg form client)
     (\<lambda>x. \<forall>issued. x = Inr issued \<longrightarrow>
        Get form ''redirect_uri'' \<in> set (rc_RedirectURIs client) \<and> redeemable E cfg form issued)"
  unfolding redeem_code_def
  by (auto intro!: ensures_return ensures_bind [OF time_Now_result] simp: redeemable_def check_code_iff
      split: option.splits sum.splits)

text \<open>The token response that the provider's token endpoint gave to the exchange of this code.\<close>

definition exchanged :: "env \<Rightarrow> config \<Rightarrow> request \<Rightarrow> issuedCode \<Rightarrow> token_response \<Rightarrow> bool" where
  "exchanged E cfg r issued tok \<longleftrightarrow>
     (\<exists>u n resp. token_url E cfg u \<and> env_http E n (HttpPostForm u (exchange_form E cfg r issued)) = Some resp \<and>
        exchange_response E resp = Inr tok)"

lemma exchange_code_broker:
  "ensures (broker_inv E) (exchange_code E cfg r issued) (\<lambda>x. \<forall>tok. x = Inr tok \<longrightarrow> exchanged E cfg r issued tok)"
  unfolding exchange_code_def exchanged_def
  by (auto intro!: ensures_return ensures_bind [OF validator_broker(2)] ensures_bind [OF validator_broker(3)]
      split: sum.split option.splits) blast

text \<open>The identity behind a token response: its validated id_token, or within the policy what the provider's
  userinfo endpoint says to the bearer of its access token.\<close>

definition userinfo_endpoint :: "env \<Rightarrow> config \<Rightarrow> string \<Rightarrow> bool" where
  "userinfo_endpoint E cfg u \<longleftrightarrow>
     (if TrimSpace (cfg_UserInfoURL cfg) \<noteq> [] then u = TrimSpace (cfg_UserInfoURL cfg)
      else \<exists>d. discovered E (slash_norm (TrimSpace (cfg_Issuer cfg))) d \<and> u = oc_UserInfoEndpoint d)"

definition userinfo_ok :: "env \<Rightarrow> config \<Rightarrow> string \<Rightarrow> claims \<Rightarrow> bool" where
  "userinfo_ok E cfg accessToken c \<longleftrightarrow>
     (\<exists>u n resp. userinfo_endpoint E cfg u \<and>
        env_http E n (HttpGet u [(''Authorization'', ''Bearer '' @ accessToken)]) = Some resp \<and>
        userinfo_claims_of E cfg resp = Inr c) \<and> policy_ok E cfg c"

definition identified :: "env \<Rightarrow> config \<Rightarrow> token_response \<Rightarrow> claims \<Rightarrow> bool" where
  "identified E cfg tok c \<longleftrightarrow>
     (if tr_IDToken tok \<noteq> [] then identity_ok E cfg (tr_IDToken tok) c
      else userinfo_ok E cfg (tr_AccessToken tok) c)"

lemma userinfo_policy: "userinfo_claims_of E cfg resp = Inr c \<Longrightarrow> policy_ok E cfg c"
  by (auto simp: userinfo_claims_of_def Let_def applyIdentityPolicy_iff [symmetric]
      split: option.splits if_splits sum.splits)

lemma fetchUserInfo_broker:
  "ensures (broker_inv E) (fetchUserInfo E cfg accessToken) (\<lambda>r. \<forall>c. r = Inr c \<longrightarrow> userinfo_ok E cfg accessToken c)"
proof -
  have u: "ensures (broker_inv E) (userinfo_url E cfg) (\<lambda>u. u \<noteq> [] \<longrightarrow> userinfo_endpoint E cfg u)"
    unfolding userinfo_url_def
    by (auto intro!: ensures_return ensures_bind [OF validator_broker(5)] simp: userinfo_endpoint_def split: sum.splits)
  show ?thesis
    unfolding fetchUserInfo_def
    by (rule ensures_bind [OF u], auto intro!: ensures_return ensures_bind [OF validator_broker(4)]
        simp: userinfo_ok_def dest: userinfo_policy split: option.splits) blast
qed

lemma identify_broker:
  assumes "keyset_Key_sound E"
  shows "ensures (broker_inv E) (identify E cfg tok) (\<lambda>r. \<forall>c. r = Inr c \<longrightarrow> identified E cfg tok c)"
  unfolding identify_def identified_def
  by (auto intro!: ensures_return ensures_bind [OF identity_broker(1) [OF assms]]
      ensures_bind [OF fetchUserInfo_broker] split: sum.splits)

text \<open>What is handed on: the response itself, or with the id_token that its refresh token was good for.\<close>

definition handed_on :: "env \<Rightarrow> config \<Rightarrow> token_response \<Rightarrow> claims \<Rightarrow> token_response \<Rightarrow> claims \<Rightarrow> bool" where
  "handed_on E cfg tok0 c0 tok c \<longleftrightarrow>
     tok = tok0 \<and> c = c0 \<or>
     tr_IDToken tok0 \<noteq> [] \<and> tr_RefreshToken tok0 \<noteq> [] \<and> refreshed E cfg (tr_RefreshToken tok0) (tr_IDToken tok) c \<and>
     tok = tok0\<lparr>tr_IDToken := tr_IDToken tok, tr_ExpiresIn := tr_ExpiresIn tok\<rparr>"

lemma refresh_phase_broker:
  assumes "keyset_Key_sound E"
  shows "ensures (broker_inv E) (refresh_phase E cfg tok (Some c))
    (\<lambda>(tok', mc). \<exists>c'. mc = Some c' \<and> handed_on E cfg tok c tok' c')"
  unfolding refresh_phase_def
  by (auto intro!: ensures_return ensures_bind [OF identity_broker(2) [OF assms(1)]]
      simp: handed_on_def split: prod.splits)

text \<open>The bearer handed out for an identified token response.\<close>

definition bearer_for :: "env \<Rightarrow> config \<Rightarrow> token_response \<Rightarrow> claims \<Rightarrow> string \<Rightarrow> bool" where
  "bearer_for E cfg tok c bearer \<longleftrightarrow>
     (if wraps_token E cfg tok then
        (\<exists>n k. encodeDownstreamAccessToken (env_jose E) n (cfg_SigningSecret cfg) (tr_IDToken tok)
                 (downstream_expiry cfg (Some c) (env_clock E k)) = Some bearer)
      else bearer = (if tr_IDToken tok = [] then tr_AccessToken tok else tr_IDToken tok))"

lemma mint_bearer_broker:
  "ensures (broker_inv E) (mint_bearer E cfg tok (Some c)) (\<lambda>r. \<forall>b. r = Inr b \<longrightarrow> bearer_for E cfg tok c b)"
  unfolding mint_bearer_def bearer_for_def
  by (auto intro!: ensures_return ensures_bind [OF time_Now_result] ensures_step [OF effects_broker(3)]
      split: option.splits) blast+

lemma writeTokenError_status [simp]: "resp_Status (writeTokenError E s c d) = s"
  by (simp add: writeTokenError_def)

text \<open>A success response and what stands behind it.\<close>

definition justified :: "env \<Rightarrow> config \<Rightarrow> request \<Rightarrow> issuedCode \<Rightarrow> response \<Rightarrow> bool" where
  "justified E cfg r issued resp \<longleftrightarrow>
     (\<exists>tok0 c0 tok c bearer k. exchanged E cfg r issued tok0 \<and> identified E cfg tok0 c0 \<and>
        handed_on E cfg tok0 c0 tok c \<and> bearer_for E cfg tok c bearer \<and>
        resp = json_response 200 (token_body cfg tok issued bearer (expires_in E cfg tok (Some c) (env_clock E k))))"

lemma justifiedI:
  "exchanged E cfg r issued tok0 \<Longrightarrow> identified E cfg tok0 c0 \<Longrightarrow> handed_on E cfg tok0 c0 tok c \<Longrightarrow>
   bearer_for E cfg tok c bearer \<Longrightarrow> \<exists>k. now = env_clock E k \<Longrightarrow>
   justified E cfg r issued (json_response 200 (token_body cfg tok issued bearer (expires_in E cfg tok (Some c) now)))"
  unfolding justified_def by blast

definition not_success :: "response \<Rightarrow> bool" where
  "not_success resp \<longleftrightarrow> resp_Status resp \<noteq> 200"

lemma identify_error: "ensures (\<lambda>_. True) (identify E cfg tok) (\<lambda>r. \<forall>resp. r = Inl resp \<longrightarrow> not_success resp)"
  by (auto simp: ensures_def identify_def not_success_def split: prod.splits sum.splits)

lemma mint_error: "ensures (\<lambda>_. True) (mint_bearer E cfg tok mc) (\<lambda>r. \<forall>resp. r = Inl resp \<longrightarrow> not_success resp)"
  by (auto simp: ensures_def mint_bearer_def not_success_def split: prod.splits option.splits)

lemma ensures_both:
  "ensures I m Q \<Longrightarrow> ensures (\<lambda>_. True) m R \<Longrightarrow> ensures I m (\<lambda>a. Q a \<and> R a)"
  by (auto simp: ensures_def split: prod.splits)

lemma issue_token_broker:
  assumes "keyset_Key_sound E" "exchanged E cfg r issued tok0"
  shows "ensures (broker_inv E) (issue_token E cfg issued tok0) (\<lambda>resp. not_success resp \<or> justified E cfg r issued resp)"
  unfolding issue_token_def
proof (rule ensures_bind [OF ensures_both [OF identify_broker [OF assms(1)] identify_error]], goal_cases)
  case (1 i)
  show ?case
  proof (cases i)
    case (Inl resp)
    with 1 show ?thesis by (simp add: ensures_return)
  next
    case (Inr c0)
    with 1 have id: "identified E cfg tok0 c0" by simp
    show ?thesis
      unfolding Inr sum.case
    proof (rule ensures_bind [OF refresh_phase_broker [OF assms(1)]], goal_cases)
      case (1 x)
      obtain tok mc where x: "x = (tok, mc)" by fastforce
      with 1 obtain c where c: "mc = Some c" "handed_on E cfg tok0 c0 tok c" by auto
      show ?case
        unfolding x prod.case c(1)
        by (rule ensures_bind [OF ensures_both [OF mint_bearer_broker mint_error]])
          (use assms(2) id c(2) in \<open>auto intro!: ensures_return ensures_bind [OF time_Now_result]
            intro: justifiedI split: sum.split\<close>)
    qed
  qed
qed

lemma phase_errors:
  "ensures (\<lambda>_. True) (authenticate_client E cfg r form) (\<lambda>x. \<forall>resp. x = Inl resp \<longrightarrow> not_success resp)"
  "ensures (\<lambda>_. True) (redeem_code E cfg form client) (\<lambda>x. \<forall>resp. x = Inl resp \<longrightarrow> not_success resp)"
  "ensures (\<lambda>_. True) (exchange_code E cfg r issued) (\<lambda>x. \<forall>resp. x = Inl resp \<longrightarrow> not_success resp)"
proof -
  have "authenticate_method E cfg r form client = m \<Longrightarrow>
      \<forall>w resp. fst (run_state m w) = Inl resp \<longrightarrow> not_success resp" for client m
    by (auto simp: authenticate_method_def Let_def not_success_def split: prod.splits sum.splits if_splits)
  then show "ensures (\<lambda>_. True) (authenticate_client E cfg r form) (\<lambda>x. \<forall>resp. x = Inl resp \<longrightarrow> not_success resp)"
    by (auto simp: ensures_def authenticate_client_def not_success_def split: prod.splits sum.splits)
      (metis fst_conv not_success_def)
  show "ensures (\<lambda>_. True) (redeem_code E cfg form client) (\<lambda>x. \<forall>resp. x = Inl resp \<longrightarrow> not_success resp)"
    by (auto simp: ensures_def redeem_code_def not_success_def check_code_def Let_def
        split: prod.splits option.splits sum.splits if_splits)
  show "ensures (\<lambda>_. True) (exchange_code E cfg r issued) (\<lambda>x. \<forall>resp. x = Inl resp \<longrightarrow> not_success resp)"
    by (auto simp: ensures_def exchange_code_def exchange_response_def not_success_def
        split: prod.splits option.splits sum.splits if_splits)
qed

text \<open>What the token endpoint has established when it answers with success.\<close>

definition token_granted :: "env \<Rightarrow> config \<Rightarrow> request \<Rightarrow> url_values \<Rightarrow> response \<Rightarrow> bool" where
  "token_granted E cfg r form resp \<longleftrightarrow>
     (\<exists>client issued. client_of E (Get form ''client_id'') client \<and> credentials_ok E cfg r form client \<and>
        Get form ''redirect_uri'' \<in> set (rc_RedirectURIs client) \<and>
        redeemable E cfg form issued \<and> justified E cfg r issued resp)"

lemma handleTokenAuthCode_broker:
  assumes "keyset_Key_sound E"
  shows "ensures (broker_inv E) (handleTokenAuthCode E cfg r form)
    (\<lambda>resp. not_success resp \<or> token_granted E cfg r form resp)"
  unfolding handleTokenAuthCode_def
proof (rule ensures_bind [OF ensures_both [OF authenticate_client_broker phase_errors(1)]], goal_cases)
  case (1 x)
  show ?case
  proof (cases x)
    case (Inr client)
    with 1 have cl: "client_of E (Get form ''client_id'') client \<and> credentials_ok E cfg r form client" by simp
    show ?thesis
      unfolding Inr sum.case
    proof (rule ensures_bind [OF ensures_both [OF redeem_code_broker phase_errors(2)]], goal_cases)
      case (1 y)
      show ?case
      proof (cases y)
        case (Inr issued)
        with 1 cl have g: "justified E cfg r issued resp \<Longrightarrow> token_granted E cfg r form resp" for resp
          unfolding token_granted_def by blast
        show ?thesis
          unfolding Inr sum.case
          by (rule ensures_bind [OF ensures_both [OF exchange_code_broker phase_errors(3)]])
            (auto intro!: ensures_return ensures_weaken [OF issue_token_broker [OF assms]] dest: g split: sum.split)
      qed (use 1 in \<open>simp add: ensures_return\<close>)
    qed
  qed (use 1 in \<open>simp add: ensures_return\<close>)
qed

subsection \<open>All requests\<close>

lemma handleToken_broker:
  assumes "keyset_Key_sound E"
  shows "ensures (broker_inv E) (handleToken E cfg r)
    (\<lambda>resp. not_success resp \<or> (\<exists>form. ParseForm r = Some form \<and> token_granted E cfg r form resp))"
  unfolding handleToken_def
  by (auto intro!: ensures_return ensures_weaken [OF handleTokenAuthCode_broker [OF assms]]
      simp: not_success_def split: option.split)

lemma Validate_broker:
  assumes "keyset_Key_sound E"
  shows "ensures (broker_inv E) (Validate E cfg token) (\<lambda>r. \<forall>mc. r = Inr mc \<longrightarrow>
    (case mc of
       None \<Rightarrow> \<not> looksLikeJWT token \<and> \<not> IsGating (env_unicode E) (cfg_Mode cfg) \<or>
              TrimSpace (cfg_JWKSURL cfg) = [] \<and> TrimSpace (cfg_Issuer cfg) = []
     | Some c \<Rightarrow> vouched E cfg token (cfg_Audience cfg) c \<and> policy_ok E cfg c \<and>
         set (cfg_RequiredScopes cfg) \<subseteq> set (cl_Scopes c)))"
  unfolding broker_inv_eq by (rule framed.Validate_ensures [OF assms])

lemma Middleware_broker:
  assumes "keyset_Key_sound E"
  shows "ensures (broker_inv E) (Middleware E cfg r) (\<lambda>_. True)"
proof -
  have u: "ensures (broker_inv E) (unwrap_token E cfg t) (\<lambda>_. True)" for t
    unfolding unwrap_token_def by (auto intro!: ensures_return ensures_step [OF effects_broker(1)])
  show ?thesis
    unfolding Middleware_def Let_def
    by (auto intro!: ensures_return ensures_step [OF u] ensures_step [OF ensures_weaken [OF Validate_broker [OF assms]]])
qed

lemma handle_broker:
  assumes "keyset_Key_sound E"
  shows "ensures (broker_inv E) (handle E cfg e r) (\<lambda>_. True)"
  by (cases e) (auto intro!: ensures_return authorize_broker callback_broker
      ensures_weaken [OF handleToken_broker [OF assms]])

lemma serve_broker:
  assumes "keyset_Key_sound E"
  shows "ensures (broker_inv E) (serve E cfg ev) (\<lambda>_. True)"
  by (cases ev) (auto intro!: ensures_return ensures_step [OF Middleware_broker [OF assms]]
      ensures_step [OF handle_broker [OF assms]] simp: withCORS_def)

lemma new_broker_inv: "broker_inv E new_world"
  by (simp add: broker_inv_def new_world_inv val_inv_new new_world_def)
    (use new_world_inv in \<open>simp add: new_world_def\<close>)

lemma reachable_broker_inv:
  assumes "keyset_Key_sound E" "reachable E cfg w"
  shows "broker_inv E w"
  using assms(2)
proof induction
  case (start w)
  then show ?case by (auto simp: New_def new_broker_inv split: sum.splits)
next
  case (step w ev out w')
  with ensuresD [OF serve_broker [OF assms(1)]] show ?case by blast
qed

subsection \<open>No exchange before the checks\<close>

fun is_get :: "http_out \<Rightarrow> bool" where
  "is_get (HttpGet u hs) = True"
| "is_get (HttpPostForm u vs) = False"

lemma sends_phases:
  "sends is_get (authenticate_client E cfg r form)" "sends is_get (redeem_code E cfg form client)"
  unfolding authenticate_client_def authenticate_method_def redeem_code_def Let_def
  by (auto intro!: inv_intros sends_mono [OF sends_resolve] sends_mono [OF sends_verifyClientAssertion]
      split: sum.split)

lemma sends_discovery_loop: "sends is_get (discovery_loop E i us)"
  by (induction us) (auto intro!: inv_intros split: option.split)

lemma sends_validator:
  "sends is_get (fetchOIDCDiscovery E i)" "sends is_get (resolveJWKSURL E cfg)"
  "sends is_get (resolveUpstreamAuthURL E cfg)" "sends is_get (fetchJWKS E u)"
  unfolding fetchOIDCDiscovery_def resolveJWKSURL_def resolveUpstreamAuthURL_def fetchJWKS_def Let_def
  by (auto intro!: inv_intros sends_discovery_loop split: sum.split option.split)

lemma sends_Validate: "sends is_get (Validate E cfg t)"
  unfolding Validate_def parseAndVerifyJWT_def applyClaimChecks_def candidate_keys_def Let_def
  by (auto intro!: inv_intros sends_validator split: sum.split option.split list.split)

lemma sends_identity: "sends is_get (ValidateUpstreamIdentityToken E cfg t aud)"
  unfolding ValidateUpstreamIdentityToken_def parseAndVerifyJWT_def candidate_keys_def Let_def
  by (auto intro!: inv_intros sends_validator split: sum.split option.split list.split)

lemma sends_weaken: "sends P m \<Longrightarrow> sends (\<lambda>_. True) m"
  by (erule sends_mono) simp

lemma sends_issue_token: "sends (\<lambda>_. True) (issue_token E cfg issued tok)"
  unfolding issue_token_def identify_def fetchUserInfo_def userinfo_url_def refresh_phase_def mint_bearer_def
    maybeRefreshNearExpiredIDToken_def refreshUpstreamIDToken_def resolveUpstreamTokenURL_def
  by (auto intro!: inv_intros sends_weaken [OF sends_identity] sends_weaken [OF sends_validator(1)]
      split: sum.split option.split prod.split)

lemma sends_handleTokenAuthCode: "sends (\<lambda>_. True) (handleTokenAuthCode E cfg r form)"
proof -
  have "sends (\<lambda>_. True) (exchange_code E cfg r issued)" for issued
    unfolding exchange_code_def resolveUpstreamTokenURL_def
    by (auto intro!: inv_intros sends_weaken [OF sends_validator(1)] split: sum.split)
  then show ?thesis
    unfolding handleTokenAuthCode_def
    by (auto intro!: inv_intros sends_weaken [OF sends_phases(1)] sends_weaken [OF sends_phases(2)]
        sends_issue_token split: sum.split)
qed

lemma sendsD:
  "sends P m \<Longrightarrow> run_state m w = (a, w') \<Longrightarrow> \<exists>l. w_sent w' = w_sent w @ l \<and> list_all P l"
  unfolding sends_def by (metis snd_conv)

lemma handleTokenAuthCode_guarded:
  assumes "broker_inv E w" "run_state (handleTokenAuthCode E cfg r form) w = (resp, w')"
    "w_sent w' = w_sent w @ l" "\<not> list_all is_get l"
  shows "\<exists>client issued. client_of E (Get form ''client_id'') client \<and> credentials_ok E cfg r form client \<and>
    Get form ''redirect_uri'' \<in> set (rc_RedirectURIs client) \<and> redeemable E cfg form issued"
proof -
  obtain x w1 where 1: "run_state (authenticate_client E cfg r form) w = (x, w1)" by fastforce
  note x = ensuresD [OF authenticate_client_broker assms(1) 1]
  obtain l1 where l1: "w_sent w1 = w_sent w @ l1" "list_all is_get l1"
    using sendsD [OF sends_phases(1) 1] by blast
  show ?thesis
  proof (cases x)
    case (Inl resp')
    with 1 assms(2) have "w' = w1" by (simp add: handleTokenAuthCode_def)
    with l1 assms(3,4) show ?thesis by simp
  next
    case (Inr client)
    obtain y w2 where 2: "run_state (redeem_code E cfg form client) w1 = (y, w2)" by fastforce
    note y = ensuresD [OF redeem_code_broker conjunct2 [OF x] 2]
    obtain l2 where l2: "w_sent w2 = w_sent w1 @ l2" "list_all is_get l2"
      using sendsD [OF sends_phases(2) 2] by blast
    show ?thesis
    proof (cases y)
      case (Inl resp')
      with Inr 1 2 assms(2) have "w' = w2" by (simp add: handleTokenAuthCode_def)
      with l1 l2 assms(3,4) show ?thesis by auto
    next
      case issued: (Inr issued)
      with x y Inr show ?thesis by blast
    qed
  qed
qed

subsection \<open>Where the browser is sent\<close>

lemma redirect_status [simp]: "resp_Status (redirect r u) = 302"
  by (simp add: redirect_def set_header_def no_response_def)

text \<open>The upstream authorization endpoint of the configuration.\<close>

definition auth_endpoint :: "env \<Rightarrow> config \<Rightarrow> string \<Rightarrow> bool" where
  "auth_endpoint E cfg u \<longleftrightarrow>
     (if TrimSpace (cfg_AuthURL cfg) \<noteq> [] then u = TrimSpace (cfg_AuthURL cfg)
      else \<exists>d. discovered E (slash_norm (TrimSpace (cfg_Issuer cfg))) d \<and> u = TrimSpace (oc_AuthorizationEndpoint d))"

lemma resolveUpstreamAuthURL_broker:
  "ensures (broker_inv E) (resolveUpstreamAuthURL E cfg) (\<lambda>r. \<forall>u. r = Inr u \<longrightarrow> auth_endpoint E cfg u)"
  unfolding broker_inv_eq resolveUpstreamAuthURL_def
  by (auto intro!: ensures_return ensures_bind [OF framed.fetchOIDCDiscovery_ensures]
      simp: auth_endpoint_def split: sum.splits if_splits)

text \<open>An accepted authorization request: where it goes, and the pending authorization it carries.\<close>

definition sent_upstream :: "env \<Rightarrow> config \<Rightarrow> request \<Rightarrow> response \<Rightarrow> bool" where
  "sent_upstream E cfg r resp \<longleftrightarrow>
     (\<exists>authURL verifier st n k.
        auth_endpoint E cfg authURL \<and>
        encodePendingAuth (env_jose E) n (cfg_SigningSecret cfg) (pending_of_request r verifier (env_clock E k)) = Some st \<and>
        newPKCEVerifier (env_rand E (k - 1)) = Some verifier \<and>
        resp = redirect r (authURL @ ''?'' @ Encode (upstream_params E cfg r st verifier)))"

lemma authorize_redirect_broker:
  assumes "broker_inv E w" "run_state (authorize_redirect E cfg r) w = (resp, w')"
  shows "resp_Status resp \<in> {500, 502} \<or> sent_upstream E cfg r resp"
proof (cases "newPKCEVerifier (env_rand E (w_tick w))")
  case None
  with assms(2) have "resp_Status resp = 500"
    by (auto simp: authorize_redirect_def rand_Read_def time_Now_def nonce_def)
  then show ?thesis by simp
next
  case (Some verifier)
  let ?w = "w\<lparr>w_tick := Suc (Suc (Suc (w_tick w)))\<rparr>"
  let ?p = "pending_of_request r verifier (env_clock E (Suc (w_tick w)))"
  show ?thesis
  proof (cases "encodePendingAuth (env_jose E) (Suc (Suc (w_tick w))) (cfg_SigningSecret cfg) ?p")
    case None
    with Some assms(2) have "resp_Status resp = 500"
      by (auto simp: authorize_redirect_def rand_Read_def time_Now_def nonce_def)
    then show ?thesis by simp
  next
    case st: (Some st)
    have inv: "broker_inv E ?w" using assms(1) by (simp add: broker_inv_def world_inv_ticks)
    obtain u w2 where 2: "run_state (resolveUpstreamAuthURL E cfg) ?w = (u, w2)" by fastforce
    note u = ensuresD [OF resolveUpstreamAuthURL_broker inv 2]
    have resp: "resp = (case u of
        Inl _ \<Rightarrow> writeTokenError E 502 ''server_error'' ''failed to resolve upstream authorization endpoint''
      | Inr authURL \<Rightarrow> redirect r (authURL @ ''?'' @ Encode (upstream_params E cfg r st verifier)))"
      using assms(2) Some st 2 by (auto simp: authorize_redirect_def rand_Read_def time_Now_def nonce_def)
    show ?thesis
    proof (cases u)
      case (Inr authURL)
      with resp u Some st show ?thesis
        unfolding sent_upstream_def by (metis diff_Suc_1 sum.case(2))
    qed (use resp in simp)
  qed
qed

lemma authorize_checks_iff:
  "authorize_checks E cfg r client = Inr () \<longleftrightarrow>
     Get (Query r) ''redirect_uri'' \<in> set (rc_RedirectURIs client) \<and>
     Get (Query r) ''code_challenge'' \<noteq> [] \<and> Get (Query r) ''code_challenge_method'' = ''S256'' \<and>
     (Get (Query r) ''resource'' = [] \<or>
      TrimRight (Get (Query r) ''resource'') (CHR ''/'') = TrimRight (resourceBaseURL E cfg r) (CHR ''/''))"
  by (auto simp: authorize_checks_def Let_def)

lemma authorize_checks_error: "authorize_checks E cfg r client = Inl resp \<Longrightarrow> resp_Status resp = 400"
  by (auto simp: authorize_checks_def Let_def split: if_splits)

lemma handleAuthorize_cases:
  assumes "broker_inv E w" "run_state (handleAuthorize E cfg r) w = (resp, w')"
  shows "resp_Status resp \<in> {400, 405, 500, 502} \<or>
    (\<exists>client. client_of E (Get (Query r) ''client_id'') client \<and> authorize_checks E cfg r client = Inr () \<and>
       sent_upstream E cfg r resp)"
proof -
  obtain x w1 where 1: "run_state (resolve E (Get (Query r) ''client_id'')) w = (x, w1)" by fastforce
  note x = ensuresD [OF resolve_broker assms(1) 1]
  show ?thesis
  proof (cases x)
    case (Inl err)
    with assms(2) 1 show ?thesis by (auto simp: handleAuthorize_def Let_def split: if_splits)
  next
    case (Inr client)
    show ?thesis
    proof (cases "authorize_checks E cfg r client")
      case (Inl resp')
      with assms(2) 1 Inr authorize_checks_error [OF Inl] show ?thesis
        by (auto simp: handleAuthorize_def Let_def split: if_splits)
    next
      case ok: (Inr un)
      show ?thesis
      proof (cases "run_state (authorize_redirect E cfg r) w1 = (resp, w')")
        case True
        from authorize_redirect_broker [OF conjunct2 [OF x] True] x Inr ok show ?thesis by auto
      next
        case False
        with assms(2) 1 Inr ok show ?thesis by (auto simp: handleAuthorize_def Let_def split: if_splits)
      qed
    qed
  qed
qed

end
