(* ===== verification/Oauth_Demo.thy ===== *)
theory Oauth_Demo
  imports Oauth_Safety
begin

text \<open>
  A small deployment to run the model on: one client at \<open>https://c.example/m\<close>, one provider at
  \<open>https://idp.example\<close>, a broker in forward mode, and a fixed clock. Encryption is the
  transparent scheme \<^const>\<open>plain_jose\<close>.
\<close>

definition demo_unicode :: unicode where
  "demo_unicode = \<lparr>uni_lower = id, uni_upper = id, uni_fold = id, uni_print = (\<lambda>_. True)\<rparr>"

definition demo_time :: int where "demo_time = 1700000000 * second"

definition demo_client_id :: string where "demo_client_id = ''https://c.example/m''"
definition demo_redirect :: string where "demo_redirect = ''https://c.example/cb''"

definition demo_document :: client_document where
  "demo_document =
    \<lparr>doc_ClientID = demo_client_id, doc_ClientName = ''c'', doc_ClientSecret = [],
     doc_ClientSecretExpiresAt_IsZero = True, doc_TokenEndpointAuthMethod = ''none'', doc_JWKSURI = [],
     doc_RedirectURIs = [demo_redirect], doc_GrantTypes = [], doc_ResponseTypes = []\<rparr>"

definition demo_client :: registeredClient where
  "demo_client =
    \<lparr>rc_RedirectURIs = [demo_redirect], rc_TokenEndpointAuthMethod = ''none'', rc_JWKSURI = []\<rparr>"

definition demo_key :: jwk where
  "demo_key = \<lparr>jwk_Key = ''k'', jwk_KeyID = ''1'', jwk_Algorithm = ''RS256'', jwk_Use = ''sig''\<rparr>"

definition demo_jwt_claims :: jwt_claims where
  "demo_jwt_claims =
    \<lparr>jc_Issuer = demo_client_id, jc_Subject = demo_client_id, jc_Audience = [''aud''],
     jc_Expiry = Some 1700000300, jc_NotBefore = None, jc_IssuedAt = Some 1700000000\<rparr>"

text \<open>The bodies served: an empty object on GET, an access token on the token endpoint.\<close>

definition quoted :: "string \<Rightarrow> string" where
  "quoted s = [CHR 0x22] @ s @ [CHR 0x22]"

definition demo_http :: "http_out \<Rightarrow> http_in" where
  "demo_http out =
    \<lparr>in_Status = 200, in_ContentType = ''application/json'', in_CacheControl = [],
     in_Body = Some (case out of HttpGet u hs \<Rightarrow> ''{}''
       | HttpPostForm u vs \<Rightarrow> ''{'' @ quoted ''access_token'' @ '':'' @ quoted ''at'' @ ''}'')\<rparr>"

definition demo_env :: env where
  "demo_env =
    \<lparr>env_unicode = demo_unicode, env_oor = (\<lambda>_. 0), env_jose = plain_jose, env_clock = (\<lambda>_. demo_time),
     env_rand = (\<lambda>_. Some (replicate 32 (CHR ''r''))), env_http = (\<lambda>_ out. Some (demo_http out)),
     env_resolveIP = (\<lambda>_ _. Some [Some [93, 184, 216, 34]]),
     env_dial = (\<lambda>_ _ a _. Some \<lparr>conn_Remote = Some (Some a)\<rparr>),
     env_idna = Some, env_document = (\<lambda>_. Some demo_document), env_keyset = (\<lambda>_. Some [demo_key]),
     env_keyset_Key = (\<lambda>ks kid. filter (\<lambda>k. jwk_KeyID k = kid) ks),
     env_ParseSigned = (\<lambda>algs _. if ''RS256'' \<in> set algs then Some [\<lparr>hdr_KeyID = ''1'', hdr_Algorithm = ''RS256''\<rparr>] else None),
     env_Claims = (\<lambda>token key. if key = ''k'' then Some [(''iss'', AString ''https://idp.example''), (''aud'', AString ''cid'')] else None),
     env_jwt_Claims = (\<lambda>token key. if key = ''k'' then Some demo_jwt_claims else None),
     env_ValidateWithLeeway = (\<lambda>c now leeway. True)\<rparr>"

definition demo_cfg :: config where
  "demo_cfg = zero_config\<lparr>cfg_Mode := ''forward'', cfg_Issuer := ''https://idp.example'',
     cfg_JWKSURL := ''https://idp.example/jwks'', cfg_ClientID := ''cid'',
     cfg_AuthURL := ''https://idp.example/auth'', cfg_TokenURL := ''https://idp.example/token'',
     cfg_UserInfoURL := ''https://idp.example/userinfo'', cfg_SigningSecret := ''secret''\<rparr>"

definition demo_request :: request where
  "demo_request =
    \<lparr>req_Method = ''GET'', req_Path = ''/x'', req_RawQuery = [], req_TLS = True, req_Host = ''mcp.example'',
     req_Header = [], req_MediaType = None, req_Body = None\<rparr>"

lemma demo_keyset_sound: "keyset_Key_sound demo_env"
  by (simp add: keyset_Key_sound_def demo_env_def)

lemma demo_ParseSigned_sound: "ParseSigned_sound demo_env"
  by (simp add: ParseSigned_sound_def demo_env_def)

lemma demo_new: "New demo_env demo_cfg = Inr (demo_cfg, new_world)"
  unfolding New_def by (simp add: demo_env_def) code_simp

lemma demo_reachable: "reachable demo_env demo_cfg new_world"
  by (rule reachable.start [OF demo_new])

lemma demo_resolve: "fst (run_state (resolve demo_env demo_client_id) new_world) = Inr demo_client"
  by code_simp

subsection \<open>A code that can be redeemed\<close>

definition demo_issued :: issuedCode where
  "demo_issued =
    \<lparr>ic_ClientID = demo_client_id, ic_RedirectURI = demo_redirect, ic_Scope = [],
     ic_CodeChallenge = pkceChallenge ''v'', ic_CodeChallengeMethod = ''S256'', ic_Resource = [],
     ic_UpstreamAuthCode = ''uc'', ic_UpstreamPKCEVerifier = ''uv'', ic_ExpiresAt = demo_time\<rparr>"

definition demo_code :: string where
  "demo_code = (case encodeAuthCode plain_jose 0 ''secret'' demo_issued of Some t \<Rightarrow> t | None \<Rightarrow> [])"

definition demo_form :: url_values where
  "demo_form = [(''client_id'', demo_client_id), (''redirect_uri'', demo_redirect), (''code'', demo_code),
     (''code_verifier'', ''v'')]"

lemma demo_get:
  "Get demo_form ''client_id'' = demo_client_id" "Get demo_form ''redirect_uri'' = demo_redirect"
  "Get demo_form ''code'' = demo_code" "Get demo_form ''code_verifier'' = ''v''" "Get demo_form ''client_secret'' = []"
  "Get demo_form ''client_assertion'' = []" "Get demo_form ''client_assertion_type'' = []"
  "Get demo_form ''resource'' = []"
  by (simp_all add: demo_form_def Get_def)

lemma demo_env_simps:
  "env_unicode demo_env = demo_unicode" "env_jose demo_env = plain_jose" "env_oor demo_env = (\<lambda>_. 0)"
  "env_clock demo_env = (\<lambda>_. demo_time)" "env_http demo_env = (\<lambda>_ out. Some (demo_http out))"
  by (simp_all add: demo_env_def)

lemma demo_cfg_simps:
  "cfg_Mode demo_cfg = ''forward''" "cfg_TokenURL demo_cfg = ''https://idp.example/token''"
  "cfg_UserInfoURL demo_cfg = ''https://idp.example/userinfo''" "cfg_SigningSecret demo_cfg = ''secret''"
  by (simp_all add: demo_cfg_def)

lemma Unix_demo: "Unix demo_time = 1700000000" "\<bar>Unix demo_time\<bar> < 2 ^ 53"
  by (simp_all add: Unix_def demo_time_def second_def wrap64_def)

lemma demo_reread: "reread_code demo_issued = demo_issued"
  by (simp add: reread_code_def demo_issued_def pkceChallenge_clean Unix_demo(1) clean_ascii ascii_def demo_client_id_def
      demo_redirect_def) (simp add: demo_time_def)

lemma demo_decode: "decodeAuthCode plain_jose oor demo_time ''secret'' demo_code = Some demo_issued"
proof -
  have e: "\<bar>Unix (ic_ExpiresAt demo_issued)\<bar> < 2 ^ 53" "ic_ExpiresAt demo_issued = demo_time"
    by (simp_all add: demo_issued_def Unix_demo)
  obtain t where t: "encodeAuthCode plain_jose 0 ''secret'' demo_issued = Some t"
    using code.mints [OF plain_jose_correct e(1)] by blast
  from code.decodes [OF plain_jose_correct e(1) _ t, of oor demo_time] show ?thesis
    by (simp add: demo_code_def t code_content [OF e(1)] demo_reread e(2))
qed

lemma demo_redeem:
  "fst (run_state (redeem_code demo_env demo_cfg demo_form demo_client) w) = Inr demo_issued"
proof -
  have "check_code demo_env demo_form demo_issued = Inr ()"
    using length_pkceChallenge [of "''v''"]
    by (auto simp: check_code_iff demo_get demo_issued_def)
  then show ?thesis
    by (simp add: redeem_code_def demo_get demo_client_def time_Now_def demo_env_simps demo_decode demo_cfg_simps)
qed

definition demo_tokens :: token_response where
  "demo_tokens = \<lparr>tr_AccessToken = ''at'', tr_IDToken = [], tr_RefreshToken = [], tr_TokenType = [],
     tr_ExpiresIn = 0, tr_Scope = [], tr_Error = []\<rparr>"

lemma demo_exchange:
  "fst (run_state (exchange_code demo_env demo_cfg r i) w) = Inr demo_tokens"
proof -
  have u: "TrimSpace ''https://idp.example/token'' = ''https://idp.example/token''"
    and p: "Parse ''https://idp.example/token'' \<noteq> None" by code_simp+
  have resp: "exchange_response demo_env (demo_http (HttpPostForm u vs)) = Inr demo_tokens" for u vs
  proof -
    have "demo_http (HttpPostForm u vs) = demo_http (HttpPostForm [] [])" by (simp add: demo_http_def)
    moreover have "exchange_response demo_env (demo_http (HttpPostForm [] [])) = Inr demo_tokens" by code_simp
    ultimately show ?thesis by simp
  qed
  show ?thesis
    using p resp by (simp add: exchange_code_def resolveUpstreamTokenURL_def demo_cfg_simps u http_PostForm_def
        http_Do_def demo_env_simps)
qed

lemma demo_userinfo: "is_ok (userinfo_claims_of demo_env demo_cfg (demo_http (HttpGet [] [])))"
  by code_simp

lemma demo_issue:
  "\<exists>b. fst (run_state (issue_token demo_env demo_cfg i demo_tokens) w) = json_response 200 b"
proof -
  let ?ui = "''https://idp.example/userinfo''"
  have u: "TrimSpace ?ui = ?ui" and p: "Parse ?ui \<noteq> None" by code_simp+
  have g: "\<not> IsGating demo_unicode ''forward''" by code_simp
  obtain c where "userinfo_claims_of demo_env demo_cfg (demo_http (HttpGet [] [])) = Inr c"
    by (cases "userinfo_claims_of demo_env demo_cfg (demo_http (HttpGet [] []))")
      (use demo_userinfo in auto)
  moreover have "demo_http (HttpGet ?ui [(''Authorization'', ''Bearer at'')]) = demo_http (HttpGet [] [])"
    by (simp add: demo_http_def)
  ultimately show ?thesis
    using p g
    by (auto simp: issue_token_def identify_def demo_tokens_def fetchUserInfo_def userinfo_url_def u
        http_Get_def http_Do_def refresh_phase_def mint_bearer_def wraps_token_def
        demo_env_simps time_Now_def demo_cfg_simps split: prod.splits)
qed

lemma demo_exchange_sent:
  "w_sent (snd (run_state (exchange_code demo_env demo_cfg r i) w)) =
    w_sent w @ [HttpPostForm ''https://idp.example/token'' (exchange_form demo_env demo_cfg r i)]"
proof -
  have u: "TrimSpace ''https://idp.example/token'' = ''https://idp.example/token''"
    and p: "Parse ''https://idp.example/token'' \<noteq> None" by code_simp+
  then show ?thesis
    by (simp add: exchange_code_def resolveUpstreamTokenURL_def demo_cfg_simps u http_PostForm_def http_Do_def)
qed

text \<open>The request is answered with a token, and the upstream exchange took place.\<close>

lemma demo_run:
  obtains b w' where "run_state (handleTokenAuthCode demo_env demo_cfg r demo_form) new_world
      = (json_response 200 b, w')"
    and "HttpPostForm ''https://idp.example/token'' (exchange_form demo_env demo_cfg r demo_issued) \<in> set (w_sent w')"
proof -
  let ?a = "run_state (resolve demo_env demo_client_id) new_world"
  have a: "run_state (authenticate_client demo_env demo_cfg r demo_form) new_world = (Inr demo_client, snd ?a)"
    using demo_resolve
    by (auto simp: authenticate_client_def authenticate_method_def demo_get Let_def demo_client_def split: prod.splits)
  let ?r = "run_state (redeem_code demo_env demo_cfg demo_form demo_client) (snd ?a)"
  have red: "?r = (Inr demo_issued, snd ?r)" using demo_redeem [of "snd ?a"] by (metis prod.collapse)
  let ?x = "run_state (exchange_code demo_env demo_cfg r demo_issued) (snd ?r)"
  have x: "?x = (Inr demo_tokens, snd ?x)" using demo_exchange by (metis prod.collapse)
  let ?i = "run_state (issue_token demo_env demo_cfg demo_issued demo_tokens) (snd ?x)"
  obtain b where "fst ?i = json_response 200 b" using demo_issue by blast
  then have "run_state (handleTokenAuthCode demo_env demo_cfg r demo_form) new_world
      = (json_response 200 b, snd ?i)"
    unfolding handleTokenAuthCode_def by (subst run_state_bind, subst a, simp, subst red, simp, subst x, simp)
      (metis prod.collapse)
  moreover obtain l where "w_sent (snd ?i) = w_sent (snd ?x) @ l"
    using sends_issue_token unfolding sends_def by blast
  ultimately show ?thesis using demo_exchange_sent [where i = demo_issued and w = "snd ?r"] by (intro that) auto
qed

end
