(* ===== verification/Client_Theorems.thy ===== *)
theory Client_Theorems
  imports Oauth_Demo
begin

text \<open>
  Theorems about the resolver of OAuth clients and about client assertions: which identifiers and
  documents are accepted, where a resolved client comes from and how old it can be, the lifetime
  a Cache-Control header gives, which key of a key set is used, and what an accepted assertion
  proves.
\<close>

section \<open>Client identifiers and documents\<close>

text \<open>What \<open>idna.Lookup.ToASCII\<close> promises of its results: ASCII, with letters in lower case.\<close>

definition lower_ascii :: "string \<Rightarrow> bool" where
  "lower_ascii h \<longleftrightarrow> list_all (\<lambda>c. byte c < 0x80 \<and> \<not> (65 \<le> byte c \<and> byte c \<le> 90)) h"

definition idna_lowers :: "env \<Rightarrow> bool" where
  "idna_lowers E \<longleftrightarrow> (\<forall>h a. env_idna E h = Some a \<longrightarrow> lower_ascii a)"

text \<open>C30. An accepted client identifier is an https URL of bounded length with a host in lower-case ASCII
  form that the IDNA lookup leaves as it is, the default port, no user information, no query and no fragment other than
  an empty one (a lone question mark or number sign at the end is let through), and a proper path: none of
  its segments is a dot-segment once it is decoded, and it hides no slash or backslash behind an
  escape.\<close>

theorem client_id_form:
  assumes "idna_lowers E" "validateCIMDClientIDURL E raw = Inr u"
  shows "Parse raw = Some u \<and> raw \<noteq> [] \<and> length raw \<le> 2048 \<and>
    Scheme u = ''https'' \<and> User u = None \<and> Fragment u = [] \<and> RawQuery u = [] \<and>
    Hostname u \<noteq> [] \<and> lower_ascii (Hostname u) \<and> env_idna E (Hostname u) = Some (Hostname u) \<and>
    Port u \<in> {[], ''443''} \<and> Path u \<notin> {[], ''/''} \<and> plain_path E (EscapedPath u)"
  using validateCIMDClientIDURL_ok [OF assms(2)] assms(1) by (auto simp: cimdMaxURLLength_def idna_lowers_def)

text \<open>A lookup that refuses bytes outside ASCII and lowers the rest, and three identifiers: the empty
  query is accepted, the upper-case host is not.\<close>

definition lowering_env :: env where
  "lowering_env = demo_env\<lparr>env_idna := (\<lambda>h. if ascii h then Some (ascii_lower h) else None)\<rparr>"

lemma lowering: "idna_lowers lowering_env"
  by (auto simp: idna_lowers_def lowering_env_def lower_ascii_def ascii_def ascii_lower_def list_all_iff)

theorem client_id_form_witness:
  "(\<exists>u. validateCIMDClientIDURL lowering_env ''https://c.example/m?'' = Inr u \<and> Scheme u = ''https'' \<and>
     lower_ascii (Hostname u) \<and> plain_path lowering_env (EscapedPath u)) \<and>
   \<not> is_ok (validateCIMDClientIDURL lowering_env ''https://C.example/m'')"
proof -
  have "is_ok (validateCIMDClientIDURL lowering_env ''https://c.example/m?'')"
    "\<not> is_ok (validateCIMDClientIDURL lowering_env ''https://C.example/m'')" by code_simp+
  moreover from this(1) obtain u where "validateCIMDClientIDURL lowering_env ''https://c.example/m?'' = Inr u"
    by (cases "validateCIMDClientIDURL lowering_env ''https://c.example/m?''") auto
  ultimately show ?thesis using client_id_form [OF lowering] by blast
qed

text \<open>The documents the resolver means to accept, as one condition.\<close>

definition document_ok :: "env \<Rightarrow> string \<Rightarrow> client_document \<Rightarrow> bool" where
  "document_ok E k doc \<longleftrightarrow>
     doc_ClientID doc = k \<and>
     0 < length (doc_ClientName doc) \<and> length (doc_ClientName doc) \<le> 128 \<and>
     doc_ClientSecret doc = [] \<and> doc_ClientSecretExpiresAt_IsZero doc \<and>
     (doc_TokenEndpointAuthMethod doc = ''none'' \<or>
      doc_TokenEndpointAuthMethod doc = ''private_key_jwt'' \<and> doc_JWKSURI doc \<noteq> [] \<and>
        validateJWKSURI E (doc_JWKSURI doc) = Inr ()) \<and>
     0 < length (doc_RedirectURIs doc) \<and> length (doc_RedirectURIs doc) \<le> 20 \<and>
     distinct (doc_RedirectURIs doc) \<and> list_all valid_redirect (doc_RedirectURIs doc) \<and>
     set (doc_GrantTypes doc) \<subseteq> {''authorization_code'', ''refresh_token''} \<and>
     (doc_GrantTypes doc = [] \<or> ''authorization_code'' \<in> set (doc_GrantTypes doc)) \<and>
     set (doc_ResponseTypes doc) \<subseteq> {''code''}"

lemma check_types_ok:
  "check_types doc = Inr () \<longleftrightarrow>
     set (doc_GrantTypes doc) \<subseteq> {''authorization_code'', ''refresh_token''} \<and>
     (doc_GrantTypes doc = [] \<or> ''authorization_code'' \<in> set (doc_GrantTypes doc)) \<and>
     set (doc_ResponseTypes doc) \<subseteq> {''code''}"
proof -
  let ?gts = "doc_GrantTypes doc" and ?rts = "doc_ResponseTypes doc"
  let ?G = "if 0 < length ?gts then grant_types_loop False ?gts else Inr True"
  let ?R = "if 0 < length ?rts then response_types_loop False ?rts else Inr True"
  have g: "?G = Inr b \<longleftrightarrow> set ?gts \<subseteq> {''authorization_code'', ''refresh_token''} \<and>
      b = (?gts = [] \<or> ''authorization_code'' \<in> set ?gts)" for b
    by (auto simp: grant_types_loop_ok)
  have r: "?R = Inr b \<longleftrightarrow> set ?rts \<subseteq> {''code''} \<and> b" for b
    by (auto simp: response_types_loop_ok)
  have "check_types doc = Inr () \<longleftrightarrow> ?G = Inr True \<and> ?R = Inr True"
    unfolding check_types_def by (cases ?G; cases ?R) auto
  then show ?thesis unfolding g r by blast
qed

lemma check_auth_method_ok:
  "check_auth_method E doc = Inr () \<longleftrightarrow>
     doc_TokenEndpointAuthMethod doc = ''none'' \<or>
     doc_TokenEndpointAuthMethod doc = ''private_key_jwt'' \<and> doc_JWKSURI doc \<noteq> [] \<and>
       validateJWKSURI E (doc_JWKSURI doc) = Inr ()"
  by (auto simp: check_auth_method_def)

text \<open>C29. The sequence of checks on a metadata document decides exactly the condition above: a body yields a
  client if and only if it decodes to such a document for this identifier, and the client has the
  document's redirect URIs, method and key-set URL.\<close>

theorem parseCIMDMetadata_iff:
  "parseCIMDMetadata E k body = Inr c \<longleftrightarrow>
     (\<exists>doc. env_document E body = Some doc \<and> document_ok E k doc \<and>
        c = \<lparr>rc_RedirectURIs = doc_RedirectURIs doc,
             rc_TokenEndpointAuthMethod = doc_TokenEndpointAuthMethod doc, rc_JWKSURI = doc_JWKSURI doc\<rparr>)"
proof (cases "env_document E body")
  case (Some doc)
  show ?thesis
    unfolding document_ok_def check_types_ok [symmetric] check_auth_method_ok [symmetric]
    using redirect_uris_loop_ok [of "[]" "doc_RedirectURIs doc"]
    by (auto simp: parseCIMDMetadata_def Some cimdMaxClientNameLength_def cimdMaxRedirectURIs_def not_less
        split: if_splits sum.splits)
qed (simp add: parseCIMDMetadata_def)

section \<open>Cache lifetimes\<close>

text \<open>The seconds a directive asks for: none for no-store and no-cache, the number of a max-age, and
  nothing for any other directive or a number that does not parse.\<close>

definition directive_seconds :: "env \<Rightarrow> string \<Rightarrow> int option" where
  "directive_seconds E raw =
    (let d = TrimSpace (ToLower (env_unicode E) raw) in
     if d = ''no-store'' \<or> d = ''no-cache'' then Some 0
     else if HasPrefix d ''max-age='' then Atoi (TrimPrefix d ''max-age='')
     else None)"

text \<open>The first value outside 1 to 3600 decides; otherwise the last value; five minutes when there is none.\<close>

definition ttl_of :: "int list \<Rightarrow> int" where
  "ttl_of ns =
    (case find (\<lambda>n. n \<le> 0 \<or> 3600 < n) ns of
       Some n \<Rightarrow> if n \<le> 0 then 0 else hour
     | None \<Rightarrow> if ns = [] then 5 * minute else last ns * second)"

lemma max_ttl_seconds: "hour div second = 3600"
  by (simp add: hour_def minute_def second_def)

lemma directives_loop_step:
  "directives_loop E m (raw # rest) =
    (case directive_seconds E raw of
       None \<Rightarrow> directives_loop E m rest
     | Some n \<Rightarrow>
       if n \<le> 0 then 0 else if 3600 < n then hour else directives_loop E (n * second) rest)"
proof -
  have "wrap64 (n * second) = n * second" if "\<not> n \<le> 0" "\<not> 3600 < n" for n
    using that by (simp add: wrap64_def ttl_consts)
  then show ?thesis
    by (auto simp: directive_seconds_def Let_def max_ttl_seconds cimdMaxCacheTTL_def split: option.split)
qed

lemma directives_loop_eq:
  "m \<le> hour \<Longrightarrow> directives_loop E m ds =
    (let ns = List.map_filter (directive_seconds E) ds in
     if ns = [] then (if m < 0 then 5 * minute else m) else ttl_of ns)"
proof (induction ds arbitrary: m)
  case Nil
  then show ?case by (simp add: cimdMaxCacheTTL_def cimdDefaultCacheTTL_def map_filter_simps)
next
  case (Cons raw rest)
  have "n * second \<le> hour \<and> \<not> n * second < 0" if "\<not> n \<le> 0" "\<not> 3600 < n" for n
    using that by (simp add: hour_def minute_def second_def)
  with Cons show ?case
    by (cases "directive_seconds E raw")
      (auto simp: directives_loop_step map_filter_simps ttl_of_def Let_def simp del: directives_loop.simps
        split: option.split)
qed

text \<open>C31. The lifetime of a fetched document: the loop over the Cache-Control header computes the reference
  above on the header's directives, and the result is between nothing and one hour.\<close>

theorem cacheTTLFromHeader_spec:
  "cacheTTLFromHeader E cc = ttl_of (List.map_filter (directive_seconds E) (Split cc (CHR '',''))) \<and>
   0 \<le> cacheTTLFromHeader E cc \<and> cacheTTLFromHeader E cc \<le> hour"
proof -
  have "TrimSpace [] = []" by code_simp
  moreover have "ToLower (env_unicode E) [] = []"
    by (simp add: ToLower_def of_runes_def runes.simps [of "[]"])
  ultimately have "directives_loop E (- 1) [[]] = 5 * minute"
    by (simp add: cimdDefaultCacheTTL_def Let_def)
  then have "cacheTTLFromHeader E cc = directives_loop E (- 1) (Split cc (CHR '',''))"
    by (simp add: cacheTTLFromHeader_def cimdDefaultCacheTTL_def del: directives_loop.simps)
  moreover have "(- 1 :: int) \<le> hour" by (simp add: hour_def minute_def second_def)
  ultimately show ?thesis
    using directives_loop_eq [of "- 1" E "Split cc (CHR '','')"]
      directives_loop_bounds [of "- 1" E "Split cc (CHR '','')"]
    by (auto simp: ttl_of_def Let_def cimdMaxCacheTTL_def)
qed

section \<open>Resolution\<close>

text \<open>C9. Resolution is sound. In every reachable state, a client that is returned for an identifier was
  described by a document served, over a connection the filtering dialer opened to that
  identifier's own host, at exactly that URL; the document passed every check; and it was
  fetched by this call, or by an earlier one and not longer than an hour before.\<close>

theorem resolve_sound:
  assumes "keyset_Key_sound E" "reachable E cfg w" "run_state (resolve E k) w = (Inr c, w')"
  shows "\<exists>n body. is_ok (validateCIMDClientIDURL E k) \<and> resolver_served E n k cimdMaxBodyBytes body \<and>
    parseCIMDMetadata E k body = Inr c \<and>
    (n = Suc (w_tick w) \<or> n < w_tick w \<and> env_clock E (w_tick w) \<le> env_clock E (Suc n) + hour)"
proof -
  have "world_inv E w" using reachable_broker_inv [OF assms(1,2)] by (simp add: broker_inv_def)
  from resolve_run [OF assms(3) this] obtain n where n: "client_at E n k c" "recent E (w_tick w) n"
    by (auto simp: fresh_client_def)
  then show ?thesis
    unfolding client_at_def recent_def cimdMaxCacheTTL_def by blast
qed

theorem resolve_sound_witness:
  "\<exists>n body. resolver_served demo_env n demo_client_id cimdMaxBodyBytes body \<and>
     parseCIMDMetadata demo_env demo_client_id body = Inr demo_client"
proof -
  obtain w' where "run_state (resolve demo_env demo_client_id) new_world = (Inr demo_client, w')"
    using demo_resolve by (metis prod.collapse)
  from resolve_sound [OF demo_keyset_sound demo_reachable this] show ?thesis by blast
qed

text \<open>C32. A host that the address filter refuses is not remembered: when the dialer blocks the connection, the
  resolver answers with the fetch error, and the cache is left as it was, although the resolver
  has a case that would cache blocked targets for thirty seconds. The next request for the same
  identifier resolves the name and tries again.\<close>

theorem blocked_not_cached:
  assumes "validateCIMDClientIDURL E k = Inr u" "map_of (entries (w_cache w)) k = None"
    "ssrfSafeDial (env_resolveIP E (Suc (w_tick w))) (env_dial E (Suc (w_tick w))) ''tcp'' (canonicalAddr u) =
       (a, Inl e)"
  shows "fst (run_state (resolve E k) w) = Inl (errCIMDFetch []) \<and>
    w_cache (snd (run_state (resolve E k) w)) = w_cache w"
proof -
  have "Parse k = Some u" by (rule validateCIMDClientIDURL_ok(1) [OF assms(1)])
  with assms show ?thesis
    by (simp add: resolve_def time_Now_def cache_get_def cimdCache_get_def fetchAndValidate_def resolver_Do_def
        store_result_def)
qed

definition loopback_env :: env where
  "loopback_env = demo_env\<lparr>env_resolveIP := (\<lambda>_ _. Some [Some [127, 0, 0, 1]])\<rparr>"

theorem blocked_not_cached_witness:
  "fst (run_state (resolve loopback_env demo_client_id) new_world) = Inl (errCIMDFetch []) \<and>
   w_cache (snd (run_state (resolve loopback_env demo_client_id) new_world)) = w_cache new_world"
proof -
  have "is_ok (validateCIMDClientIDURL loopback_env demo_client_id)" by code_simp
  then obtain u where u: "validateCIMDClientIDURL loopback_env demo_client_id = Inr u"
    by (cases "validateCIMDClientIDURL loopback_env demo_client_id") auto
  have "case validateCIMDClientIDURL loopback_env demo_client_id of Inl _ \<Rightarrow> False
    | Inr u \<Rightarrow> ssrfSafeDial (env_resolveIP loopback_env 1) (env_dial loopback_env 1) ''tcp'' (canonicalAddr u) =
        (None, Inl BlockedNoPublic)" by code_simp
  then show ?thesis
    using u by (intro blocked_not_cached [of _ _ u _ None BlockedNoPublic]) (simp_all add: new_world_def newCIMDCache_def new_cache_def)
qed

section \<open>Client assertions\<close>

text \<open>The key chosen from a client's key set is the first one that is for signatures and fits: the one the
  header's key identifier names, or without an identifier one for the header's algorithm or
  for any.\<close>

theorem selectJWK_spec:
  "selectJWK (Some ks) kid alg = find (usable_key kid alg) ks \<and> selectJWK None kid alg = None"
proof -
  have "kid \<noteq> [] \<Longrightarrow> find_kid kid ks = find (usable_key kid alg) ks"
    by (induction ks) (auto simp: usable_key_def)
  moreover have "find_alg alg ks = find (usable_key [] alg) ks"
    by (induction ks) (auto simp: usable_key_def)
  ultimately show ?thesis by (simp add: selectJWK_def)
qed

text \<open>C10. What an accepted client assertion proves. It carries one signature, with one of the listed asymmetric
  algorithms; the signature verifies under a key of a key set that was served at the client's
  key-set URL through the filtering dialer, the key the header selects; issuer and subject
  are the client, the audience includes this token endpoint, the time claims hold within the
  skew at some time of the clock, and a lifetime that is stated is at most ten minutes.\<close>

theorem client_assertion_sound:
  assumes "keyset_Key_sound E" "ParseSigned_sound E" "reachable E cfg w"
    "run_state (verifyClientAssertion E client clientID assertion aud) w = (Inr (), w')"
  shows "\<exists>hdr k ks n claims m.
    env_ParseSigned E clientAssertionAlgs assertion = Some [hdr] \<and> hdr_Algorithm hdr \<in> set clientAssertionAlgs \<and>
    keys_at E n (rc_JWKSURI client) ks \<and> k \<in> set ks \<and> usable_key (hdr_KeyID hdr) (hdr_Algorithm hdr) k \<and>
    env_jwt_Claims E assertion (jwk_Key k) = Some claims \<and>
    jc_Issuer claims = clientID \<and> jc_Subject claims = clientID \<and> aud \<in> set (jc_Audience claims) \<and>
    env_ValidateWithLeeway E claims (env_clock E m) (60 * second) \<and>
    (\<forall>iat exp. jc_IssuedAt claims = Some iat \<and> jc_Expiry claims = Some exp \<longrightarrow>
       time_Sub (time_Unix exp) (time_Unix iat) \<le> 10 * minute)"
proof -
  have "world_inv E w" using reachable_broker_inv [OF assms(1,3)] by (simp add: broker_inv_def)
  from ensuresD [OF ensures_verifyClientAssertion this assms(4)]
  have ok: "assertion_ok E (rc_JWKSURI client) clientID assertion aud" by simp
  have "hdr_Algorithm hdr \<in> set clientAssertionAlgs"
    if "env_ParseSigned E clientAssertionAlgs assertion = Some [hdr]" for hdr
    using assms(2) that unfolding ParseSigned_sound_def by fastforce
  with ok show ?thesis
    unfolding assertion_ok_def client_key_def clientAssertionClockSkew_def clientAssertionMaxLifetime_def by blast
qed

definition demo_key_client :: registeredClient where
  "demo_key_client = \<lparr>rc_RedirectURIs = [demo_redirect], rc_TokenEndpointAuthMethod = ''private_key_jwt'',
     rc_JWKSURI = ''https://c.example/jwks''\<rparr>"

theorem client_assertion_sound_witness:
  "\<exists>n ks k. keys_at demo_env n ''https://c.example/jwks'' ks \<and> k \<in> set ks \<and>
     env_jwt_Claims demo_env ''x'' (jwk_Key k) \<noteq> None"
proof -
  have "fst (run_state (verifyClientAssertion demo_env demo_key_client demo_client_id ''x'' ''aud'') new_world) = Inr ()"
    by code_simp
  then obtain w' where
    "run_state (verifyClientAssertion demo_env demo_key_client demo_client_id ''x'' ''aud'') new_world = (Inr (), w')"
    by (metis prod.collapse)
  from client_assertion_sound [OF demo_keyset_sound demo_ParseSigned_sound demo_reachable this]
  have "\<exists>n ks k. keys_at demo_env n (rc_JWKSURI demo_key_client) ks \<and> k \<in> set ks \<and>
     env_jwt_Claims demo_env ''x'' (jwk_Key k) \<noteq> None" by blast
  then show ?thesis by (simp add: demo_key_client_def)
qed

end
