(* ===== verification/Identity_Theorems.thy ===== *)
theory Identity_Theorems
  imports Oauth_Demo
begin

text \<open>
  Theorems about the validation of identities: how the key loop decides, what the identity policy
  admits, how the validator follows a key rotation, when an identity token is refreshed, and what
  reaches the logs of an upstream's error text.
\<close>

section \<open>Tokens\<close>

text \<open>C20. The loop over the candidate keys is the reference search: of the claims the keys that verify the
  signature yield, the first with an allowed issuer and the expected audience; if some key
  verifies but none fits, the token is invalid; if no key verifies it, that is the error.\<close>

theorem verify_loop_spec:
  "verify_loop E cfg token aud False False ks =
    (let cs = List.map_filter (key_claims E token) ks in
     case find (claims_fit cfg aud) cs of
       Some c \<Rightarrow> Inr c
     | None \<Rightarrow> if cs = [] then Inl (ErrOther ''failed to verify JWT signature with discovered JWKs'')
              else Inl ErrInvalidToken)"
proof -
  have rejected: "verify_loop E cfg token aud True True ks =
      (case find (claims_fit cfg aud) (List.map_filter (key_claims E token) ks) of
         Some c \<Rightarrow> Inr c | None \<Rightarrow> Inl ErrInvalidToken)" for ks
    by (induction ks) (auto simp: verify_loop_step map_filter_simps simp del: verify_loop.simps(2)
        split: option.split)
  show ?thesis
    by (induction ks) (auto simp: verify_loop_step map_filter_simps rejected Let_def
        simp del: verify_loop.simps(2) split: option.split)
qed

text \<open>What a fit of issuer and audience means: up to surrounding space and trailing slashes the issuer is
  in the allowlist, or without an allowlist is the configured issuer (any, when none is
  configured), and the audience is among the token's.\<close>

theorem claims_fit_iff:
  "claims_fit cfg aud c \<longleftrightarrow>
     (if cfg_UpstreamIssuerAllowlist cfg \<noteq> []
      then slash_norm (cl_Issuer c) \<in> slash_norm ` set (cfg_UpstreamIssuerAllowlist cfg)
      else slash_norm (TrimSpace (cfg_Issuer cfg)) = [] \<or>
        slash_norm (cl_Issuer c) = slash_norm (TrimSpace (cfg_Issuer cfg))) \<and>
     (aud = [] \<or> slash_norm aud \<in> slash_norm ` set (cl_Audience c))"
  by (simp add: claims_fit_def issuerAllowed_iff audienceMatchesResource_iff)

text \<open>C25. The identity policy, outcome by outcome. An unverified email is refused unless allowed; otherwise the
  identity passes exactly when its email has the form local@domain with a listed domain, if
  domains are listed, and its hosted domain is a listed one, if hosted domains are listed.\<close>

theorem applyIdentityPolicy_spec:
  "applyIdentityPolicy E cfg c =
    (if \<not> cfg_AllowUnverifiedEmail cfg \<and> cl_Email c \<noteq> [] \<and> \<not> cl_EmailVerified c then Inl ErrEmailNotVerified
     else if (cfg_AllowedEmailDomains cfg = [] \<or>
         (\<exists>l d. ToLower (env_unicode E) (TrimSpace (cl_Email c)) = l @ ''@'' @ d \<and> CHR ''@'' \<notin> set (l @ d) \<and>
            domain_allowed E (cfg_AllowedEmailDomains cfg) d)) \<and>
       (cfg_AllowedHostedDomains cfg = [] \<or>
         domain_allowed E (cfg_AllowedHostedDomains cfg) (cl_HostedDomain c))
     then Inr () else Inl ErrUnauthorizedDomain)"
proof -
  let ?U = "env_unicode E"
  have e: "domain_allowed E ds (emailDomain ?U (cl_Email c)) \<longleftrightarrow>
      (\<exists>l d. ToLower ?U (TrimSpace (cl_Email c)) = l @ ''@'' @ d \<and> CHR ''@'' \<notin> set (l @ d) \<and> domain_allowed E ds d)"
    for ds
  proof
    assume a: "domain_allowed E ds (emailDomain ?U (cl_Email c))"
    then have "emailDomain ?U (cl_Email c) \<noteq> []" by (simp add: domain_allowed_def)
    with a emailDomain_iff [of ?U "cl_Email c" "emailDomain ?U (cl_Email c)"]
    show "\<exists>l d. ToLower ?U (TrimSpace (cl_Email c)) = l @ ''@'' @ d \<and> CHR ''@'' \<notin> set (l @ d) \<and> domain_allowed E ds d"
      by auto
  next
    assume "\<exists>l d. ToLower ?U (TrimSpace (cl_Email c)) = l @ ''@'' @ d \<and> CHR ''@'' \<notin> set (l @ d) \<and> domain_allowed E ds d"
    then obtain l d where d: "ToLower ?U (TrimSpace (cl_Email c)) = l @ ''@'' @ d" "CHR ''@'' \<notin> set l"
      "CHR ''@'' \<notin> set d" "domain_allowed E ds d" by auto
    moreover from d(4) have "d \<noteq> []" by (simp add: domain_allowed_def)
    ultimately have "emailDomain ?U (cl_Email c) = d" using emailDomain_iff [of ?U "cl_Email c" d] by blast
    with d(4) show "domain_allowed E ds (emailDomain ?U (cl_Email c))" by simp
  qed
  show ?thesis
    unfolding e [symmetric]
    by (auto simp: applyIdentityPolicy_def domain_allowed_def containsDomain_iff Let_def)
qed

section \<open>Key rotation\<close>

text \<open>C21. A rotated key is picked up. When the cached key set is still fresh but has no key with the token's
  identifier, and the provider now serves a set that has one, validation goes on with the keys
  of the served set, and the cache holds that set.\<close>

theorem key_rotation:
  assumes "kid \<noteq> []" "v_jwks (w_validator w) \<noteq> []" "v_jwksURL (w_validator w) = u"
    "env_clock E (w_tick w) < v_jwksTime (w_validator w) + defaultJWKSCacheTTL"
    "env_keyset_Key E (v_jwks (w_validator w)) kid = []"
    "zero_time + defaultJWKSCacheTTL \<le> env_clock E (w_tick w + 1)"
    "Parse u \<noteq> None" "env_http E (w_tick w + 2) (HttpGet u []) = Some resp" "in_Status resp < 300"
    "read_limited maxOAuthResponseBytes resp = Some body" "env_keyset E body = Some ks"
    "env_keyset_Key E ks kid \<noteq> []"
  shows "fst (run_state (candidate_keys E u kid) w) = Inr (env_keyset_Key E ks kid) \<and>
    v_jwks (w_validator (snd (run_state (candidate_keys E u kid) w))) = ks"
  using assms
  by (simp add: candidate_keys_def fetchJWKS_def time_Now_def get_validator_def put_validator_def
      http_Get_def http_Do_def numeral_2_eq_2)

definition demo_rotated :: world where
  "demo_rotated = new_world\<lparr>w_validator := newValidator\<lparr>v_jwks := [demo_key\<lparr>jwk_KeyID := ''0''\<rparr>],
     v_jwksURL := ''https://idp.example/jwks'', v_jwksTime := demo_time\<rparr>\<rparr>"

theorem key_rotation_witness:
  "fst (run_state (candidate_keys demo_env ''https://idp.example/jwks'' ''1'') demo_rotated) = Inr [demo_key] \<and>
   v_jwks (w_validator (snd (run_state (candidate_keys demo_env ''https://idp.example/jwks'' ''1'') demo_rotated))) =
     [demo_key]"
proof -
  have k: "env_keyset_Key demo_env [demo_key] ''1'' = [demo_key]" by code_simp
  have p: "Parse ''https://idp.example/jwks'' \<noteq> None" by code_simp
  have "fst (run_state (candidate_keys demo_env ''https://idp.example/jwks'' ''1'') demo_rotated) =
      Inr (env_keyset_Key demo_env [demo_key] ''1'') \<and>
    v_jwks (w_validator (snd (run_state (candidate_keys demo_env ''https://idp.example/jwks'' ''1'') demo_rotated))) =
      [demo_key]"
    by (rule key_rotation [where resp = "demo_http (HttpGet ''https://idp.example/jwks'' [])" and body = "''{}''"])
      (simp_all add: demo_rotated_def new_world_def newValidator_def demo_env_def demo_key_def p demo_http_def
        read_limited_def maxOAuthResponseBytes_def defaultJWKSCacheTTL_def demo_time_def zero_time_def
        minute_def second_def)
  then show ?thesis by (simp add: k)
qed

section \<open>Refresh\<close>

lemma maybeRefresh_quiet:
  assumes "run_state (maybeRefreshNearExpiredIDToken E cfg tok rt (Some c)) w = ((tok', mc, d), w')"
    "\<not> (rt \<noteq> [] \<and> 0 < cl_ExpiresAt c \<and> wrap64 (cl_ExpiresAt c - Unix (env_clock E (w_tick w))) < 3300)"
  shows "(tok', mc, d) = (tok, Some c, 0) \<and> w_sent w' = w_sent w"
  using assms
  by (auto simp: maybeRefreshNearExpiredIDToken_def time_Now_def brokerIDTokenRefreshThresholdSeconds_def
      split: if_splits)

text \<open>C22. The refresh of an identity token. The token handed on is the original one with its claims, or a
  different one that the provider vouches for, for this client and within the identity policy;
  and the refresh-token grant is used, or anything sent at all, only when there is a refresh
  token and the original token states an expiry less than 55 minutes away.\<close>

theorem refresh_sound:
  assumes "keyset_Key_sound E" "reachable E cfg w"
    "run_state (maybeRefreshNearExpiredIDToken E cfg tok rt (Some c)) w = ((tok', mc, d), w')"
  shows "((tok', mc, d) = (tok, Some c, 0) \<or>
      tok' \<noteq> [] \<and> (\<exists>c'. mc = Some c' \<and> vouched E cfg tok' (cfg_ClientID cfg) c' \<and> policy_ok E cfg c')) \<and>
    ((tok', mc, d) \<noteq> (tok, Some c, 0) \<or> w_sent w' \<noteq> w_sent w \<longrightarrow>
      rt \<noteq> [] \<and> 0 < cl_ExpiresAt c \<and> wrap64 (cl_ExpiresAt c - Unix (env_clock E (w_tick w))) < 55 * 60)"
proof -
  have "broker_inv E w" by (rule reachable_broker_inv [OF assms(1,2)])
  from ensuresD [OF identity_broker(2) [OF assms(1)] this assms(3)] maybeRefresh_quiet [OF assms(3)]
  show ?thesis unfolding refreshed_def identity_ok_def by auto
qed

definition demo_claims :: claims where
  "demo_claims = claimsFromRaw (\<lambda>_. 0) demo_unicode []\<lparr>cl_ExpiresAt := 1700000100\<rparr>"

theorem refresh_sound_witness:
  "w_sent (snd (run_state (maybeRefreshNearExpiredIDToken demo_env demo_cfg ''t'' ''r'' (Some demo_claims)) new_world)) \<noteq> [] \<and>
   wrap64 (cl_ExpiresAt demo_claims - Unix (env_clock demo_env 0)) < 3300"
proof -
  let ?m = "maybeRefreshNearExpiredIDToken demo_env demo_cfg ''t'' ''r'' (Some demo_claims)"
  obtain tok mc d w' where run: "run_state ?m new_world = ((tok, mc, d), w')" by (metis prod.collapse)
  have "w_sent (snd (run_state ?m new_world)) \<noteq> []" by code_simp
  then have "w_sent w' \<noteq> []" by (simp add: run)
  then have sent: "w_sent w' \<noteq> w_sent new_world" by (simp add: new_world_def)
  from refresh_sound [OF demo_keyset_sound demo_reachable run] sent
  show ?thesis unfolding run by (simp add: new_world_def)
qed

section \<open>Upstream error texts\<close>

lemma encode_rune_bytes:
  assumes "0x20 \<le> r" "r \<noteq> 0x7F" "b \<in> set (encode_rune r)"
  shows "0x20 \<le> byte b \<and> byte b \<noteq> 0x7F"
  using assms by (auto simp: encode_rune_def Let_def rune_error_def split: if_splits)

lemma length_encode_rune: "length (encode_rune r) \<le> 4" "r < 0x80 \<Longrightarrow> length (encode_rune r) = 1"
  by (simp_all add: encode_rune_def Let_def)

lemma decode_rune_short: "decode_rune s = (r, Suc 0) \<Longrightarrow> r < 0x80 \<or> r = rune_error"
  by (cases s; auto simp: Let_def split: if_splits list.splits)

lemma length_of_runes: "length (of_runes (sanitize_loop (runes s))) \<le> 3 * length s"
proof (induction s rule: runes.induct)
  case (1 s)
  show ?case
  proof (cases "s = []")
    case False
    obtain r n where d: "decode_rune s = (r, n)" by fastforce
    have "n = 1 \<Longrightarrow> n \<le> length s" using False by (cases s) auto
    then have n: "0 < n" "n \<le> length s"
      using decode_rune_width [OF False] decode_rune_take(2) [OF d] d by fastforce+
    have "length (encode_rune r) \<le> 3 * n"
      using n(1) length_encode_rune [of r] decode_rune_short [of s r] d
      by (cases "n = 1") (auto simp: encode_rune_def rune_error_def)
    moreover have "length (encode_rune 32) = 1" by (simp add: length_encode_rune)
    moreover have "length (of_runes (sanitize_loop (runes (drop n s)))) \<le> 3 * (length s - n)"
      using 1 False d by simp
    ultimately show ?thesis
      using n by (subst runes.simps) (auto simp: d of_runes_def)
  qed (simp add: runes.simps [of "[]"] of_runes_def)
qed

lemma sanitize_grows:
  "length (''x'' @ replicate 118 (CHR 0xFF) @ ''x'') = 120 \<and>
   350 < length (sanitizeErrorDesc (''x'' @ replicate 118 (CHR 0xFF) @ ''x''))"
  by code_simp

text \<open>C39. The sanitiser of upstream error texts, whatever bytes the upstream sends: the result holds no
  control byte, so it cannot break a log line, and no more than 362 bytes; an empty or blank
  text gives nothing, any other begins with the separator. The limit of 120 bytes that the source
  documents is not kept: ill-formed bytes become replacement characters after the cut, so that a
  text of 120 bytes can give more than 350.\<close>

theorem sanitizeErrorDesc_safe:
  "list_all (\<lambda>b. 0x20 \<le> byte b \<and> byte b \<noteq> 0x7F) (sanitizeErrorDesc s) \<and>
   length (sanitizeErrorDesc s) \<le> 362 \<and>
   (sanitizeErrorDesc s = [] \<longleftrightarrow> TrimSpace s = []) \<and>
   (HasPrefix (sanitizeErrorDesc s) '': '' \<longleftrightarrow> TrimSpace s \<noteq> []) \<and>
   (\<exists>t. length t = 120 \<and> 350 < length (sanitizeErrorDesc t))"
proof -
  let ?t = "take 120 (TrimSpace s)"
  have eq: "sanitizeErrorDesc s =
      (if TrimSpace s = [] then [] else '': '' @ of_runes (sanitize_loop (runes ?t)))"
    by (simp add: sanitizeErrorDesc_def Let_def)
  have "0x20 \<le> byte b \<and> byte b \<noteq> 0x7F" if "b \<in> set (of_runes (sanitize_loop (runes ?t)))" for b
    using that by (auto simp: of_runes_def dest!: sanitize_loop_clean dest: encode_rune_bytes)
  moreover have "length (of_runes (sanitize_loop (runes ?t))) \<le> 360"
    using length_of_runes [of ?t] by simp
  moreover have "\<exists>t. length t = 120 \<and> 350 < length (sanitizeErrorDesc t)" using sanitize_grows by (rule exI)
  ultimately show ?thesis by (auto simp: eq list_all_iff)
qed

end
