(* ===== verification/Go_Url_Laws.thy ===== *)
theory Go_Url_Laws
  imports Go_Url
begin

text \<open>
  Laws of \<open>net/url\<close> the broker relies on: a query that \<open>Values.Encode\<close> writes is read back by
  \<open>ParseQuery\<close> with the same values, and \<open>Get\<close> after \<open>Set\<close>.
\<close>

subsection \<open>Get and Set\<close>

lemma map_of_filter_neq: "map_of (filter (\<lambda>p. fst p \<noteq> k) vs) k' = (if k' = k then None else map_of vs k')"
  by (induction vs) auto

lemma Get_SetValue: "Get (SetValue vs k v) k' = (if k' = k then v else Get vs k')"
  by (simp add: Get_def SetValue_def map_add_def map_of_filter_neq split: option.split)

lemma map_of_sort: "map_of (sort_key fst (vs :: url_values)) k = map_of vs k"
proof -
  have "map_of vs k = map_of (filter (\<lambda>p. fst p = k) vs) k" for vs :: url_values
    by (induction vs) auto
  then show ?thesis using sort_key_stable [of fst k vs] by metis
qed

subsection \<open>Escaping\<close>

lemma url_unhex_upper: "n < 16 \<Longrightarrow> url_unhex (upper_hex n) = Some n"
  by (simp add: url_unhex_def upper_hex_def)

lemma unescape_escape_byte:
  "unescape (escape_byte encodeQueryComponent c @ t) encodeQueryComponent =
     map_option (Cons c) (unescape t encodeQueryComponent)"
proof (cases "shouldEscape c encodeQueryComponent")
  case True
  have "byte c div 16 < 16" "byte c mod 16 < 16" by (intro less_mult_imp_div_less; simp)+ simp
  then show ?thesis
    using True by (simp add: escape_byte_def hex_pair_def url_unhex_upper)
next
  case False
  then have "c \<noteq> CHR ''%''" "c \<noteq> CHR ''+''" by (auto simp: shouldEscape_def alnum_def is_letter_def is_digit_def)
  then show ?thesis using False by (simp add: escape_byte_def)
qed

lemma unescape_QueryEscape: "unescape (QueryEscape s) encodeQueryComponent = Some s"
  by (induction s) (simp_all add: QueryEscape_def escape_def unescape_escape_byte)

lemma upper_hex_alnum: "n < 16 \<Longrightarrow> alnum (upper_hex n)"
  by (auto simp: upper_hex_def alnum_def is_letter_def is_digit_def)

lemma escape_byte_plain:
  assumes "x \<in> set (escape_byte encodeQueryComponent c)"
  shows "alnum x \<or> x \<in> set ''-_.~%+''"
proof (cases "shouldEscape c encodeQueryComponent")
  case True
  have "byte c div 16 < 16" by (intro less_mult_imp_div_less) simp
  then show ?thesis
    using True assms upper_hex_alnum [of "byte c div 16"] upper_hex_alnum [of "byte c mod 16"]
    by (auto simp: escape_byte_def split: if_splits)
next
  case False
  then show ?thesis using assms by (auto simp: escape_byte_def shouldEscape_def split: if_splits)
qed

lemma QueryEscape_plain: "x \<in> set (QueryEscape s) \<Longrightarrow> x \<notin> {CHR ''&'', CHR ''='', CHR '';''}"
  by (auto simp: QueryEscape_def escape_def alnum_def is_letter_def is_digit_def dest!: escape_byte_plain)

subsection \<open>Queries\<close>

lemma Cut_at: "c \<notin> set k \<Longrightarrow> Cut (k @ c # v) c = (k, v, True)"
  by (induction k) auto

lemma parse_pair_escaped: "parse_pair (QueryEscape k @ CHR ''='' # QueryEscape v) = Some (k, v)"
proof -
  have "CHR ''='' \<notin> set (QueryEscape k)" "CHR '';'' \<notin> set (QueryEscape k)" "CHR '';'' \<notin> set (QueryEscape v)"
    using QueryEscape_plain by blast+
  then show ?thesis by (simp add: parse_pair_def Cut_at unescape_QueryEscape)
qed

lemma query_pieces_Encode: "query_pieces (Encode vs) = map (\<lambda>(k, v). QueryEscape k @ ''='' @ QueryEscape v) (sort_key fst vs)"
proof -
  let ?ps = "map (\<lambda>(k, v). QueryEscape k @ ''='' @ QueryEscape v) (sort_key fst vs)"
  have "\<forall>p \<in> set ?ps. CHR ''&'' \<notin> set p \<and> p \<noteq> []"
    using QueryEscape_plain by fastforce
  then show ?thesis
    by (cases "?ps = []") (auto simp: query_pieces_def Encode_def Split_Join_segs filter_id_conv)
qed

lemma ParseQuery_Encode: "ParseQuery (Encode vs) = sort_key fst vs"
proof -
  have "List.map_filter parse_pair (map (\<lambda>(k, v). QueryEscape k @ ''='' @ QueryEscape v) l) = l" for l
    by (induction l) (auto simp: map_filter_simps parse_pair_escaped)
  then show ?thesis by (simp add: ParseQuery_def query_pieces_Encode)
qed

lemma query_ok_Encode: "query_ok (Encode vs)"
  by (auto simp: query_ok_def query_pieces_Encode list_all_iff parse_pair_escaped)

text \<open>The reader of an encoded query gets each value the writer set.\<close>

lemma Get_ParseQuery_Encode: "Get (ParseQuery (Encode vs)) k = Get vs k"
  by (simp add: ParseQuery_Encode Get_def map_of_sort)

end
