(* ===== verification/Broker_Theorems.thy ===== *)
theory Broker_Theorems
  imports Oauth_Demo Go_Url_Laws
begin

text \<open>
  Theorems about the authorization flow: what the browser is sent upstream with, what the code a
  client receives is bound to, and how long a bearer token lives.
\<close>

section \<open>The authorization request\<close>

lemma upstream_params_Get:
  "Get (upstream_params E cfg r st v) ''state'' = st"
  "Get (upstream_params E cfg r st v) ''code_challenge'' = pkceChallenge v"
  "Get (upstream_params E cfg r st v) ''code_challenge_method'' = ''S256''"
  "Get (upstream_params E cfg r st v) ''client_id'' = cfg_ClientID cfg"
  "Get (upstream_params E cfg r st v) ''response_type'' = ''code''"
  "Get (upstream_params E cfg r st v) ''redirect_uri'' = joinURLPath (authServerBaseURL E cfg r) (callbackPath cfg)"
  by (simp_all add: upstream_params_def Let_def Get_SetValue)

text \<open>C5. The authorization endpoint sends the browser upstream only for a checked request. When it answers with
  a redirect: the client was resolved, the redirect URI is one of its registered ones, PKCE with
  S256 is used, and a resource indicator names this server; the target is the configured or
  discovered endpoint; and the query the provider reads there carries the broker's client
  identifier, its callback URL, the challenge of a fresh verifier, and as state the encryption
  of exactly this request with that verifier.\<close>

theorem authorize_sound:
  assumes "keyset_Key_sound E" "reachable E cfg w"
    "run_state (handleAuthorize E cfg r) w = (resp, w')" "resp_Status resp = 302"
  shows "\<exists>client authURL verifier st q n k.
    client_of E (Get (Query r) ''client_id'') client \<and>
    Get (Query r) ''redirect_uri'' \<in> set (rc_RedirectURIs client) \<and>
    Get (Query r) ''code_challenge'' \<noteq> [] \<and> Get (Query r) ''code_challenge_method'' = ''S256'' \<and>
    (Get (Query r) ''resource'' = [] \<or>
     TrimRight (Get (Query r) ''resource'') (CHR ''/'') = TrimRight (resourceBaseURL E cfg r) (CHR ''/'')) \<and>
    auth_endpoint E cfg authURL \<and> resp = redirect r (authURL @ ''?'' @ q) \<and>
    newPKCEVerifier (env_rand E (k - 1)) = Some verifier \<and>
    encodePendingAuth (env_jose E) n (cfg_SigningSecret cfg) (pending_of_request r verifier (env_clock E k)) = Some st \<and>
    Get (ParseQuery q) ''state'' = st \<and> Get (ParseQuery q) ''client_id'' = cfg_ClientID cfg \<and>
    Get (ParseQuery q) ''redirect_uri'' = joinURLPath (authServerBaseURL E cfg r) (callbackPath cfg) \<and>
    Get (ParseQuery q) ''code_challenge'' = pkceChallenge verifier \<and>
    Get (ParseQuery q) ''code_challenge_method'' = ''S256''"
proof -
  have "broker_inv E w" by (rule reachable_broker_inv [OF assms(1,2)])
  from handleAuthorize_cases [OF this assms(3)] assms(4) obtain client where
    c: "client_of E (Get (Query r) ''client_id'') client" "authorize_checks E cfg r client = Inr ()"
    "sent_upstream E cfg r resp" by auto
  from c(3) obtain authURL verifier st n k where
    "auth_endpoint E cfg authURL"
    "encodePendingAuth (env_jose E) n (cfg_SigningSecret cfg) (pending_of_request r verifier (env_clock E k)) = Some st"
    "newPKCEVerifier (env_rand E (k - 1)) = Some verifier"
    "resp = redirect r (authURL @ ''?'' @ Encode (upstream_params E cfg r st verifier))"
    unfolding sent_upstream_def by blast
  with c(1,2) show ?thesis
    unfolding authorize_checks_iff
    by (intro exI [of _ client] exI [of _ authURL] exI [of _ verifier] exI [of _ st]
        exI [of _ "Encode (upstream_params E cfg r st verifier)"] exI [of _ n] exI [of _ k])
      (simp add: Get_ParseQuery_Encode upstream_params_Get)
qed

definition demo_authorize :: request where
  "demo_authorize = demo_request\<lparr>req_Path := ''/oauth/authorize'', req_RawQuery :=
     Encode [(''client_id'', demo_client_id), (''redirect_uri'', demo_redirect), (''response_type'', ''code''),
       (''code_challenge'', pkceChallenge ''v''), (''code_challenge_method'', ''S256''), (''state'', ''xyz'')]\<rparr>"

lemma demo_authorize_query:
  "Get (Query demo_authorize) ''client_id'' = demo_client_id" "Get (Query demo_authorize) ''redirect_uri'' = demo_redirect"
  "Get (Query demo_authorize) ''response_type'' = ''code''" "Get (Query demo_authorize) ''code_challenge'' = pkceChallenge ''v''"
  "Get (Query demo_authorize) ''code_challenge_method'' = ''S256''" "Get (Query demo_authorize) ''resource'' = []"
  "Get (Query demo_authorize) ''state'' = ''xyz''" "Get (Query demo_authorize) ''scope'' = []"
  by (simp_all add: demo_authorize_def Query_def Get_ParseQuery_Encode) (simp_all add: Get_def)

lemma demo_authorize_run:
  obtains resp w' where "run_state (handleAuthorize demo_env demo_cfg demo_authorize) new_world = (resp, w')"
    "resp_Status resp = 302"
proof -
  obtain w1 where r: "run_state (resolve demo_env demo_client_id) new_world = (Inr demo_client, w1)"
    using demo_resolve by (metis prod.collapse)
  have c: "authorize_checks demo_env demo_cfg demo_authorize demo_client = Inr ()"
    using length_pkceChallenge [of "''v''"] by (auto simp: authorize_checks_iff demo_authorize_query demo_client_def)
  have m: "req_Method demo_authorize = ''GET''" by (simp add: demo_authorize_def demo_request_def)
  have "\<bar>Unix (demo_time + defaultPendingAuthTTLSeconds * second)\<bar> < 2 ^ 53"
    by (simp add: Unix_def demo_time_def second_def defaultPendingAuthTTLSeconds_def wrap64_def)
  then have st: "encodePendingAuth plain_jose n ''secret'' (pending_of_request demo_authorize v demo_time) \<noteq> None"
    for n v
    using pending.mints [OF plain_jose_correct, of "pending_of_request demo_authorize v demo_time" n "''secret''"]
    by (auto simp: pending_of_request_def Let_def)
  have u: "TrimSpace (cfg_AuthURL demo_cfg) \<noteq> []" by code_simp
  have "resp_Status (fst (run_state (authorize_redirect demo_env demo_cfg demo_authorize) w1)) = 302"
    by (simp add: authorize_redirect_def rand_Read_def time_Now_def nonce_def newPKCEVerifier_def demo_env_def
        demo_cfg_simps st resolveUpstreamAuthURL_def u redirect_def set_header_def split: option.split)
  moreover have "run_state (handleAuthorize demo_env demo_cfg demo_authorize) new_world =
      run_state (authorize_redirect demo_env demo_cfg demo_authorize) w1"
    using r c by (simp add: handleAuthorize_def m demo_authorize_query Let_def) (simp add: demo_client_id_def demo_redirect_def)
  ultimately show ?thesis by (metis that prod.collapse)
qed

theorem authorize_sound_witness:
  "\<exists>resp w'. run_state (handleAuthorize demo_env demo_cfg demo_authorize) new_world = (resp, w') \<and>
     (\<exists>q authURL. resp = redirect demo_authorize (authURL @ ''?'' @ q) \<and> Get (ParseQuery q) ''client_id'' = ''cid'')"
proof -
  obtain resp w' where run: "run_state (handleAuthorize demo_env demo_cfg demo_authorize) new_world = (resp, w')"
    "resp_Status resp = 302" by (rule demo_authorize_run)
  have "cfg_ClientID demo_cfg = ''cid''" by (simp add: demo_cfg_def)
  with authorize_sound [OF demo_keyset_sound demo_reachable run] run(1) show ?thesis by auto
qed

section \<open>The callback\<close>

text \<open>The clock shows a time between 1970 and some 140 million years later.\<close>

definition sane_clock :: "env \<Rightarrow> bool" where
  "sane_clock E \<longleftrightarrow> (\<forall>n. 0 \<le> env_clock E n \<and> env_clock E n < 2 ^ 52 * second)"

lemma Unix_near:
  assumes "sane_clock E" "0 \<le> d" "d \<le> 3600"
  shows "Unix (env_clock E n + d * second) = Unix (env_clock E n) + d"
    and "\<bar>Unix (env_clock E n + d * second)\<bar> < 2 ^ 53"
proof -
  have c: "0 \<le> env_clock E n" "env_clock E n < 2 ^ 52 * second" using assms(1) by (auto simp: sane_clock_def)
  then have b: "0 \<le> env_clock E n div second" "env_clock E n div second < 2 ^ 52"
    by (simp_all add: second_def)
  have "(env_clock E n + d * second) div second = env_clock E n div second + d" by (simp add: second_def)
  with b assms(2,3) show "Unix (env_clock E n + d * second) = Unix (env_clock E n) + d"
    "\<bar>Unix (env_clock E n + d * second)\<bar> < 2 ^ 53"
    by (simp_all add: Unix_def wrap64_def)
qed

text \<open>The data of an authorization request, and of the upstream's answer, in well-formed UTF-8.\<close>

definition utf8_request :: "request \<Rightarrow> string \<Rightarrow> bool" where
  "utf8_request r code \<longleftrightarrow>
     list_all (\<lambda>s. clean s = s)
       [Get (Query r) ''client_id'', Get (Query r) ''redirect_uri'', sanitizeScope (Get (Query r) ''scope''),
        Get (Query r) ''state'', Get (Query r) ''code_challenge'', Get (Query r) ''code_challenge_method'',
        Get (Query r) ''resource'', code]"

text \<open>The code the broker issues for an authorization request and an upstream code.\<close>

definition bound_code :: "request \<Rightarrow> string \<Rightarrow> string \<Rightarrow> int \<Rightarrow> issuedCode" where
  "bound_code r verifier code expires =
    \<lparr>ic_ClientID = Get (Query r) ''client_id'', ic_RedirectURI = Get (Query r) ''redirect_uri'',
     ic_Scope = sanitizeScope (Get (Query r) ''scope''), ic_CodeChallenge = Get (Query r) ''code_challenge'',
     ic_CodeChallengeMethod = Get (Query r) ''code_challenge_method'', ic_Resource = Get (Query r) ''resource'',
     ic_UpstreamAuthCode = code, ic_UpstreamPKCEVerifier = verifier, ic_ExpiresAt = expires\<rparr>"

lemma verifier_clean: "newPKCEVerifier buf = Some v \<Longrightarrow> clean v = v"
  by (auto simp: newPKCEVerifier_def clean_ascii raw_url_encode_ascii)

text \<open>The state is read back for ten minutes, the code for sixty seconds.\<close>

lemma state_decodes:
  assumes "jose_correct (env_jose E)" "sane_clock E" "secret \<noteq> []"
    "encodePendingAuth (env_jose E) n secret (pending_of_request r verifier (env_clock E k)) = Some st"
  shows "decodePendingAuth (env_jose E) oor t secret st =
    (if Unix (env_clock E k) + 600 < Unix t then None
     else Some (reread_pending (pending_of_request r verifier (env_clock E k))))"
proof -
  let ?p = "pending_of_request r verifier (env_clock E k)"
  have e: "\<bar>Unix (pa_ExpiresAt ?p)\<bar> < 2 ^ 53" "Unix (pa_ExpiresAt ?p) = Unix (env_clock E k) + 600"
    using Unix_near [OF assms(2), of 600 k] by (simp_all add: pending_of_request_def Let_def defaultPendingAuthTTLSeconds_def)
  show ?thesis
    by (rule pending.decodes [OF assms(1) e(1) assms(3,4), unfolded pending_content [OF e(1)] e(2)])
qed

lemma code_decodes:
  assumes "jose_correct (env_jose E)" "sane_clock E" "secret \<noteq> []" "utf8_request r code" "clean verifier = verifier"
  shows "\<exists>t. encodeAuthCode (env_jose E) m secret
      (code_of_pending (reread_pending (pending_of_request r verifier issued_at)) code (env_clock E j)) = Some t \<and>
    (\<forall>now. decodeAuthCode (env_jose E) oor now secret t =
      (if Unix (env_clock E j) + 60 < Unix now then None
       else Some (bound_code r verifier code ((Unix (env_clock E j) + 60) * second))))"
proof -
  let ?c = "code_of_pending (reread_pending (pending_of_request r verifier issued_at)) code (env_clock E j)"
  have e: "\<bar>Unix (ic_ExpiresAt ?c)\<bar> < 2 ^ 53" "Unix (ic_ExpiresAt ?c) = Unix (env_clock E j) + 60"
    using Unix_near [OF assms(2), of 60 j] by (simp_all add: code_of_pending_def defaultAuthCodeTTLSeconds_def)
  have c: "reread_code ?c = bound_code r verifier code ((Unix (env_clock E j) + 60) * second)"
    using assms(4,5) e(2)
    by (simp add: reread_code_def bound_code_def code_of_pending_def reread_pending_def pending_of_request_def Let_def
        utf8_request_def)
  obtain t where "encodeAuthCode (env_jose E) m secret ?c = Some t" using code.mints [OF assms(1) e(1)] by blast
  with code.decodes [OF assms(1) e(1) assms(3) this, unfolded code_content [OF e(1)] e(2) c] show ?thesis by blast
qed

text \<open>C6. The code the callback hands to the client. Take a state that the authorization endpoint minted for a
  request. When the callback answers that state with a redirect, it came within ten minutes;
  the redirect goes to the redirect URI of that request, whose query now gives the client the
  code and its own state; and the code decodes, for the next sixty seconds and no longer, to
  exactly the client, redirect URI, challenge and resource of that request, the upstream code of
  this callback and the verifier of the upstream leg.\<close>

theorem callback_binds_code:
  assumes "jose_correct (env_jose E)" "sane_clock E" "cfg_SigningSecret cfg \<noteq> []"
    "newPKCEVerifier buf = Some verifier" "utf8_request r0 (Get (Query r) ''code'')"
    "encodePendingAuth (env_jose E) n (cfg_SigningSecret cfg) (pending_of_request r0 verifier (env_clock E k)) =
       Some (Get (Query r) ''state'')"
    "run_state (handleCallback E cfg r) w = (resp, w')" "resp_Status resp = 302"
  shows "Unix (env_clock E (w_tick w)) \<le> Unix (env_clock E k) + 600 \<and>
    (\<exists>u code q. Parse (Get (Query r0) ''redirect_uri'') = Some u \<and>
       resp = redirect r (url_String (u\<lparr>RawQuery := q\<rparr>)) \<and> Get (ParseQuery q) ''code'' = code \<and>
       (Get (Query r0) ''state'' \<noteq> [] \<longrightarrow> Get (ParseQuery q) ''state'' = Get (Query r0) ''state'') \<and>
       (\<forall>now. decodeAuthCode (env_jose E) (env_oor E) now (cfg_SigningSecret cfg) code =
          (if Unix (env_clock E (w_tick w + 1)) + 60 < Unix now then None
           else Some (bound_code r0 verifier (Get (Query r) ''code'')
                  ((Unix (env_clock E (w_tick w + 1)) + 60) * second)))))"
proof -
  let ?q = "reread_pending (pending_of_request r0 verifier (env_clock E k))"
  let ?uc = "Get (Query r) ''code''" and ?t = "env_clock E (w_tick w)" and ?t1 = "env_clock E (w_tick w + 1)"
  note d = state_decodes [OF assms(1-3,6), of "env_oor E" ?t]
  have in_time: "\<not> Unix (env_clock E k) + 600 < Unix ?t" "Get (Query r) ''state'' \<noteq> []" "?uc \<noteq> []"
    using assms(7,8) d by (auto simp: handleCallback_def Let_def time_Now_def split: if_splits)
  obtain code where code: "encodeAuthCode (env_jose E) (w_tick w + 2) (cfg_SigningSecret cfg) (code_of_pending ?q ?uc ?t1) = Some code"
    and dec: "\<forall>now. decodeAuthCode (env_jose E) (env_oor E) now (cfg_SigningSecret cfg) code =
      (if Unix ?t1 + 60 < Unix now then None else Some (bound_code r0 verifier ?uc ((Unix ?t1 + 60) * second)))"
    using code_decodes [OF assms(1-3,5) verifier_clean [OF assms(4)]] by blast
  have rp: "pa_RedirectURI ?q = Get (Query r0) ''redirect_uri''" "pa_ClientState ?q = Get (Query r0) ''state''"
    using assms(5) by (simp_all add: reread_pending_def pending_of_request_def Let_def utf8_request_def)
  have resp: "resp = (case callback_target ?q code of
       None \<Rightarrow> writeTokenError E 502 ''server_error'' ''pending-auth carried an unparseable redirect_uri''
     | Some target \<Rightarrow> redirect r target)"
    using assms(7) d code in_time by (simp add: handleCallback_def Let_def time_Now_def nonce_def)
  with assms(8) obtain u where u: "Parse (Get (Query r0) ''redirect_uri'') = Some u"
    by (auto simp: callback_target_def rp(1) split: option.splits)
  let ?v = "SetValue (ParseQuery (RawQuery u)) ''code'' code"
  let ?v' = "if Get (Query r0) ''state'' \<noteq> [] then SetValue ?v ''state'' (Get (Query r0) ''state'') else ?v"
  have "resp = redirect r (url_String (u\<lparr>RawQuery := Encode ?v'\<rparr>))"
    using resp u by (simp add: callback_target_def rp Let_def)
  moreover have "Get (ParseQuery (Encode ?v')) ''code'' = code"
    "Get (Query r0) ''state'' \<noteq> [] \<longrightarrow> Get (ParseQuery (Encode ?v')) ''state'' = Get (Query r0) ''state''"
    by (simp_all add: Get_ParseQuery_Encode Get_SetValue)
  ultimately show ?thesis
    using in_time(1) u dec
    by (intro conjI exI [of _ u] exI [of _ code] exI [of _ "Encode ?v'"]) (assumption | simp only: not_less)+
qed

definition demo_callback :: "string \<Rightarrow> request" where
  "demo_callback st = demo_request\<lparr>req_Path := ''/oauth/callback'',
     req_RawQuery := Encode [(''state'', st), (''code'', ''uc'')]\<rparr>"

lemma demo_callback_query:
  "Get (Query (demo_callback st)) ''state'' = st" "Get (Query (demo_callback st)) ''code'' = ''uc''"
  by (simp_all add: demo_callback_def Query_def Get_ParseQuery_Encode) (simp_all add: Get_def)

lemma demo_clock: "sane_clock demo_env"
  by (simp add: sane_clock_def demo_env_def demo_time_def second_def)

lemma demo_utf8: "utf8_request demo_authorize ''uc''"
proof -
  have "sanitizeScope [] = []" by code_simp
  then show ?thesis
    by (simp add: utf8_request_def demo_authorize_query pkceChallenge_clean clean_ascii ascii_def demo_client_id_def
        demo_redirect_def)
qed

theorem callback_binds_code_witness:
  "\<exists>st resp w' u q. run_state (handleCallback demo_env demo_cfg (demo_callback st)) new_world = (resp, w') \<and>
     Parse demo_redirect = Some u \<and> resp = redirect (demo_callback st) (url_String (u\<lparr>RawQuery := q\<rparr>)) \<and>
     Get (ParseQuery q) ''state'' = ''xyz''"
proof -
  let ?v = "raw_url_encode (replicate 32 (CHR ''r''))" and ?J = "env_jose demo_env" and ?s = "cfg_SigningSecret demo_cfg"
  let ?p = "pending_of_request demo_authorize ?v (env_clock demo_env 0)"
  have J: "jose_correct ?J" "?s \<noteq> []" by (simp_all add: demo_env_simps plain_jose_correct demo_cfg_simps)
  have v: "newPKCEVerifier (Some (replicate 32 (CHR ''r''))) = Some ?v" by (simp add: newPKCEVerifier_def)
  have "\<bar>Unix (pa_ExpiresAt ?p)\<bar> < 2 ^ 53"
    using Unix_near(2) [OF demo_clock, of 600 0] by (simp add: pending_of_request_def Let_def defaultPendingAuthTTLSeconds_def)
  then obtain st where st: "encodePendingAuth ?J 0 ?s ?p = Some st" using pending.mints [OF J(1)] by blast
  have d: "decodePendingAuth ?J oor demo_time ?s st = Some (reread_pending ?p)" for oor
    using state_decodes [OF J(1) demo_clock J(2) st, of oor demo_time] by (simp add: demo_env_simps)
  have ne: "st \<noteq> []" using st by (auto simp: encodePendingAuth_def encodeJWE_def plain_jose_def demo_env_simps Let_def
      deriveKey_def jweKidV1_def bind_eq_Some_conv)
  have red: "pa_RedirectURI (reread_pending ?p) = demo_redirect"
    using demo_utf8 by (simp add: reread_pending_def pending_of_request_def Let_def utf8_request_def demo_authorize_query)
  have "Parse demo_redirect \<noteq> None" by code_simp
  then obtain u where u: "Parse demo_redirect = Some u" by auto
  obtain c where c: "encodeAuthCode plain_jose (Suc (Suc 0)) ?s (code_of_pending (reread_pending ?p) ''uc'' demo_time) = Some c"
    using code_decodes [OF J(1) demo_clock J(2) demo_utf8 verifier_clean [OF v], of "Suc (Suc 0)" "env_clock demo_env 0" 1 "\<lambda>_. 0"]
    by (auto simp: demo_env_simps)
  have "resp_Status (fst (run_state (handleCallback demo_env demo_cfg (demo_callback st)) new_world)) = 302"
    using d ne c u
    by (simp add: handleCallback_def demo_callback_query time_Now_def nonce_def new_world_def demo_env_simps
        callback_target_def red [unfolded demo_env_simps] redirect_def set_header_def Let_def)
  then obtain resp w' where run: "run_state (handleCallback demo_env demo_cfg (demo_callback st)) new_world = (resp, w')"
    "resp_Status resp = 302" by (metis prod.collapse)
  have utf: "utf8_request demo_authorize (Get (Query (demo_callback st)) ''code'')"
    and e: "encodePendingAuth ?J 0 ?s ?p = Some (Get (Query (demo_callback st)) ''state'')"
    using demo_utf8 st by (simp_all add: demo_callback_query)
  from callback_binds_code [OF J(1) demo_clock J(2) v utf e run] run(1) show ?thesis
    by (auto simp: demo_authorize_query)
qed

section \<open>Lifetimes\<close>

text \<open>C33. A wrapped bearer token lives no longer than the configured lifetime and no longer than the identity
  token inside it. The lifetime announced with it is never negative, at most the configured one,
  and at most what the identity token has left (the seconds of its expiry being within 292
  years of the clock, so that the difference does not wrap around).\<close>

theorem bearer_lifetime:
  assumes "wraps_token E cfg tok" "0 < cl_ExpiresAt c" "\<bar>cl_ExpiresAt c - Unix now\<bar> < 2 ^ 63"
  shows "downstream_expiry cfg (Some c) now \<le> now + accessTokenTTL cfg \<and>
    downstream_expiry cfg (Some c) now \<le> time_Unix (cl_ExpiresAt c) \<and>
    0 \<le> expires_in E cfg tok (Some c) now \<and>
    expires_in E cfg tok (Some c) now \<le> accessTokenTTL cfg div second \<and>
    expires_in E cfg tok (Some c) now \<le> max 0 (cl_ExpiresAt c - Unix now)"
proof -
  have "0 \<le> accessTokenTTL cfg div second" using accessTokenTTL_pos [of cfg] by (simp add: second_def)
  moreover have "wrap64 (cl_ExpiresAt c - Unix now) = cl_ExpiresAt c - Unix now"
    using assms(3) by (simp add: wrap64_def)
  ultimately show ?thesis using assms(1,2) by (simp add: downstream_expiry_def expires_in_def Let_def)
qed

definition demo_gating :: config where
  "demo_gating = demo_cfg\<lparr>cfg_Mode := ''gating'', cfg_BrokerUpstream := True\<rparr>"

theorem bearer_lifetime_witness:
  "expires_in demo_env demo_gating (demo_tokens\<lparr>tr_IDToken := ''t''\<rparr>)
     (Some (claimsFromUserInfo []\<lparr>cl_ExpiresAt := 1700000100\<rparr>)) demo_time \<le> 100"
proof -
  have w: "wraps_token demo_env demo_gating (demo_tokens\<lparr>tr_IDToken := ''t''\<rparr>)" by code_simp
  show ?thesis
    using bearer_lifetime [OF w, of "claimsFromUserInfo []\<lparr>cl_ExpiresAt := 1700000100\<rparr>" demo_time]
    by (simp add: Unix_demo)
qed

end
