(* ===== verification/Middleware_Theorems.thy ===== *)
theory Middleware_Theorems
  imports Broker_Theorems
begin

text \<open>
  Theorems about the resource-server side: what a request that the middleware passes on has shown,
  what becomes of the broker's own bearer tokens there, and the route table.
\<close>

section \<open>Requests passed on\<close>

lemma unwrap_token_cases:
  assumes "run_state (unwrap_token E cfg token) w = (inner, w')"
  shows "inner = token \<or>
    IsGating (env_unicode E) (cfg_Mode cfg) \<and> cfg_SigningSecret cfg \<noteq> [] \<and>
    decodeDownstreamAccessToken (env_jose E) (env_oor E) (env_clock E (w_tick w)) (cfg_SigningSecret cfg) token = Inr inner"
  using assms by (auto simp: unwrap_token_def time_Now_def split: if_splits sum.splits)

lemma unwrap_token_broker: "ensures (broker_inv E) (unwrap_token E cfg token) (\<lambda>_. True)"
  unfolding unwrap_token_def by (auto intro!: ensures_return ensures_step [OF effects_broker(1)])

lemma Middleware_Passed:
  assumes "run_state (Middleware E cfg r) w = (Passed ctx, w')"
  obtains inner w1 mc where "extractBearer E r \<noteq> []"
    and "run_state (unwrap_token E cfg (extractBearer E r)) w = (inner, w1)"
    and "run_state (Validate E cfg inner) w1 = (Inr mc, w')"
    and "RawTokenFromContext ctx = (extractBearer E r, True)" and "ClaimsFromContext ctx = (mc, mc \<noteq> None)"
  using assms
  by (auto simp: Middleware_def Let_def RawTokenFromContext_def ClaimsFromContext_def withRawToken_def withClaims_def
      empty_context_def split: if_splits prod.splits sum.splits option.splits)

text \<open>C2. Soundness of the middleware. In every reachable state, a request that is passed on carried a bearer
  token, which the next handler finds in the context. The token validated is that one, or, in
  gating mode, the identity token inside it. When the handler finds claims, a key of the
  provider's key set verifies the token (the one the header names), issuer and audience fit, the
  identity policy holds, the clock is within the token's window and every required scope was
  granted. It finds none only for an opaque token in forward mode, or when neither issuer nor
  key set is configured.\<close>

theorem middleware_sound:
  assumes "keyset_Key_sound E" "reachable E cfg w" "run_state (Middleware E cfg r) w = (Passed ctx, w')"
  shows "\<exists>token inner. token = extractBearer E r \<and> token \<noteq> [] \<and> RawTokenFromContext ctx = (token, True) \<and>
    (inner = token \<or>
     IsGating (env_unicode E) (cfg_Mode cfg) \<and>
     decodeDownstreamAccessToken (env_jose E) (env_oor E) (env_clock E (w_tick w)) (cfg_SigningSecret cfg) token = Inr inner) \<and>
    (case ClaimsFromContext ctx of
       (Some c, found) \<Rightarrow> found \<and> vouched E cfg inner (cfg_Audience cfg) c \<and> policy_ok E cfg c \<and>
         in_window (env_clock E (w_tick w' - 1)) c \<and> set (cfg_RequiredScopes cfg) \<subseteq> set (cl_Scopes c)
     | (None, found) \<Rightarrow> \<not> found \<and>
         (\<not> looksLikeJWT inner \<and> \<not> IsGating (env_unicode E) (cfg_Mode cfg) \<or>
          TrimSpace (cfg_JWKSURL cfg) = [] \<and> TrimSpace (cfg_Issuer cfg) = []))"
proof -
  have inv: "broker_inv E w" by (rule reachable_broker_inv [OF assms(1,2)])
  obtain inner w1 mc where m: "extractBearer E r \<noteq> []"
    "run_state (unwrap_token E cfg (extractBearer E r)) w = (inner, w1)"
    "run_state (Validate E cfg inner) w1 = (Inr mc, w')"
    "RawTokenFromContext ctx = (extractBearer E r, True)" "ClaimsFromContext ctx = (mc, mc \<noteq> None)"
    by (rule Middleware_Passed [OF assms(3)])
  have "broker_inv E w1" using ensuresD [OF unwrap_token_broker inv m(2)] by simp
  note v = ensuresD [OF Validate_broker [OF assms(1)] this m(3)]
  show ?thesis
    using m unwrap_token_cases [OF m(2)] v Validate_window [of E cfg inner w1 _ w']
    by (intro exI [of _ "extractBearer E r"] exI [of _ inner]) (auto split: option.splits)
qed

definition demo_bearer :: request where
  "demo_bearer = demo_request\<lparr>req_Header := [(''Authorization'', ''bearer a.b.c'')]\<rparr>"

theorem middleware_sound_witness:
  "\<exists>ctx w' c. run_state (Middleware demo_env demo_cfg demo_bearer) new_world = (Passed ctx, w') \<and>
     RawTokenFromContext ctx = (''a.b.c'', True) \<and> ClaimsFromContext ctx = (Some c, True) \<and>
     vouched demo_env demo_cfg ''a.b.c'' [] c"
proof -
  have p: "case fst (run_state (Middleware demo_env demo_cfg demo_bearer) new_world) of
      Rejected _ \<Rightarrow> False | Passed ctx \<Rightarrow> snd (ClaimsFromContext ctx)" by code_simp
  then obtain ctx w' where run: "run_state (Middleware demo_env demo_cfg demo_bearer) new_world = (Passed ctx, w')"
    and "snd (ClaimsFromContext ctx)" by (auto split: verdict.splits) (metis prod.collapse)
  moreover have "extractBearer demo_env demo_bearer = ''a.b.c''" "\<not> IsGating (env_unicode demo_env) (cfg_Mode demo_cfg)"
    "cfg_Audience demo_cfg = []" by code_simp+
  ultimately show ?thesis
    using middleware_sound [OF demo_keyset_sound demo_reachable run]
    by (auto split: prod.splits option.splits)
qed

section \<open>The broker's own bearer tokens\<close>

text \<open>The answer of the middleware to a validated token.\<close>

lemma Middleware_eq:
  assumes "extractBearer E r = token" "token \<noteq> []" "run_state (unwrap_token E cfg token) w = (inner, w1)"
  shows "fst (run_state (Middleware E cfg r) w) =
    (case fst (run_state (Validate E cfg inner) w1) of
       Inl err \<Rightarrow> Rejected (writeUnauthorized E cfg r err)
     | Inr mc \<Rightarrow> Passed \<lparr>ctx_rawToken = Some token, ctx_claims = (case mc of None \<Rightarrow> None | Some c \<Rightarrow> Some (Some c))\<rparr>)"
  using assms
  by (simp add: Middleware_def Let_def withRawToken_def withClaims_def empty_context_def
      split: prod.splits sum.splits option.splits)

lemma unwrap_own:
  assumes "jose_correct (env_jose E)" "IsGating (env_unicode E) (cfg_Mode cfg)" "cfg_SigningSecret cfg \<noteq> []"
    "encodeDownstreamAccessToken (env_jose E) n (cfg_SigningSecret cfg) idToken exp = Some bearer"
    "\<bar>Unix exp\<bar> < 2 ^ 53" "idToken \<noteq> []" "clean idToken = idToken"
  shows "run_state (unwrap_token E cfg bearer) w =
    (if Unix exp < Unix (env_clock E (w_tick w)) then bearer else idToken, w\<lparr>w_tick := Suc (w_tick w)\<rparr>)"
proof -
  have "(case decodeDownstreamAccessToken (env_jose E) (env_oor E) now (cfg_SigningSecret cfg) bearer of
      Inl _ \<Rightarrow> None | Inr x \<Rightarrow> Some x) = (if Unix exp < Unix now then None else Some idToken)" for now
    using downstream.decodes [OF assms(1), of "(idToken, exp)" "cfg_SigningSecret cfg" n bearer "env_oor E" now]
      assms(3-7) by (simp add: downstream_content)
  from this [of "env_clock E (w_tick w)"] show ?thesis
    using assms(2,3) by (auto simp: unwrap_token_def time_Now_def split: sum.splits if_splits)
qed

text \<open>C12. The bearer the token endpoint hands out in gating mode works as its identity token does until it
  expires, and not after. Up to and including the second of its expiry the middleware answers
  exactly as the validation of the identity token inside it says, and the next handler sees the
  bearer as the raw token; afterwards, a bearer with the five segments of a JWE is refused with
  an \<open>invalid_token\<close> challenge.\<close>

theorem own_bearer_accepted:
  assumes "jose_correct (env_jose E)" "IsGating (env_unicode E) (cfg_Mode cfg)" "cfg_SigningSecret cfg \<noteq> []"
    "encodeDownstreamAccessToken (env_jose E) n (cfg_SigningSecret cfg) idToken exp = Some bearer"
    "\<bar>Unix exp\<bar> < 2 ^ 53" "idToken \<noteq> []" "clean idToken = idToken"
    "extractBearer E r = bearer" "bearer \<noteq> []" "Count bearer (CHR ''.'') = 4"
  shows "fst (run_state (Middleware E cfg r) w) =
    (if Unix exp < Unix (env_clock E (w_tick w)) then Rejected (writeUnauthorized E cfg r ErrInvalidToken)
     else (case fst (run_state (Validate E cfg idToken) (w\<lparr>w_tick := Suc (w_tick w)\<rparr>)) of
        Inl err \<Rightarrow> Rejected (writeUnauthorized E cfg r err)
      | Inr mc \<Rightarrow> Passed \<lparr>ctx_rawToken = Some bearer, ctx_claims = (case mc of None \<Rightarrow> None | Some c \<Rightarrow> Some (Some c))\<rparr>))"
proof -
  have "fst (run_state (Validate E cfg bearer) w1) = Inl ErrInvalidToken" for w1
    using assms(2,9,10) by (simp add: Validate_def looksLikeJWT_def IsGating_def)
  then show ?thesis
    using Middleware_eq [OF assms(8,9) unwrap_own [OF assms(1-7)]] by simp
qed

text \<open>The transparent scheme with two separators, so that the token of the witness has five segments.\<close>

definition dotted_jose :: jose where
  "dotted_jose = plain_jose
    \<lparr>jose_encrypt := (\<lambda>n key kid p. if length key = 32 \<and> length kid = 2 then Some (kid @ key @ ''..'' @ p) else None),
     jose_decrypt := (\<lambda>key obj. if length key = 32 \<and> take 34 obj = key @ ''..'' then Some (drop 34 obj) else None)\<rparr>"

lemma dotted_jose_correct: "jose_correct dotted_jose"
  by (auto simp: jose_correct_def dotted_jose_def plain_jose_def jweKidV1_def)

definition demo_sealed :: env where
  "demo_sealed = demo_env\<lparr>env_jose := dotted_jose\<rparr>"

definition demo_own_bearer :: string where
  "demo_own_bearer = ''v1'' @ replicate 32 (chr (length hkdfInfoDownstreamToken)) @ ''..{'' @
     quoted ''exp'' @ '':1700000000,'' @ quoted ''upstream_id_token'' @ '':'' @ quoted ''a.b.c'' @ ''}''"

definition demo_own_request :: request where
  "demo_own_request = demo_request\<lparr>req_Header := [(''Authorization'', ''Bearer '' @ demo_own_bearer)]\<rparr>"

lemma demo_own:
  "encodeDownstreamAccessToken dotted_jose 0 ''secret'' ''a.b.c'' demo_time = Some demo_own_bearer"
  "extractBearer demo_sealed demo_own_request = demo_own_bearer" "Count demo_own_bearer (CHR ''.'') = 4"
  by code_simp+

theorem own_bearer_accepted_witness:
  "\<exists>c. fst (run_state (Middleware demo_sealed demo_gating demo_own_request) new_world) =
     Passed \<lparr>ctx_rawToken = Some demo_own_bearer, ctx_claims = Some (Some c)\<rparr>"
proof -
  have cfg: "IsGating (env_unicode demo_sealed) (cfg_Mode demo_gating)" "cfg_SigningSecret demo_gating = ''secret''" by code_simp+
  have J: "env_jose demo_sealed = dotted_jose" "\<And>n. env_clock demo_sealed n = demo_time"
    by (simp_all add: demo_sealed_def demo_env_def)
  have ne: "demo_own_bearer \<noteq> []" using demo_own(3) by (auto simp: Count_def)
  have v: "case fst (run_state (Validate demo_sealed demo_gating ''a.b.c'') (new_world\<lparr>w_tick := 1\<rparr>)) of
      Inr (Some _) \<Rightarrow> True | _ \<Rightarrow> False" by code_simp
  have t: "w_tick new_world = 0" "clean ''a.b.c'' = ''a.b.c''" by (simp_all add: new_world_def clean_ascii ascii_def)
  have "fst (run_state (Middleware demo_sealed demo_gating demo_own_request) new_world) =
    (case fst (run_state (Validate demo_sealed demo_gating ''a.b.c'') (new_world\<lparr>w_tick := 1\<rparr>)) of
        Inl err \<Rightarrow> Rejected (writeUnauthorized demo_sealed demo_gating demo_own_request err)
      | Inr mc \<Rightarrow> Passed \<lparr>ctx_rawToken = Some demo_own_bearer, ctx_claims = (case mc of None \<Rightarrow> None | Some c \<Rightarrow> Some (Some c))\<rparr>)"
    using own_bearer_accepted [of demo_sealed demo_gating 0 "''a.b.c''" demo_time demo_own_bearer demo_own_request new_world]
      cfg demo_own ne Unix_demo(2) t by (simp add: J dotted_jose_correct)
  with v show ?thesis by (auto split: sum.splits option.splits)
qed

section \<open>Where nothing is validated\<close>

text \<open>C40. Without issuer and key-set URL the middleware validates nothing. A token with two dots that is not
  one of the broker's own is passed on whatever its signature, in gating mode too, where an
  opaque token is refused; and \<open>New\<close> accepts such a configuration when the broker is active and
  both upstream endpoints are given.\<close>

theorem unconfigured_accepts_unsigned:
  assumes "TrimSpace (cfg_JWKSURL cfg) = []" "TrimSpace (cfg_Issuer cfg) = []"
    "looksLikeJWT (extractBearer E r)"
    "\<not> is_ok (decodeDownstreamAccessToken (env_jose E) (env_oor E) (env_clock E (w_tick w)) (cfg_SigningSecret cfg) (extractBearer E r))"
  shows "\<exists>w'. run_state (Middleware E cfg r) w =
    (Passed \<lparr>ctx_rawToken = Some (extractBearer E r), ctx_claims = None\<rparr>, w')"
proof -
  let ?t = "extractBearer E r"
  have ne: "?t \<noteq> []" using assms(3) by (auto simp: looksLikeJWT_def Count_def)
  obtain w1 where u: "run_state (unwrap_token E cfg ?t) w = (?t, w1)"
    using unwrap_token_cases [of E cfg ?t w] assms(4) by (metis is_ok.simps(2) surj_pair)
  have "fst (run_state (Validate E cfg ?t) w1) = Inr None" using assms ne by (simp add: Validate_def)
  with Middleware_eq [OF refl ne u] show ?thesis by (metis option.case(1) prod.collapse sum.case(2))
qed

definition demo_unconfigured :: config where
  "demo_unconfigured = demo_gating\<lparr>cfg_Issuer := [], cfg_JWKSURL := []\<rparr>"

theorem unconfigured_accepts_unsigned_witness:
  "IsGating demo_unicode (cfg_Mode demo_unconfigured) \<and>
   New demo_env demo_unconfigured = Inr (demo_unconfigured, new_world) \<and>
   (\<exists>w'. run_state (Middleware demo_env demo_unconfigured demo_bearer) new_world =
      (Passed \<lparr>ctx_rawToken = Some ''a.b.c'', ctx_claims = None\<rparr>, w'))"
proof -
  have "extractBearer demo_env demo_bearer = ''a.b.c''" "looksLikeJWT ''a.b.c''"
    "TrimSpace (cfg_JWKSURL demo_unconfigured) = []" "TrimSpace (cfg_Issuer demo_unconfigured) = []"
    "\<not> is_ok (decodeDownstreamAccessToken (env_jose demo_env) (env_oor demo_env) (env_clock demo_env (w_tick new_world))
       (cfg_SigningSecret demo_unconfigured) ''a.b.c'')" by code_simp+
  with unconfigured_accepts_unsigned [of demo_unconfigured demo_env demo_bearer new_world]
  have "\<exists>w'. run_state (Middleware demo_env demo_unconfigured demo_bearer) new_world =
      (Passed \<lparr>ctx_rawToken = Some ''a.b.c'', ctx_claims = None\<rparr>, w')" by simp
  moreover have "IsGating demo_unicode (cfg_Mode demo_unconfigured)" by code_simp
  moreover have "New demo_env demo_unconfigured = Inr (demo_unconfigured, new_world)"
    unfolding New_def by (simp add: demo_env_def) code_simp
  ultimately show ?thesis by blast
qed

section \<open>Routes\<close>

lemma uniquePaths_mem: "p \<in> set (uniquePaths ps) \<longleftrightarrow> p \<noteq> [] \<and> (\<exists>q \<in> set ps. p = normalizedPath q [])"
  by (auto simp: uniquePaths_eq)

lemma default_paths_normal:
  "normalizedPath defaultAuthorizationPath [] = defaultAuthorizationPath"
  "normalizedPath defaultCallbackPath [] = defaultCallbackPath"
  "normalizedPath defaultTokenPath [] = defaultTokenPath"
  by code_simp+

lemma default_paths_ne: "defaultAuthorizationPath \<noteq> []" "defaultCallbackPath \<noteq> []" "defaultTokenPath \<noteq> []"
  by code_simp+

lemma routes_flow:
  assumes "brokerActive U cfg" "p \<noteq> []"
  shows "p \<in> {normalizedPath (authorizationPath cfg) [], defaultAuthorizationPath} \<Longrightarrow> (p, Authorize) \<in> set (routes U cfg)"
    and "p \<in> {normalizedPath (callbackPath cfg) [], defaultCallbackPath} \<Longrightarrow> (p, Callback) \<in> set (routes U cfg)"
    and "p \<in> {normalizedPath (tokenPath cfg) [], defaultTokenPath} \<Longrightarrow> (p, Token) \<in> set (routes U cfg)"
  using assms by (auto simp: routes_def uniquePaths_mem default_paths_normal)

text \<open>C36. The route table. When registration succeeds with an active broker, every path has one endpoint, and
  the paths that the discovery document advertises, as well as the default ones, lead to the
  endpoints they are advertised as. Without a broker only the protected-resource metadata is
  served.\<close>

theorem routes_serve_advertised:
  assumes "RegisterRoutes U cfg = Some rs"
  shows "distinct (map fst rs) \<and>
    (if brokerActive U cfg then
       \<forall>(path, default, e) \<in> {(authorizationPath cfg, defaultAuthorizationPath, Authorize),
           (callbackPath cfg, defaultCallbackPath, Callback), (tokenPath cfg, defaultTokenPath, Token)}.
         map_of rs default = Some e \<and>
         (normalizedPath path [] \<noteq> [] \<longrightarrow>
          map_of rs (normalizedPath path []) = Some e \<and>
          (normalizedPath path [] \<noteq> ''/'' \<longrightarrow> joinURLPath base path = normalizeURL base @ normalizedPath path []))
     else rs = [(defaultProtectedResourceMetadataPath, ProtectedResourceMetadata)])"
proof -
  have rs: "rs = routes U cfg" "distinct (map fst (routes U cfg))"
    using assms by (auto simp: RegisterRoutes_def split: if_splits)
  show ?thesis
  proof (cases "brokerActive U cfg")
    case True
    have "map_of rs p = Some e" if "(p, e) \<in> set (routes U cfg)" for p e
      using that rs by simp
    with routes_flow [OF True] default_paths_ne rs True show ?thesis
      by (auto simp: joinURLPath_def)
  qed (use rs in \<open>simp add: routes_def\<close>)
qed

theorem routes_serve_advertised_witness:
  "\<exists>rs. RegisterRoutes demo_unicode (demo_cfg\<lparr>cfg_TokenPath := ''t''\<rparr>) = Some rs \<and> map_of rs ''/t'' = Some Token"
proof -
  let ?cfg = "demo_cfg\<lparr>cfg_TokenPath := ''t''\<rparr>"
  have a: "brokerActive demo_unicode ?cfg" "normalizedPath (tokenPath ?cfg) [] = ''/t''"
    "RegisterRoutes demo_unicode ?cfg \<noteq> None" by code_simp+
  then obtain rs where "RegisterRoutes demo_unicode ?cfg = Some rs" by auto
  with routes_serve_advertised [OF this] a show ?thesis by auto
qed

text \<open>Paths that collide. Validation does not look at the configured paths, and an authorization path equal
  to the default path of the token endpoint makes the registration of the routes panic.\<close>

theorem colliding_paths_panic:
  assumes "brokerActive U cfg" "Validate_config U cfg = Inr ()"
  shows "Validate_config U (cfg\<lparr>cfg_AuthorizationPath := defaultTokenPath\<rparr>) = Inr () \<and>
    RegisterRoutes U (cfg\<lparr>cfg_AuthorizationPath := defaultTokenPath\<rparr>) = None"
proof -
  let ?c = "cfg\<lparr>cfg_AuthorizationPath := defaultTokenPath\<rparr>"
  have b: "brokerActive U ?c" using assms(1) by (simp add: brokerActive_def Let_def)
  have "normalizedPath (normalizedPath defaultTokenPath defaultAuthorizationPath) [] = defaultTokenPath" by code_simp
  then have "normalizedPath (authorizationPath ?c) [] = defaultTokenPath" by (simp add: authorizationPath_def)
  with routes_flow(1,3) [OF b default_paths_ne(3)]
  have "(defaultTokenPath, Authorize) \<in> set (routes U ?c)" "(defaultTokenPath, Token) \<in> set (routes U ?c)" by simp_all
  then have "\<not> distinct (map fst (routes U ?c))"
    by (auto dest: eq_key_imp_eq_value)
  moreover have "Validate_config U ?c = Validate_config U cfg"
    unfolding Validate_config_def forbidden_settings_def Let_def by simp
  ultimately show ?thesis using assms(2) by (simp add: RegisterRoutes_def)
qed

theorem colliding_paths_panic_witness:
  "RegisterRoutes demo_unicode (demo_cfg\<lparr>cfg_AuthorizationPath := defaultTokenPath\<rparr>) = None"
proof -
  have "brokerActive demo_unicode demo_cfg" "Validate_config demo_unicode demo_cfg = Inr ()" by code_simp+
  from colliding_paths_panic [OF this] show ?thesis by simp
qed

end
