(* ===== verification/Oauth_Requests.thy ===== *)
theory Oauth_Requests
  imports Oauth_Middleware
begin

text \<open>
  How many requests the broker itself sends while it serves one: \<open>at_most n m\<close> bounds what a computation
  adds to the trace. Each phase has its bound, and the bounds add up along the handlers.
\<close>

definition at_most :: "nat \<Rightarrow> (world, 'a) state \<Rightarrow> bool" where
  "at_most n m \<longleftrightarrow> (\<forall>w. length (w_sent (snd (run_state m w))) \<le> length (w_sent w) + n)"

lemma at_most_return [inv_intros]: "at_most n (return a)"
  by (simp add: at_most_def)

lemma at_most_then:
  assumes "at_most a m" "a \<le> n" "\<And>x. at_most (n - a) (f x)"
  shows "at_most n (State_Monad.bind m f)"
  unfolding at_most_def
proof
  fix w
  obtain x w1 where 1: "run_state m w = (x, w1)" by fastforce
  with assms(1) have "length (w_sent w1) \<le> length (w_sent w) + a" unfolding at_most_def by (metis snd_conv)
  moreover have "length (w_sent (snd (run_state (f x) w1))) \<le> length (w_sent w1) + (n - a)"
    using assms(3) unfolding at_most_def by blast
  ultimately show "length (w_sent (snd (run_state (State_Monad.bind m f) w))) \<le> length (w_sent w) + n"
    using 1 assms(2) by simp
qed

lemma at_most_mono: "at_most a m \<Longrightarrow> a \<le> n \<Longrightarrow> at_most n m"
  unfolding at_most_def by (meson add_left_mono order_trans)

lemma at_most_effects:
  "at_most 0 (time_Now E)" "at_most 0 (rand_Read E)" "at_most 0 nonce" "at_most 0 get_validator"
  "at_most 0 (put_validator v)" "at_most 0 panic"
  by (simp_all add: at_most_def io_simps)

lemma at_most_http: "at_most 1 (http_Get E u hs)" "at_most 1 (http_PostForm E u vs)"
  by (simp_all add: at_most_def http_Get_def http_PostForm_def io_simps)

lemma at_most_resolver_Do: "at_most 1 (resolver_Do E u)"
  by (auto simp: at_most_def resolver_Do_def Let_def split: option.splits prod.splits sum.splits)

text \<open>Steps that send nothing, and steps that may send one request.\<close>

lemmas free_steps = at_most_effects [THEN at_most_then, OF le0, simplified]
lemmas sending_steps = at_most_http [THEN at_most_then] at_most_resolver_Do [THEN at_most_then]

subsection \<open>Clients\<close>

lemma at_most_caches:
  "at_most 0 (cache_get k now)" "at_most 0 (cache_put k e now)"
  "at_most 0 (keyset_get u now)" "at_most 0 (keyset_put u ke)" "at_most 0 (keyset_invalidate u)"
  unfolding cache_get_def cache_put_def keyset_get_def keyset_put_def keyset_invalidate_def
  by (auto simp: at_most_def Let_def split: option.splits prod.splits)

lemmas cache_steps = at_most_caches [THEN at_most_then, OF le0, simplified]

lemma at_most_resolve: "at_most 1 (resolve E k)"
  unfolding resolve_def fetchAndValidate_def store_result_def Let_def
  by (auto intro!: inv_intros free_steps cache_steps sending_steps split: sum.split option.split)

lemma at_most_client_fetchJWKS: "at_most 1 (client_fetchJWKS E u)"
  unfolding client_fetchJWKS_def fetchJWKSUncached_def Let_def
  by (auto intro!: inv_intros free_steps cache_steps sending_steps split: sum.split option.split)

lemma at_most_verifyClientAssertion: "at_most 2 (verifyClientAssertion E client cid a aud)"
proof -
  note fetch = at_most_client_fetchJWKS [THEN at_most_then]
  have k: "at_most 2 (find_key E u hdr)" for u hdr
    unfolding find_key_def by (auto intro!: inv_intros fetch cache_steps split: sum.split option.split)
  show ?thesis
    unfolding verifyClientAssertion_def verify_with_key_def
    by (auto intro!: inv_intros k [THEN at_most_then] free_steps split: sum.split option.split list.split)
qed

lemma at_most_authenticate_client: "at_most 3 (authenticate_client E cfg r form)"
proof -
  have "at_most 2 (authenticate_method E cfg r form client)" for client
    unfolding authenticate_method_def Let_def
    by (auto intro!: inv_intros at_most_verifyClientAssertion [THEN at_most_then])
  note m = this [THEN at_most_then]
  show ?thesis
    unfolding authenticate_client_def
    by (auto intro!: inv_intros at_most_resolve [THEN at_most_then] m split: sum.split)
qed

subsection \<open>The provider\<close>

lemma at_most_discovery_loop: "at_most (length us) (discovery_loop E i us)"
proof (induction us)
  case (Cons u us)
  have "at_most (length us) (return r)" for r :: "(oauth_error, openIDConfiguration) result" by (rule at_most_return)
  with Cons show ?case
    by (auto intro!: inv_intros at_most_http(1) [THEN at_most_then] free_steps split: option.split)
qed (simp add: at_most_return)

lemma at_most_fetchOIDCDiscovery: "at_most 2 (fetchOIDCDiscovery E i)"
proof -
  have "length (oidc_candidates j) \<le> 2" for j by (simp add: oidc_candidates_def)
  then show ?thesis
    unfolding fetchOIDCDiscovery_def Let_def
    by (auto intro!: inv_intros at_most_then [where a = 0] at_most_mono [OF at_most_discovery_loop]
        at_most_effects)
qed

lemmas discovery_step = at_most_fetchOIDCDiscovery [THEN at_most_then]

lemma at_most_endpoints:
  "at_most 2 (resolveJWKSURL E cfg)" "at_most 2 (resolveUpstreamAuthURL E cfg)"
  "at_most 2 (resolveUpstreamTokenURL E cfg)" "at_most 2 (userinfo_url E cfg)"
  unfolding resolveJWKSURL_def resolveUpstreamAuthURL_def resolveUpstreamTokenURL_def userinfo_url_def
  by (auto intro!: inv_intros discovery_step)

lemma at_most_candidate_keys: "at_most 2 (candidate_keys E u kid)"
proof -
  have "at_most 1 (fetchJWKS E u)" for u
    unfolding fetchJWKS_def
    by (auto intro!: inv_intros free_steps sending_steps split: option.split)
  note fetch = this [THEN at_most_then]
  show ?thesis
    unfolding candidate_keys_def by (auto intro!: inv_intros fetch free_steps split: sum.split)
qed

lemma at_most_parseAndVerifyJWT: "at_most 4 (parseAndVerifyJWT E cfg t aud)"
  unfolding parseAndVerifyJWT_def
  by (auto intro!: inv_intros at_most_endpoints(1) [THEN at_most_then] at_most_candidate_keys [THEN at_most_then]
      split: sum.split option.split list.split)

lemma at_most_validation:
  "at_most 4 (Validate E cfg t)" "at_most 4 (ValidateUpstreamIdentityToken E cfg t aud)"
  unfolding Validate_def ValidateUpstreamIdentityToken_def applyClaimChecks_def Let_def
  by (auto intro!: inv_intros at_most_parseAndVerifyJWT [THEN at_most_then] at_most_then [where a = 0]
      at_most_effects split: sum.split)

subsection \<open>The handlers\<close>

lemma at_most_issue_token: "at_most 11 (issue_token E cfg issued tok)"
proof -
  have "at_most 3 (fetchUserInfo E cfg a)" for a
    unfolding fetchUserInfo_def
    by (auto intro!: inv_intros at_most_endpoints(4) [THEN at_most_then] at_most_http(1) [THEN at_most_then])
  note ui = this [THEN at_most_then]
  have i: "at_most 4 (identify E cfg tok)" for tok
    unfolding identify_def by (auto intro!: inv_intros at_most_validation(2) [THEN at_most_then] ui)
  have u: "at_most 7 (refreshUpstreamIDToken E cfg rt)" for rt
    unfolding refreshUpstreamIDToken_def
    by (auto intro!: inv_intros at_most_endpoints(3) [THEN at_most_then] at_most_http(2) [THEN at_most_then]
        at_most_validation(2) [THEN at_most_then] split: sum.split option.split)
  have n: "at_most 7 (maybeRefreshNearExpiredIDToken E cfg idt rt mc)" for idt rt mc
    unfolding maybeRefreshNearExpiredIDToken_def
    by (auto intro!: inv_intros free_steps u [THEN at_most_then] split: sum.split option.split prod.split)
  have f: "at_most 7 (refresh_phase E cfg tok mc)" for tok mc
    unfolding refresh_phase_def by (auto intro!: inv_intros n [THEN at_most_then])
  have "at_most 0 (mint_bearer E cfg tok mc)" for tok mc
    unfolding mint_bearer_def by (auto intro!: inv_intros free_steps)
  note m = this [THEN at_most_then, OF le0]
  show ?thesis
    unfolding issue_token_def
    by (auto intro!: inv_intros i [THEN at_most_then] f [THEN at_most_then] m free_steps split: sum.split prod.split)
qed

lemma at_most_handleToken: "at_most 17 (handleToken E cfg r)"
proof -
  have r: "at_most 0 (redeem_code E cfg form client)" for form client
    unfolding redeem_code_def by (auto intro!: inv_intros free_steps)
  have x: "at_most 3 (exchange_code E cfg r issued)" for issued
    unfolding exchange_code_def
    by (auto intro!: inv_intros at_most_endpoints(3) [THEN at_most_then] at_most_http(2) [THEN at_most_then]
        split: sum.split)
  have "at_most 17 (handleTokenAuthCode E cfg r form)" for form
    unfolding handleTokenAuthCode_def
    by (auto intro!: inv_intros at_most_authenticate_client [THEN at_most_then] r [THEN at_most_then]
        x [THEN at_most_then] at_most_mono [OF at_most_issue_token] split: sum.split)
  then show ?thesis unfolding handleToken_def by (auto intro!: inv_intros split: option.split)
qed

lemma at_most_authorize: "at_most 3 (handleAuthorize E cfg r)"
  unfolding handleAuthorize_def authorize_redirect_def Let_def
  by (auto intro!: inv_intros at_most_resolve [THEN at_most_then] free_steps at_most_endpoints(2) [THEN at_most_then]
      split: sum.split option.split)

lemma at_most_callback: "at_most 0 (handleCallback E cfg r)"
  unfolding handleCallback_def Let_def by (auto intro!: inv_intros free_steps split: option.split)

lemma at_most_Middleware: "at_most 4 (Middleware E cfg r)"
proof -
  have "at_most 0 (unwrap_token E cfg t)" for t
    unfolding unwrap_token_def by (auto intro!: inv_intros free_steps)
  note u = this [THEN at_most_then, OF le0]
  show ?thesis
    unfolding Middleware_def Let_def by (auto intro!: inv_intros u at_most_validation(1) [THEN at_most_then])
qed

text \<open>What serving an event may send.\<close>

fun request_budget :: "event \<Rightarrow> nat" where
  "request_budget (Endpoint Authorize r) = 3"
| "request_budget (Endpoint Token r) = 17"
| "request_budget (Endpoint _ r) = 0"
| "request_budget (Application r) = 4"

lemma at_most_serve: "at_most (request_budget ev) (serve E cfg ev)"
proof (cases ev)
  case (Endpoint e r)
  have "at_most (request_budget (Endpoint e r)) (handle E cfg e r)"
    using at_most_authorize at_most_callback at_most_handleToken by (cases e) (auto intro: at_most_return)
  then have "at_most (request_budget (Endpoint e r)) (withCORS (handle E cfg e) r)"
    unfolding withCORS_def by (auto intro!: inv_intros elim: at_most_then)
  then show ?thesis using Endpoint by (auto intro!: inv_intros elim: at_most_then)
next
  case (Application r)
  then show ?thesis by (auto intro!: inv_intros at_most_Middleware [THEN at_most_then])
qed

end
