(* ===== verification/Conc_Process.thy ===== *)
theory Conc_Process
  imports Oauth_Requests
begin

text \<open>
  Goroutines. \<open>net/http\<close> serves every request in a goroutine of its own, and all of them share the
  caches of the broker. A process is a computation cut into atomic actions: between two actions
  of one goroutine the others may take any number of theirs. An action touches the shared
  caches at most once, inside one section guarded by a mutex, or performs one request on the
  network; reading the clock or the random source may be joined to it. Shown here: the laws of
  processes, what holds of a pool of processes however their actions are interleaved, and that
  no schedule keeps a process running for more than its number of actions.
\<close>

subsection \<open>Processes\<close>

datatype ('w, 'a) proc = Ret 'a | Step "('w, ('w, 'a) proc) state"

text \<open>One action, and what is done with its result.\<close>

definition call :: "('w, 'b) state \<Rightarrow> ('b \<Rightarrow> ('w, 'a) proc) \<Rightarrow> ('w, 'a) proc" where
  "call m f = Step (do { b \<leftarrow> m; return (f b) })"

text \<open>A whole process, and what is done with its result.\<close>

primrec andThen :: "('w, 'b) proc \<Rightarrow> ('b \<Rightarrow> ('w, 'a) proc) \<Rightarrow> ('w, 'a) proc" where
  "andThen (Ret b) f = f b"
| "andThen (Step m) f = Step (map_state (\<lambda>p. andThen p f) m)"

text \<open>The process alone, without others in between.\<close>

primrec run :: "('w, 'a) proc \<Rightarrow> ('w, 'a) state" where
  "run (Ret a) = return a"
| "run (Step m) = do { p \<leftarrow> map_state run m; p }"

lemma run_map_state [simp]: "run_state (map_state f m) w = (case run_state m w of (a, w') \<Rightarrow> (f a, w'))"
  by (cases m) (simp add: map_prod_def)

lemma map_state_bind: "map_state f m = do { a \<leftarrow> m; return (f a) }"
  by (rule state_ext) (simp split: prod.split)

lemma run_call [simp]: "run (call m f) = do { b \<leftarrow> m; run (f b) }"
  by (simp add: call_def map_state_bind)

lemma andThen_call [simp]: "andThen (call m f) g = call m (\<lambda>b. andThen (f b) g)"
  by (simp add: call_def map_state_bind)

lemma run_andThen [simp]: "run (andThen p f) = do { b \<leftarrow> run p; run (f b) }"
proof (induction p)
  case (Step m)
  have "run_state (run (andThen (Step m) f)) w = run_state (do { b \<leftarrow> run (Step m); run (f b) }) w" for w
  proof -
    obtain p w' where m: "run_state m w = (p, w')" by fastforce
    then have "p \<in> set_state m" by (auto simp: set_state_iff)
    from Step.IH [OF this] m show ?thesis by simp
  qed
  then show ?case by (rule state_ext)
qed simp

subsection \<open>What holds under interference\<close>

text \<open>\<open>safe I p Q\<close>: every action of the process keeps \<open>I\<close>, in whatever state with \<open>I\<close> the others leave the
  world before it, and a result satisfies \<open>Q\<close>.\<close>

primrec safe :: "('w \<Rightarrow> bool) \<Rightarrow> ('w, 'a) proc \<Rightarrow> ('a \<Rightarrow> bool) \<Rightarrow> bool" where
  "safe I (Ret a) Q = Q a"
| "safe I (Step m) Q =
     (\<forall>w. I w \<longrightarrow> (case run_state (map_state (\<lambda>p. safe I p Q) m) w of (ok, w') \<Rightarrow> ok \<and> I w'))"

lemma safe_step:
  "safe I (Step m) Q \<Longrightarrow> I w \<Longrightarrow> run_state m w = (p, w') \<Longrightarrow> safe I p Q \<and> I w'"
  by auto

lemma safe_weaken: "safe I p Q \<Longrightarrow> (\<And>a. Q a \<Longrightarrow> R a) \<Longrightarrow> safe I p R"
proof (induction p)
  case (Step m)
  have "safe I p R \<and> I w'" if "I w" "run_state m w = (p, w')" for w p w'
  proof -
    from that(2) have "p \<in> set_state m" by (auto simp: set_state_iff)
    with Step that safe_step [OF Step.prems(1) that] show ?thesis by blast
  qed
  then show ?case by (auto split: prod.split)
qed simp

lemma safe_andThen:
  "safe I p R \<Longrightarrow> (\<And>b. R b \<Longrightarrow> safe I (f b) Q) \<Longrightarrow> safe I (andThen p f) Q"
proof (induction p)
  case (Step m)
  have "safe I (andThen p f) Q \<and> I w'" if "I w" "run_state m w = (p, w')" for w p w'
  proof -
    from that(2) have "p \<in> set_state m" by (auto simp: set_state_iff)
    with Step that safe_step [OF Step.prems(1) that] show ?thesis by blast
  qed
  then show ?case by (auto split: prod.split)
qed simp

subsection \<open>How many actions a process takes\<close>

text \<open>\<open>steps_within n p\<close>: the process ends after at most \<open>n\<close> actions of its own, whatever the others do
  in between.\<close>

primrec steps_within :: "('w, 'a) proc \<Rightarrow> nat \<Rightarrow> bool" where
  "steps_within (Ret a) n = True"
| "steps_within (Step m) n =
     (0 < n \<and> (\<forall>w. fst (run_state (map_state (\<lambda>p. steps_within p (n - 1)) m) w)))"

lemma steps_within_call: "0 < n \<Longrightarrow> (\<And>b. steps_within (f b) (n - 1)) \<Longrightarrow> steps_within (call m f) n"
  by (simp add: call_def split: prod.split)

lemma steps_within_step: "steps_within (Step m) n \<Longrightarrow> run_state m w = (p, w') \<Longrightarrow> 0 < n \<and> steps_within p (n - 1)"
  by (auto split: prod.splits)

lemma steps_within_mono: "steps_within p n \<Longrightarrow> n \<le> k \<Longrightarrow> steps_within p k"
proof (induction p arbitrary: n k)
  case (Step m)
  have "steps_within p (k - 1)" if "run_state m w = (p, w')" for w p w'
  proof -
    from that have "p \<in> set_state m" by (auto simp: set_state_iff)
    with Step.IH Step.prems(2) steps_within_step [OF Step.prems(1) that] show ?thesis by (meson diff_le_mono)
  qed
  moreover have "0 < k" using Step.prems by auto
  ultimately show ?case by (auto split: prod.split)
qed simp

lemma steps_within_andThen:
  "steps_within p a \<Longrightarrow> a \<le> n \<Longrightarrow> (\<And>b. steps_within (f b) (n - a)) \<Longrightarrow> steps_within (andThen p f) n"
proof (induction p arbitrary: a n)
  case (Ret b)
  then show ?case using steps_within_mono [of "f b" "n - a" n] by simp
next
  case (Step m)
  have "steps_within (andThen p f) (n - 1)" if "run_state m w = (p, w')" for w p w'
  proof -
    from that have "p \<in> set_state m" by (auto simp: set_state_iff)
    moreover have "n - 1 - (a - 1) = n - a" using Step.prems(2) steps_within_step [OF Step.prems(1) that] by simp
    ultimately show ?thesis
      using Step.IH [of p "a - 1" "n - 1"] Step.prems steps_within_step [OF Step.prems(1) that] by auto
  qed
  moreover have "0 < n" using Step.prems(1,2) by auto
  ultimately show ?case by (auto split: prod.split)
qed

subsection \<open>Pools\<close>

text \<open>A pool is the shared world and the processes in it, in the order of their arrival, each with the
  request it serves. A request may arrive at any time, and any process that has not ended may
  take its next action.\<close>

type_synonym ('r, 'w, 'a) pool = "'w \<times> ('r \<times> ('w, 'a) proc) list"

inductive pool_step :: "('r \<Rightarrow> ('w, 'a) proc) \<Rightarrow> ('r, 'w, 'a) pool \<Rightarrow> ('r, 'w, 'a) pool \<Rightarrow> bool"
  for serves :: "'r \<Rightarrow> ('w, 'a) proc" where
  arrive: "pool_step serves (w, ps) (w, ps @ [(r, serves r)])"
| act: "i < length ps \<Longrightarrow> ps ! i = (r, Step m) \<Longrightarrow> run_state m w = (p, w') \<Longrightarrow>
    pool_step serves (w, ps) (w', ps[i := (r, p)])"

text \<open>A schedule is the list of what happens next: a request arrives, or the process at a place is given
  its turn.\<close>

datatype 'r turn = Arrive 'r | Turn nat

fun take_turn :: "('r \<Rightarrow> ('w, 'a) proc) \<Rightarrow> 'r turn \<Rightarrow> ('r, 'w, 'a) pool \<Rightarrow> ('r, 'w, 'a) pool" where
  "take_turn serves (Arrive r) (w, ps) = (w, ps @ [(r, serves r)])"
| "take_turn serves (Turn i) (w, ps) =
    (if i < length ps then
       (case ps ! i of
          (r, Ret a) \<Rightarrow> (w, ps)
        | (r, Step m) \<Rightarrow> (case run_state m w of (p, w') \<Rightarrow> (w', ps[i := (r, p)])))
     else (w, ps))"

definition schedule :: "('r \<Rightarrow> ('w, 'a) proc) \<Rightarrow> 'r turn list \<Rightarrow> 'w \<Rightarrow> ('r, 'w, 'a) pool" where
  "schedule serves turns w = fold (take_turn serves) turns (w, [])"

lemma take_turn_step: "(pool_step serves)\<^sup>*\<^sup>* pool (take_turn serves t pool)"
proof (cases "(serves, t, pool)" rule: take_turn.cases)
  case (1 serves r w ps)
  then show ?thesis by (auto intro: pool_step.arrive)
next
  case (2 serves i w ps)
  then show ?thesis by (auto split: prod.split proc.split intro: pool_step.act)
qed

lemma step_take_turn: "pool_step serves pool pool' \<Longrightarrow> \<exists>t. take_turn serves t pool = pool'"
proof (induction rule: pool_step.induct)
  case (arrive w ps r)
  then show ?case by (intro exI [of _ "Arrive r"]) simp
next
  case (act i ps r m w p w')
  then show ?case by (intro exI [of _ "Turn i"]) simp
qed

lemma fold_take_turn: "(pool_step serves)\<^sup>*\<^sup>* pool (fold (take_turn serves) ts pool)"
proof (induction ts arbitrary: pool)
  case (Cons t ts)
  show ?case using rtranclp_trans [OF take_turn_step Cons.IH] by simp
qed simp

text \<open>The schedules reach exactly the pools that the steps reach.\<close>

lemma schedule_iff_steps:
  "(pool_step serves)\<^sup>*\<^sup>* (w, []) pool \<longleftrightarrow> (\<exists>ts. schedule serves ts w = pool)"
proof
  assume "(pool_step serves)\<^sup>*\<^sup>* (w, []) pool"
  then show "\<exists>ts. schedule serves ts w = pool"
  proof (induction rule: rtranclp_induct)
    case base
    show ?case by (rule exI [of _ "[]"]) (simp add: schedule_def)
  next
    case (step pool pool')
    then obtain ts t where "schedule serves ts w = pool" "take_turn serves t pool = pool'"
      using step_take_turn by blast
    then show ?case by (intro exI [of _ "ts @ [t]"]) (simp add: schedule_def)
  qed
qed (auto simp: schedule_def fold_take_turn)

text \<open>A process that is given as many turns as it has actions has ended.\<close>

lemma turns_finish:
  assumes "i < length ps" "ps ! i = (r, p)" "steps_within p n" "n \<le> length (filter (\<lambda>t. t = Turn i) ts)"
  shows "\<exists>w' ps' a. fold (take_turn serves) ts (w, ps) = (w', ps') \<and> i < length ps' \<and> ps' ! i = (r, Ret a)"
  using assms
proof (induction ts arbitrary: w ps p n)
  case Nil
  then show ?case by (cases p) auto
next
  case (Cons t ts)
  obtain w1 ps1 where 1: "take_turn serves t (w, ps) = (w1, ps1)" by fastforce
  show ?case
  proof (cases "t = Turn i")
    case True
    show ?thesis
    proof (cases p)
      case (Ret a)
      then show ?thesis using Cons.IH [of ps p 0 w] Cons.prems True by simp
    next
      case (Step m)
      obtain p' w' where m: "run_state m w = (p', w')" by fastforce
      note s = steps_within_step [OF Cons.prems(3) [unfolded Step] m]
      show ?thesis
        using Cons.IH [of "ps[i := (r, p')]" p' "n - 1" w'] Cons.prems True Step m s by auto
    qed
  next
    case False
    with 1 Cons.prems(1,2) have "i < length ps1 \<and> ps1 ! i = (r, p)"
      by (cases t) (auto simp: nth_append split: if_splits prod.splits proc.splits)
    then show ?thesis using Cons.IH [of ps1 p n w1] Cons.prems 1 False by simp
  qed
qed

text \<open>A contract of the requests: an invariant every action of every process of an admitted request keeps,
  and what is promised of the answers.\<close>

locale contract =
  fixes I :: "'w \<Rightarrow> bool" and serves :: "'r \<Rightarrow> ('w, 'a) proc" and admits :: "'r \<Rightarrow> bool"
    and promise :: "'r \<Rightarrow> 'a \<Rightarrow> bool"
  assumes kept: "admits r \<Longrightarrow> safe I (serves r) (promise r)"
begin

definition pool_inv :: "('r, 'w, 'a) pool \<Rightarrow> bool" where
  "pool_inv pool \<longleftrightarrow> (case pool of (w, ps) \<Rightarrow> I w \<and> (\<forall>(r, p) \<in> set ps. safe I p (promise r)))"

lemma pool_inv_turn:
  assumes "pool_inv (w, ps)" "\<And>r. t = Arrive r \<Longrightarrow> admits r"
  shows "pool_inv (take_turn serves t (w, ps))"
proof (cases t)
  case (Arrive r)
  with assms kept show ?thesis by (auto simp: pool_inv_def)
next
  case (Turn i)
  show ?thesis
  proof (cases "i < length ps \<and> (\<exists>r m. ps ! i = (r, Step m))")
    case True
    then obtain r m p w' where m: "ps ! i = (r, Step m)" "i < length ps" "run_state m w = (p, w')"
      by (metis prod.collapse)
    then have "(r, Step m) \<in> set ps" by (metis nth_mem)
    with assms(1) have "safe I (Step m) (promise r)" "I w" unfolding pool_inv_def by blast+
    from safe_step [OF this m(3)] assms(1) m Turn show ?thesis
      by (auto simp: pool_inv_def dest!: set_update_subset_insert [THEN subsetD])
  next
    case False
    with Turn assms(1) show ?thesis by (auto split: prod.split proc.split)
  qed
qed

text \<open>However the processes interleave: the invariant holds, and every answer is as promised.\<close>

lemma answers_kept:
  assumes "schedule serves ts w0 = (w, ps)" "I w0" "\<And>r. Arrive r \<in> set ts \<Longrightarrow> admits r"
  shows "I w" and "(r, Ret a) \<in> set ps \<Longrightarrow> promise r a"
proof -
  have "pool_inv (fold (take_turn serves) ts pool)" if "pool_inv pool" for pool
    using that assms(3)
  proof (induction ts arbitrary: pool)
    case (Cons t ts)
    obtain w ps where "pool = (w, ps)" by fastforce
    with Cons.prems pool_inv_turn [of w ps t] have "pool_inv (take_turn serves t pool)" by auto
    with Cons show ?case by simp
  qed simp
  moreover have "pool_inv (w0, [])" using assms(2) by (simp add: pool_inv_def)
  ultimately have "pool_inv (w, ps)" using assms(1) unfolding schedule_def by metis
  then have inv: "I w" "\<forall>(r, p) \<in> set ps. safe I p (promise r)" by (simp_all add: pool_inv_def)
  show "I w" by (rule inv(1))
  show "promise r a" if "(r, Ret a) \<in> set ps" using inv(2) that by fastforce
qed

end

end
