(* ===== verification/Conc_Server.thy ===== *)
theory Conc_Server
  imports Conc_Process
begin

text \<open>
  The handlers as processes. The definitions follow the same sources as their sequential namesakes, with
  the points made explicit at which other requests can get in between: before and after every
  section under \<open>oidcMu\<close>, \<open>jwksMu\<close> or the mutex of a client cache, and before and after every
  request on the network. Code without such points is an action as it stands. Shown here: a
  process that runs alone computes what the sequential definition computes.
\<close>

named_theorems run_alone \<open>a process alone is the sequential computation\<close>

lemmas run_cases = option.case_distrib [where h = run] sum.case_distrib [where h = run] prod.case_distrib [where h = run]
  list.case_distrib [where h = run] if_distrib [where f = run]

lemmas run_congs = option.case_cong sum.case_cong prod.case_cong list.case_cong if_cong

subsection \<open>Clients (cimd.go, client\_assertion.go)\<close>

definition store_result_proc ::
  "env \<Rightarrow> string \<Rightarrow> (cimd_error, registeredClient \<times> int) result \<Rightarrow>
   (world, (cimd_error, registeredClient) result) proc" where
  "store_result_proc E clientIDURL res =
    call (time_Now E) (\<lambda>now.
    case res of
      Inl err \<Rightarrow>
        if negative_cached err
        then call (cache_put clientIDURL
          \<lparr>ce_client = None, ce_err = Some err, ce_expiresAt = now + cimdNegativeCacheTTL\<rparr> now) (\<lambda>_. Ret (Inl err))
        else Ret (Inl err)
    | Inr (client, ttl) \<Rightarrow>
        if 0 < ttl
        then call (cache_put clientIDURL
          \<lparr>ce_client = Some client, ce_err = None, ce_expiresAt = now + ttl\<rparr> now) (\<lambda>_. Ret (Inr client))
        else Ret (Inr client))"

lemma run_store_result [run_alone]: "run (store_result_proc E k res) = store_result E k res"
  by (simp add: store_result_proc_def store_result_def run_cases if_distrib [where f = "\<lambda>m. State_Monad.bind m f" for f]
      cong: run_congs)

definition resolve_proc :: "env \<Rightarrow> string \<Rightarrow> (world, (cimd_error, registeredClient) result) proc" where
  "resolve_proc E clientIDURL =
    (case validateCIMDClientIDURL E clientIDURL of
       Inl err \<Rightarrow>
         call (time_Now E) (\<lambda>t.
         call (time_Now E) (\<lambda>now.
         call (cache_put clientIDURL
           \<lparr>ce_client = None, ce_err = Some err, ce_expiresAt = t + cimdNegativeCacheTTL\<rparr> now) (\<lambda>_.
         Ret (Inl err))))
     | Inr _ \<Rightarrow>
         call (time_Now E) (\<lambda>now.
         call (cache_get clientIDURL now) (\<lambda>hit.
         case hit of
           Some e \<Rightarrow>
             (case ce_err e of
                Some err \<Rightarrow> Ret (Inl err)
              | None \<Rightarrow>
                (case ce_client e of
                   Some client \<Rightarrow> Ret (Inr client)
                 | None \<Rightarrow> call panic (\<lambda>_. Ret (Inl (errCIMDFetch ''nil client'')))))
         | None \<Rightarrow>
             call (fetchAndValidate E clientIDURL) (\<lambda>res. store_result_proc E clientIDURL res))))"

lemma run_resolve [run_alone]: "run (resolve_proc E k) = resolve E k"
  by (simp add: resolve_proc_def resolve_def run_cases run_alone cong: run_congs)

definition client_fetchJWKS_proc :: "env \<Rightarrow> string \<Rightarrow> (world, (cimd_error, jwk list option) result) proc" where
  "client_fetchJWKS_proc E jwksURI =
    call (time_Now E) (\<lambda>t.
    call (keyset_get jwksURI t) (\<lambda>hit.
    case hit of
      Some e \<Rightarrow> Ret (case je_err e of Some err \<Rightarrow> Inl err | None \<Rightarrow> Inr (je_keys e))
    | None \<Rightarrow>
        call (fetchJWKSUncached E jwksURI) (\<lambda>res.
        call (time_Now E) (\<lambda>now.
        case res of
          Inl err \<Rightarrow> Ret (Inl err)
        | Inr (keys, ttl) \<Rightarrow>
            if 0 < ttl
            then call (keyset_put jwksURI \<lparr>je_keys = Some keys, je_err = None, je_expiresAt = now + ttl\<rparr>) (\<lambda>_.
              Ret (Inr (Some keys)))
            else Ret (Inr (Some keys))))))"

lemma run_client_fetchJWKS [run_alone]: "run (client_fetchJWKS_proc E u) = client_fetchJWKS E u"
  by (simp add: client_fetchJWKS_proc_def client_fetchJWKS_def run_cases if_distrib [where f = "\<lambda>m. State_Monad.bind m f" for f]
      cong: run_congs)

definition find_key_proc :: "env \<Rightarrow> string \<Rightarrow> jws_header \<Rightarrow> (world, (cimd_error, jwk) result) proc" where
  "find_key_proc E jwksURI hdr =
    andThen (client_fetchJWKS_proc E jwksURI) (\<lambda>r.
    case r of
      Inl err \<Rightarrow> Ret (Inl (errClientAssertionInvalid ''jwks unavailable''))
    | Inr keys \<Rightarrow>
      (case selectJWK keys (hdr_KeyID hdr) (hdr_Algorithm hdr) of
         Some k \<Rightarrow> Ret (Inr k)
       | None \<Rightarrow>
           call (keyset_invalidate jwksURI) (\<lambda>_.
           andThen (client_fetchJWKS_proc E jwksURI) (\<lambda>r'.
           Ret (case r' of
             Inl err \<Rightarrow> Inl (errClientAssertionInvalid ''jwks unavailable'')
           | Inr keys' \<Rightarrow>
             (case selectJWK keys' (hdr_KeyID hdr) (hdr_Algorithm hdr) of
                Some k \<Rightarrow> Inr k
              | None \<Rightarrow> Inl (errClientAssertionInvalid ''no matching key'')))))))"

lemma run_find_key [run_alone]: "run (find_key_proc E u hdr) = find_key E u hdr"
  by (simp add: find_key_proc_def find_key_def run_cases run_alone cong: run_congs)

definition verifyClientAssertion_proc ::
  "env \<Rightarrow> registeredClient \<Rightarrow> string \<Rightarrow> string \<Rightarrow> string \<Rightarrow> (world, (cimd_error, unit) result) proc" where
  "verifyClientAssertion_proc E client clientID assertion expectedAud =
    (if rc_JWKSURI client = [] then Ret (Inl (errClientAssertionInvalid ''client did not publish jwks_uri''))
     else if assertion = [] then Ret (Inl (errClientAssertionInvalid ''missing client_assertion''))
     else case env_ParseSigned E clientAssertionAlgs assertion of
       None \<Rightarrow> Ret (Inl (errClientAssertionInvalid ''parse''))
     | Some [hdr] \<Rightarrow>
         andThen (find_key_proc E (rc_JWKSURI client) hdr) (\<lambda>r.
         case r of
           Inl err \<Rightarrow> Ret (Inl err)
         | Inr k \<Rightarrow> call (verify_with_key E clientID assertion expectedAud k) (\<lambda>v. Ret v))
     | Some _ \<Rightarrow> Ret (Inl (errClientAssertionInvalid ''expected exactly one JWS signature'')))"

lemma run_verifyClientAssertion [run_alone]:
  "run (verifyClientAssertion_proc E c cid a aud) = verifyClientAssertion E c cid a aud"
  by (simp add: verifyClientAssertion_proc_def verifyClientAssertion_def run_cases run_alone cong: run_congs)

subsection \<open>The validator (validator.go)\<close>

text \<open>The sections under \<open>oidcMu\<close> and \<open>jwksMu\<close>.\<close>

definition oidc_lookup :: "env \<Rightarrow> string \<Rightarrow> (world, openIDConfiguration option) state" where
  "oidc_lookup E issuer = do {
     v \<leftarrow> get_validator;
     fresh \<leftarrow> (if v_oidcURL v = issuer \<and> v_oidcTime v \<noteq> zero_time then do {
                 now \<leftarrow> time_Now E;
                 return (now < v_oidcTime v + defaultJWKSCacheTTL \<and> oc_Issuer (v_oidcCache v) \<noteq> [])
               } else return False);
     return (if fresh then Some (v_oidcCache v) else None)
   }"

definition oidc_store :: "env \<Rightarrow> string \<Rightarrow> openIDConfiguration \<Rightarrow> (world, unit) state" where
  "oidc_store E issuer d = do {
     now \<leftarrow> time_Now E;
     v \<leftarrow> get_validator;
     put_validator (v\<lparr>v_oidcCache := d, v_oidcURL := issuer, v_oidcTime := now\<rparr>)
   }"

definition jwks_lookup :: "string \<Rightarrow> int \<Rightarrow> (world, jwk list option) state" where
  "jwks_lookup jwksURI now = do {
     v \<leftarrow> get_validator;
     return (if 0 < length (v_jwks v) \<and> v_jwksURL v = jwksURI \<and> now < v_jwksTime v + defaultJWKSCacheTTL
             then Some (v_jwks v) else None)
   }"

definition jwks_store :: "string \<Rightarrow> int \<Rightarrow> jwk list \<Rightarrow> (world, unit) state" where
  "jwks_store jwksURI now keySet = do {
     v \<leftarrow> get_validator;
     put_validator (v\<lparr>v_jwks := keySet, v_jwksURL := jwksURI, v_jwksTime := now\<rparr>)
   }"

definition jwks_expire :: "(world, unit) state" where
  "jwks_expire = do {
     v \<leftarrow> get_validator;
     put_validator (v\<lparr>v_jwksTime := zero_time\<rparr>)
   }"

fun discovery_proc :: "env \<Rightarrow> string \<Rightarrow> string list \<Rightarrow> (world, (oauth_error, openIDConfiguration) result) proc" where
  "discovery_proc E issuer [] = Ret (Inl (ErrOther ''failed to discover openid configuration''))"
| "discovery_proc E issuer (u # us) =
    call (http_Get E u []) (\<lambda>r.
    case r of
      None \<Rightarrow> discovery_proc E issuer us
    | Some resp \<Rightarrow>
      (case read_limited maxOAuthResponseBytes resp of
         None \<Rightarrow> discovery_proc E issuer us
       | Some body \<Rightarrow>
         if 300 \<le> in_Status resp then discovery_proc E issuer us
         else case unmarshal_oidc E body of
           None \<Rightarrow> discovery_proc E issuer us
         | Some d \<Rightarrow> call (oidc_store E issuer d) (\<lambda>_. Ret (Inr d))))"

lemma run_discovery [run_alone]: "run (discovery_proc E i us) = discovery_loop E i us"
  by (induction us) (simp_all add: run_cases oidc_store_def cong: run_congs)

definition fetchOIDCDiscovery_proc :: "env \<Rightarrow> string \<Rightarrow> (world, (oauth_error, openIDConfiguration) result) proc" where
  "fetchOIDCDiscovery_proc E issuer0 =
    (let issuer = TrimRight (TrimSpace issuer0) (CHR ''/'') in
     if issuer = [] then Ret (Inl (ErrOther ''issuer required''))
     else
       call (oidc_lookup E issuer) (\<lambda>cached.
       case cached of
         Some d \<Rightarrow> Ret (Inr d)
       | None \<Rightarrow> discovery_proc E issuer (oidc_candidates issuer)))"

lemma run_fetchOIDCDiscovery [run_alone]: "run (fetchOIDCDiscovery_proc E i) = fetchOIDCDiscovery E i"
proof -
  have "do { c \<leftarrow> oidc_lookup E j; case c of Some d \<Rightarrow> return (Inr d) | None \<Rightarrow> m } =
    do { v \<leftarrow> get_validator;
         fresh \<leftarrow> (if v_oidcURL v = j \<and> v_oidcTime v \<noteq> zero_time then do {
                     now \<leftarrow> time_Now E;
                     return (now < v_oidcTime v + defaultJWKSCacheTTL \<and> oc_Issuer (v_oidcCache v) \<noteq> [])
                   } else return False);
         (if fresh then return (Inr (v_oidcCache v)) else m) }" for j and m :: "(world, (oauth_error, openIDConfiguration) result) state"
    unfolding oidc_lookup_def by (simp, intro arg_cong2 [where f = State_Monad.bind] refl ext) auto
  then show ?thesis by (simp add: fetchOIDCDiscovery_proc_def fetchOIDCDiscovery_def run_cases run_alone Let_def cong: run_congs)
qed

definition resolveJWKSURL_proc :: "env \<Rightarrow> config \<Rightarrow> (world, (oauth_error, string) result) proc" where
  "resolveJWKSURL_proc E cfg =
    (if TrimSpace (cfg_JWKSURL cfg) \<noteq> [] then Ret (Inr (TrimSpace (cfg_JWKSURL cfg)))
     else if TrimSpace (cfg_Issuer cfg) = []
     then Ret (Inl (ErrOther ''oauth: issuer or jwks_url must be configured''))
     else
       andThen (fetchOIDCDiscovery_proc E (TrimSpace (cfg_Issuer cfg))) (\<lambda>r.
       Ret (case r of
         Inl err \<Rightarrow> Inl err
       | Inr d \<Rightarrow>
         if TrimSpace (oc_JWKSURI d) = []
         then Inl (ErrOther ''openid discovery did not return jwks_uri'')
         else Inr (TrimSpace (oc_JWKSURI d)))))"

lemma run_resolveJWKSURL [run_alone]: "run (resolveJWKSURL_proc E cfg) = resolveJWKSURL E cfg"
  by (simp add: resolveJWKSURL_proc_def resolveJWKSURL_def run_alone)

definition fetchJWKS_proc :: "env \<Rightarrow> string \<Rightarrow> (world, (oauth_error, jwk list) result) proc" where
  "fetchJWKS_proc E jwksURI =
    call (time_Now E) (\<lambda>now.
    call (jwks_lookup jwksURI now) (\<lambda>cached.
    case cached of
      Some keySet \<Rightarrow> Ret (Inr keySet)
    | None \<Rightarrow>
        call (http_Get E jwksURI []) (\<lambda>r.
        case r of
          None \<Rightarrow> Ret (Inl (ErrOther ''fetch jwks''))
        | Some resp \<Rightarrow>
          (case read_limited maxOAuthResponseBytes resp of
             None \<Rightarrow> Ret (Inl (ErrOther ''read jwks''))
           | Some body \<Rightarrow>
             if 300 \<le> in_Status resp then Ret (Inl (ErrOther ''jwks endpoint returned status''))
             else case env_keyset E body of
               None \<Rightarrow> Ret (Inl (ErrOther ''parse jwks''))
             | Some keySet \<Rightarrow> call (jwks_store jwksURI now keySet) (\<lambda>_. Ret (Inr keySet))))))"

lemma run_fetchJWKS [run_alone]: "run (fetchJWKS_proc E u) = fetchJWKS E u"
proof -
  have "do { c \<leftarrow> jwks_lookup u now; case c of Some ks \<Rightarrow> return (Inr ks) | None \<Rightarrow> m } =
    do { v \<leftarrow> get_validator;
         (if 0 < length (v_jwks v) \<and> v_jwksURL v = u \<and> now < v_jwksTime v + defaultJWKSCacheTTL
          then return (Inr (v_jwks v)) else m) }" for now and m :: "(world, (oauth_error, jwk list) result) state"
    unfolding jwks_lookup_def by (simp, intro arg_cong2 [where f = State_Monad.bind] refl ext) auto
  then show ?thesis
    by (simp add: fetchJWKS_proc_def fetchJWKS_def run_cases jwks_store_def cong: run_congs)
qed

definition candidate_keys_proc :: "env \<Rightarrow> string \<Rightarrow> string \<Rightarrow> (world, (oauth_error, jwk list) result) proc" where
  "candidate_keys_proc E jwksURI keyID =
    andThen (fetchJWKS_proc E jwksURI) (\<lambda>r.
    case r of
      Inl err \<Rightarrow> Ret (Inl err)
    | Inr keySet \<Rightarrow>
      if keyID = [] then Ret (Inr keySet)
      else if 0 < length (env_keyset_Key E keySet keyID) then Ret (Inr (env_keyset_Key E keySet keyID))
      else
        call jwks_expire (\<lambda>_.
        andThen (fetchJWKS_proc E jwksURI) (\<lambda>r'.
        Ret (case r' of
          Inl err \<Rightarrow> Inl err
        | Inr keySet' \<Rightarrow>
          if length (env_keyset_Key E keySet' keyID) = 0 then Inl (ErrOther ''no JWK found for kid'')
          else Inr (env_keyset_Key E keySet' keyID)))))"

lemma run_candidate_keys [run_alone]: "run (candidate_keys_proc E u kid) = candidate_keys E u kid"
  by (simp add: candidate_keys_proc_def candidate_keys_def jwks_expire_def run_cases run_alone cong: run_congs)

definition parseAndVerifyJWT_proc ::
  "env \<Rightarrow> config \<Rightarrow> string \<Rightarrow> string \<Rightarrow> (world, (oauth_error, claims) result) proc" where
  "parseAndVerifyJWT_proc E cfg token expectedAudience =
    andThen (resolveJWKSURL_proc E cfg) (\<lambda>u.
    case u of
      Inl err \<Rightarrow> Ret (Inl err)
    | Inr jwksURI \<Rightarrow>
      (case env_ParseSigned E upstreamAlgs token of
         None \<Rightarrow> Ret (Inl (ErrOther ''parse signed JWT''))
       | Some [] \<Rightarrow> Ret (Inl (ErrOther ''missing JWT header''))
       | Some (hdr # _) \<Rightarrow>
           andThen (candidate_keys_proc E jwksURI (hdr_KeyID hdr)) (\<lambda>ks.
           Ret (case ks of
             Inl err \<Rightarrow> Inl err
           | Inr keys \<Rightarrow> verify_loop E cfg token expectedAudience False False keys))))"

lemma run_parseAndVerifyJWT [run_alone]:
  "run (parseAndVerifyJWT_proc E cfg t aud) = parseAndVerifyJWT E cfg t aud"
  by (simp add: parseAndVerifyJWT_proc_def parseAndVerifyJWT_def run_cases run_alone cong: run_congs)

definition ValidateUpstreamIdentityToken_proc ::
  "env \<Rightarrow> config \<Rightarrow> string \<Rightarrow> string \<Rightarrow> (world, (oauth_error, claims) result) proc" where
  "ValidateUpstreamIdentityToken_proc E cfg token expectedAudience =
    andThen (parseAndVerifyJWT_proc E cfg token expectedAudience) (\<lambda>r.
    Ret (case r of
      Inl err \<Rightarrow> Inl err
    | Inr c \<Rightarrow> (case applyIdentityPolicy E cfg c of Inl err \<Rightarrow> Inl err | Inr _ \<Rightarrow> Inr c)))"

lemma run_ValidateUpstreamIdentityToken [run_alone]:
  "run (ValidateUpstreamIdentityToken_proc E cfg t aud) = ValidateUpstreamIdentityToken E cfg t aud"
  by (simp add: ValidateUpstreamIdentityToken_proc_def ValidateUpstreamIdentityToken_def run_alone)

definition Validate_proc :: "env \<Rightarrow> config \<Rightarrow> string \<Rightarrow> (world, (oauth_error, claims option) result) proc" where
  "Validate_proc E cfg rawJWT =
    (if rawJWT = [] then Ret (Inl ErrMissingToken)
     else if \<not> looksLikeJWT rawJWT then
       Ret (if Normalize (env_unicode E) (cfg_Mode cfg) = ModeGating then Inl ErrInvalidToken else Inr None)
     else if TrimSpace (cfg_JWKSURL cfg) = [] \<and> TrimSpace (cfg_Issuer cfg) = [] then Ret (Inr None)
     else
       andThen (parseAndVerifyJWT_proc E cfg rawJWT (cfg_Audience cfg)) (\<lambda>r.
       case r of
         Inl err \<Rightarrow> Ret (Inl err)
       | Inr c \<Rightarrow>
           call (applyClaimChecks E cfg c) (\<lambda>r'.
           Ret (case r' of Inl err \<Rightarrow> Inl err | Inr c' \<Rightarrow> Inr (Some c')))))"

lemma run_Validate [run_alone]: "run (Validate_proc E cfg t) = Validate E cfg t"
  by (simp add: Validate_proc_def Validate_def run_cases run_alone cong: run_congs)

subsection \<open>Upstream endpoints and refresh (broker.go, refresh.go)\<close>

definition resolveUpstreamAuthURL_proc :: "env \<Rightarrow> config \<Rightarrow> (world, (oauth_error, string) result) proc" where
  "resolveUpstreamAuthURL_proc E cfg =
    (if TrimSpace (cfg_AuthURL cfg) \<noteq> [] then Ret (Inr (TrimSpace (cfg_AuthURL cfg)))
     else
       andThen (fetchOIDCDiscovery_proc E (TrimSpace (cfg_Issuer cfg))) (\<lambda>r.
       Ret (case r of
         Inl err \<Rightarrow> Inl err
       | Inr d \<Rightarrow>
         if TrimSpace (oc_AuthorizationEndpoint d) = []
         then Inl (ErrOther ''authorization endpoint is not configured or discoverable'')
         else Inr (TrimSpace (oc_AuthorizationEndpoint d)))))"

definition resolveUpstreamTokenURL_proc :: "env \<Rightarrow> config \<Rightarrow> (world, (oauth_error, string) result) proc" where
  "resolveUpstreamTokenURL_proc E cfg =
    (if TrimSpace (cfg_TokenURL cfg) \<noteq> [] then Ret (Inr (TrimSpace (cfg_TokenURL cfg)))
     else
       andThen (fetchOIDCDiscovery_proc E (TrimSpace (cfg_Issuer cfg))) (\<lambda>r.
       Ret (case r of
         Inl err \<Rightarrow> Inl err
       | Inr d \<Rightarrow>
         if TrimSpace (oc_TokenEndpoint d) = []
         then Inl (ErrOther ''token endpoint is not configured or discoverable'')
         else Inr (TrimSpace (oc_TokenEndpoint d)))))"

lemma run_resolveUpstream [run_alone]:
  "run (resolveUpstreamAuthURL_proc E cfg) = resolveUpstreamAuthURL E cfg"
  "run (resolveUpstreamTokenURL_proc E cfg) = resolveUpstreamTokenURL E cfg"
  by (simp_all add: resolveUpstreamAuthURL_proc_def resolveUpstreamAuthURL_def resolveUpstreamTokenURL_proc_def
      resolveUpstreamTokenURL_def run_alone)

definition refreshUpstreamIDToken_proc ::
  "env \<Rightarrow> config \<Rightarrow> string \<Rightarrow> (world, (oauth_error, string \<times> claims) result) proc" where
  "refreshUpstreamIDToken_proc E cfg refreshToken =
    andThen (resolveUpstreamTokenURL_proc E cfg) (\<lambda>u.
    case u of
      Inl err \<Rightarrow> Ret (Inl err)
    | Inr tokenURL \<Rightarrow>
        call (http_PostForm E tokenURL (refresh_form cfg refreshToken)) (\<lambda>r.
        case r of
          None \<Rightarrow> Ret (Inl (ErrOther ''post''))
        | Some resp \<Rightarrow>
          (case refresh_response E resp of
             Inl err \<Rightarrow> Ret (Inl err)
           | Inr idToken \<Rightarrow>
               andThen (ValidateUpstreamIdentityToken_proc E cfg idToken (cfg_ClientID cfg)) (\<lambda>v.
               Ret (case v of Inl err \<Rightarrow> Inl err | Inr c \<Rightarrow> Inr (idToken, c))))))"

lemma run_refreshUpstreamIDToken [run_alone]:
  "run (refreshUpstreamIDToken_proc E cfg rt) = refreshUpstreamIDToken E cfg rt"
  by (simp add: refreshUpstreamIDToken_proc_def refreshUpstreamIDToken_def run_cases run_alone cong: run_congs)

definition maybeRefreshNearExpiredIDToken_proc ::
  "env \<Rightarrow> config \<Rightarrow> string \<Rightarrow> string \<Rightarrow> claims option \<Rightarrow> (world, string \<times> claims option \<times> int) proc" where
  "maybeRefreshNearExpiredIDToken_proc E cfg idToken refreshToken mc =
    (case mc of
       None \<Rightarrow> Ret (idToken, mc, 0)
     | Some c \<Rightarrow>
       if refreshToken = [] \<or> cl_ExpiresAt c \<le> 0 then Ret (idToken, mc, 0)
       else
         call (time_Now E) (\<lambda>t.
         if brokerIDTokenRefreshThresholdSeconds \<le> wrap64 (cl_ExpiresAt c - Unix t) then Ret (idToken, mc, 0)
         else
           andThen (refreshUpstreamIDToken_proc E cfg refreshToken) (\<lambda>r.
           case r of
             Inl err \<Rightarrow> Ret (idToken, mc, 0)
           | Inr (fresh, freshClaims) \<Rightarrow>
               call (time_Now E) (\<lambda>logged.
               call (time_Now E) (\<lambda>now.
               Ret (fresh, Some freshClaims, wrap64 (wrap64 (cl_ExpiresAt freshClaims - Unix now) * second)))))))"

lemma run_maybeRefresh [run_alone]:
  "run (maybeRefreshNearExpiredIDToken_proc E cfg idt rt mc) = maybeRefreshNearExpiredIDToken E cfg idt rt mc"
  by (simp add: maybeRefreshNearExpiredIDToken_proc_def maybeRefreshNearExpiredIDToken_def run_cases run_alone
      cong: run_congs)

subsection \<open>/oauth/authorize and /oauth/token (broker.go)\<close>

definition authorize_redirect_proc :: "env \<Rightarrow> config \<Rightarrow> request \<Rightarrow> (world, response) proc" where
  "authorize_redirect_proc E cfg r =
    call (rand_Read E) (\<lambda>rnd.
    case newPKCEVerifier rnd of
      None \<Rightarrow> Ret (writeTokenError E 500 ''server_error'' ''failed to generate PKCE verifier'')
    | Some upstreamVerifier \<Rightarrow>
        call (time_Now E) (\<lambda>now.
        call nonce (\<lambda>n.
        case encodePendingAuth (env_jose E) n (cfg_SigningSecret cfg) (pending_of_request r upstreamVerifier now) of
          None \<Rightarrow> Ret (writeTokenError E 500 ''server_error'' ''failed to initialize OAuth state'')
        | Some stateJWE \<Rightarrow>
            andThen (resolveUpstreamAuthURL_proc E cfg) (\<lambda>u.
            Ret (case u of
              Inl _ \<Rightarrow> writeTokenError E 502 ''server_error'' ''failed to resolve upstream authorization endpoint''
            | Inr authURL \<Rightarrow>
              redirect r (authURL @ ''?'' @ Encode (upstream_params E cfg r stateJWE upstreamVerifier)))))))"

lemma run_authorize_redirect [run_alone]: "run (authorize_redirect_proc E cfg r) = authorize_redirect E cfg r"
  by (simp add: authorize_redirect_proc_def authorize_redirect_def run_cases run_alone cong: run_congs)

definition handleAuthorize_proc :: "env \<Rightarrow> config \<Rightarrow> request \<Rightarrow> (world, response) proc" where
  "handleAuthorize_proc E cfg r =
    (if req_Method r \<noteq> ''GET'' then Ret (writeTokenError E 405 ''invalid_request'' ''method not allowed'')
     else
       (let q = Query r; clientID = Get q ''client_id''; redirectURI = Get q ''redirect_uri'' in
        if clientID = [] \<or> redirectURI = [] \<or> Get q ''response_type'' \<noteq> ''code''
        then Ret (writeTokenError E 400 ''invalid_request'' ''missing client_id, redirect_uri, or response_type=code'')
        else
          andThen (resolve_proc E clientID) (\<lambda>c.
          case c of
            Inl err \<Rightarrow> Ret (writeTokenError E 400 ''invalid_client'' ''unknown OAuth client'')
          | Inr client \<Rightarrow>
            (case authorize_checks E cfg r client of
               Inl resp \<Rightarrow> Ret resp
             | Inr _ \<Rightarrow> authorize_redirect_proc E cfg r))))"

lemma run_handleAuthorize [run_alone]: "run (handleAuthorize_proc E cfg r) = handleAuthorize E cfg r"
  by (simp add: handleAuthorize_proc_def handleAuthorize_def run_cases run_alone Let_def cong: run_congs)

definition authenticate_method_proc ::
  "env \<Rightarrow> config \<Rightarrow> request \<Rightarrow> url_values \<Rightarrow> registeredClient \<Rightarrow> (world, (response, unit) result) proc" where
  "authenticate_method_proc E cfg r form client =
    (let clientID = Get form ''client_id''; assertion = Get form ''client_assertion'';
         assertionType = Get form ''client_assertion_type'' in
     if rc_TokenEndpointAuthMethod client = ''none'' then
       Ret (if assertion \<noteq> [] \<or> assertionType \<noteq> []
            then Inl (writeTokenError E 401 ''invalid_client'' ''client_assertion not accepted for public clients'')
            else Inr ())
     else if rc_TokenEndpointAuthMethod client = ''private_key_jwt'' then
       (if assertion \<noteq> [] \<or> assertionType \<noteq> [] then
          (if assertionType \<noteq> clientAssertionType
           then Ret (Inl (writeTokenError E 401 ''invalid_client'' ''client_assertion_type must be jwt-bearer''))
           else
             andThen (verifyClientAssertion_proc E client clientID assertion
               (joinURLPath (authServerBaseURL E cfg r) (tokenPath cfg))) (\<lambda>v.
             Ret (case v of
               Inl err \<Rightarrow> Inl (writeTokenError E 401 ''invalid_client'' ''client_assertion invalid'')
             | Inr _ \<Rightarrow> Inr ())))
        else Ret (Inr ()))
     else Ret (Inl (writeTokenError E 401 ''invalid_client'' ''unsupported client auth method'')))"

definition authenticate_client_proc ::
  "env \<Rightarrow> config \<Rightarrow> request \<Rightarrow> url_values \<Rightarrow> (world, (response, registeredClient) result) proc" where
  "authenticate_client_proc E cfg r form =
    (if Get form ''client_secret'' \<noteq> []
     then Ret (Inl (writeTokenError E 401 ''invalid_client'' ''client_secret authentication not supported''))
     else
       andThen (resolve_proc E (Get form ''client_id'')) (\<lambda>c.
       case c of
         Inl err \<Rightarrow> Ret (Inl (writeTokenError E 401 ''invalid_client'' ''unknown OAuth client''))
       | Inr client \<Rightarrow>
           andThen (authenticate_method_proc E cfg r form client) (\<lambda>a.
           Ret (case a of Inl resp \<Rightarrow> Inl resp | Inr _ \<Rightarrow> Inr client))))"

lemma run_authenticate [run_alone]:
  "run (authenticate_method_proc E cfg r form client) = authenticate_method E cfg r form client"
  "run (authenticate_client_proc E cfg r form) = authenticate_client E cfg r form"
proof -
  show 1: "run (authenticate_method_proc E cfg r form client) = authenticate_method E cfg r form client" for client
    by (simp add: authenticate_method_proc_def authenticate_method_def run_cases run_alone Let_def cong: run_congs)
  show "run (authenticate_client_proc E cfg r form) = authenticate_client E cfg r form"
    by (simp add: authenticate_client_proc_def authenticate_client_def run_cases run_alone 1 cong: run_congs)
qed

definition exchange_code_proc ::
  "env \<Rightarrow> config \<Rightarrow> request \<Rightarrow> issuedCode \<Rightarrow> (world, (response, token_response) result) proc" where
  "exchange_code_proc E cfg r issued =
    andThen (resolveUpstreamTokenURL_proc E cfg) (\<lambda>u.
    case u of
      Inl err \<Rightarrow> Ret (Inl (writeTokenError E 502 ''server_error'' ''failed to resolve upstream token endpoint''))
    | Inr tokenURL \<Rightarrow>
        call (http_PostForm E tokenURL (exchange_form E cfg r issued)) (\<lambda>resp.
        Ret (case resp of
          None \<Rightarrow> Inl (writeTokenError E 502 ''server_error'' ''upstream code exchange failed'')
        | Some upstreamResp \<Rightarrow> exchange_response E upstreamResp)))"

definition fetchUserInfo_proc :: "env \<Rightarrow> config \<Rightarrow> string \<Rightarrow> (world, (oauth_error, claims) result) proc" where
  "fetchUserInfo_proc E cfg accessToken =
    andThen
      (if TrimSpace (cfg_UserInfoURL cfg) \<noteq> [] then Ret (TrimSpace (cfg_UserInfoURL cfg))
       else
         andThen (fetchOIDCDiscovery_proc E (TrimSpace (cfg_Issuer cfg))) (\<lambda>d.
         Ret (case d of Inl _ \<Rightarrow> [] | Inr d' \<Rightarrow> oc_UserInfoEndpoint d'))) (\<lambda>u.
    if u = [] then Ret (Inl (ErrOther ''userinfo endpoint is not configured or discoverable''))
    else
      call (http_Get E u [(''Authorization'', ''Bearer '' @ accessToken)]) (\<lambda>resp.
      Ret (case resp of
        None \<Rightarrow> Inl (ErrOther ''userinfo request'')
      | Some resp' \<Rightarrow> userinfo_claims_of E cfg resp')))"

definition identify_proc :: "env \<Rightarrow> config \<Rightarrow> token_response \<Rightarrow> (world, (response, claims) result) proc" where
  "identify_proc E cfg tok =
    (if tr_IDToken tok \<noteq> [] then
       andThen (ValidateUpstreamIdentityToken_proc E cfg (tr_IDToken tok) (cfg_ClientID cfg)) (\<lambda>v.
       Ret (case v of
         Inl err \<Rightarrow> Inl (writeTokenError E 502 ''server_error'' ''failed to validate upstream identity token'')
       | Inr c \<Rightarrow> Inr c))
     else
       andThen (fetchUserInfo_proc E cfg (tr_AccessToken tok)) (\<lambda>v.
       Ret (case v of
         Inl err \<Rightarrow> Inl (writeTokenError E 502 ''server_error'' ''failed to validate upstream identity'')
       | Inr c \<Rightarrow> Inr c)))"

definition refresh_phase_proc ::
  "env \<Rightarrow> config \<Rightarrow> token_response \<Rightarrow> claims option \<Rightarrow> (world, token_response \<times> claims option) proc" where
  "refresh_phase_proc E cfg tok mc =
    (if tr_IDToken tok \<noteq> [] \<and> tr_RefreshToken tok \<noteq> [] then
       andThen (maybeRefreshNearExpiredIDToken_proc E cfg (tr_IDToken tok) (tr_RefreshToken tok) mc) (\<lambda>x.
       Ret (case x of
         (idToken, mc', freshDur) \<Rightarrow>
           (if 0 < freshDur
            then tok\<lparr>tr_IDToken := idToken, tr_ExpiresIn := freshDur div second\<rparr>
            else tok\<lparr>tr_IDToken := idToken\<rparr>, mc')))
     else Ret (tok, mc))"

lemma run_phases [run_alone]:
  "run (exchange_code_proc E cfg r issued) = exchange_code E cfg r issued"
  "run (identify_proc E cfg tok) = identify E cfg tok"
  "run (refresh_phase_proc E cfg tok mc) = refresh_phase E cfg tok mc"
proof -
  show "run (exchange_code_proc E cfg r issued) = exchange_code E cfg r issued"
    by (simp add: exchange_code_proc_def exchange_code_def run_cases run_alone cong: run_congs)
  have "run (fetchUserInfo_proc E cfg a) = fetchUserInfo E cfg a" for a
    by (simp add: fetchUserInfo_proc_def fetchUserInfo_def userinfo_url_def run_cases run_alone cong: run_congs)
  then show "run (identify_proc E cfg tok) = identify E cfg tok"
    by (simp add: identify_proc_def identify_def run_alone)
  show "run (refresh_phase_proc E cfg tok mc) = refresh_phase E cfg tok mc"
    by (simp add: refresh_phase_proc_def refresh_phase_def run_alone)
qed

definition issue_token_proc ::
  "env \<Rightarrow> config \<Rightarrow> issuedCode \<Rightarrow> token_response \<Rightarrow> (world, response) proc" where
  "issue_token_proc E cfg issued tok0 =
    andThen (identify_proc E cfg tok0) (\<lambda>i.
    case i of
      Inl resp \<Rightarrow> Ret resp
    | Inr c0 \<Rightarrow>
        andThen (refresh_phase_proc E cfg tok0 (Some c0)) (\<lambda>x.
        case x of
          (tok, mc) \<Rightarrow>
            call (mint_bearer E cfg tok mc) (\<lambda>b.
            case b of
              Inl resp \<Rightarrow> Ret resp
            | Inr bearer \<Rightarrow>
                call (time_Now E) (\<lambda>now.
                Ret (json_response 200 (token_body cfg tok issued bearer (expires_in E cfg tok mc now)))))))"

definition handleTokenAuthCode_proc :: "env \<Rightarrow> config \<Rightarrow> request \<Rightarrow> url_values \<Rightarrow> (world, response) proc" where
  "handleTokenAuthCode_proc E cfg r form =
    andThen (authenticate_client_proc E cfg r form) (\<lambda>c.
    case c of
      Inl resp \<Rightarrow> Ret resp
    | Inr client \<Rightarrow>
        call (redeem_code E cfg form client) (\<lambda>i.
        case i of
          Inl resp \<Rightarrow> Ret resp
        | Inr issued \<Rightarrow>
            andThen (exchange_code_proc E cfg r issued) (\<lambda>t.
            case t of
              Inl resp \<Rightarrow> Ret resp
            | Inr tok \<Rightarrow> issue_token_proc E cfg issued tok)))"

definition handleToken_proc :: "env \<Rightarrow> config \<Rightarrow> request \<Rightarrow> (world, response) proc" where
  "handleToken_proc E cfg r =
    (if req_Method r \<noteq> ''POST'' then Ret (writeTokenError E 405 ''invalid_request'' ''method not allowed'')
     else case ParseForm r of
       None \<Rightarrow> Ret (writeTokenError E 400 ''invalid_request'' ''invalid token request'')
     | Some form \<Rightarrow>
       if Get form ''grant_type'' = ''authorization_code'' then handleTokenAuthCode_proc E cfg r form
       else Ret (writeTokenError E 400 ''unsupported_grant_type'' ''unsupported grant type''))"

lemma run_handleToken [run_alone]: "run (handleToken_proc E cfg r) = handleToken E cfg r"
proof -
  have "run (issue_token_proc E cfg issued tok) = issue_token E cfg issued tok" for issued tok
    by (simp add: issue_token_proc_def issue_token_def run_cases run_alone cong: run_congs)
  then have "run (handleTokenAuthCode_proc E cfg r form) = handleTokenAuthCode E cfg r form" for form
    by (simp add: handleTokenAuthCode_proc_def handleTokenAuthCode_def run_cases run_alone cong: run_congs)
  then show ?thesis
    by (simp add: handleToken_proc_def handleToken_def run_cases cong: run_congs)
qed

subsection \<open>All requests (middleware.go, cors.go)\<close>

definition Middleware_proc :: "env \<Rightarrow> config \<Rightarrow> request \<Rightarrow> (world, verdict) proc" where
  "Middleware_proc E cfg r =
    (let token = extractBearer E r in
     if token = [] then Ret (Rejected (writeUnauthorized E cfg r ErrMissingToken))
     else
       call (unwrap_token E cfg token) (\<lambda>inner.
       andThen (Validate_proc E cfg inner) (\<lambda>v.
       Ret (case v of
         Inl err \<Rightarrow> Rejected (writeUnauthorized E cfg r err)
       | Inr mc \<Rightarrow>
         (let ctx = withRawToken empty_context token in
          Passed (case mc of None \<Rightarrow> ctx | Some c \<Rightarrow> withClaims ctx (Some c)))))))"

fun handle_proc :: "env \<Rightarrow> config \<Rightarrow> endpoint \<Rightarrow> request \<Rightarrow> (world, response) proc" where
  "handle_proc E cfg ProtectedResourceMetadata r = Ret (handleProtectedResourceMetadata E cfg r)"
| "handle_proc E cfg AuthorizationServerMetadata r = Ret (handleAuthorizationServerMetadata E cfg r)"
| "handle_proc E cfg OpenIDConfiguration r = Ret (handleOpenIDConfiguration E cfg r)"
| "handle_proc E cfg RegistrationRemoved r = Ret (handleRegistrationRemoved r)"
| "handle_proc E cfg Authorize r = handleAuthorize_proc E cfg r"
| "handle_proc E cfg Callback r = call (handleCallback E cfg r) (\<lambda>resp. Ret resp)"
| "handle_proc E cfg Token r = handleToken_proc E cfg r"

fun serve_proc :: "env \<Rightarrow> config \<Rightarrow> event \<Rightarrow> (world, outcome) proc" where
  "serve_proc E cfg (Endpoint e r) =
    (if req_Method r = ''OPTIONS''
     then Ret (Responded \<lparr>resp_Status = 204, resp_Header = corsHeaders, resp_Body = None\<rparr>)
     else
       andThen (handle_proc E cfg e r) (\<lambda>resp.
       Ret (Responded (resp\<lparr>resp_Header := corsHeaders @ resp_Header resp\<rparr>))))"
| "serve_proc E cfg (Application r) = andThen (Middleware_proc E cfg r) (\<lambda>v. Ret (Ruled v))"

lemma run_handle [run_alone]: "run (handle_proc E cfg e r) = handle E cfg e r"
  by (cases e) (simp_all add: run_alone)

lemma run_Middleware [run_alone]: "run (Middleware_proc E cfg r) = Middleware E cfg r"
  by (simp add: Middleware_proc_def Middleware_def run_cases run_alone Let_def cong: run_congs)

text \<open>A request served without interruption is served as in the sequential model.\<close>

lemma run_serve: "run (serve_proc E cfg ev) = serve E cfg ev"
  by (cases ev) (simp_all add: withCORS_def run_alone run_cases)

end
