(* ===== verification/Conc_Safety.thy ===== *)
theory Conc_Safety
  imports Conc_Server Oauth_Safety
begin

text \<open>
  What the handlers establish when other requests run between their actions. The locale
  \<open>shared_state\<close> is the interface: an invariant of the shared state, and what each action
  guarantees and relies on under it. The lemmas on the handlers are proved from that interface, so
  that no step between two actions of one request relies on what an earlier one found in a cache. The
  token requests that may arrive are a parameter: every exchange belongs to one of them.
\<close>

named_theorems safe_intros \<open>actions of a process under an invariant\<close>

lemma safe_call:
  "ensures I m R \<Longrightarrow> (\<And>b. R b \<Longrightarrow> safe I (f b) Q) \<Longrightarrow> safe I (call m f) Q"
  by (auto simp: call_def ensures_def split: prod.split)

lemma safe_Ret [safe_intros]: "Q a \<Longrightarrow> safe I (Ret a) Q"
  by simp

subsection \<open>What the caches may hold\<close>

definition doc_ok :: "env \<Rightarrow> string \<Rightarrow> (registeredClient, cimd_error) cimdCacheEntry \<Rightarrow> bool" where
  "doc_ok E k e \<longleftrightarrow> (ce_err e = None \<longrightarrow> (\<exists>c. ce_client e = Some c \<and> client_of E k c))"

definition keys_served :: "env \<Rightarrow> string \<Rightarrow> jwk list \<Rightarrow> bool" where
  "keys_served E u ks \<longleftrightarrow> (\<exists>n. keys_at E n u ks)"

definition keyset_ok :: "env \<Rightarrow> string \<Rightarrow> (jwk list, cimd_error) cimdJWKSCacheEntry \<Rightarrow> bool" where
  "keyset_ok E u e \<longleftrightarrow> (\<exists>ks. je_err e = None \<and> je_keys e = Some ks \<and> keys_served E u ks)"

text \<open>The form of an exchange that the checks of the token endpoint admit.\<close>

definition admitted :: "env \<Rightarrow> config \<Rightarrow> request \<Rightarrow> url_values \<Rightarrow> issuedCode \<Rightarrow> bool" where
  "admitted E cfg r form issued \<longleftrightarrow>
     (\<exists>client. client_of E (Get form ''client_id'') client \<and> credentials_ok E cfg r form client \<and>
        Get form ''redirect_uri'' \<in> set (rc_RedirectURIs client) \<and> redeemable E cfg form issued)"

subsection \<open>What the answers rest on\<close>

text \<open>The keys of a served set among which a token with this key identifier may be verified.\<close>

definition key_candidates :: "env \<Rightarrow> string \<Rightarrow> string \<Rightarrow> jwk list \<Rightarrow> bool" where
  "key_candidates E u kid keys \<longleftrightarrow>
     (\<exists>ks. keys_of E u ks \<and> (\<forall>k \<in> set keys. k \<in> set ks \<and> (kid \<noteq> [] \<longrightarrow> jwk_KeyID k = kid)))"

text \<open>What the claims attached to a request have shown.\<close>

definition claims_shown :: "env \<Rightarrow> config \<Rightarrow> string \<Rightarrow> claims \<Rightarrow> bool" where
  "claims_shown E cfg token c \<longleftrightarrow> vouched E cfg token (cfg_Audience cfg) c \<and> policy_ok E cfg c \<and>
     (\<exists>n. in_window (env_clock E n) c) \<and> set (cfg_RequiredScopes cfg) \<subseteq> set (cl_Scopes c)"

text \<open>An accepted authorization request, with its own random verifier, at whatever events others left
  for drawing it and for reading the clock.\<close>

definition sent_on :: "env \<Rightarrow> config \<Rightarrow> request \<Rightarrow> response \<Rightarrow> bool" where
  "sent_on E cfg r resp \<longleftrightarrow>
     (\<exists>authURL verifier st n k m.
        auth_endpoint E cfg authURL \<and> newPKCEVerifier (env_rand E m) = Some verifier \<and>
        encodePendingAuth (env_jose E) n (cfg_SigningSecret cfg) (pending_of_request r verifier (env_clock E k)) = Some st \<and>
        resp = redirect r (authURL @ ''?'' @ Encode (upstream_params E cfg r st verifier)))"

definition authorized :: "env \<Rightarrow> config \<Rightarrow> request \<Rightarrow> response \<Rightarrow> bool" where
  "authorized E cfg r resp \<longleftrightarrow>
     (\<exists>client. client_of E (Get (Query r) ''client_id'') client \<and> authorize_checks E cfg r client = Inr ()) \<and> sent_on E cfg r resp"

text \<open>A redirect of the callback rests on a state the broker decrypts under its own key in time.\<close>

definition called_back :: "env \<Rightarrow> config \<Rightarrow> request \<Rightarrow> response \<Rightarrow> bool" where
  "called_back E cfg r resp \<longleftrightarrow>
     (\<exists>p n k m code target.
        decodePendingAuth (env_jose E) (env_oor E) (env_clock E n) (cfg_SigningSecret cfg) (Get (Query r) ''state'') = Some p \<and>
        encodeAuthCode (env_jose E) m (cfg_SigningSecret cfg)
          (code_of_pending p (Get (Query r) ''code'') (env_clock E k)) = Some code \<and>
        callback_target p code = Some target \<and> resp = redirect r target)"

text \<open>The outcome of a validation that accepts: claims, or none where nothing is validated.\<close>

definition accepted :: "env \<Rightarrow> config \<Rightarrow> string \<Rightarrow> claims option \<Rightarrow> bool" where
  "accepted E cfg token mc \<longleftrightarrow>
     (case mc of
        None \<Rightarrow> \<not> looksLikeJWT token \<and> \<not> IsGating (env_unicode E) (cfg_Mode cfg) \<or>
               TrimSpace (cfg_JWKSURL cfg) = [] \<and> TrimSpace (cfg_Issuer cfg) = []
      | Some c \<Rightarrow> claims_shown E cfg token c)"

text \<open>The token a request carried, and the one validated in its place.\<close>

definition unwraps :: "env \<Rightarrow> config \<Rightarrow> string \<Rightarrow> string \<Rightarrow> bool" where
  "unwraps E cfg token inner \<longleftrightarrow>
     inner = token \<or>
     IsGating (env_unicode E) (cfg_Mode cfg) \<and>
     (\<exists>n. decodeDownstreamAccessToken (env_jose E) (env_oor E) (env_clock E n) (cfg_SigningSecret cfg) token = Inr inner)"

definition passed_on :: "env \<Rightarrow> config \<Rightarrow> request \<Rightarrow> req_context \<Rightarrow> bool" where
  "passed_on E cfg r ctx \<longleftrightarrow>
     (\<exists>inner mc. extractBearer E r \<noteq> [] \<and> RawTokenFromContext ctx = (extractBearer E r, True) \<and>
        unwraps E cfg (extractBearer E r) inner \<and> ClaimsFromContext ctx = (mc, mc \<noteq> None) \<and> accepted E cfg inner mc)"

text \<open>What a response of a handler rests on, and an answer of the server: the handler's response after
  the CORS headers.\<close>

fun handler_ok :: "env \<Rightarrow> config \<Rightarrow> endpoint \<Rightarrow> request \<Rightarrow> response \<Rightarrow> bool" where
  "handler_ok E cfg Token r resp =
    (resp_Status resp = 200 \<longrightarrow> (\<exists>form. ParseForm r = Some form \<and> token_granted E cfg r form resp))"
| "handler_ok E cfg Authorize r resp = (resp_Status resp = 302 \<longrightarrow> authorized E cfg r resp)"
| "handler_ok E cfg Callback r resp = (resp_Status resp = 302 \<longrightarrow> called_back E cfg r resp)"
| "handler_ok E cfg _ r resp = True"

fun answer_ok :: "env \<Rightarrow> config \<Rightarrow> event \<Rightarrow> outcome \<Rightarrow> bool" where
  "answer_ok E cfg (Endpoint e r) (Responded resp) =
    (\<exists>resp0. resp = resp0\<lparr>resp_Header := corsHeaders @ resp_Header resp0\<rparr> \<and> handler_ok E cfg e r resp0)"
| "answer_ok E cfg (Application r) (Ruled v) = (\<forall>ctx. v = Passed ctx \<longrightarrow> passed_on E cfg r ctx)"
| "answer_ok E cfg _ _ = False"

subsection \<open>The interface\<close>

locale shared_state =
  fixes I :: "world \<Rightarrow> bool" and E :: env and cfg :: config and submits :: "request \<Rightarrow> bool"
  assumes clock: "ensures I (time_Now E) (\<lambda>t. \<exists>n. t = env_clock E n)"
    and random: "ensures I (rand_Read E) (\<lambda>r. \<exists>n. r = env_rand E n)"
    and number: "ensures I nonce (\<lambda>_. True)"
    and doc_get: "ensures I (cache_get k now) (\<lambda>r. \<forall>e. r = Some e \<longrightarrow> doc_ok E k e)"
    and doc_put: "doc_ok E k e \<Longrightarrow> ensures I (cache_put k e now) (\<lambda>_. True)"
    and doc_fetch: "is_ok (validateCIMDClientIDURL E k) \<Longrightarrow>
      ensures I (fetchAndValidate E k) (\<lambda>r. \<forall>c ttl. r = Inr (c, ttl) \<longrightarrow> client_of E k c)"
    and keys_get: "ensures I (keyset_get u now) (\<lambda>r. \<forall>e. r = Some e \<longrightarrow> keyset_ok E u e)"
    and keys_put: "keyset_ok E u ke \<Longrightarrow> ensures I (keyset_put u ke) (\<lambda>_. True)"
    and keys_drop: "ensures I (keyset_invalidate u) (\<lambda>_. True)"
    and keys_fetch: "ensures I (fetchJWKSUncached E u) (\<lambda>r. \<forall>ks ttl. r = Inr (ks, ttl) \<longrightarrow> keys_served E u ks)"
    and discovery_get: "ensures I (oidc_lookup E i) (\<lambda>r. \<forall>d. r = Some d \<longrightarrow> discovered E i d)"
    and discovery_put: "discovered E i d \<Longrightarrow> ensures I (oidc_store E i d) (\<lambda>_. True)"
    and jwks_get: "ensures I (jwks_lookup u now) (\<lambda>r. \<forall>ks. r = Some ks \<longrightarrow> keys_of E u ks)"
    and jwks_put: "keys_of E u ks \<Longrightarrow> ensures I (jwks_store u now ks) (\<lambda>_. True)"
    and jwks_drop: "ensures I jwks_expire (\<lambda>_. True)"
    and provider_get: "ensures I (http_Get E u hs)
      (\<lambda>r. \<forall>resp. r = Some resp \<longrightarrow> (\<exists>n. env_http E n (HttpGet u hs) = Some resp))"
    and refresh_post: "token_url E cfg u \<Longrightarrow> ensures I (http_PostForm E u (refresh_form cfg rt))
      (\<lambda>x. \<forall>resp. x = Some resp \<longrightarrow> (\<exists>n. env_http E n (HttpPostForm u (refresh_form cfg rt)) = Some resp))"
    and exchange_post: "submits r \<Longrightarrow> ParseForm r = Some form \<Longrightarrow> admitted E cfg r form issued \<Longrightarrow> token_url E cfg u \<Longrightarrow>
      ensures I (http_PostForm E u (exchange_form E cfg r issued))
        (\<lambda>x. \<forall>resp. x = Some resp \<longrightarrow> (\<exists>n. env_http E n (HttpPostForm u (exchange_form E cfg r issued)) = Some resp))"
begin

lemmas clock_act = safe_call [OF clock]
lemmas provider_act = safe_call [OF provider_get]

subsection \<open>Clients\<close>

lemma resolve_safe: "safe I (resolve_proc E k) (\<lambda>r. \<forall>c. r = Inr c \<longrightarrow> client_of E k c)"
proof (cases "validateCIMDClientIDURL E k")
  case (Inl err)
  then show ?thesis
    by (auto simp: resolve_proc_def doc_ok_def intro!: safe_intros clock_act safe_call [OF doc_put])
next
  case (Inr u)
  have store: "safe I (store_result_proc E k res) (\<lambda>r. \<forall>c. r = Inr c \<longrightarrow> client_of E k c)"
    if "\<forall>c ttl. res = Inr (c, ttl) \<longrightarrow> client_of E k c" for res
    unfolding store_result_proc_def using that
    by (auto simp: doc_ok_def intro!: safe_intros clock_act safe_call [OF doc_put] split: sum.split)
  have "is_ok (validateCIMDClientIDURL E k)" using Inr by simp
  note fetch = safe_call [OF doc_fetch [OF this] store]
  show ?thesis
    unfolding resolve_proc_def Inr sum.case
    by (auto simp: doc_ok_def intro!: safe_intros clock_act safe_call [OF doc_get] fetch split: option.split)
qed

lemma client_fetchJWKS_safe:
  "safe I (client_fetchJWKS_proc E u) (\<lambda>r. \<forall>mk. r = Inr mk \<longrightarrow> (\<exists>ks. mk = Some ks \<and> keys_served E u ks))"
  unfolding client_fetchJWKS_proc_def
  by (auto simp: keyset_ok_def intro!: safe_intros clock_act safe_call [OF keys_get] safe_call [OF keys_fetch]
      safe_call [OF keys_put] split: option.split sum.split)

lemma find_key_safe:
  "safe I (find_key_proc E u hdr) (\<lambda>r. \<forall>k. r = Inr k \<longrightarrow> client_key E u hdr k)"
  unfolding find_key_proc_def client_key_def
  by (rule safe_andThen [OF client_fetchJWKS_safe],
      auto intro!: safe_intros safe_call [OF keys_drop] safe_andThen [OF client_fetchJWKS_safe]
      simp: keys_served_def split: sum.splits option.splits dest!: selectJWK_SomeD) blast+

lemma verifyClientAssertion_safe:
  "safe I (verifyClientAssertion_proc E c clientID assertion aud)
     (\<lambda>r. r = Inr () \<longrightarrow> assertion_ok E (rc_JWKSURI c) clientID assertion aud)"
  unfolding verifyClientAssertion_proc_def
  by (auto intro!: safe_intros safe_andThen [OF find_key_safe]
      safe_call [OF verify_with_key_ensures [OF _ _ clock]] split: option.split list.split sum.split)

subsection \<open>The provider\<close>

lemma discovery_safe:
  "set us \<subseteq> set (oidc_candidates issuer) \<Longrightarrow>
   safe I (discovery_proc E issuer us) (\<lambda>r. \<forall>d. r = Inr d \<longrightarrow> discovered E issuer d)"
proof (induction us)
  case (Cons u us)
  then have IH: "safe I (discovery_proc E issuer us) (\<lambda>r. \<forall>d. r = Inr d \<longrightarrow> discovered E issuer d)" by simp
  show ?case
    unfolding discovery_proc.simps
  proof (rule provider_act, goal_cases)
    case (1 r)
    have "discovered E issuer d" if "r = Some resp" "read_limited maxOAuthResponseBytes resp = Some body"
        "\<not> 300 \<le> in_Status resp" "unmarshal_oidc E body = Some d" for resp body d
      using 1 that Cons.prems servedI [of E u resp body] by (auto simp: discovered_def)
    with IH show ?case
      by (auto intro!: safe_intros safe_call [OF discovery_put] split: option.split)
  qed
qed simp

lemma fetchOIDCDiscovery_safe:
  "safe I (fetchOIDCDiscovery_proc E i) (\<lambda>r. \<forall>d. r = Inr d \<longrightarrow> discovered E (slash_norm i) d)"
  unfolding fetchOIDCDiscovery_proc_def Let_def slash_norm_def [symmetric]
  by (auto intro!: safe_intros safe_call [OF discovery_get] discovery_safe split: option.split)

lemma resolveJWKSURL_safe: "safe I (resolveJWKSURL_proc E cfg) (\<lambda>r. \<forall>u. r = Inr u \<longrightarrow> jwks_source E cfg u)"
  unfolding resolveJWKSURL_proc_def
  by (auto intro!: safe_intros safe_andThen [OF fetchOIDCDiscovery_safe] simp: jwks_source_def split: sum.splits if_splits)

lemma fetchJWKS_safe: "safe I (fetchJWKS_proc E u) (\<lambda>r. \<forall>ks. r = Inr ks \<longrightarrow> keys_of E u ks)"
proof -
  have "keys_of E u ks" if "\<exists>n. env_http E n (HttpGet u []) = Some resp" "\<not> 300 \<le> in_Status resp"
      "read_limited maxOAuthResponseBytes resp = Some body" "env_keyset E body = Some ks" for resp body ks
    using that servedI [of E u resp body] by (auto simp: keys_of_def)
  then show ?thesis
    unfolding fetchJWKS_proc_def
    by (auto intro!: safe_intros clock_act safe_call [OF jwks_get] provider_act safe_call [OF jwks_put]
        split: option.split)
qed

lemma candidate_keys_safe:
  assumes "keyset_Key_sound E"
  shows "safe I (candidate_keys_proc E u kid) (\<lambda>r. \<forall>keys. r = Inr keys \<longrightarrow> key_candidates E u kid keys)"
proof -
  have found: "keys_of E u ks \<Longrightarrow> key_candidates E u kid (env_keyset_Key E ks kid)" for ks
    using assms by (auto simp: key_candidates_def keyset_Key_sound_def)
  have every: "keys_of E u ks \<Longrightarrow> kid = [] \<Longrightarrow> key_candidates E u kid ks" for ks
    by (auto simp: key_candidates_def)
  show ?thesis
    unfolding candidate_keys_proc_def
    by (auto intro!: safe_intros safe_andThen [OF fetchJWKS_safe] safe_call [OF jwks_drop] found every [simplified]
        split: sum.splits if_splits)
qed

lemma parseAndVerifyJWT_safe:
  assumes "keyset_Key_sound E"
  shows "safe I (parseAndVerifyJWT_proc E cfg token aud) (\<lambda>r. \<forall>c. r = Inr c \<longrightarrow> vouched E cfg token aud c)"
proof -
  have "vouched E cfg token aud c"
    if "jwks_source E cfg u" "env_ParseSigned E upstreamAlgs token = Some (hdr # hdrs)" "key_candidates E u (hdr_KeyID hdr) keys"
      "verify_loop E cfg token aud False False keys = Inr c" for u hdr hdrs keys c
    unfolding vouched_def using that(1-3) verify_loop_Inr [OF that(4)] by (fastforce simp: key_candidates_def)
  then show ?thesis
    unfolding parseAndVerifyJWT_proc_def
    by (auto intro!: safe_intros safe_andThen [OF resolveJWKSURL_safe] safe_andThen [OF candidate_keys_safe [OF assms]]
        split: sum.splits option.split list.split)
qed

lemma ValidateUpstreamIdentityToken_safe:
  assumes "keyset_Key_sound E"
  shows "safe I (ValidateUpstreamIdentityToken_proc E cfg token (cfg_ClientID cfg))
    (\<lambda>r. \<forall>c. r = Inr c \<longrightarrow> identity_ok E cfg token c)"
  unfolding ValidateUpstreamIdentityToken_proc_def
  by (rule safe_andThen [OF parseAndVerifyJWT_safe [OF assms]])
    (auto simp: identity_ok_def applyIdentityPolicy_iff [symmetric] split: sum.splits)

lemma applyClaimChecks_acts:
  "ensures I (applyClaimChecks E cfg c) (\<lambda>r. \<forall>c'. r = Inr c' \<longrightarrow> c' = c \<and> policy_ok E cfg c \<and>
    (\<exists>n. in_window (env_clock E n) c) \<and> set (cfg_RequiredScopes cfg) \<subseteq> set (cl_Scopes c))"
proof -
  have "ensures I (applyClaimChecks E cfg c) (\<lambda>_. True)"
    unfolding applyClaimChecks_def Let_def
    by (auto intro!: ensures_return ensures_bind [OF clock])
  with applyClaimChecks_ok [of E cfg c] show ?thesis
    by (fastforce simp: ensures_def split: prod.splits)
qed

lemma Validate_safe:
  assumes "keyset_Key_sound E"
  shows "safe I (Validate_proc E cfg token) (\<lambda>r. \<forall>mc. r = Inr mc \<longrightarrow> accepted E cfg token mc)"
proof -
  have "accepted E cfg token (Some c)" if "vouched E cfg token (cfg_Audience cfg) c" "policy_ok E cfg c"
      "in_window (env_clock E n) c" "set (cfg_RequiredScopes cfg) \<subseteq> set (cl_Scopes c)" for c n
    using that by (auto simp: accepted_def claims_shown_def)
  then show ?thesis
    unfolding Validate_proc_def
    by (auto intro!: safe_intros safe_andThen [OF parseAndVerifyJWT_safe [OF assms]] safe_call [OF applyClaimChecks_acts]
        split: sum.splits) (simp_all add: accepted_def IsGating_def)
qed

subsection \<open>Upstream endpoints and refresh\<close>

lemma resolveUpstream_safe:
  "safe I (resolveUpstreamAuthURL_proc E cfg) (\<lambda>r. \<forall>u. r = Inr u \<longrightarrow> auth_endpoint E cfg u)"
  "safe I (resolveUpstreamTokenURL_proc E cfg) (\<lambda>r. \<forall>u. r = Inr u \<longrightarrow> token_url E cfg u)"
  unfolding resolveUpstreamAuthURL_proc_def resolveUpstreamTokenURL_proc_def
  by (auto intro!: safe_intros safe_andThen [OF fetchOIDCDiscovery_safe] simp: auth_endpoint_def token_url_def
      split: sum.splits if_splits)

lemma refreshUpstreamIDToken_safe:
  assumes "keyset_Key_sound E"
  shows "safe I (refreshUpstreamIDToken_proc E cfg rt)
    (\<lambda>r. \<forall>tok c. r = Inr (tok, c) \<longrightarrow> refreshed E cfg rt tok c)"
  unfolding refreshUpstreamIDToken_proc_def
  by (auto intro!: safe_intros safe_andThen [OF resolveUpstream_safe(2)] safe_call [OF refresh_post]
      safe_andThen [OF ValidateUpstreamIdentityToken_safe [OF assms]] simp: refreshedI split: sum.splits option.split)

lemma maybeRefresh_safe:
  assumes "keyset_Key_sound E"
  shows "safe I (maybeRefreshNearExpiredIDToken_proc E cfg tok rt mc)
    (\<lambda>(tok', mc', d). (tok', mc', d) = (tok, mc, 0) \<or> (\<exists>c. mc' = Some c \<and> refreshed E cfg rt tok' c))"
  unfolding maybeRefreshNearExpiredIDToken_proc_def
  by (auto intro!: safe_intros clock_act safe_andThen [OF refreshUpstreamIDToken_safe [OF assms]]
      split: option.split sum.split)

subsection \<open>The token endpoint\<close>

text \<open>A phase of a handler ends it with an error response, or goes on with a result.\<close>

definition goes_on :: "('a \<Rightarrow> bool) \<Rightarrow> (response, 'a) result \<Rightarrow> bool" where
  "goes_on P x \<longleftrightarrow> (case x of Inl resp \<Rightarrow> not_success resp | Inr a \<Rightarrow> P a)"

lemma goes_on_simps [simp]: "goes_on P (Inl resp) = not_success resp" "goes_on P (Inr a) = P a"
  by (simp_all add: goes_on_def)

lemma error_not_success [simp]: "not_success (writeTokenError E s c d) \<longleftrightarrow> s \<noteq> 200"
  by (simp add: not_success_def)

lemma authenticate_client_safe:
  "safe I (authenticate_client_proc E cfg r form)
     (goes_on (\<lambda>c. client_of E (Get form ''client_id'') c \<and> credentials_ok E cfg r form c))"
proof -
  have m: "safe I (authenticate_method_proc E cfg r form client) (goes_on (\<lambda>_. credentials_ok E cfg r form client))"
    if "Get form ''client_secret'' = []" for client
    unfolding authenticate_method_proc_def credentials_ok_def presents_assertion_def Let_def using that
    by (auto intro!: safe_intros safe_andThen [OF verifyClientAssertion_safe] split: sum.splits)
  show ?thesis
    unfolding authenticate_client_proc_def
    by (auto intro!: safe_intros safe_andThen [OF resolve_safe] safe_andThen [OF m] split: sum.splits)
qed

lemma redeem_code_acts:
  "ensures I (redeem_code E cfg form client)
     (goes_on (\<lambda>issued. Get form ''redirect_uri'' \<in> set (rc_RedirectURIs client) \<and> redeemable E cfg form issued))"
proof -
  have e: "check_code E form issued = Inl resp \<Longrightarrow> not_success resp" for issued resp
    by (auto simp: check_code_def Let_def split: if_splits)
  show ?thesis
    unfolding redeem_code_def
    by (auto intro!: ensures_return ensures_bind [OF clock] simp: redeemable_def check_code_iff
        split: option.splits sum.splits dest: e)
qed

lemma exchange_code_safe:
  assumes "submits r" "ParseForm r = Some form" "admitted E cfg r form issued"
  shows "safe I (exchange_code_proc E cfg r issued) (goes_on (exchanged E cfg r issued))"
proof -
  have "goes_on (exchanged E cfg r issued) (exchange_response E resp)"
    if "token_url E cfg u" "env_http E n (HttpPostForm u (exchange_form E cfg r issued)) = Some resp" for u n resp
  proof (cases "exchange_response E resp")
    case (Inl x)
    then show ?thesis by (auto simp: exchange_response_def split: option.splits if_splits)
  next
    case (Inr tok)
    with that show ?thesis by (auto simp: exchanged_def)
  qed
  then show ?thesis
    unfolding exchange_code_proc_def
    by (auto intro!: safe_intros safe_andThen [OF resolveUpstream_safe(2)] safe_call [OF exchange_post [OF assms]]
        split: sum.split option.split)
qed

lemma fetchUserInfo_safe:
  "safe I (fetchUserInfo_proc E cfg accessToken) (\<lambda>r. \<forall>c. r = Inr c \<longrightarrow> userinfo_ok E cfg accessToken c)"
proof -
  have u: "safe I (if TrimSpace (cfg_UserInfoURL cfg) \<noteq> [] then Ret (TrimSpace (cfg_UserInfoURL cfg))
       else andThen (fetchOIDCDiscovery_proc E (TrimSpace (cfg_Issuer cfg)))
         (\<lambda>d. Ret (case d of Inl _ \<Rightarrow> [] | Inr d' \<Rightarrow> oc_UserInfoEndpoint d'))) (\<lambda>u. u \<noteq> [] \<longrightarrow> userinfo_endpoint E cfg u)"
    by (auto intro!: safe_intros safe_andThen [OF fetchOIDCDiscovery_safe] simp: userinfo_endpoint_def split: sum.splits)
  show ?thesis
    unfolding fetchUserInfo_proc_def
    by (rule safe_andThen [OF u], auto intro!: safe_intros provider_act simp: userinfo_ok_def
        dest: userinfo_policy split: option.splits) blast
qed

lemma identify_safe:
  assumes "keyset_Key_sound E"
  shows "safe I (identify_proc E cfg tok) (goes_on (identified E cfg tok))"
  unfolding identify_proc_def identified_def
  by (auto intro!: safe_intros safe_andThen [OF ValidateUpstreamIdentityToken_safe [OF assms]]
      safe_andThen [OF fetchUserInfo_safe] split: sum.splits)

lemma refresh_phase_safe:
  assumes "keyset_Key_sound E"
  shows "safe I (refresh_phase_proc E cfg tok (Some c)) (\<lambda>(tok', mc). \<exists>c'. mc = Some c' \<and> handed_on E cfg tok c tok' c')"
  unfolding refresh_phase_proc_def
  by (auto intro!: safe_intros safe_andThen [OF maybeRefresh_safe [OF assms(1)]] simp: handed_on_def split: prod.splits)

lemma mint_bearer_acts: "ensures I (mint_bearer E cfg tok (Some c)) (goes_on (bearer_for E cfg tok c))"
  unfolding mint_bearer_def bearer_for_def
  by (auto intro!: ensures_return ensures_bind [OF clock] ensures_bind [OF number] split: option.splits) blast+

lemma issue_token_safe:
  assumes "keyset_Key_sound E" "exchanged E cfg r issued tok0"
  shows "safe I (issue_token_proc E cfg issued tok0) (\<lambda>resp. not_success resp \<or> justified E cfg r issued resp)"
proof -
  have mint: "safe I (call (mint_bearer E cfg tok (Some c)) (\<lambda>b.
        case b of Inl resp \<Rightarrow> Ret resp
        | Inr bearer \<Rightarrow> call (time_Now E) (\<lambda>now.
            Ret (json_response 200 (token_body cfg tok issued bearer (expires_in E cfg tok (Some c) now))))))
      (\<lambda>resp. not_success resp \<or> justified E cfg r issued resp)"
    if "identified E cfg tok0 c0" "handed_on E cfg tok0 c0 tok c" for c0 tok c
    by (rule safe_call [OF mint_bearer_acts]) (use assms(2) that in \<open>auto intro!: safe_intros clock_act intro: justifiedI split: sum.splits\<close>)
  show ?thesis
    unfolding issue_token_proc_def
    by (auto intro!: safe_intros safe_andThen [OF identify_safe [OF assms(1)]] safe_andThen [OF refresh_phase_safe [OF assms(1)]]
        mint split: sum.splits prod.splits)
qed

lemma handleToken_safe:
  assumes "keyset_Key_sound E" "submits r"
  shows "safe I (handleToken_proc E cfg r)
    (\<lambda>resp. not_success resp \<or> (\<exists>form. ParseForm r = Some form \<and> token_granted E cfg r form resp))"
proof -
  have exchange: "safe I (andThen (exchange_code_proc E cfg r issued) (\<lambda>t.
        case t of Inl resp \<Rightarrow> Ret resp | Inr tok \<Rightarrow> issue_token_proc E cfg issued tok))
      (\<lambda>resp. not_success resp \<or> justified E cfg r issued resp)" if "ParseForm r = Some form" "admitted E cfg r form issued" for form issued
    by (auto intro!: safe_intros safe_andThen [OF exchange_code_safe [OF assms(2) that]] issue_token_safe [OF assms(1)] split: sum.splits)
  have "safe I (handleTokenAuthCode_proc E cfg r form) (\<lambda>resp. not_success resp \<or> token_granted E cfg r form resp)"
    if "ParseForm r = Some form" for form
    unfolding handleTokenAuthCode_proc_def
    by (auto intro!: safe_intros safe_andThen [OF authenticate_client_safe] safe_call [OF redeem_code_acts]
        safe_weaken [OF exchange [OF that]] simp: admitted_def token_granted_def split: sum.splits) blast+
  then show ?thesis
    unfolding handleToken_proc_def
    by (auto intro!: safe_intros intro: safe_weaken split: option.split)
qed

subsection \<open>The authorization endpoint, the callback and the middleware\<close>

lemma sent_onI:
  "auth_endpoint E cfg authURL \<Longrightarrow> newPKCEVerifier (env_rand E m) = Some verifier \<Longrightarrow>
   encodePendingAuth (env_jose E) n (cfg_SigningSecret cfg) (pending_of_request r verifier (env_clock E k)) = Some st \<Longrightarrow>
   sent_on E cfg r (redirect r (authURL @ CHR ''?'' # Encode (upstream_params E cfg r st verifier)))"
  unfolding sent_on_def by (metis append_Cons append_Nil)

lemma authorize_redirect_safe:
  "safe I (authorize_redirect_proc E cfg r) (\<lambda>resp. resp_Status resp = 302 \<longrightarrow> sent_on E cfg r resp)"
  unfolding authorize_redirect_proc_def
  by (auto intro!: safe_intros clock_act safe_call [OF random] safe_call [OF number]
      safe_andThen [OF resolveUpstream_safe(1)] split: option.split sum.splits)
    (rule sent_onI; assumption)

lemma handleAuthorize_safe:
  "safe I (handleAuthorize_proc E cfg r) (\<lambda>resp. resp_Status resp = 302 \<longrightarrow> authorized E cfg r resp)"
proof -
  have go: "safe I (authorize_redirect_proc E cfg r) (\<lambda>resp. resp_Status resp = 302 \<longrightarrow> authorized E cfg r resp)"
    if "client_of E (Get (Query r) ''client_id'') client" "authorize_checks E cfg r client = Inr ()" for client
    by (rule safe_weaken [OF authorize_redirect_safe]) (use that in \<open>auto simp: authorized_def\<close>)
  show ?thesis
    unfolding handleAuthorize_proc_def Let_def
    by (auto intro!: safe_intros safe_andThen [OF resolve_safe] go simp: authorize_checks_error split: sum.splits)
qed

lemma called_backI:
  "decodePendingAuth (env_jose E) (env_oor E) (env_clock E n) (cfg_SigningSecret cfg) (Get (Query r) ''state'') = Some p \<Longrightarrow>
   encodeAuthCode (env_jose E) m (cfg_SigningSecret cfg) (code_of_pending p (Get (Query r) ''code'') (env_clock E k)) = Some code \<Longrightarrow>
   callback_target p code = Some target \<Longrightarrow> called_back E cfg r (redirect r target)"
  unfolding called_back_def by blast

lemma handleCallback_acts:
  "ensures I (handleCallback E cfg r) (\<lambda>resp. resp_Status resp = 302 \<longrightarrow> called_back E cfg r resp)"
  unfolding handleCallback_def Let_def
  by (auto intro!: ensures_return ensures_bind [OF clock] ensures_bind [OF number] split: option.splits)
    (rule called_backI; assumption)

lemma Middleware_safe:
  assumes "keyset_Key_sound E"
  shows "safe I (Middleware_proc E cfg r) (\<lambda>v. \<forall>ctx. v = Passed ctx \<longrightarrow> passed_on E cfg r ctx)"
proof -
  let ?t = "extractBearer E r"
  have u: "ensures I (unwrap_token E cfg token) (unwraps E cfg token)" for token
    unfolding unwrap_token_def
    by (auto intro!: ensures_return ensures_bind [OF clock] simp: unwraps_def split: sum.split)
  have p: "passed_on E cfg r (case mc of None \<Rightarrow> withRawToken empty_context ?t
      | Some c \<Rightarrow> withClaims (withRawToken empty_context ?t) (Some c))"
    if "unwraps E cfg ?t inner" "accepted E cfg inner mc" "?t \<noteq> []" for inner mc
    unfolding passed_on_def
    by (intro exI [of _ inner] exI [of _ mc], cases mc)
      (use that in \<open>simp_all add: RawTokenFromContext_def ClaimsFromContext_def withRawToken_def withClaims_def empty_context_def\<close>)
  show ?thesis
    unfolding Middleware_proc_def Let_def
    by (auto intro!: safe_intros safe_call [OF u] safe_andThen [OF Validate_safe [OF assms]] p split: sum.splits)
qed

subsection \<open>All requests\<close>

lemma serve_safe:
  assumes "keyset_Key_sound E" "\<And>r. ev = Endpoint Token r \<Longrightarrow> submits r"
  shows "safe I (serve_proc E cfg ev) (answer_ok E cfg ev)"
proof (cases ev)
  case (Endpoint e r)
  have h: "safe I (handle_proc E cfg e r) (handler_ok E cfg e r)"
    using assms(2) Endpoint
    by (cases e) (auto intro!: safe_intros safe_call [OF handleCallback_acts] safe_weaken [OF handleAuthorize_safe]
        safe_weaken [OF handleToken_safe [OF assms(1)]] simp: not_success_def)
  let ?options = "\<lparr>resp_Status = 204, resp_Header = [], resp_Body = None\<rparr>"
  have "handler_ok E cfg e r ?options" by (cases e) simp_all
  then have "answer_ok E cfg (Endpoint e r) (Responded (?options\<lparr>resp_Header := corsHeaders @ resp_Header ?options\<rparr>))"
    unfolding answer_ok.simps by blast
  then show ?thesis unfolding Endpoint by (auto intro!: safe_andThen [OF h])
next
  case (Application r)
  then show ?thesis by (auto intro!: safe_andThen [OF Middleware_safe [OF assms(1)]])
qed

end

end
