(* ===== verification/Conc_Invariant.thy ===== *)
theory Conc_Invariant
  imports Conc_Safety
begin

text \<open>
  The invariant of the shared state under concurrent requests. It speaks of single cache entries and of
  the trace, so that every action keeps it on its own: the invariant of the sequential model, which
  bounds the age of an entry by the event that stored it, does not survive other events between a
  fetch and the storing of its result. Shown here: it interprets the interface of the handlers, and the
  server with it the contract of processes.
\<close>

subsection \<open>The invariant\<close>

definition entries_ok :: "(string \<Rightarrow> 'e \<Rightarrow> bool) \<Rightarrow> 'e cache \<Rightarrow> bool" where
  "entries_ok P c \<longleftrightarrow> cache_inv c \<and> capacity c = nat cimdCacheCap \<and> (\<forall>(k, e) \<in> set (fifo c). P k e)"

text \<open>Whatever was posted went to the token endpoint of the provider, and is a refresh or the exchange of a
  request among those that arrived, whose own form had passed every check.\<close>

definition posts_ok :: "env \<Rightarrow> config \<Rightarrow> request set \<Rightarrow> http_out list \<Rightarrow> bool" where
  "posts_ok E cfg R l \<longleftrightarrow>
     (\<forall>u vs. HttpPostForm u vs \<in> set l \<longrightarrow> token_url E cfg u \<and>
        ((\<exists>rt. vs = refresh_form cfg rt) \<or>
         (\<exists>r form issued. r \<in> R \<and> ParseForm r = Some form \<and> admitted E cfg r form issued \<and> vs = exchange_form E cfg r issued)))"

definition conc_inv :: "env \<Rightarrow> config \<Rightarrow> request set \<Rightarrow> world \<Rightarrow> bool" where
  "conc_inv E cfg R w \<longleftrightarrow>
     \<not> w_panicked w \<and> entries_ok (doc_ok E) (w_cache w) \<and> entries_ok (keyset_ok E) (w_jwksCache w) \<and>
     (\<forall>a \<in> set (w_dialed w). \<not> isBlockedIP (Some a)) \<and> val_inv E (w_validator w) \<and> posts_ok E cfg R (w_sent w)"

lemma conc_inv_new: "conc_inv E cfg R new_world"
  by (simp add: conc_inv_def entries_ok_def posts_ok_def val_inv_new new_world_def newCIMDCache_def
      newCIMDJWKSCache_def inv_intros cimdCacheCap_def)

lemma posts_ok_get: "set s \<subseteq> {HttpGet u hs} \<Longrightarrow> posts_ok E cfg R l \<Longrightarrow> posts_ok E cfg R (l @ s)"
  by (fastforce simp: posts_ok_def)

subsection \<open>Actions on the caches\<close>

lemma entries_ok_dropped:
  "entries_ok P c \<Longrightarrow> cache_inv c' \<Longrightarrow> capacity c' = capacity c \<Longrightarrow> fifo c' = fifo_drop k (fifo c) \<Longrightarrow> entries_ok P c'"
  using set_fifo_drop [of k "fifo c"] by (auto simp: entries_ok_def)

lemma entries_ok_put:
  "entries_ok P c \<Longrightarrow> cache_inv c' \<Longrightarrow> capacity c' = capacity c \<Longrightarrow> fifo c' = fifo_put (capacity c) k e (fifo c) \<Longrightarrow>
   P k e \<Longrightarrow> entries_ok P c'"
  using set_fifo_put [of "capacity c" k e "fifo c"] by (auto simp: entries_ok_def)

lemma conc_inv_caches:
  "conc_inv E cfg R w \<Longrightarrow> cache_inv (w_cache w) \<and> cache_inv (w_jwksCache w)"
  "conc_inv E cfg R w \<Longrightarrow> entries_ok (doc_ok E) c \<Longrightarrow> conc_inv E cfg R (w\<lparr>w_cache := c\<rparr>)"
  "conc_inv E cfg R w \<Longrightarrow> entries_ok (keyset_ok E) c' \<Longrightarrow> conc_inv E cfg R (w\<lparr>w_jwksCache := c'\<rparr>)"
  by (simp_all add: conc_inv_def entries_ok_def)

lemma docs_get_acts: "ensures (conc_inv E cfg R) (cache_get k now) (\<lambda>r. \<forall>e. r = Some e \<longrightarrow> doc_ok E k e)"
  unfolding ensures_def
proof (intro allI impI)
  fix w
  assume w: "conc_inv E cfg R w"
  then have d: "entries_ok (doc_ok E) (w_cache w)" by (simp add: conc_inv_def)
  from conc_inv_caches(1) [OF w, THEN conjunct1]
  show "case run_state (cache_get k now) w of (r, w') \<Rightarrow> (\<forall>e. r = Some e \<longrightarrow> doc_ok E k e) \<and> conc_inv E cfg R w'"
  proof (cases rule: docs.get_cases [where k = k and now = now])
    case (hit e)
    with w d show ?thesis by (auto simp: cache_get_def entries_ok_def dest: map_of_SomeD)
  next
    case (miss c')
    with conc_inv_caches(2) [OF w entries_ok_dropped [OF d miss(2-4)]] show ?thesis by (simp add: cache_get_def)
  qed
qed

lemma docs_put_acts:
  assumes "doc_ok E k e"
  shows "ensures (conc_inv E cfg R) (cache_put k e now) (\<lambda>_. True)"
  unfolding ensures_def
proof (intro allI impI)
  fix w
  assume w: "conc_inv E cfg R w"
  then have d: "entries_ok (doc_ok E) (w_cache w)" by (simp add: conc_inv_def)
  note i = conc_inv_caches(1) [OF w, THEN conjunct1]
  show "case run_state (cache_put k e now) w of (r, w') \<Rightarrow> True \<and> conc_inv E cfg R w'"
  proof (cases "refuses_negative (fifo (w_cache w)) k e now")
    case True
    with w docs.put_refused [OF i] show ?thesis by (simp add: cache_put_def)
  next
    case False
    then obtain c where c: "cimdCache_put (w_cache w) k e now = Some c" "cache_inv c" "capacity c = capacity (w_cache w)"
      "fifo c = fifo_put (capacity (w_cache w)) k e (fifo (w_cache w))" using docs.put_stored [OF i] by blast
    with conc_inv_caches(2) [OF w entries_ok_put [OF d c(2-4) assms]] show ?thesis by (simp add: cache_put_def)
  qed
qed

lemma keysets_get_acts: "ensures (conc_inv E cfg R) (keyset_get u now) (\<lambda>r. \<forall>e. r = Some e \<longrightarrow> keyset_ok E u e)"
  unfolding ensures_def
proof (intro allI impI)
  fix w
  assume w: "conc_inv E cfg R w"
  then have d: "entries_ok (keyset_ok E) (w_jwksCache w)" by (simp add: conc_inv_def)
  from conc_inv_caches(1) [OF w, THEN conjunct2]
  show "case run_state (keyset_get u now) w of (r, w') \<Rightarrow> (\<forall>e. r = Some e \<longrightarrow> keyset_ok E u e) \<and> conc_inv E cfg R w'"
  proof (cases rule: keysets.get_cases [where k = u and now = now])
    case (hit e)
    with w d show ?thesis by (auto simp: keyset_get_def entries_ok_def dest: map_of_SomeD)
  next
    case (miss c')
    with conc_inv_caches(3) [OF w entries_ok_dropped [OF d miss(2-4)]] show ?thesis by (simp add: keyset_get_def)
  qed
qed

lemma keysets_put_acts:
  assumes "keyset_ok E u e"
  shows "ensures (conc_inv E cfg R) (keyset_put u e) (\<lambda>_. True)"
  unfolding ensures_def
proof (intro allI impI)
  fix w
  assume w: "conc_inv E cfg R w"
  then have d: "entries_ok (keyset_ok E) (w_jwksCache w)" by (simp add: conc_inv_def)
  obtain c where c: "jwksCache_put (w_jwksCache w) u e = Some c" "cache_inv c" "capacity c = capacity (w_jwksCache w)"
    "fifo c = fifo_put (capacity (w_jwksCache w)) u e (fifo (w_jwksCache w))"
    using keysets.put_stored [OF conc_inv_caches(1) [OF w, THEN conjunct2], of u e] by auto
  with conc_inv_caches(3) [OF w entries_ok_put [OF d c(2-4) assms]]
  show "case run_state (keyset_put u e) w of (r, w') \<Rightarrow> True \<and> conc_inv E cfg R w'" by (simp add: keyset_put_def)
qed

lemma keysets_drop_acts: "ensures (conc_inv E cfg R) (keyset_invalidate u) (\<lambda>_. True)"
  unfolding ensures_def
proof (intro allI impI)
  fix w
  assume w: "conc_inv E cfg R w"
  then have "entries_ok (keyset_ok E) (w_jwksCache w)" by (simp add: conc_inv_def)
  then have "entries_ok (keyset_ok E) (jwksCache_invalidate (w_jwksCache w) u)"
    by (rule entries_ok_dropped)
      (use keysets.drop_ok [OF conc_inv_caches(1) [OF w, THEN conjunct2], of u] in blast)+
  from conc_inv_caches(3) [OF w this] show "case run_state (keyset_invalidate u) w of (r, w') \<Rightarrow> True \<and> conc_inv E cfg R w'"
    by (simp add: keyset_invalidate_def)
qed

subsection \<open>Actions on the network and on the validator\<close>

lemma resolver_acts: "ensures (conc_inv E cfg R) (resolver_Do E u) (\<lambda>_. True)"
proof -
  have "conc_inv E cfg R w'" if w: "conc_inv E cfg R w" and r: "run_state (resolver_Do E u) w = (r, w')" for w w' r
  proof -
    obtain n l s where w': "w' = w\<lparr>w_tick := n, w_dialed := w_dialed w @ l, w_sent := w_sent w @ s\<rparr>"
      "\<forall>a \<in> set l. \<not> isBlockedIP (Some a)" "set s \<subseteq> {HttpGet u [(''Accept'', ''application/json'')]}"
      using resolver_Do_effect [OF r] by metis
    with w posts_ok_get [OF w'(3)] show ?thesis by (auto simp: conc_inv_def simp del: isBlockedIP.simps)
  qed
  then show ?thesis by (auto simp: ensures_def split: prod.split)
qed

lemma fetch_acts:
  assumes "is_ok (validateCIMDClientIDURL E k)"
  shows "ensures (conc_inv E cfg R) (fetchAndValidate E k) (\<lambda>r. \<forall>c ttl. r = Inr (c, ttl) \<longrightarrow> client_of E k c)"
  unfolding ensures_def
proof (intro allI impI, clarify)
  fix w r w'
  assume w: "conc_inv E cfg R w" and r: "run_state (fetchAndValidate E k) w = (r, w')"
  obtain u where u: "validateCIMDClientIDURL E k = Inr u" using assms by (cases "validateCIMDClientIDURL E k") auto
  obtain x where "run_state (resolver_Do E k) w = (x, w')" by (rule fetchAndValidate_Do [OF r])
  from ensuresD [OF resolver_acts w this] fetchAndValidate_client [OF _ u] r
  show "(\<forall>c ttl. r = Inr (c, ttl) \<longrightarrow> client_of E k c) \<and> conc_inv E cfg R w'" unfolding client_of_def by blast
qed

lemma fetch_keys_acts:
  "ensures (conc_inv E cfg R) (fetchJWKSUncached E u) (\<lambda>r. \<forall>ks ttl. r = Inr (ks, ttl) \<longrightarrow> keys_served E u ks)"
  unfolding ensures_def
proof (intro allI impI, clarify)
  fix w r w'
  assume w: "conc_inv E cfg R w" and r: "run_state (fetchJWKSUncached E u) w = (r, w')"
  obtain x where "run_state (resolver_Do E u) w = (x, w')" by (rule fetchJWKSUncached_Do [OF r])
  from ensuresD [OF resolver_acts w this] fetchJWKSUncached_keys r
  show "(\<forall>ks ttl. r = Inr (ks, ttl) \<longrightarrow> keys_served E u ks) \<and> conc_inv E cfg R w'" unfolding keys_served_def by blast
qed

lemma http_acts:
  "ensures (conc_inv E cfg R) (http_Get E u hs)
     (\<lambda>r. \<forall>resp. r = Some resp \<longrightarrow> (\<exists>n. env_http E n (HttpGet u hs) = Some resp))"
  "token_url E cfg u \<Longrightarrow> ensures (conc_inv E cfg R) (http_PostForm E u (refresh_form cfg rt))
     (\<lambda>x. \<forall>resp. x = Some resp \<longrightarrow> (\<exists>n. env_http E n (HttpPostForm u (refresh_form cfg rt)) = Some resp))"
  "r \<in> R \<Longrightarrow> ParseForm r = Some form \<Longrightarrow> admitted E cfg r form issued \<Longrightarrow> token_url E cfg u \<Longrightarrow>
   ensures (conc_inv E cfg R) (http_PostForm E u (exchange_form E cfg r issued))
     (\<lambda>x. \<forall>resp. x = Some resp \<longrightarrow> (\<exists>n. env_http E n (HttpPostForm u (exchange_form E cfg r issued)) = Some resp))"
  using posts_ok_get [of "[HttpGet u hs]" u hs]
  by (auto simp: http_Get_def http_PostForm_def ensures_def http_Do_def conc_inv_def posts_ok_def) blast

lemma validator_acts:
  "ensures (conc_inv E cfg R) (oidc_lookup E i) (\<lambda>r. \<forall>d. r = Some d \<longrightarrow> discovered E i d)"
  "discovered E i d \<Longrightarrow> ensures (conc_inv E cfg R) (oidc_store E i d) (\<lambda>_. True)"
  "ensures (conc_inv E cfg R) (jwks_lookup u now) (\<lambda>r. \<forall>ks. r = Some ks \<longrightarrow> keys_of E u ks)"
  "keys_of E u ks \<Longrightarrow> ensures (conc_inv E cfg R) (jwks_store u now ks) (\<lambda>_. True)"
  "ensures (conc_inv E cfg R) jwks_expire (\<lambda>_. True)"
  by (auto simp: oidc_lookup_def oidc_store_def jwks_lookup_def jwks_store_def jwks_expire_def ensures_def
      time_Now_def get_validator_def put_validator_def conc_inv_def val_inv_updates val_inv_cached)

interpretation server: shared_state "conc_inv E cfg R" E cfg "\<lambda>r. r \<in> R" for E cfg R
proof unfold_locales
  show "ensures (conc_inv E cfg R) (time_Now E) (\<lambda>t. \<exists>n. t = env_clock E n)"
    "ensures (conc_inv E cfg R) (rand_Read E) (\<lambda>r. \<exists>n. r = env_rand E n)"
    "ensures (conc_inv E cfg R) nonce (\<lambda>_. True)"
    by (auto simp: ensures_def time_Now_def rand_Read_def nonce_def conc_inv_def)
qed (rule docs_get_acts docs_put_acts fetch_acts keysets_get_acts keysets_put_acts keysets_drop_acts fetch_keys_acts
    validator_acts http_acts; assumption)+

subsection \<open>The contract of the server\<close>

text \<open>The laws of the key-set lookup are a premise of the promise.\<close>

lemma safe_premise: "(P \<Longrightarrow> safe I p Q) \<Longrightarrow> safe (\<lambda>w. P \<and> I w) p (\<lambda>a. P \<longrightarrow> Q a)"
proof (induction p)
  case (Step m)
  have "safe (\<lambda>w. P \<and> I w) p (\<lambda>a. P \<longrightarrow> Q a) \<and> P \<and> I w'" if "P" "I w" "run_state m w = (p, w')" for w p w'
  proof -
    from that(3) have "p \<in> set_state m" by (auto simp: set_state_iff)
    with Step.IH safe_step [OF Step.prems [OF that(1)] that(2,3)] that(1) show ?thesis by blast
  qed
  then show ?case by (auto split: prod.split)
qed simp

interpretation pool: contract "\<lambda>w. keyset_Key_sound E \<and> conc_inv E cfg R w" "serve_proc E cfg"
  "\<lambda>ev. \<forall>r. ev = Endpoint Token r \<longrightarrow> r \<in> R" "\<lambda>ev out. keyset_Key_sound E \<longrightarrow> answer_ok E cfg ev out" for E cfg R
  by unfold_locales (rule safe_premise, rule server.serve_safe, assumption, blast)

end
