(* ===== verification/Conc_Progress.thy ===== *)
theory Conc_Progress
  imports Conc_Server
begin

text \<open>
  Progress. A process waits for no other: how many actions of its own it takes at most to serve a
  request, whatever the others do meanwhile. The bounds follow the handlers. Also shown here: the
  sequential runs are schedules.
\<close>

subsection \<open>The number of actions\<close>

lemma steps_Ret [intro, simp]: "steps_within (Ret a) n"
  by simp

lemmas act = steps_within_call
lemmas phase = steps_within_andThen

lemma steps_clients:
  "steps_within (resolve_proc E k) 5" "steps_within (client_fetchJWKS_proc E u) 5"
  unfolding resolve_proc_def store_result_proc_def client_fetchJWKS_proc_def
  by (auto intro!: act split: sum.split option.split)

lemma steps_verifyClientAssertion: "steps_within (verifyClientAssertion_proc E c cid a aud) 12"
proof -
  have k: "steps_within (find_key_proc E u hdr) 11" for u hdr
    unfolding find_key_proc_def
    by (auto intro!: act phase [OF steps_clients(2)] split: sum.split option.split)
  show ?thesis
    unfolding verifyClientAssertion_proc_def
    by (auto intro!: act phase [OF k] split: sum.split option.split list.split)
qed

lemma steps_authenticate_client: "steps_within (authenticate_client_proc E cfg r form) 17"
proof -
  have m: "steps_within (authenticate_method_proc E cfg r form client) 12" for client
    unfolding authenticate_method_proc_def Let_def
    by (auto intro!: phase [OF steps_verifyClientAssertion])
  show ?thesis
    unfolding authenticate_client_proc_def
    by (auto intro!: phase [OF steps_clients(1)] phase [OF m] split: sum.split)
qed

lemma steps_discovery: "steps_within (discovery_proc E i us) (length us + 1)"
proof (induction us)
  case (Cons u us)
  then show ?case by (auto intro!: act split: option.split)
qed simp

lemma steps_fetchOIDCDiscovery: "steps_within (fetchOIDCDiscovery_proc E i) 4"
proof -
  have "length (oidc_candidates j) + 1 \<le> 3" for j by (simp add: oidc_candidates_def)
  note d = steps_within_mono [OF steps_discovery this]
  show ?thesis
    unfolding fetchOIDCDiscovery_proc_def Let_def by (auto intro!: act split: option.split) (rule d)
qed

lemma steps_endpoints:
  "steps_within (resolveJWKSURL_proc E cfg) 4" "steps_within (resolveUpstreamAuthURL_proc E cfg) 4"
  "steps_within (resolveUpstreamTokenURL_proc E cfg) 4"
  unfolding resolveJWKSURL_proc_def resolveUpstreamAuthURL_proc_def resolveUpstreamTokenURL_proc_def
  by (auto intro!: phase [OF steps_fetchOIDCDiscovery])

lemma steps_parseAndVerifyJWT: "steps_within (parseAndVerifyJWT_proc E cfg t aud) 13"
proof -
  have f: "steps_within (fetchJWKS_proc E u) 4" for u
    unfolding fetchJWKS_proc_def by (auto intro!: act split: option.split)
  have c: "steps_within (candidate_keys_proc E u kid) 9" for u kid
    unfolding candidate_keys_proc_def by (auto intro!: act phase [OF f] split: sum.split)
  show ?thesis
    unfolding parseAndVerifyJWT_proc_def
    by (auto intro!: phase [OF steps_endpoints(1)] phase [OF c] split: sum.split option.split list.split)
qed

lemma steps_validation:
  "steps_within (Validate_proc E cfg t) 14" "steps_within (ValidateUpstreamIdentityToken_proc E cfg t aud) 13"
  unfolding Validate_proc_def ValidateUpstreamIdentityToken_proc_def
  by (auto intro!: act phase [OF steps_parseAndVerifyJWT] split: sum.split)

lemma steps_issue_token: "steps_within (issue_token_proc E cfg issued tok) 36"
proof -
  have u: "steps_within (if TrimSpace (cfg_UserInfoURL cfg) \<noteq> [] then Ret (TrimSpace (cfg_UserInfoURL cfg))
       else andThen (fetchOIDCDiscovery_proc E (TrimSpace (cfg_Issuer cfg)))
         (\<lambda>d. Ret (case d of Inl _ \<Rightarrow> [] | Inr d' \<Rightarrow> oc_UserInfoEndpoint d'))) 4"
    by (auto intro!: phase [OF steps_fetchOIDCDiscovery])
  have ui: "steps_within (fetchUserInfo_proc E cfg a) 5" for a
    unfolding fetchUserInfo_proc_def by (rule phase [OF u]) (auto intro!: act)
  have i: "steps_within (identify_proc E cfg tok) 13" for tok
    unfolding identify_proc_def by (auto intro!: phase [OF steps_validation(2)] phase [OF ui])
  have rf: "steps_within (refreshUpstreamIDToken_proc E cfg rt) 18" for rt
    unfolding refreshUpstreamIDToken_proc_def
    by (auto intro!: act phase [OF steps_endpoints(3)] phase [OF steps_validation(2)] split: sum.split option.split)
  have m: "steps_within (maybeRefreshNearExpiredIDToken_proc E cfg idt rt mc) 21" for idt rt mc
    unfolding maybeRefreshNearExpiredIDToken_proc_def
    by (auto intro!: act phase [OF rf] split: sum.split option.split prod.split)
  have p: "steps_within (refresh_phase_proc E cfg tok mc) 21" for tok mc
    unfolding refresh_phase_proc_def by (auto intro!: phase [OF m])
  show ?thesis
    unfolding issue_token_proc_def
    by (auto intro!: act phase [OF i] phase [OF p] split: sum.split prod.split)
qed

lemma steps_handleToken: "steps_within (handleToken_proc E cfg r) 59"
proof -
  have x: "steps_within (exchange_code_proc E cfg r issued) 5" for issued
    unfolding exchange_code_proc_def by (auto intro!: act phase [OF steps_endpoints(3)] split: sum.split)
  have "steps_within (handleTokenAuthCode_proc E cfg r form) 59" for form
    unfolding handleTokenAuthCode_proc_def
    by (auto intro!: act phase [OF steps_authenticate_client] phase [OF x] steps_issue_token split: sum.split)
  then show ?thesis unfolding handleToken_proc_def by (auto split: option.split)
qed

lemma steps_authorize: "steps_within (handleAuthorize_proc E cfg r) 12"
proof -
  have "steps_within (authorize_redirect_proc E cfg r) 7"
    unfolding authorize_redirect_proc_def by (auto intro!: act phase [OF steps_endpoints(2)] split: option.split)
  then show ?thesis
    unfolding handleAuthorize_proc_def Let_def by (auto intro!: phase [OF steps_clients(1)] split: sum.split)
qed

lemma steps_Middleware: "steps_within (Middleware_proc E cfg r) 15"
  unfolding Middleware_proc_def Let_def by (auto intro!: act phase [OF steps_validation(1)])

text \<open>The actions a request takes at most.\<close>

fun action_budget :: "event \<Rightarrow> nat" where
  "action_budget (Endpoint Authorize r) = 12"
| "action_budget (Endpoint Callback r) = 1"
| "action_budget (Endpoint Token r) = 59"
| "action_budget (Endpoint _ r) = 0"
| "action_budget (Application r) = 15"

lemma steps_serve: "steps_within (serve_proc E cfg ev) (action_budget ev)"
proof (cases ev)
  case (Endpoint e r)
  have "steps_within (handle_proc E cfg e r) (action_budget (Endpoint e r))"
    by (cases e) (auto intro!: act steps_handleToken steps_authorize)
  then show ?thesis unfolding Endpoint by (auto intro: phase [OF _ order_refl])
next
  case (Application r)
  then show ?thesis by (auto intro!: phase [OF steps_Middleware])
qed

subsection \<open>Sequential runs\<close>

text \<open>The last process of a pool, given enough turns, runs as if it were alone.\<close>

lemma turns_run:
  assumes "steps_within p n"
  shows "fold (take_turn serves) (replicate n (Turn (length ps))) (w, ps @ [(r, p)]) =
    (case run_state (run p) w of (a, w') \<Rightarrow> (w', ps @ [(r, Ret a)]))"
  using assms
proof (induction n arbitrary: w p)
  case 0
  then show ?case by (cases p) auto
next
  case (Suc n)
  show ?case
  proof (cases p)
    case (Ret a)
    have "steps_within p n" using Ret by simp
    with Suc.IH [OF this] Ret show ?thesis by simp
  next
    case (Step m)
    obtain p' w1 where m: "run_state m w = (p', w1)" by fastforce
    have "steps_within p' n" using steps_within_step [OF Suc.prems [unfolded Step] m] by simp
    from Suc.IH [OF this] show ?thesis by (simp add: Step m)
  qed
qed

text \<open>The requests of a list one after the other, in the sequential model, and the schedule that lets each
  finish before the next arrives.\<close>

primrec serve_all :: "env \<Rightarrow> config \<Rightarrow> event list \<Rightarrow> (world, outcome list) state" where
  "serve_all E cfg [] = return []"
| "serve_all E cfg (ev # evs) = do { out \<leftarrow> serve E cfg ev; outs \<leftarrow> serve_all E cfg evs; return (out # outs) }"

primrec in_turn :: "nat \<Rightarrow> event list \<Rightarrow> event turn list" where
  "in_turn i [] = []"
| "in_turn i (ev # evs) = Arrive ev # replicate (action_budget ev) (Turn i) @ in_turn (Suc i) evs"

lemma in_turn_run:
  "fold (take_turn (serve_proc E cfg)) (in_turn (length ps) evs) (w, ps) =
    (case run_state (serve_all E cfg evs) w of (outs, w') \<Rightarrow> (w', ps @ zip evs (map Ret outs)))"
proof (induction evs arbitrary: w ps)
  case (Cons ev evs)
  obtain out w1 where 1: "run_state (serve E cfg ev) w = (out, w1)" by fastforce
  have "fold (take_turn (serve_proc E cfg)) (replicate (action_budget ev) (Turn (length ps))) (w, ps @ [(ev, serve_proc E cfg ev)])
    = (w1, ps @ [(ev, Ret out)])"
    using turns_run [OF steps_serve [of E cfg ev], of "serve_proc E cfg" ps w ev] 1 by (simp add: run_serve)
  with 1 Cons.IH [of "ps @ [(ev, Ret out)]" w1] show ?case by (simp split: prod.split)
qed simp

subsection \<open>Requests end\<close>

lemma pool_budget:
  assumes "(pool_step serves)\<^sup>*\<^sup>* (w0, []) pool" "\<And>r. steps_within (serves r) (b r)" "(r, p) \<in> set (snd pool)"
  shows "steps_within p (b r)"
  using assms(1,3)
proof (induction arbitrary: r p rule: rtranclp_induct)
  case (step pool pool')
  from step.hyps(2) step.IH step.prems show ?case
  proof (induction rule: pool_step.induct)
    case (arrive w ps r')
    then show ?case using assms(2) by auto
  next
    case (act i ps r' m w p' w')
    then have "steps_within (Step m) (b r')" by (metis nth_mem snd_conv)
    from steps_within_mono [OF conjunct2 [OF steps_within_step [OF this act(3)]]]
    have "steps_within p' (b r')" by simp
    with act show ?case by (auto dest!: set_update_subset_insert [THEN subsetD])
  qed
qed simp

text \<open>A request that is given as many turns as its budget is answered.\<close>

lemma turns_answer:
  assumes "schedule (serve_proc E cfg) ts w0 = (w, ps)" "i < length ps" "ps ! i = (ev, p)"
    "action_budget ev \<le> length (filter (\<lambda>t. t = Turn i) ts')"
  shows "\<exists>w' ps' out. schedule (serve_proc E cfg) (ts @ ts') w0 = (w', ps') \<and> i < length ps' \<and> ps' ! i = (ev, Ret out)"
proof -
  have "(pool_step (serve_proc E cfg))\<^sup>*\<^sup>* (w0, []) (w, ps)" unfolding schedule_iff_steps using assms(1) by blast
  moreover have "(ev, p) \<in> set (snd (w, ps))" using assms(2,3) by (metis nth_mem snd_conv)
  ultimately have "steps_within p (action_budget ev)" by (rule pool_budget [OF _ steps_serve])
  from turns_finish [OF assms(2,3) this assms(4)] assms(1) show ?thesis by (simp add: schedule_def)
qed

end
