(* ===== verification/Conc_Theorems.thy ===== *)
theory Conc_Theorems
  imports Conc_Invariant Conc_Progress Middleware_Theorems
begin

text \<open>
  Theorems about the server under concurrent requests: \<open>schedule (serve_proc E cfg) ts new_world\<close> is the
  world and the pool of processes after any requests arrived in any order and their actions
  interleaved in any way.
\<close>

section \<open>Safety of every interleaving\<close>

text \<open>C3. The answers are sound however requests interleave. Every answer given in any schedule rests on what the
  sequential theorems say of it: a success of the token endpoint on a resolved client whose presented credentials
  were checked, its registered redirect URI, a redeemable code, the provider's own answer to the exchange of
  that code, the identity that answer proves, and the bearer made of it; a redirect of the authorization endpoint on a resolved client and the checks of the
  request; a redirect of the callback on a state the broker sealed; a request passed on by the
  middleware on a bearer token whose identity was validated, within its window and with the required scopes.\<close>

theorem concurrent_answers_sound:
  assumes "keyset_Key_sound E" "schedule (serve_proc E cfg) ts new_world = (w, ps)" "(ev, Ret out) \<in> set ps"
  shows "answer_ok E cfg ev out"
  using pool.answers_kept(2) [OF assms(2) conjI [OF assms(1) conc_inv_new], of UNIV ev out] assms(1,3) by blast

text \<open>Two requests to the application whose actions alternate, on empty caches: both fetch the key set.\<close>

definition demo_alternating :: "event turn list" where
  "demo_alternating =
    [Arrive (Application demo_bearer), Arrive (Application demo_bearer)] @ concat (replicate 6 [Turn 0, Turn 1])"

definition passed_claims :: "(world, outcome) proc \<Rightarrow> bool" where
  "passed_claims p = (case p of Ret (Ruled (Passed ctx)) \<Rightarrow> snd (ClaimsFromContext ctx) | _ \<Rightarrow> False)"

lemma demo_alternating_run:
  "case schedule (serve_proc demo_env demo_cfg) demo_alternating new_world of (w, ps) \<Rightarrow>
     length (w_sent w) = 2 \<and> map fst ps = [Application demo_bearer, Application demo_bearer] \<and>
     list_all passed_claims (map snd ps)"
  by code_simp

lemma passed_claimsE:
  assumes "passed_claims p"
  obtains ctx c where "p = Ret (Ruled (Passed ctx))" "ClaimsFromContext ctx = (c, True)"
proof (cases p)
  case (Ret out)
  with assms that show ?thesis by (cases out) (auto simp: passed_claims_def split: verdict.splits, metis prod.collapse)
qed (use assms in \<open>simp add: passed_claims_def\<close>)

theorem concurrent_answers_sound_witness:
  "\<exists>w ctx1 ctx2. schedule (serve_proc demo_env demo_cfg) demo_alternating new_world =
     (w, [(Application demo_bearer, Ret (Ruled (Passed ctx1))), (Application demo_bearer, Ret (Ruled (Passed ctx2)))]) \<and>
     length (w_sent w) = 2 \<and> passed_on demo_env demo_cfg demo_bearer ctx1 \<and> passed_on demo_env demo_cfg demo_bearer ctx2"
proof -
  obtain w ps where s: "schedule (serve_proc demo_env demo_cfg) demo_alternating new_world = (w, ps)"
    and ps: "length (w_sent w) = 2" "map fst ps = [Application demo_bearer, Application demo_bearer]"
      "list_all passed_claims (map snd ps)"
    using demo_alternating_run by (auto split: prod.splits)
  then obtain p1 p2 where p: "ps = [(Application demo_bearer, p1), (Application demo_bearer, p2)]"
    "passed_claims p1" "passed_claims p2" by (auto simp: map_eq_Cons_conv)
  obtain ctx1 where 1: "p1 = Ret (Ruled (Passed ctx1))" by (rule passed_claimsE [OF p(2)])
  obtain ctx2 where 2: "p2 = Ret (Ruled (Passed ctx2))" by (rule passed_claimsE [OF p(3)])
  have "answer_ok demo_env demo_cfg (Application demo_bearer) (Ruled (Passed ctx))" if "ctx \<in> {ctx1, ctx2}" for ctx
    by (rule concurrent_answers_sound [OF demo_keyset_sound s]) (use p(1) 1 2 that in auto)
  with s p(1) 1 2 ps(1) show ?thesis by simp
qed

text \<open>C8. The state of the server under concurrency. In every schedule the process has not panicked, neither
  client cache holds more than 1024 entries, every address the fetcher connected to is outside the
  blocked ranges, the provider's cached key set was served at the URL it is cached for, and
  whatever was posted went to the provider's token endpoint and is a token refresh or the exchange for one of the
  token requests that arrived: its own form names a resolved client and a registered redirect URI, presents no
  credentials but valid ones, and redeems the code.\<close>

theorem concurrent_state_sound:
  assumes "keyset_Key_sound E" "schedule (serve_proc E cfg) ts new_world = (w, ps)"
  shows "\<not> w_panicked w \<and> length (entries (w_cache w)) \<le> 1024 \<and> length (entries (w_jwksCache w)) \<le> 1024 \<and>
    list_all (\<lambda>a. \<not> isBlockedIP (Some a)) (w_dialed w) \<and>
    (v_jwks (w_validator w) = [] \<or> keys_of E (v_jwksURL (w_validator w)) (v_jwks (w_validator w))) \<and>
    (\<forall>u vs. HttpPostForm u vs \<in> set (w_sent w) \<longrightarrow> token_url E cfg u \<and>
       ((\<exists>rt. vs = refresh_form cfg rt) \<or>
        (\<exists>r form issued client. Arrive (Endpoint Token r) \<in> set ts \<and> ParseForm r = Some form \<and>
           client_of E (Get form ''client_id'') client \<and> credentials_ok E cfg r form client \<and>
           Get form ''redirect_uri'' \<in> set (rc_RedirectURIs client) \<and> redeemable E cfg form issued \<and>
           vs = exchange_form E cfg r issued)))"
proof -
  let ?R = "{r. Arrive (Endpoint Token r) \<in> set ts}"
  have inv: "conc_inv E cfg ?R w"
    using pool.answers_kept(1) [OF assms(2) conjI [OF assms(1) conc_inv_new], of ?R] by blast
  then have posts: "posts_ok E cfg ?R (w_sent w)" and rest: "\<not> w_panicked w" "length (entries (w_cache w)) \<le> 1024"
    "length (entries (w_jwksCache w)) \<le> 1024" "list_all (\<lambda>a. \<not> isBlockedIP (Some a)) (w_dialed w)"
    "v_jwks (w_validator w) = [] \<or> keys_of E (v_jwksURL (w_validator w)) (v_jwks (w_validator w))"
    by (auto simp: conc_inv_def entries_ok_def cache_inv_def cimdCacheCap_def val_inv_def list_all_iff)
  from posts have "\<forall>u vs. HttpPostForm u vs \<in> set (w_sent w) \<longrightarrow> token_url E cfg u \<and> ((\<exists>rt. vs = refresh_form cfg rt) \<or>
    (\<exists>r form issued client. Arrive (Endpoint Token r) \<in> set ts \<and> ParseForm r = Some form \<and>
       client_of E (Get form ''client_id'') client \<and> credentials_ok E cfg r form client \<and>
       Get form ''redirect_uri'' \<in> set (rc_RedirectURIs client) \<and> redeemable E cfg form issued \<and>
       vs = exchange_form E cfg r issued))"
    unfolding posts_ok_def admitted_def by blast
  with rest show ?thesis by blast
qed

text \<open>A token request, alone, whose code is redeemed and exchanged.\<close>

lemma handleTokenAuthCode_cong:
  assumes "\<And>k. k \<noteq> ''grant_type'' \<Longrightarrow> Get f k = Get g k"
  shows "handleTokenAuthCode E cfg r f = handleTokenAuthCode E cfg r g"
proof -
  have "check_code E f i = check_code E g i" for i by (simp add: check_code_def Let_def assms)
  then have "redeem_code E cfg f client = redeem_code E cfg g client" for client
    by (simp add: redeem_code_def assms cong: run_congs)
  moreover have "authenticate_method E cfg r f client = authenticate_method E cfg r g client" for client
    by (simp add: authenticate_method_def Let_def assms)
  then have "authenticate_client E cfg r f = authenticate_client E cfg r g"
    by (simp add: authenticate_client_def assms)
  ultimately show ?thesis by (simp add: handleTokenAuthCode_def cong: run_congs)
qed

definition demo_redeeming :: event where
  "demo_redeeming = Endpoint Token (demo_request\<lparr>req_Method := ''POST'', req_MediaType := Some ''text/plain'',
     req_RawQuery := Encode ((''grant_type'', ''authorization_code'') # demo_form)\<rparr>)"

text \<open>What the exchange posts.\<close>

definition demo_posted :: url_values where
  "demo_posted = (case demo_redeeming of Endpoint e r \<Rightarrow> exchange_form demo_env demo_cfg r demo_issued | Application r \<Rightarrow> [])"

lemma demo_redeeming_run:
  obtains resp w where "run_state (serve demo_env demo_cfg demo_redeeming) new_world = (Responded resp, w)"
    "resp_Status resp = 200" "HttpPostForm ''https://idp.example/token'' demo_posted \<in> set (w_sent w)"
proof -
  let ?f = "(''grant_type'', ''authorization_code'') # demo_form"
  let ?r = "demo_request\<lparr>req_Method := ''POST'', req_MediaType := Some ''text/plain'', req_RawQuery := Encode ?f\<rparr>"
  have form: "ParseForm ?r = Some (ParseQuery (Encode ?f))" by (simp add: ParseForm_def query_ok_Encode)
  have get: "Get (ParseQuery (Encode ?f)) k = Get demo_form k" if "k \<noteq> ''grant_type''" for k
    using that unfolding Get_ParseQuery_Encode by (simp add: Get_def)
  have grant: "Get (ParseQuery (Encode ?f)) ''grant_type'' = ''authorization_code''"
    unfolding Get_ParseQuery_Encode by (simp add: Get_def)
  obtain b w where "run_state (handleTokenAuthCode demo_env demo_cfg ?r demo_form) new_world = (json_response 200 b, w)"
    "HttpPostForm ''https://idp.example/token'' (exchange_form demo_env demo_cfg ?r demo_issued) \<in> set (w_sent w)"
    by (rule demo_run)
  with that show ?thesis
    by (simp add: demo_posted_def demo_redeeming_def withCORS_def handleToken_def form grant handleTokenAuthCode_cong [OF get] json_response_def)
qed

theorem concurrent_state_sound_witness:
  "\<exists>w ps form issued. schedule (serve_proc demo_env demo_cfg) (in_turn 0 [demo_redeeming]) new_world = (w, ps) \<and>
     HttpPostForm ''https://idp.example/token'' demo_posted \<in> set (w_sent w) \<and>
     redeemable demo_env demo_cfg form issued \<and> ic_UpstreamAuthCode issued = ''uc''"
proof -
  obtain resp w where run: "run_state (serve demo_env demo_cfg demo_redeeming) new_world = (Responded resp, w)"
    and post: "HttpPostForm ''https://idp.example/token'' demo_posted \<in> set (w_sent w)" by (rule demo_redeeming_run)
  have s: "schedule (serve_proc demo_env demo_cfg) (in_turn 0 [demo_redeeming]) new_world = (w, [(demo_redeeming, Ret (Responded resp))])"
    using in_turn_run [of demo_env demo_cfg "[]" "[demo_redeeming]" new_world] run by (simp add: schedule_def)
  have g: "Get (exchange_form demo_env demo_cfg r issued) ''grant_type'' = ''authorization_code''"
    "Get (exchange_form demo_env demo_cfg r issued) ''code'' = ic_UpstreamAuthCode issued" for r issued
    by (simp_all add: exchange_form_def Let_def Get_SetValue)
  have "Get (refresh_form demo_cfg rt) ''grant_type'' = ''refresh_token''" for rt
    by (simp add: refresh_form_def Let_def Get_SetValue)
  moreover obtain r0 where p: "demo_posted = exchange_form demo_env demo_cfg r0 demo_issued"
    by (simp add: demo_posted_def demo_redeeming_def)
  moreover have "''authorization_code'' \<noteq> ''refresh_token''" by simp
  ultimately have "demo_posted \<noteq> refresh_form demo_cfg rt" for rt using g(1) by metis
  with concurrent_state_sound [OF demo_keyset_sound s] post obtain r form issued where
    "redeemable demo_env demo_cfg form issued" "demo_posted = exchange_form demo_env demo_cfg r issued" by blast
  moreover from this(2) p g(2) have "ic_UpstreamAuthCode issued = ic_UpstreamAuthCode demo_issued" by metis
  then have "ic_UpstreamAuthCode issued = ''uc''" by (simp add: demo_issued_def)
  ultimately show ?thesis using s post by blast
qed

section \<open>Progress\<close>

text \<open>C14. No request waits for another. From whatever point of whatever schedule, a request that has arrived is
  answered once it has taken at most fifty-nine actions of its own if it is a token request, twelve
  if it is an authorization request, one for a callback and fifteen for an application request;
  the other requests may do anything meanwhile, also stop for ever.\<close>

theorem concurrent_progress:
  assumes "schedule (serve_proc E cfg) ts w0 = (w, ps)" "i < length ps" "ps ! i = (ev, p)"
    "(case ev of
        Application _ \<Rightarrow> 15
      | Endpoint e _ \<Rightarrow> (case e of Authorize \<Rightarrow> 12 | Callback \<Rightarrow> 1 | Token \<Rightarrow> 59 | _ \<Rightarrow> 0))
     \<le> length (filter (\<lambda>t. t = Turn i) ts')"
  shows "\<exists>w' ps' out. schedule (serve_proc E cfg) (ts @ ts') w0 = (w', ps') \<and> i < length ps' \<and> ps' ! i = (ev, Ret out)"
proof -
  have "action_budget ev = (case ev of Application _ \<Rightarrow> 15
      | Endpoint e _ \<Rightarrow> (case e of Authorize \<Rightarrow> 12 | Callback \<Rightarrow> 1 | Token \<Rightarrow> 59 | _ \<Rightarrow> 0))"
    by (cases ev rule: action_budget.cases) simp_all
  with turns_answer [OF assms(1-3)] assms(4) show ?thesis by metis
qed

theorem concurrent_progress_witness:
  "\<exists>w' ps' out. schedule (serve_proc demo_env demo_cfg)
     ([Arrive (Application demo_bearer), Turn 0, Arrive demo_redeeming, Turn 1] @ replicate 15 (Turn 0)) new_world = (w', ps') \<and>
     ps' ! 0 = (Application demo_bearer, Ret out)"
proof -
  let ?ts = "[Arrive (Application demo_bearer), Turn 0, Arrive demo_redeeming, Turn 1]"
  obtain w ps where s: "schedule (serve_proc demo_env demo_cfg) ?ts new_world = (w, ps)" by fastforce
  have "0 < length ps \<and> fst (ps ! 0) = Application demo_bearer"
    using s by (auto simp: schedule_def split: prod.splits proc.splits if_splits)
  then obtain p where "0 < length ps" "ps ! 0 = (Application demo_bearer, p)" by (metis prod.collapse)
  from concurrent_progress [OF s this, of "replicate 15 (Turn 0)"] show ?thesis by auto
qed

section \<open>Sequential runs among the schedules\<close>

text \<open>The sequential model is a schedule of the concurrent one. Served one after the other, each finishing
  before the next arrives, any list of requests gets from the processes exactly the answers, and
  leaves exactly the state, that the handlers compute in the sequential model.\<close>

theorem one_at_a_time:
  "schedule (serve_proc E cfg) (in_turn 0 evs) w =
    (case run_state (serve_all E cfg evs) w of (outs, w') \<Rightarrow> (w', zip evs (map Ret outs)))"
  using in_turn_run [of E cfg "[]" evs w] by (simp add: schedule_def)

section \<open>A race\<close>

text \<open>A provider that has rotated its key by the fifth event: before it serves the key set with identifier 1,
  afterwards the one with identifier 2. The token \<open>o.l.d\<close> names the first key, any other the second.\<close>

definition rotated_key :: jwk where
  "rotated_key = \<lparr>jwk_Key = ''k'', jwk_KeyID = ''2'', jwk_Algorithm = ''RS256'', jwk_Use = ''sig''\<rparr>"

definition demo_rotating :: env where
  "demo_rotating = demo_env\<lparr>
     env_http := (\<lambda>n out. Some ((demo_http out)\<lparr>in_Body := Some (if n < 5 then ''1'' else ''2'')\<rparr>)),
     env_keyset := (\<lambda>body. Some (if body = ''1'' then [demo_key] else [rotated_key])),
     env_ParseSigned := (\<lambda>algs token.
       Some [\<lparr>hdr_KeyID = (if token = ''o.l.d'' then ''1'' else ''2''), hdr_Algorithm = ''RS256''\<rparr>])\<rparr>"

definition bearer_event :: "string \<Rightarrow> event" where
  "bearer_event token = Application (demo_request\<lparr>req_Header := [(''Authorization'', ''Bearer '' @ token)]\<rparr>)"

text \<open>Two requests with the old token find the cache empty and fetch the old key set; the second one stores
  it and is served, the first one is held up before storing.\<close>

definition before_rotation :: "event turn list" where
  "before_rotation =
    Arrive (bearer_event ''o.l.d'') # replicate 4 (Turn 0) @ Arrive (bearer_event ''o.l.d'') # replicate 6 (Turn 1)"

text \<open>Then a request with the new token arrives, and finds the old set; it marks it stale, the first request
  stores it again, and the retry reads it back.\<close>

definition rotation_race :: "event turn list" where
  "rotation_race = Arrive (bearer_event ''n.e.w'') # replicate 4 (Turn 2) @ Turn 0 # replicate 2 (Turn 2)"

definition refused :: "(world, outcome) proc \<Rightarrow> bool" where
  "refused p = (case p of Ret (Ruled (Rejected resp)) \<Rightarrow> resp_Status resp = 401 | _ \<Rightarrow> False)"

lemma rotation_race_run:
  "case schedule (serve_proc demo_rotating demo_cfg) before_rotation new_world of (w, ps) \<Rightarrow>
     w_tick w = 5 \<and>
     passed_claims (Ret (fst (run_state (serve demo_rotating demo_cfg (bearer_event ''n.e.w'')) w)))"
  "case schedule (serve_proc demo_rotating demo_cfg) (before_rotation @ rotation_race) new_world of (w, ps) \<Rightarrow>
     fst (ps ! 2) = bearer_event ''n.e.w'' \<and> refused (snd (ps ! 2)) \<and> v_jwks (w_validator w) = [demo_key]"
  by code_simp+

text \<open>C15. The retry after a key rotation can be defeated by another request. In the run above, from the fifth event
  on the provider serves only the rotated key set. The request with the new token, which arrives
  then, is passed on when no other request interferes, but is refused with status 401 when a
  request that had fetched the old set before the rotation stores it between the invalidation and
  the retry: the retry consults the cache again instead of fetching.\<close>

theorem rotation_retry_race:
  "\<exists>w ps w' ps' resp ctx.
     schedule (serve_proc demo_rotating demo_cfg) before_rotation new_world = (w, ps) \<and> w_tick w = 5 \<and>
     fst (run_state (serve demo_rotating demo_cfg (bearer_event ''n.e.w'')) w) = Ruled (Passed ctx) \<and>
     schedule (serve_proc demo_rotating demo_cfg) (before_rotation @ rotation_race) new_world = (w', ps') \<and>
     ps' ! 2 = (bearer_event ''n.e.w'', Ret (Ruled (Rejected resp))) \<and> resp_Status resp = 401 \<and>
     v_jwks (w_validator w') = [demo_key]"
proof -
  obtain w ps where 1: "schedule (serve_proc demo_rotating demo_cfg) before_rotation new_world = (w, ps)" "w_tick w = 5"
    "passed_claims (Ret (fst (run_state (serve demo_rotating demo_cfg (bearer_event ''n.e.w'')) w)))"
    using rotation_race_run(1) by (auto split: prod.splits)
  from 1(3) obtain ctx where 2: "fst (run_state (serve demo_rotating demo_cfg (bearer_event ''n.e.w'')) w) = Ruled (Passed ctx)"
    by (auto elim: passed_claimsE)
  obtain w' ps' where 3: "schedule (serve_proc demo_rotating demo_cfg) (before_rotation @ rotation_race) new_world = (w', ps')"
    "fst (ps' ! 2) = bearer_event ''n.e.w''" "refused (snd (ps' ! 2))" "v_jwks (w_validator w') = [demo_key]"
    using rotation_race_run(2) by (auto split: prod.splits)
  from 3(3) obtain resp where "snd (ps' ! 2) = Ret (Ruled (Rejected resp))" "resp_Status resp = 401"
    by (auto simp: refused_def split: proc.splits outcome.splits verdict.splits)
  with 1(1,2) 2 3 show ?thesis by (metis prod.collapse)
qed

end
