(* ===== verification/Example_Hosting.thy ===== *)
theory Example_Hosting
  imports Middleware_Theorems
begin

text \<open>
  The example program \<open>examples/hosting/main.go\<close>, the deployment the library is meant for: a forward-mode
  broker and a protected endpoint \<open>/mcp\<close>. The command line is the record \<open>flags\<close> after \<open>flag.Parse\<close>,
  \<open>os.ReadFile\<close> a parameter, and the network from \<open>http.ListenAndServe\<close> on is the events of the other
  theories. Shown here: when the program starts, and what the handler of \<open>/mcp\<close> answers.
\<close>

subsection \<open>The program\<close>

record flags =
  fl_addr :: string
  fl_issuer :: string
  fl_clientID :: string
  fl_clientSecretFile :: string
  fl_signingSecretFile :: string
  fl_publicURL :: string
  fl_scopes :: string
  fl_allowedDomains :: string

definition default_flags :: flags where
  "default_flags =
    \<lparr>fl_addr = '':8080'', fl_issuer = [], fl_clientID = [], fl_clientSecretFile = [], fl_signingSecretFile = [],
     fl_publicURL = [], fl_scopes = ''openid,email,profile'', fl_allowedDomains = []\<rparr>"

fun csv_loop :: "string list \<Rightarrow> string list" where
  "csv_loop [] = []"
| "csv_loop (p # ps) = (if TrimSpace p \<noteq> [] then TrimSpace p # csv_loop ps else csv_loop ps)"

definition splitCSV :: "string \<Rightarrow> string list" where
  "splitCSV s = (if TrimSpace s = [] then [] else csv_loop (Split s (CHR '','')))"

definition hosting_config :: "flags \<Rightarrow> string \<Rightarrow> string \<Rightarrow> config" where
  "hosting_config f clientSecret signingSecret = zero_config
    \<lparr>cfg_Mode := ModeForward, cfg_Issuer := fl_issuer f, cfg_Audience := fl_publicURL f, cfg_ClientID := fl_clientID f,
     cfg_ClientSecret := TrimSpace clientSecret, cfg_SigningSecret := TrimSpace signingSecret,
     cfg_Scopes := splitCSV (fl_scopes f), cfg_AllowedEmailDomains := splitCSV (fl_allowedDomains f),
     cfg_PublicResourceURL := fl_publicURL f, cfg_PublicAuthServerURL := fl_publicURL f\<rparr>"

text \<open>A pattern of the multiplexer leads to an endpoint of the broker or to the handler behind the
  middleware.\<close>

datatype target = OAuthTarget endpoint | MCPTarget

datatype boot = Exited nat | BootPanic | Serving config world "(string \<times> target) list"

definition main :: "env \<Rightarrow> (string \<Rightarrow> string option) \<Rightarrow> flags \<Rightarrow> boot" where
  "main E ReadFile f =
    (if fl_issuer f = [] \<or> fl_clientID f = [] \<or> fl_clientSecretFile f = [] \<or> fl_signingSecretFile f = [] \<or> fl_publicURL f = []
     then Exited 2
     else case ReadFile (fl_clientSecretFile f) of
       None \<Rightarrow> Exited 1
     | Some clientSecret \<Rightarrow>
       (case ReadFile (fl_signingSecretFile f) of
          None \<Rightarrow> Exited 1
        | Some signingSecret \<Rightarrow>
          (case New E (hosting_config f clientSecret signingSecret) of
             Inl err \<Rightarrow> Exited 1
           | Inr (cfg, w) \<Rightarrow>
             (case RegisterRoutes (env_unicode E) cfg of
                None \<Rightarrow> BootPanic
              | Some rs \<Rightarrow>
                (let mux = map (\<lambda>(p, e). (p, OAuthTarget e)) rs @ [(''/mcp'', MCPTarget)] in
                 if distinct (map fst mux) then Serving cfg w mux else BootPanic)))))"

text \<open>The handler behind the middleware; \<open>None\<close> is the panic on the field of a nil \<open>*Claims\<close>.\<close>

definition mcp_handler :: "req_context \<Rightarrow> string option" where
  "mcp_handler ctx =
    (case ClaimsFromContext ctx of
       (None, _) \<Rightarrow> None
     | (Some c, _) \<Rightarrow>
       (case RawTokenFromContext ctx of
          (raw, _) \<Rightarrow> Some (''hello, '' @ cl_Email c @ [CHR '' '', CHR 0xE2, CHR 0x80, CHR 0x94] @ '' your raw bearer is '' @
            Itoa (int (length raw)) @ '' bytes'')))"

datatype mcp_outcome = McpRefused response | McpPanic | McpHello string

definition mcp :: "env \<Rightarrow> config \<Rightarrow> request \<Rightarrow> (world, mcp_outcome) state" where
  "mcp E cfg r = do {
     v \<leftarrow> Middleware E cfg r;
     return (case v of
       Rejected resp \<Rightarrow> McpRefused resp
     | Passed ctx \<Rightarrow> (case mcp_handler ctx of None \<Rightarrow> McpPanic | Some body \<Rightarrow> McpHello body))
   }"

subsection \<open>Starting\<close>

lemma csv_loop_eq: "csv_loop ps = filter (\<lambda>p. p \<noteq> []) (map TrimSpace ps)"
  by (induction ps) simp_all

lemma hosting_mode:
  "Normalize U (cfg_Mode (hosting_config f c s)) = ModeForward" "brokerActive U (hosting_config f c s)"
  by (simp_all add: hosting_config_def forward_normal brokerActive_def)

lemma New_hosting:
  "New E (hosting_config f c s) =
    (if TrimSpace (fl_clientID f) = [] then Inl ClientIDRequired
     else if TrimSpace (fl_issuer f) = [] then Inl IssuerOrURLsRequired
     else if TrimSpace s = [] then Inl SigningSecretRequired
     else Inr (hosting_config f c s, new_world))"
proof -
  have "TrimSpace [] = []" by code_simp
  then show ?thesis
    by (simp add: New_def Validate_config_def hosting_mode Let_def) (simp add: hosting_config_def zero_config_def)
qed

text \<open>The route table of the deployment, whatever the flags.\<close>

definition hosting_mux :: "(string \<times> target) list" where
  "hosting_mux =
    [(''/.well-known/oauth-protected-resource'', OAuthTarget ProtectedResourceMetadata),
     (''/.well-known/oauth-authorization-server'', OAuthTarget AuthorizationServerMetadata),
     (''/.well-known/oauth-authorization-server/oauth'', OAuthTarget AuthorizationServerMetadata),
     (''/oauth/.well-known/oauth-authorization-server'', OAuthTarget AuthorizationServerMetadata),
     (''/.well-known/openid-configuration'', OAuthTarget OpenIDConfiguration),
     (''/.well-known/openid-configuration/oauth'', OAuthTarget OpenIDConfiguration),
     (''/oauth/.well-known/openid-configuration'', OAuthTarget OpenIDConfiguration),
     (''/oauth/register'', OAuthTarget RegistrationRemoved), (''/oauth/authorize'', OAuthTarget Authorize),
     (''/oauth/callback'', OAuthTarget Callback), (''/oauth/token'', OAuthTarget Token), (''/mcp'', MCPTarget)]"

lemma hosting_routes:
  "\<exists>rs. RegisterRoutes U (hosting_config f c s) = Some rs \<and> map (\<lambda>(p, e). (p, OAuthTarget e)) rs @ [(''/mcp'', MCPTarget)] = hosting_mux"
proof -
  have paths: "cfg_AuthorizationPath (hosting_config f c s) = []" "cfg_CallbackPath (hosting_config f c s) = []"
    "cfg_TokenPath (hosting_config f c s) = []"
    by (simp_all add: hosting_config_def zero_config_def)
  let ?rs = "(defaultProtectedResourceMetadataPath, ProtectedResourceMetadata) #
     map (\<lambda>p. (p, AuthorizationServerMetadata))
       (uniquePaths [defaultAuthorizationServerMetadataPath, ''/.well-known/oauth-authorization-server/oauth'',
          ''/oauth/.well-known/oauth-authorization-server'']) @
     map (\<lambda>p. (p, OpenIDConfiguration))
       (uniquePaths [defaultOpenIDConfigurationPath, ''/.well-known/openid-configuration/oauth'',
          ''/oauth/.well-known/openid-configuration'']) @
     [(defaultRegistrationPath, RegistrationRemoved)] @
     map (\<lambda>p. (p, Authorize)) (uniquePaths [normalizedPath [] defaultAuthorizationPath, defaultAuthorizationPath]) @
     map (\<lambda>p. (p, Callback)) (uniquePaths [normalizedPath [] defaultCallbackPath, defaultCallbackPath]) @
     map (\<lambda>p. (p, Token)) (uniquePaths [normalizedPath [] defaultTokenPath, defaultTokenPath])"
  have "routes U (hosting_config f c s) = ?rs"
    by (simp add: routes_def hosting_mode authorizationPath_def callbackPath_def tokenPath_def paths)
  moreover have "distinct (map fst ?rs)" by code_simp
  moreover have "map (\<lambda>(p, e). (p, OAuthTarget e)) ?rs @ [(''/mcp'', MCPTarget)] = hosting_mux" by code_simp
  ultimately show ?thesis unfolding RegisterRoutes_def by simp
qed

lemma hosting_registers:
  "(case RegisterRoutes U (hosting_config f c s) of
      None \<Rightarrow> BootPanic
    | Some rs \<Rightarrow> let mux = map (\<lambda>(p, e). (p, OAuthTarget e)) rs @ [(''/mcp'', MCPTarget)] in
        if distinct (map fst mux) then Serving (hosting_config f c s) w mux else BootPanic) =
    Serving (hosting_config f c s) w hosting_mux"
proof -
  have "distinct (map fst hosting_mux)" by code_simp
  then show ?thesis using hosting_routes [of U f c s] by (auto simp: Let_def)
qed

text \<open>C37. When the example starts. Without one of the five required flags it exits with status 2; it exits with status
  1 when a secret file cannot be read, or the client identifier, the issuer or the signing secret
  is blank; in every other case, with a signing secret of one byte too, it serves the table
  of routes above, whose registration never panics.\<close>

theorem hosting_boot:
  "main E ReadFile f =
    (if fl_issuer f = [] \<or> fl_clientID f = [] \<or> fl_clientSecretFile f = [] \<or> fl_signingSecretFile f = [] \<or> fl_publicURL f = []
     then Exited 2
     else case (ReadFile (fl_clientSecretFile f), ReadFile (fl_signingSecretFile f)) of
       (Some c, Some s) \<Rightarrow>
         if TrimSpace (fl_clientID f) = [] \<or> TrimSpace (fl_issuer f) = [] \<or> TrimSpace s = [] then Exited 1
         else Serving (hosting_config f c s) new_world hosting_mux
     | _ \<Rightarrow> Exited 1)"
  by (auto simp: main_def New_hosting hosting_registers split: option.split)

subsection \<open>The protected endpoint\<close>

lemma hosting_serving:
  assumes "main E ReadFile f = Serving cfg w0 mux"
  obtains c s where "cfg = hosting_config f c s" "TrimSpace (fl_issuer f) \<noteq> []" "fl_publicURL f \<noteq> []"
    "New E cfg = Inr (cfg, w0)"
proof -
  obtain c s cfg' w where n: "New E (hosting_config f c s) = Inr (cfg', w)" "fl_publicURL f \<noteq> []"
    "(case RegisterRoutes (env_unicode E) cfg' of
        None \<Rightarrow> BootPanic
      | Some rs \<Rightarrow> let mux = map (\<lambda>(p, e). (p, OAuthTarget e)) rs @ [(''/mcp'', MCPTarget)] in
          if distinct (map fst mux) then Serving cfg' w mux else BootPanic) = Serving cfg w0 mux"
    using assms by (auto simp: main_def split: if_splits option.splits sum.splits)
  then have "cfg' = cfg" "w = w0" by (auto simp: Let_def split: option.splits if_splits)
  with n that [of c s] show ?thesis by (auto simp: New_hosting split: if_splits)
qed

lemma hosting_fields:
  "cfg_Audience (hosting_config f c s) = fl_publicURL f" "cfg_Issuer (hosting_config f c s) = fl_issuer f"
  "cfg_JWKSURL (hosting_config f c s) = []"
  "cfg_AllowedEmailDomains (hosting_config f c s) = splitCSV (fl_allowedDomains f)"
  "cfg_AllowUnverifiedEmail (hosting_config f c s) = False"
  "cfg_Mode (hosting_config f c s) = ModeForward" "\<not> IsGating U ModeForward"
  by (simp_all add: hosting_config_def zero_config_def IsGating_def forward_normal)

lemma mcp_run:
  assumes "run_state (mcp E cfg r) w = (out, w')"
  obtains (refused) resp where "run_state (Middleware E cfg r) w = (Rejected resp, w')" "out = McpRefused resp"
    | (passed) ctx where "run_state (Middleware E cfg r) w = (Passed ctx, w')"
        "out = (case mcp_handler ctx of None \<Rightarrow> McpPanic | Some body \<Rightarrow> McpHello body)"
  using assms by (auto simp: mcp_def split: prod.splits verdict.splits)

text \<open>In this deployment the middleware validates the bearer itself.\<close>

lemma hosting_unwrap: "run_state (unwrap_token E (hosting_config f c s) token) w = (token, w)"
  by (simp add: unwrap_token_def hosting_fields)

text \<open>C24. Who is greeted. In every reachable state of the example's server, when \<open>/mcp\<close> answers with its greeting,
  the request carried a token that a key of the issuer's discovered key set verifies, whose
  audience contains the public URL, inside its validity window; the email greeted is the token's, it is
  verified when there is one, and its domain is one of the non-blank trimmed parts of the allowed
  list when that list is given.\<close>

theorem mcp_greets_validated:
  assumes "keyset_Key_sound E" "main E ReadFile f = Serving cfg w0 mux" "reachable E cfg w"
    "run_state (mcp E cfg r) w = (McpHello body, w')"
  shows "\<exists>c. vouched E cfg (extractBearer E r) (fl_publicURL f) c \<and> audienceMatchesResource (cl_Audience c) (fl_publicURL f) \<and>
    in_window (env_clock E (w_tick w' - 1)) c \<and> HasPrefix body (''hello, '' @ cl_Email c) \<and>
    (cl_Email c = [] \<or> cl_EmailVerified c) \<and>
    (splitCSV (fl_allowedDomains f) = [] \<or>
     domain_allowed E (filter (\<lambda>p. p \<noteq> []) (map TrimSpace (Split (fl_allowedDomains f) (CHR '',''))))
       (emailDomain (env_unicode E) (cl_Email c)))"
proof -
  obtain cs ss where cfg: "cfg = hosting_config f cs ss" "TrimSpace (fl_issuer f) \<noteq> []" "fl_publicURL f \<noteq> []"
    by (rule hosting_serving [OF assms(2)])
  have inv: "broker_inv E w" by (rule reachable_broker_inv [OF assms(1,3)])
  from assms(4) obtain ctx where p: "run_state (Middleware E cfg r) w = (Passed ctx, w')" "mcp_handler ctx = Some body"
    by (auto elim!: mcp_run split: option.splits)
  obtain mc where m: "run_state (Validate E cfg (extractBearer E r)) w = (Inr mc, w')" "ClaimsFromContext ctx = (mc, mc \<noteq> None)"
    by (rule Middleware_Passed [OF p(1)]) (auto simp: hosting_unwrap cfg(1))
  from p(2) m(2) obtain c where c: "mc = Some c" and body: "HasPrefix body (''hello, '' @ cl_Email c)"
    by (auto simp: mcp_handler_def split: option.splits prod.splits)
  have v: "vouched E cfg (extractBearer E r) (fl_publicURL f) c" "policy_ok E cfg c"
    using ensuresD [OF Validate_broker [OF assms(1)] inv m(1)] by (simp_all add: c hosting_fields cfg(1))
  moreover have "in_window (env_clock E (w_tick w' - 1)) c" using Validate_window m(1) c by simp
  moreover have "audienceMatchesResource (cl_Audience c) (fl_publicURL f)"
    using v(1) cfg(3) by (auto simp: vouched_def claims_fit_def)
  ultimately show ?thesis
    using body by (auto simp: policy_ok_def hosting_fields cfg(1) splitCSV_def csv_loop_eq)
qed

text \<open>A run of the example: a provider whose discovery document names its key set, and whose tokens are for
  the client and for the public URL.\<close>

definition hosting_flags :: flags where
  "hosting_flags = default_flags\<lparr>fl_issuer := ''https://idp.example'', fl_clientID := ''cid'',
     fl_clientSecretFile := ''cs'', fl_signingSecretFile := ''ss'', fl_publicURL := ''https://mcp.example''\<rparr>"

definition hosting_demo :: config where
  "hosting_demo = hosting_config hosting_flags ''x'' ''y''"

definition hosting_files :: "string \<Rightarrow> string option" where
  "hosting_files name = (if name = ''cs'' then Some ''x'' else if name = ''ss'' then Some ''y'' else None)"

definition hosting_env :: "string list \<Rightarrow> env" where
  "hosting_env auds = demo_env\<lparr>
     env_http := (\<lambda>n out. Some ((demo_http out)\<lparr>in_Body := Some (''{'' @ quoted ''issuer'' @ '':'' @ quoted ''https://idp.example''
       @ '','' @ quoted ''jwks_uri'' @ '':'' @ quoted ''https://idp.example/jwks'' @ ''}'')\<rparr>)),
     env_Claims := (\<lambda>token key. if key = ''k'' then Some [(''iss'', AString ''https://idp.example''),
       (''aud'', ASlice (map AString auds)), (''email'', AString ''a@b.c''), (''email_verified'', ABool True)] else None)\<rparr>"

lemma hosting_main: "main (hosting_env auds) hosting_files hosting_flags = Serving hosting_demo new_world hosting_mux"
proof -
  have "TrimSpace ''cid'' \<noteq> []" "TrimSpace ''https://idp.example'' \<noteq> []" "TrimSpace ''y'' \<noteq> []" by code_simp+
  then show ?thesis
    by (simp add: main_def hosting_files_def New_hosting hosting_registers hosting_demo_def)
      (simp add: hosting_flags_def default_flags_def)
qed

lemma hosting_reachable: "reachable (hosting_env auds) hosting_demo new_world"
proof (rule reachable.start)
  show "New (hosting_env auds) hosting_demo = Inr (hosting_demo, new_world)"
    by (rule hosting_serving [OF hosting_main]) simp
qed

theorem mcp_greets_validated_witness:
  "\<exists>body w' (c::claims). run_state (mcp (hosting_env [''cid'', ''https://mcp.example'']) hosting_demo demo_bearer) new_world = (McpHello body, w') \<and>
     HasPrefix body (''hello, '' @ cl_Email c) \<and> audienceMatchesResource (cl_Audience c) ''https://mcp.example''"
proof -
  let ?E = "hosting_env [''cid'', ''https://mcp.example'']"
  have "case fst (run_state (mcp ?E hosting_demo demo_bearer) new_world) of McpHello _ \<Rightarrow> True | _ \<Rightarrow> False" by code_simp
  then obtain body w' where run: "run_state (mcp ?E hosting_demo demo_bearer) new_world = (McpHello body, w')"
    by (auto split: mcp_outcome.splits) (metis prod.collapse)
  have s: "keyset_Key_sound ?E" using demo_keyset_sound by (simp add: keyset_Key_sound_def hosting_env_def)
  have u: "fl_publicURL hosting_flags = ''https://mcp.example''" by (simp add: hosting_flags_def)
  from mcp_greets_validated [OF s hosting_main hosting_reachable run, unfolded u] run show ?thesis by blast
qed

text \<open>C23. What the example does with the bearers its own token endpoint hands out. Where the provider gives an
  opaque access token and no identity token, the middleware passes it on without claims and the
  handler panics on the nil claims. Where it gives an identity token whose only audience is the
  client identifier, every request with it is refused, unless client identifier and public URL are
  equal up to space and trailing slashes: the configuration expects the public URL as audience.\<close>

theorem hosting_bearers:
  assumes "main E ReadFile f = Serving cfg w0 mux" "extractBearer E r = token" "token \<noteq> []"
  shows "(\<not> looksLikeJWT token \<longrightarrow> fst (run_state (mcp E cfg r) w) = McpPanic) \<and>
    (looksLikeJWT token \<and> (\<forall>k c. key_claims E token k = Some c \<longrightarrow> cl_Audience c = [fl_clientID f]) \<and>
       slash_norm (fl_clientID f) \<noteq> slash_norm (fl_publicURL f) \<longrightarrow>
     (\<exists>resp. fst (run_state (mcp E cfg r) w) = McpRefused resp))"
proof -
  obtain cs ss where cfg: "cfg = hosting_config f cs ss" "TrimSpace (fl_issuer f) \<noteq> []" "fl_publicURL f \<noteq> []"
    by (rule hosting_serving [OF assms(1)])
  have m: "fst (run_state (Middleware E cfg r) w) =
    (case fst (run_state (Validate E cfg token) w) of
       Inl err \<Rightarrow> Rejected (writeUnauthorized E cfg r err)
     | Inr mc \<Rightarrow> Passed \<lparr>ctx_rawToken = Some token, ctx_claims = (case mc of None \<Rightarrow> None | Some c \<Rightarrow> Some (Some c))\<rparr>)"
    by (rule Middleware_eq [OF assms(2,3)]) (simp add: hosting_unwrap cfg(1))
  have opaque: "fst (run_state (Validate E cfg token) w) = Inr None" if "\<not> looksLikeJWT token"
    using that assms(3) by (simp add: Validate_def hosting_fields cfg(1) IsGating_def [symmetric] forward_normal)
  have refused: "\<exists>err. fst (run_state (Validate E cfg token) w) = Inl err"
    if "looksLikeJWT token" "\<forall>k c. key_claims E token k = Some c \<longrightarrow> cl_Audience c = [fl_clientID f]"
      "slash_norm (fl_clientID f) \<noteq> slash_norm (fl_publicURL f)"
  proof -
    have "\<not> claims_fit cfg (fl_publicURL f) c" if "cl_Audience c = [fl_clientID f]" for c
      using that \<open>slash_norm (fl_clientID f) \<noteq> slash_norm (fl_publicURL f)\<close> cfg(3)
      by (auto simp: claims_fit_def audienceMatchesResource_def)
    with that(2) have "verify_loop E cfg token (fl_publicURL f) v b ks \<noteq> Inr c" for v b ks c
      using verify_loop_Inr by blast
    then have "\<exists>err. fst (run_state (parseAndVerifyJWT E cfg token (fl_publicURL f)) w) = Inl err" for w
      by (auto simp: parseAndVerifyJWT_def split: prod.splits sum.splits option.splits list.splits)
        (metis sum.exhaust)+
    then obtain err w1 where "run_state (parseAndVerifyJWT E cfg token (fl_publicURL f)) w = (Inl err, w1)"
      by (metis prod.collapse)
    with that(1) assms(3) cfg(1,2) show ?thesis by (simp add: Validate_def hosting_fields)
  qed
  from m opaque refused show ?thesis
    by (auto simp: mcp_def mcp_handler_def ClaimsFromContext_def split: prod.splits)
qed

theorem hosting_bearers_witness:
  "fst (run_state (mcp (hosting_env [''cid'']) hosting_demo (demo_request\<lparr>req_Header := [(''Authorization'', ''Bearer at'')]\<rparr>)) new_world) = McpPanic \<and>
   (\<exists>resp. fst (run_state (mcp (hosting_env [''cid'']) hosting_demo demo_bearer) new_world) = McpRefused resp)"
proof
  let ?E = "hosting_env [''cid'']"
  have "extractBearer ?E (demo_request\<lparr>req_Header := [(''Authorization'', ''Bearer at'')]\<rparr>) = ''at''"
    "\<not> looksLikeJWT ''at''" "extractBearer ?E demo_bearer = ''a.b.c''" "looksLikeJWT ''a.b.c''"
    "slash_norm (fl_clientID hosting_flags) \<noteq> slash_norm (fl_publicURL hosting_flags)" by code_simp+
  note d = this
  from hosting_bearers [OF hosting_main d(1)] d(2)
  show "fst (run_state (mcp ?E hosting_demo (demo_request\<lparr>req_Header := [(''Authorization'', ''Bearer at'')]\<rparr>)) new_world) = McpPanic" by simp
  have "cl_Audience c = [fl_clientID hosting_flags]" if "key_claims ?E t k = Some c" for t k c
    using that by (auto simp: key_claims_def hosting_env_def claimsFromRaw_def aud_claim_def hosting_flags_def split: if_splits)
  with hosting_bearers [OF hosting_main d(3)] d(4,5)
  show "\<exists>resp. fst (run_state (mcp ?E hosting_demo demo_bearer) new_world) = McpRefused resp" by blast
qed

end
