(* ===== verification/Test_Provider.thy ===== *)
theory Test_Provider
  imports Middleware_Theorems Broker_Theorems
begin

text \<open>
  The test provider of \<open>internal/oauthtest\<close>: a provider with one RSA key that serves a discovery
  document and its key set, and mints identity tokens. The tests of the repository use it as the other side of
  the library. RSA and the serializations of go-jose are the record \<open>mock_libs\<close>, the server of \<open>httptest\<close> a
  hypothesis on the network. A failing test (\<open>t.Fatalf\<close>) is \<open>None\<close>. Shown here: the library
  finds the provider by discovery alone, and what it answers to a minted token, from whatever state of its caches.
\<close>

subsection \<open>The provider\<close>

record mock_libs =
  ml_GenerateKey :: "nat \<Rightarrow> string option"
  ml_Public :: "string \<Rightarrow> string"
  ml_KeySet :: "jwk list \<Rightarrow> string"
  ml_Sign :: "string \<Rightarrow> string \<Rightarrow> string \<Rightarrow> jmap \<Rightarrow> string option"

text \<open>\<open>ml_Sign alg key kid claims\<close> is \<open>jose.NewSigner\<close> for the algorithm, the key and the \<open>kid\<close> header,
  followed by \<open>jwt.Signed(signer).Claims(claims).Serialize()\<close>; \<open>ml_KeySet\<close> the JSON text of a \<open>jose.JSONWebKeySet\<close>.\<close>

record MockIDP =
  idp_Key :: string
  idp_KeyID :: string
  idp_Issuer :: string

definition MockIDP_New :: "mock_libs \<Rightarrow> string \<Rightarrow> (world, MockIDP option) state" where
  "MockIDP_New L serverURL = do {
     n \<leftarrow> nonce;
     return (case ml_GenerateKey L n of
       None \<Rightarrow> None
     | Some key \<Rightarrow> Some \<lparr>idp_Key = key, idp_KeyID = ''test-kid'', idp_Issuer = serverURL\<rparr>)
   }"

text \<open>What \<open>json.NewEncoder(w).Encode\<close> writes for a map: its JSON text and a newline, nothing on an error.\<close>

definition encoded :: "jmap \<Rightarrow> string" where
  "encoded m = (case marshal_map m of None \<Rightarrow> [] | Some t \<Rightarrow> t @ [CHR 0x0A])"

definition mock_metadata :: "MockIDP \<Rightarrow> (string \<times> string) list" where
  "mock_metadata M =
    [(''issuer'', idp_Issuer M),
     (''authorization_endpoint'', idp_Issuer M @ ''/authorize''),
     (''token_endpoint'', idp_Issuer M @ ''/token''),
     (''jwks_uri'', idp_Issuer M @ ''/jwks.json''),
     (''userinfo_endpoint'', idp_Issuer M @ ''/userinfo'')]"

definition mock_key :: "mock_libs \<Rightarrow> MockIDP \<Rightarrow> jwk" where
  "mock_key L M = \<lparr>jwk_Key = ml_Public L (idp_Key M), jwk_KeyID = idp_KeyID M, jwk_Algorithm = ''RS256'', jwk_Use = ''sig''\<rparr>"

definition mock_handle :: "mock_libs \<Rightarrow> MockIDP \<Rightarrow> string \<Rightarrow> http_in" where
  "mock_handle L M path =
    (if path = ''/.well-known/openid-configuration'' then
       \<lparr>in_Status = 200, in_ContentType = ''application/json'', in_CacheControl = [],
        in_Body = Some (encoded (map (\<lambda>(k, s). (k, AString s)) (mock_metadata M)))\<rparr>
     else if path = ''/jwks.json'' then
       \<lparr>in_Status = 200, in_ContentType = ''application/json'', in_CacheControl = [],
        in_Body = Some (ml_KeySet L [mock_key L M] @ [CHR 0x0A])\<rparr>
     else
       \<lparr>in_Status = 404, in_ContentType = ''text/plain; charset=utf-8'', in_CacheControl = [],
        in_Body = Some (''404 page not found'' @ [CHR 0x0A])\<rparr>)"

text \<open>The defaults that minting injects into the caller's map, which is returned beside the token.\<close>

definition inject :: "string \<Rightarrow> (world, any) state \<Rightarrow> jmap \<Rightarrow> (world, jmap) state" where
  "inject key value claims =
    (if map_of claims key = None then do { v \<leftarrow> value; return (AList.update key v claims) } else return claims)"

definition MintIDToken :: "env \<Rightarrow> mock_libs \<Rightarrow> MockIDP \<Rightarrow> jmap \<Rightarrow> (world, (string \<times> jmap) option) state" where
  "MintIDToken E L M claims = do {
     claims \<leftarrow> inject ''iss'' (return (AString (idp_Issuer M))) claims;
     claims \<leftarrow> inject ''iat'' (do { t \<leftarrow> time_Now E; return (AInt (Unix t)) }) claims;
     claims \<leftarrow> inject ''exp'' (do { t \<leftarrow> time_Now E; return (AInt (Unix (t + hour))) }) claims;
     return (case ml_Sign L ''RS256'' (idp_Key M) (idp_KeyID M) claims of
       None \<Rightarrow> None
     | Some token \<Rightarrow> Some (token, claims))
   }"

definition MustField :: "jmap \<Rightarrow> string \<Rightarrow> any option" where
  "MustField claims key = map_of claims key"

definition RandomSecret :: "env \<Rightarrow> (world, string option) state" where
  "RandomSecret E = rand_Read E"

definition Failf :: "unit option" where
  "Failf = None"

definition AssertNoErr :: "'e option \<Rightarrow> unit option" where
  "AssertNoErr err = (if err \<noteq> None then None else Some ())"

subsection \<open>What is relied on\<close>

text \<open>JSON values as they are after \<open>json.Marshal\<close> and \<open>json.Unmarshal\<close> into \<open>any\<close>.\<close>

fun decoded :: "any \<Rightarrow> any" where
  "decoded (ASlice xs) = ASlice (map decoded xs)"
| "decoded (AMap m) = AMap (map (\<lambda>(k, v). (k, decoded v)) m)"
| "decoded v = reread v"

text \<open>go-jose: the key set of the provider reads back as it was written, the keys of an identifier
  are found in it, and a token signed with the provider's key parses to its header, verifies under the public key
  and yields its claims.\<close>

definition mock_libs_ok :: "env \<Rightarrow> mock_libs \<Rightarrow> MockIDP \<Rightarrow> bool" where
  "mock_libs_ok E L M \<longleftrightarrow>
     env_keyset E (ml_KeySet L [mock_key L M] @ [CHR 0x0A]) = Some [mock_key L M] \<and>
     env_keyset_Key E [mock_key L M] (idp_KeyID M) = [mock_key L M] \<and>
     (\<forall>m token. ml_Sign L ''RS256'' (idp_Key M) (idp_KeyID M) m = Some token \<longrightarrow>
        looksLikeJWT token \<and>
        (\<forall>algs. ''RS256'' \<in> set algs \<longrightarrow>
           env_ParseSigned E algs token = Some [\<lparr>hdr_KeyID = idp_KeyID M, hdr_Algorithm = ''RS256''\<rparr>]) \<and>
        (\<exists>raw. env_Claims E token (ml_Public L (idp_Key M)) = Some raw \<and> map_of raw = map_option decoded \<circ> map_of m))"

text \<open>\<open>httptest\<close>: the server answers at its URL, at all times. The URL is a plain absolute URL, and the two
  documents are within the limit of the library.\<close>

definition mock_paths :: "string list" where
  "mock_paths = [''/.well-known/openid-configuration'', ''/.well-known/oauth-authorization-server'', ''/jwks.json'']"

definition mock_url :: "string \<Rightarrow> bool" where
  "mock_url u \<longleftrightarrow> ascii u \<and> u \<noteq> [] \<and> TrimSpace u = u \<and> slash_norm u = u \<and> TrimSpace (u @ ''/jwks.json'') = u @ ''/jwks.json'' \<and>
     list_all (\<lambda>p. Parse (u @ p) \<noteq> None) mock_paths"

definition mock_serves :: "env \<Rightarrow> mock_libs \<Rightarrow> MockIDP \<Rightarrow> bool" where
  "mock_serves E L M \<longleftrightarrow>
     mock_url (idp_Issuer M) \<and>
     (\<forall>p \<in> set mock_paths. \<forall>n. env_http E n (HttpGet (idp_Issuer M @ p) []) = Some (mock_handle L M p)) \<and>
     length (encoded (map (\<lambda>(k, s). (k, AString s)) (mock_metadata M))) \<le> maxOAuthResponseBytes \<and>
     length (ml_KeySet L [mock_key L M] @ [CHR 0x0A]) \<le> maxOAuthResponseBytes"

subsection \<open>Discovery of the provider\<close>

definition mock_configuration :: "MockIDP \<Rightarrow> openIDConfiguration" where
  "mock_configuration M =
    \<lparr>oc_Issuer = idp_Issuer M, oc_AuthorizationEndpoint = idp_Issuer M @ ''/authorize'',
     oc_TokenEndpoint = idp_Issuer M @ ''/token'', oc_JWKSURI = idp_Issuer M @ ''/jwks.json'',
     oc_UserInfoEndpoint = idp_Issuer M @ ''/userinfo''\<rparr>"

lemma unmarshal_mock:
  assumes "ascii (idp_Issuer M)"
  shows "unmarshal_oidc E (encoded (map (\<lambda>(k, s). (k, AString s)) (mock_metadata M))) = Some (mock_configuration M)"
proof -
  have k: "set (map fst (mock_metadata M)) \<subseteq> set oidc_fields" "distinct (map fst (mock_metadata M))"
    by (simp_all add: mock_metadata_def oidc_fields_def)
  have a: "\<forall>(k, s) \<in> set (mock_metadata M). ascii k \<and> ascii s"
    using assms by (simp add: mock_metadata_def ascii_def)
  obtain t m' where t: "marshal_map (map (\<lambda>(k, s). (k, AString s)) (mock_metadata M)) = Some t"
    "\<And>u. skip_ws u = [] \<Longrightarrow> unmarshal_struct (env_unicode E) oidc_fields [] (t @ u) = Some m'"
    "\<And>k. str_field m' k = (case map_of (mock_metadata M) k of None \<Rightarrow> [] | Some s \<Rightarrow> s)"
    by (rule unmarshal_struct_marshal [OF k a]) (rule that)
  have "skip_ws [CHR 0x0A] = []" by (simp add: skip_ws_def json_space_def)
  with t(1,2) show ?thesis
    by (simp add: unmarshal_oidc_def encoded_def t(3) mock_configuration_def) (simp add: mock_metadata_def)
qed

lemma mock_http:
  assumes "mock_serves E L M" "p \<in> set mock_paths"
  shows "run_state (http_Get E (idp_Issuer M @ p) []) w =
    (Some (mock_handle L M p), w\<lparr>w_tick := Suc (w_tick w), w_sent := w_sent w @ [HttpGet (idp_Issuer M @ p) []]\<rparr>)"
  using assms by (auto simp: mock_serves_def mock_url_def list_all_iff http_Get_def http_Do_def)

lemma mock_served:
  assumes "mock_serves E L M" "p \<in> set mock_paths" "served E (idp_Issuer M @ p) body"
  shows "p = ''/.well-known/openid-configuration'' \<and> body = encoded (map (\<lambda>(k, s). (k, AString s)) (mock_metadata M)) \<or>
    p = ''/jwks.json'' \<and> body = ml_KeySet L [mock_key L M] @ [CHR 0x0A]"
  using assms by (auto simp: served_def mock_serves_def mock_handle_def read_limited_def split: if_splits)

lemma mock_discovered:
  assumes "mock_serves E L M" "discovered E (idp_Issuer M) d"
  shows "d = mock_configuration M"
proof -
  have "ascii (idp_Issuer M)" using assms(1) by (simp add: mock_serves_def mock_url_def)
  note u = unmarshal_mock [OF this, of E]
  from assms(2) obtain p body where "p \<in> set mock_paths" "p \<noteq> ''/jwks.json''" "served E (idp_Issuer M @ p) body"
    "unmarshal_oidc E body = Some d"
    by (auto simp: discovered_def oidc_candidates_def mock_paths_def split: if_splits)
  with mock_served [OF assms(1)] u show ?thesis by fastforce
qed

lemma mock_keys_of:
  assumes "mock_serves E L M" "mock_libs_ok E L M" "keys_of E (idp_Issuer M @ ''/jwks.json'') ks"
  shows "ks = [mock_key L M]"
proof -
  obtain body where "served E (idp_Issuer M @ ''/jwks.json'') body" "env_keyset E body = Some ks"
    using assms(3) by (auto simp: keys_of_def)
  with mock_served [OF assms(1), of "''/jwks.json''" body] assms(2) show ?thesis
    by (auto simp: mock_paths_def mock_libs_ok_def)
qed

interpretation mock: validator_frame "\<lambda>_. True"
  by unfold_locales simp_all

lemma mock_discovery:
  assumes "mock_serves E L M" "val_inv E (w_validator w)"
  obtains w' where "run_state (fetchOIDCDiscovery E (idp_Issuer M)) w = (Inr (mock_configuration M), w')"
    "val_inv E (w_validator w')"
proof -
  let ?i = "idp_Issuer M"
  have i: "?i \<noteq> []" "slash_norm ?i = ?i" "ascii ?i"
    using assms(1) by (simp_all add: mock_serves_def mock_url_def)
  have "in_Body (mock_handle L M ''/.well-known/openid-configuration'') =
      Some (encoded (map (\<lambda>(k, s). (k, AString s)) (mock_metadata M)))" "in_Status (mock_handle L M ''/.well-known/openid-configuration'') = 200"
    by (simp_all add: mock_handle_def)
  moreover have "length (encoded (map (\<lambda>(k, s). (k, AString s)) (mock_metadata M))) \<le> maxOAuthResponseBytes"
    using assms(1) by (simp add: mock_serves_def)
  ultimately have "\<exists>d w'. run_state (discovery_loop E ?i (oidc_candidates ?i)) w = (Inr d, w')" for w
    using mock_http [OF assms(1), of "''/.well-known/openid-configuration''"] unmarshal_mock [OF i(3), of E]
    by (simp add: oidc_candidates_def mock_paths_def read_limited_def time_Now_def get_validator_def put_validator_def)
  then have "\<exists>d w'. run_state (fetchOIDCDiscovery E ?i) w = (Inr d, w')"
    using i(1,2) by (auto simp: fetchOIDCDiscovery_def slash_norm_def Let_def get_validator_def time_Now_def)
  then obtain d w' where r: "run_state (fetchOIDCDiscovery E ?i) w = (Inr d, w')" by blast
  with ensuresD [OF mock.fetchOIDCDiscovery_ensures [of E ?i] _ r] assms i(2) mock_discovered that show ?thesis by simp
qed

lemma mock_keyset:
  assumes "mock_serves E L M" "mock_libs_ok E L M" "val_inv E (w_validator w)"
  obtains w' where "run_state (fetchJWKS E (idp_Issuer M @ ''/jwks.json'')) w = (Inr [mock_key L M], w')"
    "val_inv E (w_validator w')"
proof -
  let ?u = "idp_Issuer M @ ''/jwks.json''"
  have "length (ml_KeySet L [mock_key L M] @ [CHR 0x0A]) \<le> maxOAuthResponseBytes"
    using assms(1) by (simp add: mock_serves_def)
  then have "\<exists>ks w'. run_state (fetchJWKS E ?u) w = (Inr ks, w')"
    using mock_http [OF assms(1), of "''/jwks.json''"] assms(2)
    by (simp add: fetchJWKS_def mock_paths_def read_limited_def mock_handle_def mock_libs_ok_def time_Now_def
        get_validator_def put_validator_def)
  then obtain ks w' where r: "run_state (fetchJWKS E ?u) w = (Inr ks, w')" by blast
  with ensuresD [OF mock.fetchJWKS_ensures [of E ?u] _ r] assms mock_keys_of that show ?thesis by simp
qed

subsection \<open>Minted tokens\<close>

lemma mint_defaults:
  assumes "run_state (MintIDToken E L M m) w0 = (Some (token, m'), w1)"
    "map_of m ''iss'' = None" "map_of m ''iat'' = None" "map_of m ''exp'' = None"
  shows "ml_Sign L ''RS256'' (idp_Key M) (idp_KeyID M) m' = Some token"
    "map_of m' = (map_of m)(''iss'' \<mapsto> AString (idp_Issuer M), ''iat'' \<mapsto> AInt (Unix (env_clock E (w_tick w0))),
       ''exp'' \<mapsto> AInt (Unix (env_clock E (Suc (w_tick w0)) + hour)))"
  using assms by (auto simp: MintIDToken_def inject_def time_Now_def update_conv' split: option.splits)

text \<open>The validator on a token of the provider, whatever its caches hold.\<close>

lemma mock_verified:
  assumes "mock_serves E L M" "mock_libs_ok E L M" "idp_KeyID M \<noteq> []" "val_inv E (w_validator w)"
    "cfg_Issuer cfg = idp_Issuer M" "cfg_JWKSURL cfg = []"
    "ml_Sign L ''RS256'' (idp_Key M) (idp_KeyID M) m = Some token"
    "env_Claims E token (ml_Public L (idp_Key M)) = Some raw"
    "claims_fit cfg aud (claimsFromRaw (env_oor E) (env_unicode E) raw)"
  obtains w' where "run_state (parseAndVerifyJWT E cfg token aud) w = (Inr (claimsFromRaw (env_oor E) (env_unicode E) raw), w')"
proof -
  have t: "TrimSpace [] = []" by code_simp
  have u: "TrimSpace (idp_Issuer M) = idp_Issuer M" "idp_Issuer M \<noteq> []"
    "TrimSpace (idp_Issuer M @ ''/jwks.json'') = idp_Issuer M @ ''/jwks.json''"
    using assms(1) by (simp_all add: mock_serves_def mock_url_def)
  obtain w1 where "run_state (fetchOIDCDiscovery E (idp_Issuer M)) w = (Inr (mock_configuration M), w1)"
    and inv: "val_inv E (w_validator w1)"
    by (rule mock_discovery [OF assms(1,4)])
  then have url: "run_state (resolveJWKSURL E cfg) w = (Inr (idp_Issuer M @ ''/jwks.json''), w1)"
    using u by (simp add: resolveJWKSURL_def assms(5,6) t mock_configuration_def)
  have hdr: "env_ParseSigned E upstreamAlgs token = Some [\<lparr>hdr_KeyID = idp_KeyID M, hdr_Algorithm = ''RS256''\<rparr>]"
    using assms(2,7) by (auto simp: mock_libs_ok_def upstreamAlgs_def)
  obtain w2 where "run_state (fetchJWKS E (idp_Issuer M @ ''/jwks.json'')) w1 = (Inr [mock_key L M], w2)"
    by (rule mock_keyset [OF assms(1,2) inv])
  moreover have "env_keyset_Key E [mock_key L M] (idp_KeyID M) = [mock_key L M]"
    using assms(2) by (simp add: mock_libs_ok_def)
  ultimately have "run_state (candidate_keys E (idp_Issuer M @ ''/jwks.json'') (idp_KeyID M)) w1 = (Inr [mock_key L M], w2)"
    using assms(3) by (simp add: candidate_keys_def)
  moreover have "key_claims E token (mock_key L M) = Some (claimsFromRaw (env_oor E) (env_unicode E) raw)"
    using assms(8) by (simp add: key_claims_def mock_key_def)
  ultimately show ?thesis
    using that url hdr assms(9) by (simp add: parseAndVerifyJWT_def verify_loop_step del: verify_loop.simps(2))
qed

lemma time_reread: "\<bar>i\<bar> < 2 ^ 53 \<Longrightarrow> time_claim oor (Some (reread (AInt i))) = i"
  using exp_reread [of i oor] by (auto simp: time_claim_def simp del: reread.simps split: any.splits)

lemma time_claim_None: "time_claim oor None = 0"
  by (simp add: time_claim_def)

lemma clock_range:
  assumes "sane_clock E"
  shows "0 \<le> Unix (env_clock E n)" "Unix (env_clock E n) < 2 ^ 52"
proof -
  have "0 \<le> env_clock E n" "env_clock E n < 2 ^ 52 * second" using assms by (auto simp: sane_clock_def)
  then have "0 \<le> env_clock E n div second" "env_clock E n div second < 2 ^ 52" by (simp_all add: second_def)
  then show "0 \<le> Unix (env_clock E n)" "Unix (env_clock E n) < 2 ^ 52" by (simp_all add: Unix_def wrap64_def)
qed

text \<open>The claims of a minted token.\<close>

lemma minted_claims:
  assumes "mock_serves E L M" "mock_libs_ok E L M" "sane_clock E"
    "run_state (MintIDToken E L M m) w0 = (Some (token, m'), w1)"
    "list_all (\<lambda>k. map_of m k = None) [''iss'', ''iat'', ''exp'', ''nbf'']"
  obtains raw c where "ml_Sign L ''RS256'' (idp_Key M) (idp_KeyID M) m' = Some token"
    "env_Claims E token (ml_Public L (idp_Key M)) = Some raw" "c = claimsFromRaw (env_oor E) (env_unicode E) raw"
    "cl_Issuer c = idp_Issuer M" "cl_Subject c = string_claim (map_option decoded (map_of m ''sub''))"
    "cl_Email c = string_claim (map_option decoded (map_of m ''email''))"
    "cl_Scopes c = scope_claim (map_option decoded (map_of m ''scope''))"
    "cl_EmailVerified c = verified_claim (env_unicode E) (map_option decoded (map_of m ''email_verified''))"
    "cl_HostedDomain c = string_claim (map_option decoded (map_of m ''hd''))"
    "cl_Audience c = aud_claim (map_option decoded (map_of m ''aud''))" "cl_NotBefore c = 0"
    "cl_IssuedAt c = Unix (env_clock E (w_tick w0))" "cl_ExpiresAt c = Unix (env_clock E (Suc (w_tick w0))) + 3600"
proof -
  let ?iat = "Unix (env_clock E (w_tick w0))" and ?exp = "Unix (env_clock E (Suc (w_tick w0))) + 3600"
  have "hour = 3600 * second" by (simp add: hour_def minute_def)
  then have m: "ml_Sign L ''RS256'' (idp_Key M) (idp_KeyID M) m' = Some token"
    "map_of m' = (map_of m)(''iss'' \<mapsto> AString (idp_Issuer M), ''iat'' \<mapsto> AInt ?iat, ''exp'' \<mapsto> AInt ?exp)"
    using mint_defaults [OF assms(4)] assms(5) Unix_near(1) [OF assms(3), of 3600 "Suc (w_tick w0)"]
    by simp_all
  obtain raw where raw: "env_Claims E token (ml_Public L (idp_Key M)) = Some raw" "map_of raw = map_option decoded \<circ> map_of m'"
    using assms(2) m(1) unfolding mock_libs_ok_def by blast
  have "ascii (idp_Issuer M)" using assms(1) by (simp add: mock_serves_def mock_url_def)
  moreover have "\<bar>?iat\<bar> < 2 ^ 53" "\<bar>?exp\<bar> < 2 ^ 53"
    using clock_range [OF assms(3), of "w_tick w0"] clock_range [OF assms(3), of "Suc (w_tick w0)"] by simp_all
  moreover have "map_of raw k = map_option decoded (map_of m' k)" for k by (simp add: raw(2))
  ultimately show ?thesis
    using assms(5)
    by (intro that [OF m(1) raw(1) refl])
      (simp_all add: claimsFromRaw_def m(2) string_claim_def clean_ascii time_reread time_claim_None del: reread.simps(2))
qed

text \<open>The claim checks on an audience that matches and on times in range.\<close>

lemma claim_checks_timed:
  assumes "cfg_Audience cfg = [] \<or> audienceMatchesResource (cl_Audience c) (cfg_Audience cfg)" "cl_NotBefore c = 0"
    "0 \<le> cl_IssuedAt c" "0 < cl_ExpiresAt c" "cl_ExpiresAt c < 2 ^ 53" "sane_clock E"
  shows "run_state (applyClaimChecks E cfg c) w =
    (let now = Unix (env_clock E (w_tick w)) in
     (if cl_ExpiresAt c + 60 < now then Inl ErrTokenExpired
      else if now + 60 < cl_IssuedAt c then Inl ErrInvalidToken
      else if \<not> set (cfg_RequiredScopes cfg) \<subseteq> set (cl_Scopes c) then Inl ErrInsufficientScopes
      else case applyIdentityPolicy E cfg c of Inl err \<Rightarrow> Inl err | Inr _ \<Rightarrow> Inr c),
     w\<lparr>w_tick := Suc (w_tick w)\<rparr>)"
proof -
  let ?now = "Unix (env_clock E (w_tick w))"
  have now: "0 \<le> ?now" "?now < 2 ^ 52" by (rule clock_range [OF assms(6)])+
  have "wrap64 (cl_ExpiresAt c + 60) = cl_ExpiresAt c + 60" "wrap64 (?now + 60) = ?now + 60"
    using assms(4,5) now by (simp_all add: wrap64_def)
  moreover have "cfg_Audience cfg \<noteq> [] \<Longrightarrow> cl_Audience c \<noteq> []"
    using assms(1) by (auto simp: audienceMatchesResource_def)
  ultimately show ?thesis
    using assms(1-4) now
    by (auto simp: applyClaimChecks_def time_Now_def Let_def defaultClockSkewSeconds_def hasRequiredScopes_iff)
qed

text \<open>C13. What the library answers to a token of the provider. In whatever state the caches of the broker are,
  with only the issuer configured and the token's audience the expected one, a token minted with the default
  issuer and times is validated with the claims it was minted with: it is expired from one minute after the
  hour, refused up to one minute before it was issued, and otherwise decided by the required
  scopes and the identity policy alone.\<close>

theorem minted_token_validated:
  assumes "mock_serves E L M" "mock_libs_ok E L M" "idp_KeyID M \<noteq> []" "sane_clock E" "keyset_Key_sound E" "reachable E cfg w"
    "cfg_Issuer cfg = idp_Issuer M" "cfg_JWKSURL cfg = []" "cfg_UpstreamIssuerAllowlist cfg = []"
    "run_state (MintIDToken E L M m) w0 = (Some (token, m'), w1)"
    "list_all (\<lambda>k. map_of m k = None) [''iss'', ''iat'', ''exp'', ''nbf'']"
    "cfg_Audience cfg = [] \<or> audienceMatchesResource (aud_claim (map_option decoded (map_of m ''aud''))) (cfg_Audience cfg)"
    "run_state (Validate E cfg token) w = (res, w')"
  shows "\<exists>c::claims. cl_Issuer c = idp_Issuer M \<and>
    cl_Subject c = string_claim (map_option decoded (map_of m ''sub'')) \<and>
    cl_Email c = string_claim (map_option decoded (map_of m ''email'')) \<and>
    cl_Scopes c = scope_claim (map_option decoded (map_of m ''scope'')) \<and>
    cl_EmailVerified c = verified_claim (env_unicode E) (map_option decoded (map_of m ''email_verified'')) \<and>
    cl_HostedDomain c = string_claim (map_option decoded (map_of m ''hd'')) \<and>
    cl_IssuedAt c = Unix (env_clock E (w_tick w0)) \<and> cl_ExpiresAt c = Unix (env_clock E (Suc (w_tick w0))) + 3600 \<and>
    (let now = Unix (env_clock E (w_tick w' - 1)) in res =
      (if cl_ExpiresAt c + 60 < now then Inl ErrTokenExpired
       else if now + 60 < cl_IssuedAt c then Inl ErrInvalidToken
       else if \<not> set (cfg_RequiredScopes cfg) \<subseteq> set (cl_Scopes c) then Inl ErrInsufficientScopes
       else case applyIdentityPolicy E cfg c of Inl err \<Rightarrow> Inl err | Inr _ \<Rightarrow> Inr (Some c)))"
proof -
  have inv: "val_inv E (w_validator w)"
    using reachable_broker_inv [OF assms(5,6)] by (simp add: broker_inv_def)
  obtain raw c where c: "ml_Sign L ''RS256'' (idp_Key M) (idp_KeyID M) m' = Some token"
    "env_Claims E token (ml_Public L (idp_Key M)) = Some raw" "c = claimsFromRaw (env_oor E) (env_unicode E) raw"
    and iss: "cl_Issuer c = idp_Issuer M" and strs: "cl_Subject c = string_claim (map_option decoded (map_of m ''sub''))"
    "cl_Email c = string_claim (map_option decoded (map_of m ''email''))"
    "cl_Scopes c = scope_claim (map_option decoded (map_of m ''scope''))"
    "cl_EmailVerified c = verified_claim (env_unicode E) (map_option decoded (map_of m ''email_verified''))"
    "cl_HostedDomain c = string_claim (map_option decoded (map_of m ''hd''))"
    and aud: "cl_Audience c = aud_claim (map_option decoded (map_of m ''aud''))" and nbf: "cl_NotBefore c = 0"
    and times: "cl_IssuedAt c = Unix (env_clock E (w_tick w0))" "cl_ExpiresAt c = Unix (env_clock E (Suc (w_tick w0))) + 3600"
    by (rule minted_claims [OF assms(1,2,4,10,11)])
  have url: "TrimSpace (idp_Issuer M) = idp_Issuer M" "idp_Issuer M \<noteq> []"
    using assms(1) by (simp_all add: mock_serves_def mock_url_def)
  have fit: "claims_fit cfg (cfg_Audience cfg) c"
    using assms(7,9,12) iss aud url(1) by (auto simp: claims_fit_def issuerAllowed_def)
  obtain w2 where v: "run_state (parseAndVerifyJWT E cfg token (cfg_Audience cfg)) w = (Inr c, w2)"
    using mock_verified [OF assms(1-3) inv assms(7,8) c(1,2) fit [unfolded c(3)]] unfolding c(3) by blast
  have "looksLikeJWT token" using assms(2) c(1) by (simp add: mock_libs_ok_def)
  moreover from this have "token \<noteq> []" by (auto simp: looksLikeJWT_def Count_def)
  ultimately have "run_state (Validate E cfg token) w = (case run_state (applyClaimChecks E cfg c) w2 of
      (r, w3) \<Rightarrow> (case r of Inl err \<Rightarrow> Inl err | Inr c' \<Rightarrow> Inr (Some c'), w3))"
    using v url assms(7) by (simp add: Validate_def split: prod.split)
  moreover note claim_checks_timed [of cfg c E w2] assms(4,12) aud nbf times
  moreover have "0 \<le> cl_IssuedAt c" "0 < cl_ExpiresAt c" "cl_ExpiresAt c < 2 ^ 53"
    using times clock_range [OF assms(4), of "w_tick w0"] clock_range [OF assms(4), of "Suc (w_tick w0)"] by simp_all
  ultimately show ?thesis
    using assms(13) iss strs by (intro exI [of _ c]) (auto simp: Let_def split: sum.split)
qed

subsection \<open>A provider to mint with\<close>

text \<open>Instead of signing, the claims are written between two dots in hexadecimal digits.\<close>

definition hex_encode :: "string \<Rightarrow> string" where
  "hex_encode p = concat (map (\<lambda>c. [hex_digit (byte c div 16), hex_digit (byte c mod 16)]) p)"

fun hex_decode :: "string \<Rightarrow> string" where
  "hex_decode (a # b # s) =
    (case (unhex a, unhex b) of (Some x, Some y) \<Rightarrow> chr (16 * x + y) # hex_decode s | _ \<Rightarrow> [])"
| "hex_decode s = []"

lemma hex_digit_dot: "n < 16 \<Longrightarrow> hex_digit n \<noteq> CHR ''.''"
  using unhex_hex_digit [of n] by (auto simp: unhex_def is_digit_def)

lemma hex_laws: "hex_decode (hex_encode p) = p" "CHR ''.'' \<notin> set (hex_encode p)"
proof -
  have b: "byte c < 256" for c by simp
  show "hex_decode (hex_encode p) = p"
    by (induction p) (auto simp: hex_encode_def unhex_hex_digit b less_mult_imp_div_less)
  show "CHR ''.'' \<notin> set (hex_encode p)"
    by (auto simp: hex_encode_def less_mult_imp_div_less hex_digit_dot dest: sym)
qed

definition plain_libs :: mock_libs where
  "plain_libs =
    \<lparr>ml_GenerateKey = (\<lambda>_. Some ''rsa''), ml_Public = (\<lambda>_. ''pub''), ml_KeySet = (\<lambda>_. ''{}''),
     ml_Sign = (\<lambda>alg key kid m.
       if list_all (claim_value \<circ> snd) m \<and> distinct (map fst m) \<and> list_all (ascii \<circ> fst) m
       then map_option (\<lambda>p. ''h.'' @ hex_encode p @ ''.s'') (marshal_map m) else None)\<rparr>"

definition demo_idp :: MockIDP where
  "demo_idp = \<lparr>idp_Key = ''rsa'', idp_KeyID = ''test-kid'', idp_Issuer = ''http://127.0.0.1:41234''\<rparr>"

definition mock_env :: env where
  "mock_env = demo_env\<lparr>
     env_http := (\<lambda>_ out. case out of
       HttpGet u _ \<Rightarrow> if HasPrefix u (idp_Issuer demo_idp)
         then Some (mock_handle plain_libs demo_idp (drop (length (idp_Issuer demo_idp)) u)) else None
     | HttpPostForm _ _ \<Rightarrow> None),
     env_keyset := (\<lambda>_. Some [mock_key plain_libs demo_idp]),
     env_ParseSigned := (\<lambda>algs _.
       if ''RS256'' \<in> set algs then Some [\<lparr>hdr_KeyID = ''test-kid'', hdr_Algorithm = ''RS256''\<rparr>] else None),
     env_Claims := (\<lambda>token key.
       if key = ''pub'' then unmarshal_map (hex_decode (takeWhile (\<lambda>c. c \<noteq> CHR ''.'') (drop 2 token))) else None)\<rparr>"

definition mock_cfg :: config where
  "mock_cfg = demo_cfg\<lparr>cfg_Issuer := ''http://127.0.0.1:41234'', cfg_JWKSURL := [], cfg_Audience := ''cid''\<rparr>"

definition mock_claims :: jmap where
  "mock_claims = [(''sub'', AString ''u''), (''aud'', AString ''cid'')]"

lemma mock_demo_new: "run_state (MockIDP_New plain_libs ''http://127.0.0.1:41234'') w = (Some demo_idp, w\<lparr>w_tick := Suc (w_tick w)\<rparr>)"
  by (simp add: MockIDP_New_def nonce_def plain_libs_def demo_idp_def)

lemma mock_demo_ok: "mock_libs_ok mock_env plain_libs demo_idp"
proof -
  have "looksLikeJWT (''h.'' @ hex_encode p @ ''.s'')" for p
    using hex_laws(2) [of p] by (auto simp: looksLikeJWT_def Count_def filter_empty_conv)
  moreover have "takeWhile (\<lambda>c. c \<noteq> CHR ''.'') (hex_encode p @ ''.s'') = hex_encode p" for p
    using hex_laws(2) [of p] by (subst takeWhile_append2) auto
  moreover have "\<exists>raw. unmarshal_map t = Some raw \<and> map_of raw = map_option decoded \<circ> map_of m"
    if m: "list_all (claim_value \<circ> snd) m" "distinct (map fst m)" "list_all (ascii \<circ> fst) m" "marshal_map m = Some t" for m t
  proof -
    have "decoded v = reread v" if "(k, v) \<in> set m" for k v
      using that m(1) by (cases v) (auto simp: list_all_iff)
    then have "map_option reread \<circ> map_of m = map_option decoded \<circ> map_of m"
      by (auto simp: fun_eq_iff dest: map_of_SomeD intro!: option.map_cong)
    with unmarshal_marshal [OF m(1-3)] m(4) show ?thesis by (metis option.inject)
  qed
  ultimately show ?thesis
    by (auto simp: mock_libs_ok_def mock_env_def plain_libs_def demo_idp_def mock_key_def demo_env_def hex_laws(1))
qed

lemma mock_demo_serves: "mock_serves mock_env plain_libs demo_idp"
proof -
  have "mock_url (idp_Issuer demo_idp)" by code_simp
  moreover have "length (encoded (map (\<lambda>(k, s). (k, AString s)) (mock_metadata demo_idp))) \<le> maxOAuthResponseBytes"
    "length (ml_KeySet plain_libs [mock_key plain_libs demo_idp] @ [CHR 0x0A]) \<le> maxOAuthResponseBytes" by code_simp+
  ultimately show ?thesis by (simp add: mock_serves_def mock_env_def)
qed

lemma mock_demo_new_broker: "New mock_env mock_cfg = Inr (mock_cfg, new_world)"
  unfolding New_def by (simp add: mock_env_def demo_env_def) code_simp

theorem minted_token_validated_witness:
  "\<exists>token m' w1 (c::claims). run_state (MintIDToken mock_env plain_libs demo_idp mock_claims) new_world = (Some (token, m'), w1) \<and>
     fst (run_state (Validate mock_env mock_cfg token) new_world) = Inr (Some c) \<and>
     cl_Subject c = ''u'' \<and> cl_Issuer c = ''http://127.0.0.1:41234'' \<and> cl_ExpiresAt c = cl_IssuedAt c + 3600"
proof -
  have "fst (run_state (MintIDToken mock_env plain_libs demo_idp mock_claims) new_world) \<noteq> None" by code_simp
  then obtain token m' w1 where mint: "run_state (MintIDToken mock_env plain_libs demo_idp mock_claims) new_world = (Some (token, m'), w1)"
    by (metis not_None_eq prod.collapse)
  obtain res w' where v: "run_state (Validate mock_env mock_cfg token) new_world = (res, w')" by fastforce
  have clock: "sane_clock mock_env" "env_clock mock_env n = demo_time" for n
    using demo_clock by (simp_all add: sane_clock_def mock_env_def demo_env_def)
  have "keyset_Key_sound mock_env" using demo_keyset_sound by (simp add: keyset_Key_sound_def mock_env_def)
  note sound = this
  have aud: "audienceMatchesResource (aud_claim (map_option decoded (map_of mock_claims ''aud''))) (cfg_Audience mock_cfg)"
    "string_claim (map_option decoded (map_of mock_claims ''sub'')) = ''u''"
    "list_all (\<lambda>k. map_of mock_claims k = None) [''iss'', ''iat'', ''exp'', ''nbf'']" by code_simp+
  have cfg: "cfg_Issuer mock_cfg = idp_Issuer demo_idp" "cfg_JWKSURL mock_cfg = []" "cfg_UpstreamIssuerAllowlist mock_cfg = []"
    "cfg_RequiredScopes mock_cfg = []" "idp_KeyID demo_idp \<noteq> []"
    by (simp_all add: mock_cfg_def demo_cfg_def zero_config_def demo_idp_def)
  have "applyIdentityPolicy mock_env mock_cfg c = Inr ()" if "cl_Email c = []" for c
    using that by (simp add: applyIdentityPolicy_def mock_cfg_def demo_cfg_def zero_config_def)
  moreover have "string_claim (map_option decoded (map_of mock_claims ''email'')) = []" by code_simp
  moreover note minted_token_validated [OF mock_demo_serves mock_demo_ok cfg(5) clock(1) sound reachable.start [OF mock_demo_new_broker]
      cfg(1-3) mint aud(3) disjI2 [OF aud(1)] v]
  ultimately show ?thesis
    using mint v cfg(4) aud(2) by (fastforce simp: clock(2) Let_def demo_idp_def)
qed

end
