(* ===== verification/Spec2Isabelle.thy ===== *)
theory Spec2Isabelle
  imports Client_Theorems Identity_Theorems Middleware_Theorems Oauth_Requests Conc_Theorems Example_Hosting
    Test_Provider
begin

text \<open>
  The library \<^emph>\<open>go-mcp-oauth\<close>: OAuth for servers of the Model Context Protocol, verified.

  \<^bold>\<open>The program.\<close> The library protects HTTP routes with a bearer-token check (\<open>middleware.go\<close>,
  \<open>validator.go\<close>, \<open>claims.go\<close>, \<open>context.go\<close>) and can act as an authorization server in front of an
  upstream identity provider (\<open>broker.go\<close>). Clients are not registered: the client identifier
  is the URL of a metadata document that the library fetches, behind an address filter and a cache
  (\<open>cimd.go\<close>), and a client may authenticate with a signed assertion (\<open>client_assertion.go\<close>). The
  broker keeps no sessions: the pending authorization, the authorization code and, in gating mode,
  the bearer token are encrypted and travel with the client (\<open>jwe.go\<close>, \<open>broker_state.go\<close>,
  \<open>downstream_token.go\<close>). A request to \<open>/oauth/authorize\<close> becomes a redirect upstream that carries the
  request in its state; \<open>/oauth/callback\<close> turns that state and the upstream code into a code for
  the client; \<open>/oauth/token\<close> checks client, code and PKCE verifier (\<open>pkce.go\<close>), exchanges the
  upstream code, validates the identity, refreshes a token about to expire (\<open>refresh.go\<close>), and
  answers with a bearer; the middleware accepts that bearer on the application's routes.

  \<^bold>\<open>The theories.\<close>
  \<^item> \<open>Go_Prelude\<close>, \<open>Go_Strings\<close>, \<open>Go_Json\<close>, \<open>Go_Json_Laws\<close>, \<open>Go_Url\<close>, \<open>Go_Url_Laws\<close>, \<open>Go_Crypto\<close>,
    \<open>Go_Http\<close>: the parts of Go and its standard library that the sources use. Strings are lists of
    bytes; \<open>int64\<close> values are integers with \<open>wrap64\<close> where the code computes with them; address bytes and the
    words of SHA-256 are machine words. \<open>Go_Json_Laws\<close> and \<open>Go_Url_Laws\<close> hold the round trips.
  \<^item> \<open>Oauth_Config\<close> (\<open>config.go\<close>), \<open>Oauth_Claims\<close> (\<open>claims.go\<close>, \<open>errors.go\<close>), \<open>Oauth_Urls\<close>
    (\<open>urls.go\<close>), \<open>Oauth_Pkce\<close> (\<open>pkce.go\<close>): the pure parts, one definition per function.
  \<^item> \<open>Oauth_Jwe\<close> (\<open>jwe.go\<close>), \<open>Oauth_State\<close> (\<open>broker_state.go\<close>, \<open>downstream_token.go\<close>): the encrypted
    artifacts. The locale \<open>artifact\<close> is the contract the handlers rely on; the three kinds interpret it.
  \<^item> \<open>Cimd_Ssrf\<close>, \<open>Cimd_Cache\<close>, \<open>Cimd\<close> (\<open>cimd.go\<close>), \<open>Client_Assertion\<close> (\<open>client_assertion.go\<close>): the address
    filter, the caches, the resolver, client assertions. The locale \<open>fifo_ttl_cache\<close> is the contract
    of a bounded cache with expiry, refined to a queue; both caches interpret it.
  \<^item> \<open>Oauth_Env\<close>: the environment and the state. \<open>Oauth_Validator\<close> (\<open>validator.go\<close>), \<open>Oauth_Refresh\<close>
    (\<open>refresh.go\<close>), \<open>Oauth_Broker\<close> and \<open>Oauth_Token\<close> (\<open>broker.go\<close>), \<open>Oauth_Middleware\<close> (\<open>middleware.go\<close>,
    \<open>context.go\<close>, \<open>cors.go\<close>, \<open>RegisterRoutes\<close>): the stateful parts. The locale \<open>validator_frame\<close> states what the
    validator needs of an invariant of the rest of the state; the broker's invariant interprets it.
  \<^item> \<open>Oauth_Safety\<close> and \<open>Oauth_Requests\<close>: lemmas over all handlers (the invariant, what a success
    response rests on, what is sent and how often). \<open>Oauth_Demo\<close>: a deployment on which the
    theorems are instantiated. \<open>Client_Theorems\<close>, \<open>Identity_Theorems\<close>, \<open>Broker_Theorems\<close>, \<open>Middleware_Theorems\<close> and
    this theory: the properties of requests served one at a time.
  \<^item> \<open>Conc_Process\<close>, \<open>Conc_Server\<close>, \<open>Conc_Safety\<close>, \<open>Conc_Invariant\<close>, \<open>Conc_Progress\<close>: requests served concurrently.
    Processes and schedules; the handlers as processes; what each handler establishes when others run
    between its actions; the invariant of the shared state; bounds on the number of actions. The locale
    \<open>contract\<close> is what a pool of processes needs of an invariant, the locale \<open>shared_state\<close> what the handlers need
    of it; both are interpreted on the server. \<open>Conc_Theorems\<close>: the properties.
  \<^item> \<open>Example_Hosting\<close> (\<open>examples/hosting/main.go\<close>): the example program from its flags to the handler of
    \<open>/mcp\<close>, with its properties. \<open>Test_Provider\<close> (\<open>internal/oauthtest\<close>): the provider the tests run against,
    and what the library answers to its tokens.

  \<^bold>\<open>State and effects.\<close> The record \<open>world\<close> holds what is behind the pointers of \<open>Broker\<close>: the discovery and
  key-set cache of the \<open>Validator\<close>, the two caches of the \<open>cimdResolver\<close>; and, for the statements, the
  trace of requests sent, the addresses dialed, a panic flag, and a counter of events. A handler is
  a computation of the state monad that yields a response; the token handler is split into
  its phases, composed in the order of the code. The inductive predicate \<open>reachable\<close> contains the
  states after any sequence of requests to the endpoints and the application routes.

  \<^bold>\<open>Concurrency.\<close> A goroutine is a process, a computation cut into actions. An action touches the shared
  caches in at most one section guarded by a mutex, or performs one request on the network; reading
  the clock or the random source may be joined to it, since their answers are unconstrained and shared by nobody. A
  schedule lets requests arrive and unfinished processes take their next action, in any order. Each
  process alone computes what its sequential namesake does (\<open>run_alone\<close>), so the sequential runs are
  schedules. The invariant \<open>conc_inv\<close> is weaker than the sequential one: between a fetch and the
  storing of its result other events happen, so it does not bound the age of an entry.

  \<^bold>\<open>Parameters.\<close> Code outside the repository is a field of the record \<open>env\<close>, read by event number where it
  may answer differently each time: clock, random source, HTTP, name resolution and sockets,
  go-jose (decryption, signatures, key sets, time validation), HKDF, the decoding of the client
  document by the SDK, IDNA, and the case tables of package \<open>unicode\<close>. What the theorems rely on is named:
  \<open>jose_correct\<close> (decryption inverts encryption and refuses another key, derived keys have 32 bytes),
  \<open>hkdf_separates\<close> (the three labels give different keys), \<open>keyset_Key_sound\<close> (a lookup by key
  identifier returns keys of the set with that identifier), \<open>ParseSigned_sound\<close> (a parsed token has one of the
  listed algorithms), \<open>idna_lowers\<close> (the IDNA lookup yields lower-case ASCII) and \<open>sane_clock\<close> (the clock is past 1970 and within the range of exact doubles).
  \<open>mock_libs_ok\<close> and \<open>mock_serves\<close> are the same for the test provider. \<open>Oauth_Demo\<close> and the
  witnesses show that each can hold.

  \<^bold>\<open>What is shown.\<close> The token endpoint, the authorization endpoint, the callback and the middleware are
  sound: success means that every check was passed, and nothing is sent upstream before. The token handed out
  is made of the provider's own answer to the exchange, with the identity that answer proves. Of client credentials the code
  checks those presented: a client with a key set may present none (\<open>assertion_optional\<close>). An honest flow
  is not refused: the code is redeemed, the bearer is accepted until it expires, a rotated key is
  picked up, a stored document is answered. Artifacts of one kind are not accepted as
  another. Resolution dials only permitted addresses and answers only checked documents of bounded age. The caches refine
  a bounded queue. Loops (key search, scope lists, Cache-Control, document checks) compute reference
  definitions. Every request ends after a bounded number of outgoing requests, and no request
  makes the server panic. Soundness of the answers and of the state holds in every schedule of concurrent
  requests, each exchange posted belongs to one of the requests that arrived, and each request is answered within a fixed number of its own actions (fifteen for an application
  request, twelve, one and fifty-nine for the endpoints); a race is exhibited in which the retry after a
  key rotation fails. The example starts exactly when its flags and files are filled in, and a token of the test
  provider is validated exactly within its hour. Where code and
  comments differ, the theorem states what the code does.

  \<^bold>\<open>Termination.\<close> All definitions are total functions: the loops of the sources run over finite lists or
  shrink the rest of a string, and no fuel is used.

  \<^bold>\<open>Not modelled.\<close> Logging (it has no effect on results; error values carry a short text in place of
  the formatted one), the choice of logger and HTTP client in \<open>config.go\<close>, the accessors \<open>Validator()\<close> and \<open>Config()\<close>, timeouts and
  cancellation (a failing request is an answer of the environment), redirects that the provider-side HTTP
  client follows, the HTML body of a redirect, the bytes of a JSON response (its value is modelled),
  the panics of \<open>http.ServeMux\<close> on malformed patterns and on patterns that only differ in escapes (equal ones are modelled),
  connections that the fetcher's HTTP client reuses (it dials for every request) and the IDNA step of its dialer's address,
  panics inside library code and their recovery by \<open>net/http\<close>, of the example the parsing of the command line,
  the listening socket and the path cleaning of \<open>http.ServeMux\<close>, and \<open>doc.go\<close>.
\<close>

section \<open>The token endpoint\<close>

text \<open>C1. Soundness of the token endpoint. In every reachable state, when the authorization-code grant
  is answered with success: the client identifier is a valid client URL whose metadata document
  was fetched and checked; it presents no client secret, and an assertion only if its method allows one and it is valid
  (a client of method \<open>private_key_jwt\<close> may present none); the redirect URI is one of its registered ones;
  the code decrypts under the broker's key, has not expired, was issued to this client and redirect URI, and the
  PKCE verifier hashes to its challenge; the provider's token endpoint answered the exchange of that code with the token
  response \<open>tok0\<close>; the identity token in it has a signature of the provider's key set, a fitting issuer and
  audience and meets the identity policy, or, when there is none, the provider's userinfo endpoint described for the access token
  in it a user within the policy; the token handed on is that one, or a validated one the provider gave for the
  refresh token in it; and the bearer is the encrypted identity token in gating mode, the identity token itself in
  forward mode, and the access token when there is no identity token.\<close>

theorem token_endpoint_sound:
  assumes "keyset_Key_sound E" "reachable E cfg w"
    "run_state (handleTokenAuthCode E cfg r form) w = (resp, w')" "resp_Status resp = 200"
  shows "\<exists>client issued tok0 c0 tok c bearer k.
    client_of E (Get form ''client_id'') client \<and> credentials_ok E cfg r form client \<and>
    Get form ''redirect_uri'' \<in> set (rc_RedirectURIs client) \<and>
    redeemable E cfg form issued \<and> exchanged E cfg r issued tok0 \<and>
    identified E cfg tok0 c0 \<and> handed_on E cfg tok0 c0 tok c \<and> bearer_for E cfg tok c bearer \<and>
    resp = json_response 200 (token_body cfg tok issued bearer (expires_in E cfg tok (Some c) (env_clock E k)))"
proof -
  have "broker_inv E w" by (rule reachable_broker_inv [OF assms(1,2)])
  from ensuresD [OF handleTokenAuthCode_broker [OF assms(1)] this assms(3)] assms(4) show ?thesis
    unfolding not_success_def token_granted_def justified_def by blast
qed

theorem token_endpoint_sound_witness:
  "\<exists>b client issued. fst (run_state (handleTokenAuthCode demo_env demo_cfg demo_request demo_form) new_world) =
      json_response 200 b \<and>
    client_of demo_env demo_client_id client \<and> redeemable demo_env demo_cfg demo_form issued"
proof -
  obtain b w' where run: "run_state (handleTokenAuthCode demo_env demo_cfg demo_request demo_form) new_world
      = (json_response 200 b, w')"
    using demo_run by metis
  have "resp_Status (json_response 200 b) = 200" by (simp add: json_response_def)
  from token_endpoint_sound [OF demo_keyset_sound demo_reachable run this] run demo_get(1)
  show ?thesis by auto
qed

text \<open>C4. No exchange without the checks. If handling a token request posts anything upstream (the code
  exchange, or the refresh that may follow it), then the client was resolved, the credentials it presented
  are valid, its redirect URI is registered, and the code was redeemable by this request: a stolen code, a wrong
  verifier, a forged assertion or a foreign redirect URI never reaches the provider. Only presented credentials count:
  a client of method \<open>private_key_jwt\<close> that presents no assertion passes as well.\<close>

theorem exchange_guarded:
  assumes "keyset_Key_sound E" "reachable E cfg w"
    "run_state (handleTokenAuthCode E cfg r form) w = (resp, w')"
    "HttpPostForm u vs \<in> set (drop (length (w_sent w)) (w_sent w'))"
  shows "\<exists>client issued. client_of E (Get form ''client_id'') client \<and> credentials_ok E cfg r form client \<and>
    Get form ''redirect_uri'' \<in> set (rc_RedirectURIs client) \<and> redeemable E cfg form issued"
proof -
  have inv: "broker_inv E w" by (rule reachable_broker_inv [OF assms(1,2)])
  obtain l where l: "w_sent w' = w_sent w @ l"
    using sendsD [OF sends_handleTokenAuthCode assms(3)] by blast
  with assms(4) have "HttpPostForm u vs \<in> set l" by simp
  then have "\<not> list_all is_get l" by (metis is_get.simps(2) list_all_iff)
  from handleTokenAuthCode_guarded [OF inv assms(3) l this] show ?thesis .
qed

theorem exchange_guarded_witness:
  "\<exists>issued. redeemable demo_env demo_cfg demo_form issued \<and> ic_ClientID issued = demo_client_id"
proof -
  obtain b w' where run: "run_state (handleTokenAuthCode demo_env demo_cfg demo_request demo_form) new_world
      = (json_response 200 b, w')" and post: "HttpPostForm ''https://idp.example/token''
      (exchange_form demo_env demo_cfg demo_request demo_issued) \<in> set (w_sent w')"
    by (rule demo_run)
  have "HttpPostForm ''https://idp.example/token''
      (exchange_form demo_env demo_cfg demo_request demo_issued) \<in> set (drop (length (w_sent new_world)) (w_sent w'))"
    using post by (simp add: new_world_def)
  from exchange_guarded [OF demo_keyset_sound demo_reachable run this] show ?thesis
    by (auto simp: redeemable_def demo_get)
qed




section \<open>The flow as a whole\<close>

text \<open>C11. An honest client's code is redeemed. Take the code the callback makes for an authorization request with
  a fresh upstream verifier. A token request that names the same client, redirect URI and, if
  any, resource, and whose verifier hashes to the challenge of the authorization request, redeems
  it within sixty seconds, and the exchange gets the upstream code and verifier of that very
  authorization.\<close>

theorem honest_code_redeemed:
  assumes "jose_correct (env_jose E)" "sane_clock E" "cfg_SigningSecret cfg \<noteq> []"
    "length buf = 32" "newPKCEVerifier (Some buf) = Some verifier" "utf8_request r0 ucode" "ucode \<noteq> []"
    "encodeAuthCode (env_jose E) n (cfg_SigningSecret cfg)
       (code_of_pending (reread_pending (pending_of_request r0 verifier t0)) ucode (env_clock E j)) = Some (Get form ''code'')"
    "Get form ''client_id'' = Get (Query r0) ''client_id''"
    "Get form ''redirect_uri'' = Get (Query r0) ''redirect_uri''" "Get form ''redirect_uri'' \<in> set (rc_RedirectURIs client)"
    "pkceChallenge (Get form ''code_verifier'') = Get (Query r0) ''code_challenge''"
    "Get form ''resource'' = [] \<or> Get form ''resource'' = Get (Query r0) ''resource''"
    "Unix (env_clock E (w_tick w)) \<le> Unix (env_clock E j) + 60"
  shows "\<exists>issued. fst (run_state (redeem_code E cfg form client) w) = Inr issued \<and>
    ic_UpstreamAuthCode issued = ucode \<and> ic_UpstreamPKCEVerifier issued = verifier \<and>
    Get (exchange_form E cfg r issued) ''code'' = ucode \<and>
    Get (exchange_form E cfg r issued) ''code_verifier'' = verifier \<and>
    Get (exchange_form E cfg r issued) ''redirect_uri'' = Get (upstream_params E cfg r st verifier) ''redirect_uri''"
proof -
  let ?i = "bound_code r0 verifier ucode ((Unix (env_clock E j) + 60) * second)"
  have d: "decodeAuthCode (env_jose E) (env_oor E) (env_clock E (w_tick w)) (cfg_SigningSecret cfg) (Get form ''code'') = Some ?i"
    using code_decodes [OF assms(1-3,6) verifier_clean [OF assms(5)], of n t0 j "env_oor E"] assms(8,14) by auto
  have "length verifier = 43" using assms(4,5) by (auto simp: newPKCEVerifier_def length_raw_url_encode)
  then have "verifier \<noteq> []" by auto
  moreover have "Get (Query r0) ''code_challenge'' \<noteq> []"
    using length_pkceChallenge [of "Get form ''code_verifier''"] assms(12) by auto
  ultimately have "check_code E form ?i = Inr ()"
    using assms(7,9-13) by (auto simp: check_code_iff bound_code_def)
  with d assms(11) have "fst (run_state (redeem_code E cfg form client) w) = Inr ?i"
    by (simp add: redeem_code_def time_Now_def)
  then show ?thesis
    by (intro exI [of _ ?i]) (auto simp: bound_code_def exchange_form_def upstream_params_Get Let_def Get_SetValue)
qed

theorem honest_code_redeemed_witness:
  "\<exists>c issued. fst (run_state (redeem_code demo_env demo_cfg
       [(''client_id'', demo_client_id), (''redirect_uri'', demo_redirect), (''code'', c), (''code_verifier'', ''v'')]
       demo_client) new_world) = Inr issued \<and> ic_UpstreamAuthCode issued = ''uc''"
proof -
  let ?v = "raw_url_encode (replicate 32 (CHR ''r''))"
  have J: "jose_correct (env_jose demo_env)" "cfg_SigningSecret demo_cfg \<noteq> []"
    by (simp_all add: demo_env_simps plain_jose_correct demo_cfg_simps)
  have v: "length (replicate 32 (CHR ''r'')) = 32" "newPKCEVerifier (Some (replicate 32 (CHR ''r''))) = Some ?v"
    by (simp_all add: newPKCEVerifier_def)
  obtain c where c: "encodeAuthCode (env_jose demo_env) 0 (cfg_SigningSecret demo_cfg)
      (code_of_pending (reread_pending (pending_of_request demo_authorize ?v 0)) ''uc'' (env_clock demo_env 0)) = Some c"
    using code_decodes [OF J(1) demo_clock J(2) demo_utf8 verifier_clean [OF v(2)]] by blast
  let ?form = "[(''client_id'', demo_client_id), (''redirect_uri'', demo_redirect), (''code'', c), (''code_verifier'', ''v'')]"
  have f: "Get ?form ''client_id'' = demo_client_id" "Get ?form ''redirect_uri'' = demo_redirect"
    "Get ?form ''code'' = c" "Get ?form ''code_verifier'' = ''v''" "Get ?form ''resource'' = []"
    by (simp_all add: Get_def)
  have "demo_redirect \<in> set (rc_RedirectURIs demo_client)" by (simp add: demo_client_def)
  then have "\<exists>issued. fst (run_state (redeem_code demo_env demo_cfg ?form demo_client) new_world) = Inr issued \<and>
      ic_UpstreamAuthCode issued = ''uc''"
    using honest_code_redeemed [OF J(1) demo_clock J(2) v demo_utf8, of 0 0 0 ?form demo_client new_world] c
    by (simp add: f demo_authorize_query demo_env_simps) blast
  then show ?thesis by blast
qed

section \<open>Every run\<close>

text \<open>The invariant of the server. In every state that any sequence of requests can lead to, the process
  has not panicked, neither client cache holds more than 1024 entries, every address the fetcher
  has connected to is outside the blocked ranges, and the provider's cached key set was served at
  the URL it is cached for.\<close>

theorem server_invariant:
  assumes "keyset_Key_sound E" "reachable E cfg w"
  shows "\<not> w_panicked w \<and> length (entries (w_cache w)) \<le> 1024 \<and> length (entries (w_jwksCache w)) \<le> 1024 \<and>
    list_all (\<lambda>a. \<not> isBlockedIP (Some a)) (w_dialed w) \<and>
    (v_jwks (w_validator w) = [] \<or> keys_of E (v_jwksURL (w_validator w)) (v_jwks (w_validator w)))"
  using reachable_broker_inv [OF assms]
  by (auto simp: broker_inv_def world_inv_def cache_inv_def cimdCacheCap_def val_inv_def list_all_iff)

definition demo_token_request :: request where
  "demo_token_request = demo_request\<lparr>req_Method := ''POST'', req_MediaType := Some ''application/x-www-form-urlencoded'',
     req_Body := Some (Encode [(''grant_type'', ''authorization_code''), (''client_id'', demo_client_id)])\<rparr>"

theorem server_invariant_witness:
  "\<exists>w. reachable demo_env demo_cfg w \<and> w_dialed w \<noteq> [] \<and> \<not> w_panicked w \<and> length (entries (w_cache w)) \<le> 1024"
proof -
  let ?run = "run_state (serve demo_env demo_cfg (Endpoint Token demo_token_request)) new_world"
  have d: "w_dialed (snd ?run) \<noteq> []" by code_simp
  have r: "reachable demo_env demo_cfg (snd ?run)"
    by (rule reachable.step [OF demo_reachable prod.collapse [symmetric]])
  from server_invariant [OF demo_keyset_sound r] d r show ?thesis by blast
qed

text \<open>C34. Bounded work. Serving a request always ends, and on the way the broker sends at most seventeen
  requests of its own for a token request, three for an authorization request, four for an
  application request, and none for the callback, the discovery documents and the removed
  registration endpoint, whatever the peers answer (redirects that the HTTP client of the provider
  side follows on its own count as one request).\<close>

theorem requests_bounded:
  "\<exists>out w'. run_state (serve E cfg ev) w = (out, w') \<and>
     length (w_sent w') \<le> length (w_sent w) +
       (case ev of
          Application _ \<Rightarrow> 4
        | Endpoint e _ \<Rightarrow> (case e of Authorize \<Rightarrow> 3 | Token \<Rightarrow> 17 | _ \<Rightarrow> 0))"
proof -
  have "request_budget ev = (case ev of Application _ \<Rightarrow> 4
      | Endpoint e _ \<Rightarrow> (case e of Authorize \<Rightarrow> 3 | Token \<Rightarrow> 17 | _ \<Rightarrow> 0))"
    by (cases ev rule: request_budget.cases) simp_all
  with at_most_serve [of ev E cfg] show ?thesis unfolding at_most_def by (metis prod.collapse)
qed

section \<open>Discovery\<close>

text \<open>A value listed under a key of the authorization-server metadata.\<close>

definition advertised :: "env \<Rightarrow> config \<Rightarrow> request \<Rightarrow> string \<Rightarrow> string \<Rightarrow> bool" where
  "advertised E cfg r key x \<longleftrightarrow> (\<exists>xs. map_of (asMetadata E cfg r) key = Some (strs xs) \<and> x \<in> set xs)"

lemma strs_inject [simp]: "strs xs = strs ys \<longleftrightarrow> xs = ys"
  by (simp add: strs_def inj_def inj_map_eq_map)

lemma advertised_values:
  "advertised E cfg r ''token_endpoint_auth_signing_alg_values_supported'' a \<longleftrightarrow> a \<in> set clientAssertionAlgs"
  "advertised E cfg r ''token_endpoint_auth_methods_supported'' m \<longleftrightarrow> m \<in> {''none'', ''private_key_jwt''}"
  "advertised E cfg r ''code_challenge_methods_supported'' c \<longleftrightarrow> c = ''S256''"
  "advertised E cfg r ''grant_types_supported'' g \<longleftrightarrow> g = ''authorization_code''"
  "advertised E cfg r ''response_types_supported'' t \<longleftrightarrow> t = ''code''"
  by (auto simp: advertised_def asMetadata_def clientAssertionAlgs_def Let_def)

lemma assertion_algorithm:
  assumes "ParseSigned_sound E" "run_state (verifyClientAssertion E client cid assertion aud) w = (Inr (), w')"
  shows "\<exists>hdr. env_ParseSigned E clientAssertionAlgs assertion = Some [hdr] \<and> hdr_Algorithm hdr \<in> set clientAssertionAlgs"
  using assms by (fastforce simp: verifyClientAssertion_def ParseSigned_sound_def split: if_splits option.splits list.splits)

lemma canonical_trim: "TrimSpace b = b \<Longrightarrow> TrimRight (canonicalResourceURL b) (CHR ''/'') = TrimRight b (CHR ''/'')"
  by (simp add: canonicalResourceURL_def TrimRight_def)

text \<open>C35. The discovery documents tell the truth about the endpoints. The authorization endpoint goes on with a
  request, the token endpoint with a grant, and client authentication with a client that presents no
  assertion, exactly when the metadata lists the response type, the challenge method, the grant type and the client's
  authentication method; a client document is accepted only with a listed method, and a client assertion only with
  a listed signing algorithm; and the resource that the protected-resource metadata names passes the resource
  check of the authorization endpoint, for a configured public URL without surrounding blanks.\<close>

theorem discovery_truthful:
  assumes "ParseSigned_sound E" "normalizeURL (cfg_PublicResourceURL cfg) \<noteq> []"
    "TrimSpace (normalizeURL (cfg_PublicResourceURL cfg)) = normalizeURL (cfg_PublicResourceURL cfg)"
  shows "(\<forall>client cid assertion aud w w'. run_state (verifyClientAssertion E client cid assertion aud) w = (Inr (), w') \<longrightarrow>
       (\<exists>hdr. env_ParseSigned E clientAssertionAlgs assertion = Some [hdr] \<and>
          advertised E cfg r ''token_endpoint_auth_signing_alg_values_supported'' (hdr_Algorithm hdr))) \<and>
    (\<forall>r' form client w. \<not> presents_assertion form \<longrightarrow>
       (fst (run_state (authenticate_method E cfg r' form client) w) = Inr () \<longleftrightarrow>
        advertised E cfg r ''token_endpoint_auth_methods_supported'' (rc_TokenEndpointAuthMethod client))) \<and>
    (\<forall>k body c. parseCIMDMetadata E k body = Inr c \<longrightarrow>
       advertised E cfg r ''token_endpoint_auth_methods_supported'' (rc_TokenEndpointAuthMethod c)) \<and>
    (\<forall>r' w. req_Method r' = ''GET'' \<and> Get (Query r') ''client_id'' \<noteq> [] \<and> Get (Query r') ''redirect_uri'' \<noteq> [] \<longrightarrow>
       run_state (handleAuthorize E cfg r') w =
         (if advertised E cfg r ''response_types_supported'' (Get (Query r') ''response_type'') then
            run_state (do {
              c \<leftarrow> resolve E (Get (Query r') ''client_id'');
              (case c of
                 Inl err \<Rightarrow> return (writeTokenError E 400 ''invalid_client'' ''unknown OAuth client'')
               | Inr client \<Rightarrow>
                 (case authorize_checks E cfg r' client of Inl resp \<Rightarrow> return resp | Inr _ \<Rightarrow> authorize_redirect E cfg r'))
            }) w
          else (writeTokenError E 400 ''invalid_request'' ''missing client_id, redirect_uri, or response_type=code'', w))) \<and>
    (\<forall>r' form w. req_Method r' = ''POST'' \<and> ParseForm r' = Some form \<longrightarrow>
       run_state (handleToken E cfg r') w =
         (if advertised E cfg r ''grant_types_supported'' (Get form ''grant_type'')
          then run_state (handleTokenAuthCode E cfg r' form) w
          else (writeTokenError E 400 ''unsupported_grant_type'' ''unsupported grant type'', w))) \<and>
    (\<exists>res m. handleProtectedResourceMetadata E cfg r = json_response 200 m \<and> map_of m ''resource'' = Some (AString res) \<and>
       (\<forall>r' c. Get (Query r') ''resource'' = res \<longrightarrow>
          (authorize_checks E cfg r' c = Inr () \<longleftrightarrow>
           Get (Query r') ''redirect_uri'' \<in> set (rc_RedirectURIs c) \<and> Get (Query r') ''code_challenge'' \<noteq> [] \<and>
           advertised E cfg r ''code_challenge_methods_supported'' (Get (Query r') ''code_challenge_method''))))"
proof (intro conjI)
  have base: "resourceBaseURL E cfg r' = normalizeURL (cfg_PublicResourceURL cfg)" for r'
    using assms(2) by (simp add: resourceBaseURL_def)
  have "\<forall>r' c. Get (Query r') ''resource'' = canonicalResourceURL (normalizeURL (cfg_PublicResourceURL cfg)) \<longrightarrow>
      (authorize_checks E cfg r' c = Inr () \<longleftrightarrow> Get (Query r') ''redirect_uri'' \<in> set (rc_RedirectURIs c) \<and>
       Get (Query r') ''code_challenge'' \<noteq> [] \<and>
       advertised E cfg r ''code_challenge_methods_supported'' (Get (Query r') ''code_challenge_method''))"
    using canonical_trim [OF assms(3)] by (auto simp: authorize_checks_iff base advertised_values)
  moreover have "\<exists>m. handleProtectedResourceMetadata E cfg r = json_response 200 m \<and>
      map_of m ''resource'' = Some (AString (canonicalResourceURL (normalizeURL (cfg_PublicResourceURL cfg))))"
    by (auto simp: handleProtectedResourceMetadata_def Let_def base json_response_def)
  ultimately show "\<exists>res m. handleProtectedResourceMetadata E cfg r = json_response 200 m \<and> map_of m ''resource'' = Some (AString res) \<and>
       (\<forall>r' c. Get (Query r') ''resource'' = res \<longrightarrow>
          (authorize_checks E cfg r' c = Inr () \<longleftrightarrow>
           Get (Query r') ''redirect_uri'' \<in> set (rc_RedirectURIs c) \<and> Get (Query r') ''code_challenge'' \<noteq> [] \<and>
           advertised E cfg r ''code_challenge_methods_supported'' (Get (Query r') ''code_challenge_method'')))"
    by blast
qed (use assertion_algorithm [OF assms(1)] in
    \<open>auto simp: advertised_values authenticate_method_def presents_assertion_def Let_def handleAuthorize_def handleToken_def
      parseCIMDMetadata_def check_auth_method_def split: option.splits if_splits sum.splits\<close>)

definition demo_public :: config where
  "demo_public = demo_cfg\<lparr>cfg_PublicResourceURL := ''https://mcp.example/''\<rparr>"

theorem discovery_truthful_witness:
  "\<exists>m res. handleProtectedResourceMetadata demo_env demo_public demo_request = json_response 200 m \<and>
     map_of m ''resource'' = Some (AString res)"
proof -
  have "normalizeURL (cfg_PublicResourceURL demo_public) \<noteq> []"
    "TrimSpace (normalizeURL (cfg_PublicResourceURL demo_public)) = normalizeURL (cfg_PublicResourceURL demo_public)"
    by code_simp+
  from discovery_truthful [OF demo_ParseSigned_sound this, of demo_request] show ?thesis by (elim conjE) blast
qed

end
